(* ===== verification/Flowify_Prelude.thy ===== *)
theory Flowify_Prelude
  imports Main "HOL-Library.Word" "HOL-Library.AList" "HOL-Library.Multiset"
begin

text \<open>
  Shared vocabulary of the development: Go's error values and results, Go maps as association
  lists, the parts of Go's standard library the sources use on strings and paths
  (\<^verbatim>\<open>strings.Contains\<close>, \<^verbatim>\<open>strings.Split\<close>, \<^verbatim>\<open>strings.Join\<close>,
  \<^verbatim>\<open>path.Join\<close>), 64-bit integers, and the lemmas about them that the component
  theories share.
\<close>

named_theorems go_simps "unfolding equations of the shared operations"
named_theorems go_dest "inversion rules for results that returned a value"

section \<open>Error values and results\<close>

text \<open>
  An \<^verbatim>\<open>error\<close> is a value. \<open>Errorf f as\<close> is the error made by
  \<^verbatim>\<open>fmt.Errorf\<close> or \<^verbatim>\<open>errors.Errorf\<close> with format \<open>f\<close> (without its quote
  characters) and the string arguments \<open>as\<close>,
  \<open>Wrap m e\<close> an error \<open>e\<close> that the source annotates with a message, the sentinel errors of
  \<^verbatim>\<open>storage/storage.go\<close> and \<^verbatim>\<open>models/models.go\<close> are constants, \<open>ExtErr\<close> is an
  error that comes from code outside the repository, and \<open>GoPanic\<close> is a run-time panic
  (nil dereference, nil-map write, index out of range, failed type assertion).
\<close>

datatype goerr =
    Errorf string "string list"
  | Wrap string goerr
  | ErrNotFound
  | ErrNoAccess
  | ErrNewerDocumentExists
  | ErrNoSchemaFound
  | ExtErr string
  | GoPanic string

type_synonym 'a res = "goerr + 'a"

definition rbind :: "'a res \<Rightarrow> ('a \<Rightarrow> 'b res) \<Rightarrow> 'b res" where
  "rbind r f = (case r of Inl e \<Rightarrow> Inl e | Inr x \<Rightarrow> f x)"

definition wrapres :: "string \<Rightarrow> 'a res \<Rightarrow> 'a res" where
  "wrapres m r = (case r of Inl e \<Rightarrow> Inl (Wrap m e) | Inr x \<Rightarrow> Inr x)"

text \<open>A computation that may not return: \<open>None\<close> is "does not return".\<close>

type_synonym 'a run = "'a res option"

definition obind :: "'a run \<Rightarrow> ('a \<Rightarrow> 'b run) \<Rightarrow> 'b run" where
  "obind r f = (case r of None \<Rightarrow> None | Some (Inl e) \<Rightarrow> Some (Inl e) | Some (Inr x) \<Rightarrow> f x)"

definition returned :: "'a run \<Rightarrow> bool" where
  "returned r \<longleftrightarrow> (case r of Some (Inr x) \<Rightarrow> True | _ \<Rightarrow> False)"

fun is_panic :: "goerr \<Rightarrow> bool" where
  "is_panic (GoPanic m) = True"
| "is_panic (Wrap m e) = is_panic e"
| "is_panic e = False"

text \<open>Outcomes that are not a panic.\<close>

definition calm :: "'a res \<Rightarrow> bool" where
  "calm r \<longleftrightarrow> (\<forall>e. r = Inl e \<longrightarrow> \<not> is_panic e)"

definition calm_run :: "'a run \<Rightarrow> bool" where
  "calm_run r \<longleftrightarrow> (\<forall>x. r = Some x \<longrightarrow> calm x)"

lemma calm_simps [simp]:
  "calm (Inr v)" "calm (Inl e) \<longleftrightarrow> \<not> is_panic e" "calm (wrapres m r) \<longleftrightarrow> calm r"
  "calm_run None" "calm_run (Some r) \<longleftrightarrow> calm r"
  by (cases r; simp add: calm_def calm_run_def wrapres_def)+

lemma calm_Inl: "calm r \<Longrightarrow> r = Inl e \<Longrightarrow> \<not> is_panic e"
  by simp

lemma calm_rbind: "calm r \<Longrightarrow> (\<And>x. r = Inr x \<Longrightarrow> calm (f x)) \<Longrightarrow> calm (rbind r f)"
  by (cases r) (auto simp: rbind_def)

lemma calm_obind: "calm_run r \<Longrightarrow> (\<And>x. r = Some (Inr x) \<Longrightarrow> calm_run (f x)) \<Longrightarrow> calm_run (obind r f)"
  by (auto simp: obind_def split: option.split sum.split)

text \<open>The innermost error, what \<^verbatim>\<open>errors.Is\<close> finds at the end of the chain.\<close>

fun root_cause :: "goerr \<Rightarrow> goerr" where
  "root_cause (Wrap m e) = root_cause e"
| "root_cause e = e"

section \<open>Integers and time\<close>

text \<open>A Go \<^verbatim>\<open>int\<close> has 64 bits: an arithmetic result wraps around.\<close>

definition wrap64 :: "int \<Rightarrow> int" where
  "wrap64 x = (x + 2 ^ 63) mod 2 ^ 64 - 2 ^ 63"

text \<open>\<^verbatim>\<open>strconv.Itoa\<close>: decimal digits, with a sign when negative.\<close>

fun nat_digits :: "nat \<Rightarrow> string" where
  "nat_digits n =
     (if n < 10 then [char_of (48 + n)] else nat_digits (n div 10) @ [char_of (48 + n mod 10)])"

declare nat_digits.simps [simp del]

definition itoa :: "int \<Rightarrow> string" where
  "itoa i = (if i < 0 then ''-'' @ nat_digits (nat (- i)) else nat_digits (nat i))"

text \<open>
  \<^verbatim>\<open>time.Time\<close> compared with \<^verbatim>\<open>==\<close> compares the instant and the location, so both are kept.
\<close>

record gotime =
  tm_nanos :: int
  tm_loc :: string

type_synonym uuid = "128 word"

section \<open>Go maps\<close>

text \<open>
  A Go map is an association list with distinct keys: \<^const>\<open>map_of\<close> looks a key up,
  \<^const>\<open>AList.update\<close> assigns, \<^const>\<open>AList.delete\<close> deletes. Reading an absent key of a
  \<^verbatim>\<open>map[string]string\<close> gives the zero value, the empty string.
\<close>

type_synonym 'v gomap = "(string \<times> 'v) list"

definition zget :: "string gomap \<Rightarrow> string \<Rightarrow> string" where
  "zget m k = (case map_of m k of None \<Rightarrow> '''' | Some v \<Rightarrow> v)"

definition map_keys :: "'v gomap \<Rightarrow> string list" where
  "map_keys m = map fst m"

definition gomap_wf :: "'v gomap \<Rightarrow> bool" where
  "gomap_wf m \<longleftrightarrow> distinct (map fst m)"

section \<open>Strings and paths\<close>

fun has_prefix :: "string \<Rightarrow> string \<Rightarrow> bool" where
  "has_prefix [] s = True"
| "has_prefix (x # xs) [] = False"
| "has_prefix (x # xs) (y # ys) = (x = y \<and> has_prefix xs ys)"

fun str_contains :: "string \<Rightarrow> string \<Rightarrow> bool" where
  "str_contains [] sub = (sub = [])"
| "str_contains (c # s) sub = (has_prefix sub (c # s) \<or> str_contains s sub)"

fun str_split :: "char \<Rightarrow> string \<Rightarrow> string list" where
  "str_split d [] = [[]]"
| "str_split d (c # s) =
     (if c = d then [] # str_split d s
      else (case str_split d s of [] \<Rightarrow> [[c]] | w # ws \<Rightarrow> (c # w) # ws))"

fun str_join :: "string \<Rightarrow> string list \<Rightarrow> string" where
  "str_join sep [] = ''''"
| "str_join sep [w] = w"
| "str_join sep (w # ws) = w @ sep @ str_join sep ws"

text \<open>
  \<^verbatim>\<open>path.Clean\<close>: drop empty and \<^verbatim>\<open>.\<close> elements, let \<^verbatim>\<open>..\<close> remove the element
  before it, drop \<^verbatim>\<open>..\<close> at the root. The accumulator holds the elements in reverse.
\<close>

fun clean_elems :: "bool \<Rightarrow> string list \<Rightarrow> string list \<Rightarrow> string list" where
  "clean_elems rooted acc [] = rev acc"
| "clean_elems rooted acc (w # ws) =
     (if w = '''' \<or> w = ''.'' then clean_elems rooted acc ws
      else if w = ''..'' then
        (case acc of
           [] \<Rightarrow> clean_elems rooted (if rooted then [] else [''..'']) ws
         | a # as \<Rightarrow> if a = ''..'' then clean_elems rooted (''..'' # acc) ws
                     else clean_elems rooted as ws)
      else clean_elems rooted (w # acc) ws)"

definition path_clean :: "string \<Rightarrow> string" where
  "path_clean p =
     (if p = '''' then ''.'' else
      let rooted = has_prefix ''/'' p;
          out = str_join ''/'' (clean_elems rooted [] (str_split CHR ''/'' p))
      in if rooted then ''/'' @ out else if out = '''' then ''.'' else out)"

definition path_join :: "string list \<Rightarrow> string" where
  "path_join ws =
     (let ne = filter (\<lambda>w. w \<noteq> '''') ws in if ne = [] then '''' else path_clean (str_join ''/'' ne))"

section \<open>List helpers\<close>

text \<open>Update the first element that satisfies a predicate: a loop that breaks after its write.\<close>

fun update_first :: "('a \<Rightarrow> bool) \<Rightarrow> ('a \<Rightarrow> 'a) \<Rightarrow> 'a list \<Rightarrow> 'a list" where
  "update_first p f [] = []"
| "update_first p f (x # xs) = (if p x then f x # xs else x # update_first p f xs)"

section \<open>Lemmas\<close>

lemma rbind_simps [simp]:
  "rbind (Inl e) f = Inl e"
  "rbind (Inr x) f = f x"
  by (simp_all add: rbind_def)

lemma rbind_Inr_iff [go_simps]: "rbind r f = Inr y \<longleftrightarrow> (\<exists>x. r = Inr x \<and> f x = Inr y)"
  by (cases r) auto

lemma rbind_cong [fundef_cong]:
  "r = r' \<Longrightarrow> (\<And>x. r' = Inr x \<Longrightarrow> f x = g x) \<Longrightarrow> rbind r f = rbind r' g"
  by (cases r') auto

lemma wrapres_simps [simp]:
  "wrapres m (Inl e) = Inl (Wrap m e)"
  "wrapres m (Inr x) = Inr x"
  by (simp_all add: wrapres_def)

lemma wrapres_Inr_iff [simp]: "wrapres m r = Inr x \<longleftrightarrow> r = Inr x"
  by (cases r) auto

lemma obind_simps [simp]:
  "obind None f = None"
  "obind (Some (Inl e)) f = Some (Inl e)"
  "obind (Some (Inr x)) f = f x"
  by (simp_all add: obind_def)

lemma obind_Inr_iff [go_simps]:
  "obind r f = Some (Inr y) \<longleftrightarrow> (\<exists>x. r = Some (Inr x) \<and> f x = Some (Inr y))"
  by (auto simp: obind_def split: option.splits sum.splits)

lemma obind_cong [fundef_cong]:
  "r = r' \<Longrightarrow> (\<And>x. r' = Some (Inr x) \<Longrightarrow> f x = g x) \<Longrightarrow> obind r f = obind r' g"
  by (auto simp: obind_def split: option.splits sum.splits)

lemma obind_not_None:
  "r \<noteq> None \<Longrightarrow> (\<And>x. r = Some (Inr x) \<Longrightarrow> f x \<noteq> None) \<Longrightarrow> obind r f \<noteq> None"
  by (auto simp: obind_def split: option.splits sum.splits)

lemma returnedE: "returned r \<Longrightarrow> \<exists>x. r = Some (Inr x)"
  by (auto simp: returned_def split: option.splits sum.splits)

lemma wrap64_id: "- (2 ^ 63) \<le> x \<Longrightarrow> x < 2 ^ 63 \<Longrightarrow> wrap64 x = x"
  by (simp add: wrap64_def)

lemma wrap64_range: "- (2 ^ 63) \<le> wrap64 x \<and> wrap64 x < 2 ^ 63"
proof -
  have "0 \<le> (x + 2 ^ 63) mod 2 ^ 64" and "(x + 2 ^ 63) mod 2 ^ 64 < (2 ^ 64 :: int)"
    by (simp_all add: pos_mod_sign pos_mod_bound del: power_numeral)
  then show ?thesis by (simp add: wrap64_def)
qed

lemma map_keys_set [simp]: "set (map_keys m) = dom (map_of m)"
  by (simp add: map_keys_def dom_map_of_conv_image_fst)

lemma map_of_ranI: "map_of m k = Some v \<Longrightarrow> v \<in> ran (map_of m)"
  by (rule ranI)

lemma gomap_wf_update [simp]: "gomap_wf m \<Longrightarrow> gomap_wf (AList.update k v m)"
  by (simp add: gomap_wf_def distinct_update)

lemma gomap_wf_delete [simp]: "gomap_wf m \<Longrightarrow> gomap_wf (AList.delete k m)"
  by (simp add: gomap_wf_def distinct_delete)

lemma gomap_wf_Nil [simp]: "gomap_wf []"
  by (simp add: gomap_wf_def)

lemma map_of_gomap_update [simp]: "map_of (AList.update k v m) = (map_of m)(k \<mapsto> v)"
  by (rule update_conv')

lemma str_split_not_Nil [simp]: "str_split d s \<noteq> []"
  by (induction s) (auto split: list.splits)

lemma str_join_split [simp]: "str_join [d] (str_split d s) = s"
proof (induction s)
  case Nil
  show ?case by simp
next
  case (Cons c s)
  then show ?case
    by (cases "str_split d s"; cases "tl (str_split d s)") auto
qed

lemma str_split_no_sep: "w \<in> set (str_split d s) \<Longrightarrow> d \<notin> set w"
  by (induction s arbitrary: w) (auto split: list.splits if_splits)

lemma find_SomeD: "find P xs = Some x \<Longrightarrow> x \<in> set xs \<and> P x"
  by (induction xs) (auto split: if_splits)

lemma append_sep_eq:
  "q \<notin> set x \<Longrightarrow> q \<notin> set y \<Longrightarrow> x @ q # r = y @ q # s \<Longrightarrow> x = y \<and> r = s"
proof (induction x arbitrary: y)
  case Nil
  then show ?case by (cases y) auto
next
  case (Cons c x)
  then show ?case by (cases y) auto
qed

lemma length_update_first [simp]: "length (update_first p f xs) = length xs"
  by (induction xs) auto

lemma map_update_first:
  "(\<And>x. g (f x) = g x) \<Longrightarrow> map g (update_first p f xs) = map g xs"
  by (induction xs) auto

lemma set_update_first:
  "y \<in> set (update_first p f xs) \<Longrightarrow> y \<in> set xs \<or> (\<exists>x \<in> set xs. p x \<and> y = f x)"
  by (induction xs) (auto split: if_splits)

end
