(* ===== verification/Go_Numbers.thy ===== *)
theory Go_Numbers
  imports Flowify_Prelude
begin

text \<open>
  Decimal texts of numbers: \<^verbatim>\<open>strconv.Atoi\<close>, which both the query parameters of the REST
  interface and the integers of JSON documents are read with, and its round trip with
  \<^const>\<open>itoa\<close>.
\<close>

section \<open>Reading decimal numbers\<close>

text \<open>\<^verbatim>\<open>strconv.Atoi\<close>: an optional sign and decimal digits, within 64 bits.\<close>

definition is_digit :: "char \<Rightarrow> bool" where
  "is_digit c \<longleftrightarrow> 48 \<le> (of_char c :: nat) \<and> of_char c \<le> (57 :: nat)"

definition digits_value :: "string \<Rightarrow> nat" where
  "digits_value s = foldl (\<lambda>n c. 10 * n + (of_char c - 48)) 0 s"

definition atoi_error :: goerr where "atoi_error = ExtErr ''strconv.Atoi: parsing''"

definition decimal :: "string \<Rightarrow> nat option" where
  "decimal s = (if s \<noteq> [] \<and> list_all is_digit s then Some (digits_value s) else None)"

definition Atoi :: "string \<Rightarrow> int res" where
  "Atoi s =
     (let (neg, ds) = (case s of [] \<Rightarrow> (False, s)
                       | c # cs \<Rightarrow> if c = CHR ''-'' then (True, cs) else if c = CHR ''+'' then (False, cs) else (False, s))
      in case decimal ds of
           None \<Rightarrow> Inl atoi_error
         | Some n \<Rightarrow>
             (let i = (if neg then - int n else int n)
              in if i < - (2 ^ 63) \<or> 2 ^ 63 \<le> i then Inl atoi_error else Inr i))"

section \<open>Lemmas\<close>

lemma of_char_digit: "n < 10 \<Longrightarrow> (of_char (char_of (48 + n) :: char) :: nat) = 48 + n"
  by simp

lemma digits_value_snoc: "digits_value (s @ [c]) = 10 * digits_value s + (of_char c - 48)"
  by (simp add: digits_value_def)

lemma nat_digits_decimal: "decimal (nat_digits n) = Some n \<and> nat_digits n \<noteq> [] \<and> list_all is_digit (nat_digits n)"
proof (induction n rule: nat_digits.induct)
  case (1 n)
  have d: "is_digit (char_of (48 + m))" if "m < 10" for m :: nat
    using that by (simp add: is_digit_def of_char_digit del: of_char_of)
  show ?case
  proof (cases "n < 10")
    case True
    then show ?thesis using d [of n]
      by (simp add: nat_digits.simps [of n] decimal_def digits_value_def of_char_digit del: of_char_of)
  next
    case False
    have "digits_value (nat_digits (n div 10)) = n div 10"
      using 1 [OF False] by (simp add: decimal_def split: if_splits)
    then have "digits_value (nat_digits n) = n"
      using False by (simp add: nat_digits.simps [of n] digits_value_snoc of_char_digit del: of_char_of)
    then show ?thesis
      using 1 [OF False] d [of "n mod 10"] False by (simp add: nat_digits.simps [of n] decimal_def)
  qed
qed

lemma nat_digits_head: "c \<in> set (nat_digits n) \<Longrightarrow> c \<noteq> CHR ''-'' \<and> c \<noteq> CHR ''+''"
  using nat_digits_decimal [of n] by (auto simp: list_all_iff is_digit_def)

lemma Atoi_itoa:
  assumes "- (2 ^ 63) \<le> i" "i < 2 ^ 63"
  shows "Atoi (itoa i) = Inr i"
proof (cases "i < 0")
  case True
  then show ?thesis using assms nat_digits_decimal [of "nat (- i)"] by (simp add: Atoi_def itoa_def)
next
  case False
  obtain c cs where ds: "nat_digits (nat i) = c # cs" using nat_digits_decimal [of "nat i"] by (metis list.exhaust)
  with nat_digits_head [of c "nat i"] have "c \<noteq> CHR ''-''" "c \<noteq> CHR ''+''" by auto
  then show ?thesis using False assms ds nat_digits_decimal [of "nat i"] by (simp add: Atoi_def itoa_def)
qed

lemma Atoi_range: "Atoi s = Inr i \<Longrightarrow> - (2 ^ 63) \<le> i \<and> i < 2 ^ 63"
  by (auto simp: Atoi_def Let_def split: option.splits if_splits prod.splits)

end
