(* ===== verification/Users.thy ===== *)
theory Users
  imports Flowify_Prelude
begin

text \<open>
  \<^verbatim>\<open>user/user.go\<close>: users, their roles, ownership by e-mail, and the two role lists that
  open the workspace-creation and custom-role views. A \<^verbatim>\<open>User\<close> is an interface with four
  getters; it is modelled by the values they return. The user in a request's context
  is modelled with the chains of values there.
\<close>

type_synonym role = string

record user =
  usr_uid :: string
  usr_name :: string
  usr_email :: string
  usr_roles :: "role list"

definition CustomRolePattern :: string where "CustomRolePattern = ''--$''"

definition ListGroupsCanCreateWorkspaces :: "string list" where
  "ListGroupsCanCreateWorkspaces = [''admin'', ''developer-admin'', ''sandbox-developer'']"

definition ListGroupsCanSeeCustomRoles :: "string list" where
  "ListGroupsCanSeeCustomRoles = [''admin'', ''developer-admin'', ''sandbox-developer'']"

text \<open>The two nested loops of the source, each returning on the first match.\<close>

fun inGroup :: "role \<Rightarrow> string list \<Rightarrow> bool" where
  "inGroup role [] = False"
| "inGroup role (r # rs) = (if role = r then True else inGroup role rs)"

fun anyRoleIn :: "role list \<Rightarrow> string list \<Rightarrow> bool" where
  "anyRoleIn [] groups = False"
| "anyRoleIn (role # roles) groups = (if inGroup role groups then True else anyRoleIn roles groups)"

definition CanCreateWorkspaces :: "user \<Rightarrow> bool" where
  "CanCreateWorkspaces u = anyRoleIn (usr_roles u) ListGroupsCanCreateWorkspaces"

definition CanSeeCustomRoles :: "user \<Rightarrow> bool" where
  "CanSeeCustomRoles u = anyRoleIn (usr_roles u) ListGroupsCanSeeCustomRoles"

fun ownershipLoop :: "user \<Rightarrow> role list \<Rightarrow> bool \<Rightarrow> bool" where
  "ownershipLoop u [] hasOwnership = hasOwnership"
| "ownershipLoop u (r # rs) hasOwnership =
     ownershipLoop u rs
       (if str_contains r CustomRolePattern \<and> r = usr_email u @ CustomRolePattern @ ''owner''
        then True else hasOwnership)"

definition HasOwnership :: "user \<Rightarrow> role list \<Rightarrow> bool" where
  "HasOwnership u roles = ownershipLoop u roles False"

fun roleLoop :: "role list \<Rightarrow> role \<Rightarrow> bool" where
  "roleLoop [] entry = False"
| "roleLoop (item # items) entry = (if entry = item then True else roleLoop items entry)"

definition UserHasRole :: "user \<Rightarrow> role \<Rightarrow> bool" where
  "UserHasRole u entry = roleLoop (usr_roles u) entry"

section \<open>Lemmas\<close>

lemma anyRoleIn_iff: "anyRoleIn roles groups \<longleftrightarrow> set roles \<inter> set groups \<noteq> {}"
proof -
  have "inGroup r gs \<longleftrightarrow> r \<in> set gs" for r gs by (induction gs) auto
  then show ?thesis by (induction roles) auto
qed

lemma UserHasRole_iff [simp]: "UserHasRole u r \<longleftrightarrow> r \<in> set (usr_roles u)"
proof -
  have "roleLoop rs r \<longleftrightarrow> r \<in> set rs" for rs by (induction rs) auto
  then show ?thesis by (simp add: UserHasRole_def)
qed

lemma has_prefix_append [simp]: "has_prefix p (p @ s)"
  by (induction p) auto

lemma str_contains_append: "str_contains (a @ p @ s) p"
proof (induction a)
  case Nil
  show ?case by (cases "p @ s") (use has_prefix_append [of p s] in auto)
qed simp

definition owner_role :: "user \<Rightarrow> role" where
  "owner_role u = usr_email u @ CustomRolePattern @ ''owner''"

lemma HasOwnership_iff: "HasOwnership u roles \<longleftrightarrow> owner_role u \<in> set roles"
proof -
  have "str_contains (owner_role u) CustomRolePattern"
    unfolding owner_role_def by (rule str_contains_append)
  then have "ownershipLoop u rs b \<longleftrightarrow> b \<or> owner_role u \<in> set rs" for rs b
    by (induction rs arbitrary: b) (auto simp: owner_role_def)
  then show ?thesis by (simp add: HasOwnership_def)
qed

end
