(* ===== verification/Models.thy ===== *)
theory Models
  imports Flowify_Prelude
begin

text \<open>
  The data model of \<^verbatim>\<open>models/models.go\<close> and \<^verbatim>\<open>models/job.go\<close>: metadata with
  versions, ports and edges, bricks, graphs, maps and conditionals, workflows and jobs, with the
  operations on versions. The recursive types are one mutual \<^theory_text>\<open>datatype\<close>, since a component's
  implementation holds components; an \<^verbatim>\<open>interface{}\<close> field is a datatype with one
  constructor per type the source stores in it, and one for \<^verbatim>\<open>nil\<close>.
\<close>

section \<open>Constants\<close>

definition FlowifyArtifactType :: string where "FlowifyArtifactType = ''artifact''"
definition FlowifyParameterType :: string where "FlowifyParameterType = ''parameter''"
definition FlowifySecretType :: string where "FlowifySecretType = ''env_secret''"
definition FlowifyParameterArrayType :: string where "FlowifyParameterArrayType = ''parameter_array''"
definition FlowifyVolumeType :: string where "FlowifyVolumeType = ''volume''"
definition BrickType :: string where "BrickType = ''brick''"
definition AnyType :: string where "AnyType = ''any''"
definition GraphType :: string where "GraphType = ''graph''"
definition MapType :: string where "MapType = ''map''"
definition ConditionalType :: string where "ConditionalType = ''conditional''"
definition VersionInit :: int where "VersionInit = 1"
definition VersionTagLatest :: string where "VersionTagLatest = ''latest''"

lemmas flow_types = FlowifyArtifactType_def FlowifyParameterType_def FlowifySecretType_def
  FlowifyParameterArrayType_def FlowifyVolumeType_def

lemmas component_types = BrickType_def AnyType_def GraphType_def MapType_def ConditionalType_def

section \<open>References, versions and metadata\<close>

text \<open>\<^verbatim>\<open>ComponentReference\<close> is a UUID, 16 bytes.\<close>

type_synonym component_reference = uuid

definition uuid_IsZero :: "component_reference \<Rightarrow> bool" where
  "uuid_IsZero u \<longleftrightarrow> u = 0"

record cref_version =
  crv_version :: int
  crv_uid :: component_reference

definition cref_IsZero :: "cref_version \<Rightarrow> bool" where
  "cref_IsZero c \<longleftrightarrow> uuid_IsZero (crv_uid c) \<and> crv_version c = 0"

record version =
  ver_current :: int
  ver_tags :: "string list"
  ver_previous :: cref_version

text \<open>\<^verbatim>\<open>contains\<close>, the linear search of \<^verbatim>\<open>models.go\<close>.\<close>

fun contains :: "string list \<Rightarrow> string \<Rightarrow> bool" where
  "contains [] v = False"
| "contains (a # as) v = (if a = v then True else contains as v)"

definition SetTag :: "string \<Rightarrow> version \<Rightarrow> version" where
  "SetTag tag v = (if \<not> contains (ver_tags v) tag then v\<lparr>ver_tags := ver_tags v @ [tag]\<rparr> else v)"

definition SetLatestTag :: "version \<Rightarrow> version" where
  "SetLatestTag v = SetTag VersionTagLatest v"

definition InitializeNew :: "version \<Rightarrow> version res" where
  "InitializeNew v =
     (if ver_current v = VersionInit then Inr (SetLatestTag v)
      else if ver_current v = 0 then Inr (SetLatestTag (v\<lparr>ver_current := VersionInit\<rparr>))
      else Inl (Errorf ''cannot initialize new version with current version set to %s''
                [itoa (ver_current v)]))"

record modified_by =
  mb_oid :: string
  mb_email :: string

record metadata =
  md_name :: string
  md_description :: string
  md_modifiedBy :: modified_by
  md_uid :: component_reference
  md_version :: version
  md_timestamp :: gotime

definition zero_cref :: cref_version where
  "zero_cref = \<lparr>crv_version = 0, crv_uid = 0\<rparr>"

definition zero_version :: version where
  "zero_version = \<lparr>ver_current = 0, ver_tags = [], ver_previous = zero_cref\<rparr>"

definition zero_metadata :: metadata where
  "zero_metadata =
     \<lparr>md_name = '''', md_description = '''', md_modifiedBy = \<lparr>mb_oid = '''', mb_email = ''''\<rparr>, md_uid = 0,
      md_version = zero_version, md_timestamp = \<lparr>tm_nanos = 0, tm_loc = ''UTC''\<rparr>\<rparr>"

section \<open>Ports, arguments and results\<close>

record data =
  dt_name :: string
  dt_mediatype :: "string list"
  dt_type :: string
  dt_userdata :: string

record port_address =
  pa_node :: string
  pa_port :: string

record edge =
  e_source :: port_address
  e_target :: port_address

datatype expr_value = EVString string | EVData data | EVNil

record expression =
  ex_left :: expr_value
  ex_right :: expr_value
  ex_operator :: string

record argument_target =
  at_type :: string
  at_prefix :: string
  at_suffix :: string

datatype arg_source = SrcText string | SrcPort string | SrcFile string | SrcNil

record argument =
  arg_description :: string
  arg_target :: argument_target
  arg_source :: arg_source

datatype result_source = ResText string | ResVolume string | ResFile string | ResNil

record brick_result =
  res_description :: string
  res_target :: port_address
  res_source :: result_source

section \<open>Kubernetes data\<close>

text \<open>
  The Kubernetes structs the program reads and writes, with the fields it touches. The fields it
  only copies are kept together as one opaque string.
\<close>

record volume =
  vol_name :: string
  vol_rest :: string

record volume_mount =
  vm_name :: string
  vm_mountPath :: string
  vm_readOnly :: bool
  vm_rest :: string

text \<open>A variable has a plain value or one from a key of a secret; other sources are in \<open>env_rest\<close>.\<close>

record env_var =
  env_name :: string
  env_value :: string
  env_secretName :: string
  env_secretKey :: string
  env_rest :: string

text \<open>
  A container takes its environment from single variables and from whole objects, config maps and
  secrets of the namespace, each with a prefix for the names.
\<close>

datatype env_source = EnvConfigMap string | EnvSecret string

record env_from =
  ef_prefix :: string
  ef_source :: env_source

record container =
  ctr_name :: string
  ctr_image :: string
  ctr_command :: "string list"
  ctr_args :: "string list"
  ctr_workingDir :: string
  ctr_envFrom :: "env_from list"
  ctr_env :: "env_var list"
  ctr_volumeMounts :: "volume_mount list"
  ctr_rest :: string

section \<open>Components\<close>

record brick =
  br_type :: string
  br_container :: "container option"
  br_args :: "argument list"
  br_results :: "brick_result list"

datatype component =
    Component (cmp_metadata: metadata) (cmp_inputs: "data list") (cmp_outputs: "data list")
      (cmp_type: string) (cmp_implementation: implementation)
and implementation =
    ImplNil
  | ImplAny string
  | ImplBrick brick
  | ImplGraph graph
  | ImplMap map_component
  | ImplConditional conditional
and graph =
    Graph (g_type: string) (g_nodes: "node list") (g_edges: "edge list")
      (g_inputMappings: "edge list") (g_outputMappings: "edge list")
and node =
    Node (n_id: string) (n_node: node_value) (n_userdata: string)
and node_value =
    NVNil
  | NVReference component_reference
  | NVCRefVersion cref_version
  | NVComponent component
and map_component =
    MapComponent (m_type: string) (m_node: node_value)
      (m_inputMappings: "edge list") (m_outputMappings: "edge list")
and conditional =
    Conditional (c_type: string) (c_expression: expression) (c_nodeTrue: node_value)
      (c_nodeFalse: node_value) (c_inputMappings: "edge list") (c_outputMappings: "edge list")

abbreviation cmp_uid :: "component \<Rightarrow> component_reference" where
  "cmp_uid c \<equiv> md_uid (cmp_metadata c)"

record workflow =
  wf_metadata :: metadata
  wf_component :: component
  wf_type :: string
  wf_workspace :: string

definition zero_workflow :: workflow where
  "zero_workflow =
     \<lparr>wf_metadata = zero_metadata, wf_component = Component zero_metadata [] [] '''' ImplNil, wf_type = '''',
      wf_workspace = ''''\<rparr>"

datatype input_value = IVString string | IVArray "string list" | IVNil

record job_value =
  jv_value :: input_value
  jv_target :: string

record job =
  job_metadata :: metadata
  job_type :: string
  job_inputValues :: "job_value list"
  job_workflow :: workflow
  job_events :: "string list"

section \<open>Sub-components\<close>

text \<open>
  The components held inline, and the references, directly below a component: what the
  traversals of the dereferencer and of the transpiler visit.
\<close>

fun sub_values :: "implementation \<Rightarrow> node_value list" where
  "sub_values (ImplGraph (Graph t ns es im om)) = map n_node ns"
| "sub_values (ImplMap (MapComponent t n im om)) = [n]"
| "sub_values (ImplConditional (Conditional t e nt nf im om)) =
     (if nf = NVNil then [nt] else [nt, nf])"
| "sub_values i = []"

section \<open>Lemmas\<close>

lemma flow_types_distinct [simp]:
  "FlowifyArtifactType \<noteq> FlowifyParameterType" "FlowifyArtifactType \<noteq> FlowifySecretType"
  "FlowifyArtifactType \<noteq> FlowifyParameterArrayType" "FlowifyArtifactType \<noteq> FlowifyVolumeType"
  "FlowifyParameterType \<noteq> FlowifyArtifactType" "FlowifyParameterType \<noteq> FlowifySecretType"
  "FlowifyParameterType \<noteq> FlowifyParameterArrayType" "FlowifyParameterType \<noteq> FlowifyVolumeType"
  "FlowifySecretType \<noteq> FlowifyArtifactType" "FlowifySecretType \<noteq> FlowifyParameterType"
  "FlowifySecretType \<noteq> FlowifyParameterArrayType" "FlowifySecretType \<noteq> FlowifyVolumeType"
  "FlowifyParameterArrayType \<noteq> FlowifyArtifactType" "FlowifyParameterArrayType \<noteq> FlowifyParameterType"
  "FlowifyParameterArrayType \<noteq> FlowifySecretType" "FlowifyParameterArrayType \<noteq> FlowifyVolumeType"
  "FlowifyVolumeType \<noteq> FlowifyArtifactType" "FlowifyVolumeType \<noteq> FlowifyParameterType"
  "FlowifyVolumeType \<noteq> FlowifySecretType" "FlowifyVolumeType \<noteq> FlowifyParameterArrayType"
  by (simp_all add: flow_types)

lemma contains_iff [simp]: "contains as v \<longleftrightarrow> v \<in> set as"
  by (induction as) auto

lemma SetTag_tags [simp]: "set (ver_tags (SetTag t v)) = insert t (set (ver_tags v))"
  by (auto simp: SetTag_def)

lemma SetTag_frame [simp]:
  "ver_current (SetTag t v) = ver_current v" "ver_previous (SetTag t v) = ver_previous v"
  by (simp_all add: SetTag_def)

lemma SetTag_distinct: "distinct (ver_tags v) \<Longrightarrow> distinct (ver_tags (SetTag t v))"
  by (simp add: SetTag_def)

lemma SetLatestTag_facts [simp]:
  "ver_current (SetLatestTag v) = ver_current v"
  "ver_previous (SetLatestTag v) = ver_previous v"
  "set (ver_tags (SetLatestTag v)) = insert VersionTagLatest (set (ver_tags v))"
  by (simp_all add: SetLatestTag_def)

lemma InitializeNew_Inr:
  assumes "InitializeNew v = Inr v'"
  shows "ver_current v' = VersionInit \<and> set (ver_tags v') = insert VersionTagLatest (set (ver_tags v))
    \<and> ver_previous v' = ver_previous v"
  using assms by (auto simp: InitializeNew_def split: if_splits)

end
