(* ===== verification/Argo_Types.thy ===== *)
theory Argo_Types
  imports Models
begin

text \<open>
  The Argo workflow structs the transpiler builds, with the fields it sets, and the parameter of
  the model that stands for the code outside the repository: a record of the functions the
  transpiler calls (UUID rendering, the Argo lookup methods, the message wrapper of
  \<^verbatim>\<open>pkg/errors\<close> on a nil error, the JSON decoding of a Kubernetes volume) and of the order
  in which the Go run time iterates over a map. What the source relies on is stated as named
  predicates on that record; none of the operations assumes them.
\<close>

section \<open>Argo structs\<close>

record value_from =
  vf_path :: string
  vf_parameter :: string
  vf_expression :: string

record wf_parameter =
  prm_name :: string
  prm_value :: "string option"
  prm_valueFrom :: "value_from option"

record wf_artifact =
  art_name :: string
  art_path :: string
  art_from :: string
  art_fromExpression :: string

text \<open>\<^verbatim>\<open>Inputs\<close>, \<^verbatim>\<open>Outputs\<close> and \<^verbatim>\<open>Arguments\<close> hold the same two lists.\<close>

record wf_ports =
  prt_parameters :: "wf_parameter list"
  prt_artifacts :: "wf_artifact list"

record dag_task =
  tk_template :: string
  tk_name :: string
  tk_dependencies :: "string list"
  tk_arguments :: wf_ports
  tk_withParam :: string
  tk_when :: string

record wf_template =
  tpl_name :: string
  tpl_container :: "container option"
  tpl_dag :: "dag_task list option"
  tpl_inputs :: wf_ports
  tpl_outputs :: wf_ports

record argo_workflow =
  awf_kind :: string
  awf_apiVersion :: string
  awf_namespace :: string
  awf_name :: string
  awf_labels :: "string gomap"
  awf_annotations :: "string gomap"
  awf_entrypoint :: string
  awf_templates :: "wf_template list"
  awf_arguments :: wf_ports
  awf_volumes :: "volume list"

definition mk_param :: "string \<Rightarrow> string option \<Rightarrow> wf_parameter" where
  "mk_param n v = \<lparr>prm_name = n, prm_value = v, prm_valueFrom = None\<rparr>"

definition mk_artifact :: "string \<Rightarrow> string \<Rightarrow> wf_artifact" where
  "mk_artifact n f = \<lparr>art_name = n, art_path = '''', art_from = f, art_fromExpression = ''''\<rparr>"

definition mk_ports :: "wf_parameter list \<Rightarrow> wf_artifact list \<Rightarrow> wf_ports" where
  "mk_ports ps as = \<lparr>prt_parameters = ps, prt_artifacts = as\<rparr>"

section \<open>Code outside the repository\<close>

record ext =
  UUIDString :: "uuid \<Rightarrow> string"
  GetParameterByName :: "wf_ports \<Rightarrow> string \<Rightarrow> wf_parameter option"
  GetArtifactByName :: "wf_ports \<Rightarrow> string \<Rightarrow> wf_artifact option"
  AnyStringPtr :: "string \<Rightarrow> string"
  Wrapf :: "goerr option \<Rightarrow> string \<Rightarrow> goerr option"
  VolumeFromJson :: "string \<Rightarrow> volume res"
  RangeKeys :: "string \<Rightarrow> string list \<Rightarrow> string list"

text \<open>
  Documented behaviour: distinct UUIDs have distinct texts; the Argo lookup methods return the
  entry of the given name, if any; \<^verbatim>\<open>Wrapf\<close> of a nil error is nil and of an error is not; a
  \<^verbatim>\<open>range\<close> over a map visits every key once, in some order.
\<close>

definition uuid_string_ok :: "ext \<Rightarrow> bool" where
  "uuid_string_ok E \<longleftrightarrow> inj (UUIDString E)"

definition param_lookup_ok :: "ext \<Rightarrow> bool" where
  "param_lookup_ok E \<longleftrightarrow>
     (\<forall>ports n. GetParameterByName E ports n = find (\<lambda>p. prm_name p = n) (prt_parameters ports))"

definition artifact_lookup_ok :: "ext \<Rightarrow> bool" where
  "artifact_lookup_ok E \<longleftrightarrow>
     (\<forall>ports n. GetArtifactByName E ports n = find (\<lambda>a. art_name a = n) (prt_artifacts ports))"

definition wrapf_ok :: "ext \<Rightarrow> bool" where
  "wrapf_ok E \<longleftrightarrow> (\<forall>m. Wrapf E None m = None) \<and> (\<forall>e m. Wrapf E (Some e) m \<noteq> None)"

definition range_ok :: "ext \<Rightarrow> bool" where
  "range_ok E \<longleftrightarrow> (\<forall>site ks. mset (RangeKeys E site ks) = mset ks)"

text \<open>
  An instance of the parameter, on which witnesses are evaluated: a UUID is rendered in unary,
  volumes carry their configuration text.
\<close>

definition ext_example :: ext where
  "ext_example =
     \<lparr>UUIDString = (\<lambda>u. replicate (unat u) CHR ''u''),
      GetParameterByName = (\<lambda>ports n. find (\<lambda>p. prm_name p = n) (prt_parameters ports)),
      GetArtifactByName = (\<lambda>ports n. find (\<lambda>a. art_name a = n) (prt_artifacts ports)),
      AnyStringPtr = (\<lambda>s. s),
      Wrapf = (\<lambda>e m. map_option (Wrap m) e),
      VolumeFromJson = (\<lambda>s. if s = '''' then Inl (ExtErr ''unexpected end of JSON input'')
                             else Inr \<lparr>vol_name = s, vol_rest = s\<rparr>),
      RangeKeys = (\<lambda>site ks. ks)\<rparr>"

section \<open>Lemmas\<close>

lemma mk_simps [simp]:
  "prm_name (mk_param n v) = n" "prm_value (mk_param n v) = v" "prm_valueFrom (mk_param n v) = None"
  "art_name (mk_artifact n f) = n" "art_from (mk_artifact n f) = f" "art_path (mk_artifact n f) = ''''"
  "art_fromExpression (mk_artifact n f) = ''''"
  "prt_parameters (mk_ports ps as) = ps" "prt_artifacts (mk_ports ps as) = as"
  by (simp_all add: mk_param_def mk_artifact_def mk_ports_def)

lemma range_ok_set: "range_ok E \<Longrightarrow> set (RangeKeys E site ks) = set ks"
  by (metis range_ok_def set_mset_mset)

lemma range_ok_distinct: "range_ok E \<Longrightarrow> distinct (RangeKeys E site ks) = distinct ks"
  by (metis range_ok_def mset_eq_imp_distinct_iff)

lemma ext_example_simps [simp]:
  "UUIDString ext_example = (\<lambda>u. replicate (unat u) CHR ''u'')"
  "GetParameterByName ext_example = (\<lambda>ports n. find (\<lambda>p. prm_name p = n) (prt_parameters ports))"
  "GetArtifactByName ext_example = (\<lambda>ports n. find (\<lambda>a. art_name a = n) (prt_artifacts ports))"
  "AnyStringPtr ext_example = (\<lambda>s. s)"
  "Wrapf ext_example = (\<lambda>e m. map_option (Wrap m) e)"
  "VolumeFromJson ext_example = (\<lambda>s. if s = '''' then Inl (ExtErr ''unexpected end of JSON input'')
                             else Inr \<lparr>vol_name = s, vol_rest = s\<rparr>)"
  "RangeKeys ext_example = (\<lambda>site ks. ks)"
  by (simp_all add: ext_example_def)

lemma ext_example_ok [simp]:
  "uuid_string_ok ext_example" "param_lookup_ok ext_example" "artifact_lookup_ok ext_example"
  "wrapf_ok ext_example" "range_ok ext_example"
  by (simp_all add: uuid_string_ok_def param_lookup_ok_def artifact_lookup_ok_def wrapf_ok_def
      range_ok_def inj_def) (metis length_replicate unsigned_word_eqI)

end
