(* ===== verification/Transpiler_Helpers.thy ===== *)
theory Transpiler_Helpers
  imports Argo_Types
begin

text \<open>
  \<^verbatim>\<open>transpiler/helpers.go\<close> and \<^verbatim>\<open>transpiler/argo.go\<close>: lookups in port and edge lists,
  the secrets that reach a node, the volume resolver (bridging a volume from an output port to the
  input port it came from, and walking edges upstream until a volume of the scope is found),
  container arguments and mounts, conditional expressions and the removal of duplicated templates.
\<close>

type_synonym secret_map = "string gomap"
type_synonym volume_map = "volume gomap"
type_synonym node_volume_map = "volume_map gomap"

section \<open>Lookups\<close>

fun checkInputType :: "data list \<Rightarrow> string \<Rightarrow> string \<times> bool" where
  "checkInputType [] inputName = ('''', False)"
| "checkInputType (d # ds) inputName =
     (if dt_name d = inputName then (dt_type d, True) else checkInputType ds inputName)"

text \<open>\<^verbatim>\<open>mapCopy\<close> inserts every entry into a fresh map.\<close>

definition mapCopy :: "'v gomap \<Rightarrow> 'v gomap" where
  "mapCopy imap = foldr (\<lambda>(k, v) newMap. AList.update k v newMap) imap []"

fun getConnectedSourceEdge :: "port_address \<Rightarrow> edge list \<Rightarrow> edge res" where
  "getConnectedSourceEdge tgt [] =
     Inl (Errorf ''could not find input connected edge: %s.%s'' [pa_node tgt, pa_port tgt])"
| "getConnectedSourceEdge tgt (e # es) =
     (if e_target e = tgt then Inr e else getConnectedSourceEdge tgt es)"

fun findByName :: "data list \<Rightarrow> string \<Rightarrow> data option" where
  "findByName [] port = None"
| "findByName (e # es) port = (if dt_name e = port then Some e else findByName es port)"

fun getNode :: "string \<Rightarrow> node list \<Rightarrow> node res" where
  "getNode nid [] = Inl (Errorf ''could not find node %s'' [nid])"
| "getNode nid (n # ns) = (if n_id n = nid then Inr n else getNode nid ns)"

fun find_data :: "data list \<Rightarrow> data \<Rightarrow> data option" where
  "find_data [] d = None"
| "find_data (i # is) d =
     (if dt_name i = dt_name d \<and> dt_type i = dt_type d then Some i else find_data is d)"

definition getInput :: "component \<Rightarrow> data \<Rightarrow> data option" where
  "getInput c d = find_data (cmp_inputs c) d"

definition getOutput :: "component \<Rightarrow> data \<Rightarrow> data option" where
  "getOutput c d = find_data (cmp_outputs c) d"

section \<open>Secrets that reach a node\<close>

fun addNodeSecrets ::
  "string \<Rightarrow> secret_map \<Rightarrow> data list \<Rightarrow> edge list \<Rightarrow> secret_map \<Rightarrow> secret_map" where
  "addNodeSecrets tid cmpSecrets cmpInputs [] nSecrets = nSecrets"
| "addNodeSecrets tid cmpSecrets cmpInputs (m # ms) nSecrets =
     (case checkInputType cmpInputs (pa_port (e_source m)) of (mt, ok) \<Rightarrow>
      addNodeSecrets tid cmpSecrets cmpInputs ms
        (if ok \<and> mt = FlowifySecretType \<and> pa_node (e_target m) = tid
         then AList.update (pa_port (e_target m)) (zget cmpSecrets (pa_port (e_source m))) nSecrets
         else nSecrets))"

definition getNodeSecretMap ::
  "string \<Rightarrow> secret_map \<Rightarrow> data list \<Rightarrow> edge list \<Rightarrow> secret_map" where
  "getNodeSecretMap tid cmpSecrets cmpInputs inputsMap =
     addNodeSecrets tid cmpSecrets cmpInputs inputsMap (mapCopy cmpSecrets)"

section \<open>Bridging a volume from an output to an input\<close>

fun brick_bridgeVolume :: "brick_result list \<Rightarrow> string \<Rightarrow> string res" where
  "brick_bridgeVolume [] outputPort = Inl (Errorf ''could not bridge %s'' [outputPort])"
| "brick_bridgeVolume (r # rs) outputPort =
     (if pa_port (res_target r) = outputPort then
        (case res_source r of ResVolume v \<Rightarrow> Inr v | _ \<Rightarrow> brick_bridgeVolume rs outputPort)
      else brick_bridgeVolume rs outputPort)"

definition port_at :: "string \<Rightarrow> string \<Rightarrow> port_address" where
  "port_at n p = \<lparr>pa_node = n, pa_port = p\<rparr>"

lemma getNode_Inr: "getNode nid ns = Inr n \<Longrightarrow> n \<in> set ns \<and> n_id n = nid"
  by (induction ns) (auto split: if_splits)

lemma size_node_component:
  "n \<in> set (g_nodes g) \<Longrightarrow> n_node n = NVComponent c \<Longrightarrow> size c < size g"
proof -
  assume n: "n \<in> set (g_nodes g)" and c: "n_node n = NVComponent c"
  have "size n < Suc (size_list size (g_nodes g))"
    using n by (induction "g_nodes g" arbitrary: g) (auto simp: size_list_estimation' less_Suc_eq_le)
  moreover have "size c < size n" using c by (cases n) auto
  ultimately show ?thesis by (cases g) simp
qed

text \<open>
  The loop counter is what stops the walk in a cyclic graph; when it runs out, the source returns
  the empty name with \<^verbatim>\<open>errors.Wrapf\<close> of the outer error variable, which is nil there.
\<close>

function (sequential) cmp_bridgeVolume :: "ext \<Rightarrow> component \<Rightarrow> string \<Rightarrow> string res"
  and graph_bridgeVolume :: "ext \<Rightarrow> graph \<Rightarrow> string \<Rightarrow> string res"
  and graph_bridge_loop :: "ext \<Rightarrow> nat \<Rightarrow> graph \<Rightarrow> string \<Rightarrow> string \<Rightarrow> string res"
where
  "cmp_bridgeVolume E c outputPort =
     (case findByName (cmp_outputs c) outputPort of
        None \<Rightarrow> Inl (Errorf ''port %s expected at %s'' [outputPort, UUIDString E (cmp_uid c)])
      | Some d \<Rightarrow>
          if dt_type d \<noteq> FlowifyVolumeType then
            Inl (Errorf ''volume port %s required at %s'' [outputPort, UUIDString E (cmp_uid c)])
          else
            (case cmp_implementation c of
               ImplBrick b \<Rightarrow> brick_bridgeVolume (br_results b) outputPort
             | ImplGraph g \<Rightarrow> graph_bridgeVolume E g outputPort
             | _ \<Rightarrow> Inl (Errorf ''not implemented for type %s at %s.%s''
                          [outputPort, UUIDString E (cmp_uid c)])))"
| "graph_bridgeVolume E g outputPort =
     (case getConnectedSourceEdge (port_at '''' outputPort) (g_outputMappings g) of
        Inl e \<Rightarrow> Inl (Wrap ''graph.bridge outputMappings error'' e)
      | Inr edge \<Rightarrow> graph_bridge_loop E (length (g_nodes g)) g
                      (pa_node (e_source edge)) (pa_port (e_source edge)))"
| "graph_bridge_loop E 0 g upstreamNodeId outputPort =
     (case Wrapf E None ''could not bridge graph'' of None \<Rightarrow> Inr '''' | Some e \<Rightarrow> Inl e)"
| "graph_bridge_loop E (Suc n) g upstreamNodeId outputPort =
     (case getNode upstreamNodeId (g_nodes g) of
        Inl e \<Rightarrow> Inl (Wrap ''graph.bridge node reference error'' e)
      | Inr nd \<Rightarrow>
          (case n_node nd of
             NVComponent c \<Rightarrow>
               (case cmp_bridgeVolume E c outputPort of
                  Inl e \<Rightarrow> Inl (Wrap ''could not bridge graph node'' e)
                | Inr inputPort \<Rightarrow>
                    (case getConnectedSourceEdge (port_at upstreamNodeId inputPort) (g_inputMappings g) of
                       Inr input \<Rightarrow> Inr (pa_port (e_source input))
                     | Inl _ \<Rightarrow>
                         (case getConnectedSourceEdge (port_at (n_id nd) inputPort) (g_edges g) of
                            Inl e \<Rightarrow> Inl (Wrap ''graph.bridge walk failed'' e)
                          | Inr e \<Rightarrow> graph_bridge_loop E n g
                                      (pa_node (e_source e)) (pa_port (e_source e)))))
           | _ \<Rightarrow> Inl (Errorf ''transpiler package requires dereferenced components, at %s''
                        [n_id nd])))"
  by pat_completeness auto
termination
proof (relation "measures
    [\<lambda>x. case x of Inl (E, c, p) \<Rightarrow> 2 * size c
                 | Inr (Inl (E, g, p)) \<Rightarrow> 2 * size g + 1
                 | Inr (Inr (E, n, g, u, p)) \<Rightarrow> 2 * size g,
     \<lambda>x. case x of Inl _ \<Rightarrow> 0 | Inr (Inl _) \<Rightarrow> 0 | Inr (Inr (E, n, g, u, p)) \<Rightarrow> n]", goal_cases)
  case 1
  show ?case by simp
next
  case (2 E c outputPort d g)
  then show ?case by (cases c) auto
next
  case 3
  then show ?case by simp
next
  case (4 E n g up outp nd c)
  then show ?case using size_node_component [of nd g c] getNode_Inr [of up "g_nodes g" nd] by auto
next
  case 5
  then show ?case by simp
qed

section \<open>Resolving a volume upstream\<close>

definition scope_lookup :: "node_volume_map \<Rightarrow> string \<Rightarrow> string \<Rightarrow> volume option" where
  "scope_lookup scope nid claim =
     (case map_of scope nid of None \<Rightarrow> None | Some m \<Rightarrow> map_of m claim)"

text \<open>
  The recursion follows edges upstream with no bound: in a graph whose volume edges form a cycle
  it does not return.
\<close>

partial_function (option) resolve ::
  "ext \<Rightarrow> node list \<Rightarrow> edge list \<Rightarrow> node_volume_map \<Rightarrow> node \<Rightarrow> string \<Rightarrow> volume run" where
  "resolve E nodes edges scope nd claim =
     (case scope_lookup scope (n_id nd) claim of
        Some vol \<Rightarrow> Some (Inr vol)
      | None \<Rightarrow>
          (case getConnectedSourceEdge (port_at (n_id nd) claim) edges of
             Inl e \<Rightarrow> Some (Inl (Wrap ''resolve failed'' e))
           | Inr inputEdge \<Rightarrow>
               (case getNode (pa_node (e_source inputEdge)) nodes of
                  Inl e \<Rightarrow> Some (Inl (Wrap ''resolve failed'' e))
                | Inr upstreamNode \<Rightarrow>
                    (case n_node upstreamNode of
                       NVComponent cmp \<Rightarrow>
                         (case cmp_bridgeVolume E cmp (pa_port (e_source inputEdge)) of
                            Inl e \<Rightarrow> Some (Inl (Wrap ''resolve node failed'' e))
                          | Inr upstreamClaim \<Rightarrow> resolve E nodes edges scope upstreamNode upstreamClaim)
                     | _ \<Rightarrow> Some (Inl (Errorf ''cant resolve non-component node %s'' [n_id nd]))))))"

declare resolve.simps [code]

text \<open>Unresolved volumes are only logged; the loop goes on with the next input.\<close>

fun connectVolumes ::
  "ext \<Rightarrow> node list \<Rightarrow> edge list \<Rightarrow> node_volume_map \<Rightarrow> node \<Rightarrow> data list \<Rightarrow> volume_map \<Rightarrow>
   volume_map option" where
  "connectVolumes E nodes edges scope nd [] nodeVolumes = Some nodeVolumes"
| "connectVolumes E nodes edges scope nd (d # ds) nodeVolumes =
     (if dt_type d = FlowifyVolumeType then
        (case resolve E nodes edges scope nd (dt_name d) of
           None \<Rightarrow> None
         | Some (Inl e) \<Rightarrow> connectVolumes E nodes edges scope nd ds nodeVolumes
         | Some (Inr vol) \<Rightarrow>
             connectVolumes E nodes edges scope nd ds (AList.update (dt_name d) vol nodeVolumes))
      else connectVolumes E nodes edges scope nd ds nodeVolumes)"

definition zero_node :: node where
  "zero_node = Node '''' NVNil ''''"

definition getConnectedVolumeMap ::
  "ext \<Rightarrow> string \<Rightarrow> component \<Rightarrow> edge list \<Rightarrow> node list \<Rightarrow> node_volume_map \<Rightarrow> volume_map option" where
  "getConnectedVolumeMap E nodeName cmp edges nodes scope =
     connectVolumes E nodes edges scope
       (case getNode nodeName nodes of Inl e \<Rightarrow> zero_node | Inr nd \<Rightarrow> nd) (cmp_inputs cmp) []"

section \<open>Tasks, containers and expressions\<close>

fun getDependencies :: "edge list \<Rightarrow> string \<Rightarrow> string list" where
  "getDependencies [] nodeId = []"
| "getDependencies (e # es) nodeId =
     (if pa_node (e_target e) = nodeId then pa_node (e_source e) # getDependencies es nodeId
      else getDependencies es nodeId)"

fun getContainerArgs :: "argument list \<Rightarrow> string list res" where
  "getContainerArgs [] = Inr []"
| "getContainerArgs (a # as) =
     (case arg_source a of
        SrcText t \<Rightarrow> rbind (getContainerArgs as) (\<lambda>r. Inr (t # r))
      | SrcPort p \<Rightarrow>
          if at_type (arg_target a) = FlowifyArtifactType then
            rbind (getContainerArgs as)
              (\<lambda>r. Inr ((at_prefix (arg_target a) @ ''{{inputs.artifacts.'' @ p @ ''.path}}''
                          @ at_suffix (arg_target a)) # r))
          else if at_type (arg_target a) = FlowifyParameterType then
            rbind (getContainerArgs as)
              (\<lambda>r. Inr ((at_prefix (arg_target a) @ ''{{inputs.parameters.'' @ p @ ''}}''
                          @ at_suffix (arg_target a)) # r))
          else if at_type (arg_target a) = FlowifyVolumeType then getContainerArgs as
          else Inl (Errorf ''Unrecognized argument target type: %s'' [at_type (arg_target a)])
      | _ \<Rightarrow> Inl (Errorf ''Unrecognized argument: %s'' [arg_description a]))"

record mount =
  mnt_volumeRef :: string
  mnt_mountPath :: string

fun getContainerVolumes :: "argument list \<Rightarrow> volume_map \<Rightarrow> mount list res" where
  "getContainerVolumes [] vols = Inr []"
| "getContainerVolumes (a # as) vols =
     (case arg_source a of
        SrcPort p \<Rightarrow>
          if at_type (arg_target a) = FlowifyVolumeType then
            (case map_of vols p of
               None \<Rightarrow> Inl (Errorf ''no such volume %s'' [p])
             | Some vol \<Rightarrow>
                 rbind (getContainerVolumes as vols)
                   (\<lambda>r. Inr (\<lparr>mnt_volumeRef = vol_name vol,
                              mnt_mountPath = path_join [at_prefix (arg_target a), p,
                                                         at_suffix (arg_target a)]\<rparr> # r)))
          else getContainerVolumes as vols
      | _ \<Rightarrow> getContainerVolumes as vols)"

definition volumeFromConfig :: "ext \<Rightarrow> string \<Rightarrow> volume res" where
  "volumeFromConfig E config = wrapres ''Could not create volume from config'' (VolumeFromJson E config)"

definition expr_operand :: "string \<Rightarrow> expr_value \<Rightarrow> string res" where
  "expr_operand side v =
     (case v of
        EVString s \<Rightarrow> Inr s
      | EVData d \<Rightarrow> Inr (''{{inputs.parameters.'' @ dt_name d @ ''}}'')
      | EVNil \<Rightarrow> Inl (Errorf (''Incorrect '' @ side @ '' value.'') []))"

definition expressionToString :: "expression \<Rightarrow> string res" where
  "expressionToString ex =
     rbind (expr_operand ''left'' (ex_left ex)) (\<lambda>l.
     rbind (expr_operand ''right'' (ex_right ex)) (\<lambda>r.
     Inr (l @ '' '' @ ex_operator ex @ '' '' @ r)))"

section \<open>Workflow manifests\<close>

definition GenerateArgo ::
  "string \<Rightarrow> string \<Rightarrow> string gomap \<Rightarrow> string gomap \<Rightarrow> argo_workflow" where
  "GenerateArgo name workspace labels annotations =
     \<lparr>awf_kind = ''Workflow'', awf_apiVersion = ''argoproj.io/v1alpha1'', awf_namespace = workspace,
      awf_name = name, awf_labels = labels, awf_annotations = annotations, awf_entrypoint = '''',
      awf_templates = [], awf_arguments = mk_ports [] [], awf_volumes = []\<rparr>"

fun removeDupLoop :: "string list \<Rightarrow> wf_template list \<Rightarrow> wf_template list" where
  "removeDupLoop keys [] = []"
| "removeDupLoop keys (t # ts) =
     (if tpl_name t \<in> set keys then removeDupLoop keys ts
      else t # removeDupLoop (tpl_name t # keys) ts)"

definition RemoveDuplicatedTemplates :: "wf_template list \<Rightarrow> wf_template list" where
  "RemoveDuplicatedTemplates templates = removeDupLoop [] templates"

section \<open>Lemmas on lookups\<close>

lemma checkInputType_True:
  "checkInputType ins n = (t, True) \<Longrightarrow> \<exists>d \<in> set ins. dt_name d = n \<and> dt_type d = t"
  by (induction ins) (auto split: if_splits)

lemma checkInputType_known: "snd (checkInputType ins n) \<longleftrightarrow> n \<in> dt_name ` set ins"
  by (induction ins) auto

lemma findByName_find: "findByName ds p = find (\<lambda>d. dt_name d = p) ds"
  by (induction ds) auto

lemma checkInputType_findByName:
  "checkInputType ins n = (case findByName ins n of None \<Rightarrow> ('''', False) | Some d \<Rightarrow> (dt_type d, True))"
  by (induction ins) auto

lemma map_of_mapCopy [simp]: "map_of (mapCopy m) = map_of m"
  by (induction m) (auto simp: mapCopy_def)

lemma gomap_wf_mapCopy [simp]: "gomap_wf (mapCopy m)"
  by (induction m) (auto simp: mapCopy_def)

lemma getConnectedSourceEdge_Inr:
  "getConnectedSourceEdge t es = Inr e \<Longrightarrow> e \<in> set es \<and> e_target e = t"
  by (induction es) (auto split: if_splits)

lemma getConnectedSourceEdge_Inl:
  "(\<exists>err. getConnectedSourceEdge t es = Inl err) \<longleftrightarrow> (\<forall>e \<in> set es. e_target e \<noteq> t)"
  by (induction es) auto

lemma getNode_known: "(\<exists>n. getNode nid ns = Inr n) \<longleftrightarrow> nid \<in> n_id ` set ns"
  by (induction ns) auto

lemma getDependencies_eq:
  "getDependencies es n = map (\<lambda>e. pa_node (e_source e)) (filter (\<lambda>e. pa_node (e_target e) = n) es)"
  by (induction es) auto

section \<open>Lemmas on secrets\<close>

lemma gomap_wf_addNodeSecrets:
  "gomap_wf s \<Longrightarrow> gomap_wf (addNodeSecrets tid cs ins ms s)"
  by (induction ms arbitrary: s) (auto split: prod.splits)

lemma gomap_wf_getNodeSecretMap [simp]: "gomap_wf (getNodeSecretMap tid cs ins ms)"
  by (simp add: getNodeSecretMap_def gomap_wf_addNodeSecrets)

definition secrets_supplied :: "data list \<Rightarrow> secret_map \<Rightarrow> bool" where
  "secrets_supplied ins s \<longleftrightarrow>
     (\<forall>d \<in> set ins. dt_type d = FlowifySecretType \<longrightarrow> map_of s (dt_name d) \<noteq> None)"

lemma zget_supplied_ran:
  assumes "secrets_supplied ins s" and "checkInputType ins p = (FlowifySecretType, True)"
  shows "zget s p \<in> ran (map_of s)"
proof -
  obtain d where d: "d \<in> set ins" "dt_name d = p" "dt_type d = FlowifySecretType"
    using checkInputType_True [OF assms(2)] by blast
  have "map_of s (dt_name d) \<noteq> None" using assms(1) d(1,3) by (simp add: secrets_supplied_def)
  with d(2) obtain v where "map_of s p = Some v" by auto
  then show ?thesis by (simp add: zget_def ranI)
qed

lemma ran_gomap_update: "ran (map_of (AList.update k v m)) \<subseteq> insert v (ran (map_of m))"
  by (auto simp: ran_def)

lemma addNodeSecrets_ran:
  assumes "secrets_supplied ins cs" and "ran (map_of s) \<subseteq> ran (map_of cs)"
  shows "ran (map_of (addNodeSecrets tid cs ins ms s)) \<subseteq> ran (map_of cs)"
  using assms(2)
proof (induction ms arbitrary: s)
  case Nil
  then show ?case by simp
next
  case (Cons m ms)
  obtain mt ok where c: "checkInputType ins (pa_port (e_source m)) = (mt, ok)" by fastforce
  have "ran (map_of (if ok \<and> mt = FlowifySecretType \<and> pa_node (e_target m) = tid
         then AList.update (pa_port (e_target m)) (zget cs (pa_port (e_source m))) s else s))
       \<subseteq> ran (map_of cs)"
    using Cons.prems zget_supplied_ran [OF assms(1), of "pa_port (e_source m)"] c
      ran_gomap_update [of "pa_port (e_target m)" "zget cs (pa_port (e_source m))" s]
    by (cases "ok \<and> mt = FlowifySecretType \<and> pa_node (e_target m) = tid") auto
  then show ?case using Cons.IH by (simp add: c)
qed

lemma getNodeSecretMap_ran:
  "secrets_supplied ins cs \<Longrightarrow> ran (map_of (getNodeSecretMap tid cs ins ms)) \<subseteq> ran (map_of cs)"
  by (simp add: getNodeSecretMap_def addNodeSecrets_ran)

section \<open>Lemmas on volumes\<close>

definition scope_volumes :: "node_volume_map \<Rightarrow> volume set" where
  "scope_volumes scope = {v. \<exists>nid claim. scope_lookup scope nid claim = Some v}"

lemma resolve_in_scope:
  assumes "resolve E nodes edges scope nd claim = Some (Inr vol)"
  shows "vol \<in> scope_volumes scope"
proof -
  have "\<forall>v. Inr vol = (Inr v :: volume res) \<longrightarrow> v \<in> scope_volumes scope"
  proof (rule resolve.raw_induct
      [where P = "\<lambda>E nodes edges scope nd claim r. \<forall>v. r = Inr v \<longrightarrow> v \<in> scope_volumes scope",
       OF _ assms])
    fix f E nodes edges scope nd claim y
    assume IH: "\<And>E nodes edges scope nd claim y. f E nodes edges scope nd claim = Some y \<Longrightarrow>
        \<forall>v. y = Inr v \<longrightarrow> v \<in> scope_volumes scope"
      and eq: "(case scope_lookup scope (n_id nd) claim of
        Some vol \<Rightarrow> Some (Inr vol)
      | None \<Rightarrow>
          (case getConnectedSourceEdge (port_at (n_id nd) claim) edges of
             Inl e \<Rightarrow> Some (Inl (Wrap ''resolve failed'' e))
           | Inr inputEdge \<Rightarrow>
               (case getNode (pa_node (e_source inputEdge)) nodes of
                  Inl e \<Rightarrow> Some (Inl (Wrap ''resolve failed'' e))
                | Inr upstreamNode \<Rightarrow>
                    (case n_node upstreamNode of
                       NVComponent cmp \<Rightarrow>
                         (case cmp_bridgeVolume E cmp (pa_port (e_source inputEdge)) of
                            Inl e \<Rightarrow> Some (Inl (Wrap ''resolve node failed'' e))
                          | Inr upstreamClaim \<Rightarrow> f E nodes edges scope upstreamNode upstreamClaim)
                     | _ \<Rightarrow> Some (Inl (Errorf ''cant resolve non-component node %s'' [n_id nd])))))) = Some y"
    show "\<forall>v. y = Inr v \<longrightarrow> v \<in> scope_volumes scope"
      using eq IH
      by (auto simp: scope_volumes_def split: option.splits sum.splits node_value.splits)
  qed
  then show ?thesis by simp
qed

text \<open>
  Along acyclic edges the resolver returns: a rank on node names that falls from the target to the
  source of every edge bounds the walk.
\<close>

definition edges_ranked :: "(string \<Rightarrow> nat) \<Rightarrow> edge list \<Rightarrow> bool" where
  "edges_ranked rank es \<longleftrightarrow> (\<forall>e \<in> set es. rank (pa_node (e_source e)) < rank (pa_node (e_target e)))"

lemma resolve_step:
  assumes "resolve E nodes edges scope nd claim = None"
  obtains ie up uc where "getConnectedSourceEdge (port_at (n_id nd) claim) edges = Inr ie"
    and "getNode (pa_node (e_source ie)) nodes = Inr up"
    and "resolve E nodes edges scope up uc = None"
  using assms
  by (subst (asm) resolve.simps) (auto split: option.splits sum.splits node_value.splits)

lemma resolve_returns:
  assumes "edges_ranked rank edges"
  shows "resolve E nodes edges scope nd claim \<noteq> None"
proof (induction "rank (n_id nd)" arbitrary: nd claim rule: less_induct)
  case less
  show ?case
  proof
    assume "resolve E nodes edges scope nd claim = None"
    then obtain ie up uc where
      ie: "getConnectedSourceEdge (port_at (n_id nd) claim) edges = Inr ie" and
      up: "getNode (pa_node (e_source ie)) nodes = Inr up" and
      no: "resolve E nodes edges scope up uc = None"
      by (rule resolve_step)
    have "rank (pa_node (e_source ie)) < rank (pa_node (e_target ie))"
      using assms getConnectedSourceEdge_Inr [OF ie] unfolding edges_ranked_def by blast
    then have "rank (n_id up) < rank (n_id nd)"
      using getConnectedSourceEdge_Inr [OF ie] getNode_Inr [OF up] by (auto simp: port_at_def)
    from less [OF this] no show False by blast
  qed
qed

lemma connectVolumes_ran:
  assumes "connectVolumes E nodes edges scope nd ds vs = Some vs'"
    and "ran (map_of vs) \<subseteq> scope_volumes scope"
  shows "ran (map_of vs') \<subseteq> scope_volumes scope"
  using assms
proof (induction ds arbitrary: vs)
  case Nil
  then show ?case by simp
next
  case (Cons d ds)
  consider (other) "dt_type d \<noteq> FlowifyVolumeType"
    | (bad) err where "dt_type d = FlowifyVolumeType"
        "resolve E nodes edges scope nd (dt_name d) = Some (Inl err)"
    | (good) v where "dt_type d = FlowifyVolumeType"
        "resolve E nodes edges scope nd (dt_name d) = Some (Inr v)"
    using Cons.prems(1) by (auto split: if_splits option.splits sum.splits)
  then show ?case
  proof cases
    case (good v)
    have "ran (map_of (AList.update (dt_name d) v vs)) \<subseteq> scope_volumes scope"
      using ran_gomap_update [of "dt_name d" v vs] resolve_in_scope [OF good(2)] Cons.prems(2) by blast
    moreover have "connectVolumes E nodes edges scope nd ds (AList.update (dt_name d) v vs) = Some vs'"
      using Cons.prems(1) good by simp
    ultimately show ?thesis by (rule Cons.IH [rotated])
  qed (use Cons in auto)
qed

lemma connectVolumes_returns:
  "edges_ranked rank edges \<Longrightarrow> connectVolumes E nodes edges scope nd ds vs \<noteq> None"
  by (induction ds arbitrary: vs) (auto dest: resolve_returns split: option.splits sum.splits)

lemma connectVolumes_keys:
  "connectVolumes E nodes edges scope nd ds vs = Some vs' \<Longrightarrow>
   dom (map_of vs') \<subseteq> dom (map_of vs) \<union> dt_name ` {d \<in> set ds. dt_type d = FlowifyVolumeType}"
  by (induction ds arbitrary: vs) (fastforce split: if_splits option.splits sum.splits)+

lemma getConnectedVolumeMap_ran:
  "getConnectedVolumeMap E n c edges nodes scope = Some vs \<Longrightarrow> ran (map_of vs) \<subseteq> scope_volumes scope"
  unfolding getConnectedVolumeMap_def by (erule connectVolumes_ran) simp

lemma getConnectedVolumeMap_returns:
  "edges_ranked rank edges \<Longrightarrow> getConnectedVolumeMap E n c edges nodes scope \<noteq> None"
  unfolding getConnectedVolumeMap_def by (rule connectVolumes_returns)

lemma getContainerVolumes_refs:
  "getContainerVolumes as vols = Inr ms \<Longrightarrow> m \<in> set ms \<Longrightarrow>
   \<exists>v \<in> ran (map_of vols). mnt_volumeRef m = vol_name v"
  by (induction as arbitrary: ms)
    (fastforce simp: go_simps ran_def split: arg_source.splits if_splits option.splits)+

section \<open>Lemmas on templates\<close>

lemma removeDupLoop_names:
  "tpl_name ` set (removeDupLoop ks ts) = tpl_name ` set ts - set ks"
  by (induction ts arbitrary: ks) auto

lemma removeDupLoop_distinct: "distinct (map tpl_name (removeDupLoop ks ts))"
proof (induction ts arbitrary: ks)
  case (Cons t ts)
  have "tpl_name t \<notin> set (map tpl_name (removeDupLoop (tpl_name t # ks) ts))"
    using removeDupLoop_names [of "tpl_name t # ks" ts] by auto
  with Cons.IH show ?case by auto
qed simp

lemma removeDupLoop_sub: "set (removeDupLoop ks ts) \<subseteq> set ts"
  by (induction ts arbitrary: ks) auto

lemma removeDupLoop_find:
  "n \<notin> set ks \<Longrightarrow>
   find (\<lambda>t. tpl_name t = n) (removeDupLoop ks ts) = find (\<lambda>t. tpl_name t = n) ts"
  by (induction ts arbitrary: ks) auto

lemma removeDupLoop_id:
  "distinct (map tpl_name ts) \<Longrightarrow> set ks \<inter> tpl_name ` set ts = {} \<Longrightarrow> removeDupLoop ks ts = ts"
  by (induction ts arbitrary: ks) auto

end
