(* ===== verification/Transpiler.thy ===== *)
theory Transpiler
  imports Transpiler_Helpers
begin

text \<open>
  \<^verbatim>\<open>transpiler/transpiler.go\<close>: the translation of a component tree into Argo templates
  (\<open>AddBrick\<close>, \<open>AddGraph\<close>, \<open>AddMap\<close>, \<open>AddConditional\<close>, \<open>TraverseComponent\<close>,
  \<open>ParseComponentTree\<close>) and of a job into a workflow manifest (\<open>GetArgoWorkflow\<close>).
  The template list that the source appends to through a pointer is passed and returned. The task
  list pointer is only handed down by the source and never read or written, so it is left out.
  A result of \<open>None\<close> means that the volume resolver did not return.
\<close>

definition DefaultObjectName :: string where "DefaultObjectName = ''flowify-default''"

section \<open>Bricks\<close>

definition brickMount :: "mount \<Rightarrow> volume_mount" where
  "brickMount m = \<lparr>vm_name = mnt_volumeRef m, vm_mountPath = mnt_mountPath m, vm_readOnly = False,
                  vm_rest = ''''\<rparr>"

definition setOutputPath :: "brick_result \<Rightarrow> wf_ports \<Rightarrow> wf_ports" where
  "setOutputPath r outs =
     (case res_source r of
        ResFile file \<Rightarrow>
          outs\<lparr>prt_artifacts := update_first (\<lambda>a. art_name a = pa_port (res_target r))
                                  (\<lambda>a. a\<lparr>art_path := file\<rparr>) (prt_artifacts outs),
               prt_parameters := update_first (\<lambda>p. prm_name p = pa_port (res_target r))
                                  (\<lambda>p. p\<lparr>prm_valueFrom := Some \<lparr>vf_path = file, vf_parameter = '''',
                                                              vf_expression = ''''\<rparr>\<rparr>)
                                  (prt_parameters outs)\<rparr>
      | _ \<Rightarrow> outs)"

definition secretEnv :: "secret_map \<Rightarrow> string \<Rightarrow> env_var" where
  "secretEnv sMap k =
     \<lparr>env_name = k, env_value = '''', env_secretName = DefaultObjectName, env_secretKey = zget sMap k,
      env_rest = ''''\<rparr>"

definition AddBrick ::
  "ext \<Rightarrow> string \<Rightarrow> brick \<Rightarrow> wf_ports \<Rightarrow> wf_ports \<Rightarrow> wf_template list \<Rightarrow> secret_map \<Rightarrow> volume_map \<Rightarrow>
   wf_template list res" where
  "AddBrick E name cmp outputs inputs templates sMap volumes =
     (case getContainerVolumes (br_args cmp) volumes of
        Inl e \<Rightarrow> Inl (Wrap ''Cannot add brick %s.'' e)
      | Inr mountvols \<Rightarrow>
          (case br_container cmp of
             None \<Rightarrow> Inl (GoPanic ''nil pointer dereference: cmp.Container'')
           | Some ctr \<Rightarrow>
               (let inputs' = inputs\<lparr>prt_artifacts := map (\<lambda>a. a\<lparr>art_path := ''/artifacts/'' @ art_name a\<rparr>)
                                                          (prt_artifacts inputs)\<rparr>;
                    outputs' = fold setOutputPath (br_results cmp) outputs
                in (case getContainerArgs (br_args cmp) of
                      Inl e \<Rightarrow> Inl (Wrap ''Cannot add brick %s.'' e)
                    | Inr args \<Rightarrow>
                        Inr (templates @
                          [\<lparr>tpl_name = name,
                            tpl_container = Some (ctr\<lparr>ctr_volumeMounts := map brickMount mountvols,
                                                      ctr_args := args,
                                                      ctr_env := map (secretEnv sMap)
                                                        (RangeKeys E name (map_keys sMap))\<rparr>),
                            tpl_dag = None, tpl_inputs = inputs', tpl_outputs = outputs'\<rparr>])))))"

section \<open>Arguments of a task\<close>

record task_args =
  ta_params :: "wf_parameter list"
  ta_artifacts :: "wf_artifact list"
  ta_withParam :: string

definition no_args :: task_args where
  "no_args = \<lparr>ta_params = [], ta_artifacts = [], ta_withParam = ''''\<rparr>"

definition inputs_artifact :: "string \<Rightarrow> string" where
  "inputs_artifact p = ''{{inputs.artifacts.'' @ p @ ''}}''"

definition inputs_parameter :: "string \<Rightarrow> string" where
  "inputs_parameter p = ''{{inputs.parameters.'' @ p @ ''}}''"

definition task_output :: "string \<Rightarrow> string \<Rightarrow> string \<Rightarrow> string" where
  "task_output kind n p = ''{{tasks.'' @ n @ ''.outputs.'' @ kind @ ''.'' @ p @ ''}}''"

definition addParam :: "string \<Rightarrow> string \<Rightarrow> task_args \<Rightarrow> task_args" where
  "addParam n v a = a\<lparr>ta_params := ta_params a @ [mk_param n (Some v)]\<rparr>"

definition addArtifact :: "string \<Rightarrow> string \<Rightarrow> task_args \<Rightarrow> task_args" where
  "addArtifact n f a = a\<lparr>ta_artifacts := ta_artifacts a @ [mk_artifact n f]\<rparr>"

text \<open>
  The input-mapping loop, the same in the three composite kinds but for the guard on the target
  node, which only a graph has. A parameter port fed by an artifact dereferences the nil
  parameter the lookup returned.
\<close>

fun mapInputs ::
  "ext \<Rightarrow> (edge \<Rightarrow> bool) \<Rightarrow> wf_ports \<Rightarrow> data list \<Rightarrow> edge list \<Rightarrow> task_args \<Rightarrow> task_args res" where
  "mapInputs E guard inputs cmpInputs [] acc = Inr acc"
| "mapInputs E guard inputs cmpInputs (m # ms) acc =
     (let src = pa_port (e_source m); tgt = pa_port (e_target m);
          p1 = GetParameterByName E inputs src; a1 = GetArtifactByName E inputs src
      in if guard m \<and> (p1 \<noteq> None \<or> a1 \<noteq> None) then
           (let it = fst (checkInputType cmpInputs tgt)
            in if it = FlowifyArtifactType then
                 mapInputs E guard inputs cmpInputs ms (addArtifact tgt (inputs_artifact src) acc)
               else if it = FlowifyParameterType then
                 (case p1 of
                    None \<Rightarrow> Inl (GoPanic ''nil pointer dereference: p1.Value'')
                  | Some p \<Rightarrow>
                      if prm_value p \<noteq> None then
                        mapInputs E guard inputs cmpInputs ms
                          ((addParam tgt (AnyStringPtr E ''{{item}}'') acc)
                             \<lparr>ta_withParam := inputs_parameter src\<rparr>)
                      else mapInputs E guard inputs cmpInputs ms
                             (addParam tgt (AnyStringPtr E (inputs_parameter src)) acc))
               else if it = FlowifyParameterArrayType then
                 mapInputs E guard inputs cmpInputs ms
                   (addParam tgt (AnyStringPtr E (inputs_parameter src)) acc)
               else Inl (Errorf ''Unrecognized input mapping target type: %s'' [tgt]))
         else mapInputs E guard inputs cmpInputs ms acc)"

text \<open>
  The edge loop of a graph node. A parameter array into a node that is neither graph, map nor
  brick builds an error value and drops it, so the edge is skipped.
\<close>

fun edgeInputs ::
  "ext \<Rightarrow> string \<Rightarrow> component \<Rightarrow> edge list \<Rightarrow> task_args \<Rightarrow> task_args res" where
  "edgeInputs E n tmpCmp [] acc = Inr acc"
| "edgeInputs E n tmpCmp (e # es) acc =
     (if pa_node (e_target e) = n then
        (let it = fst (checkInputType (cmp_inputs tmpCmp) (pa_port (e_target e)));
             tgt = pa_port (e_target e);
             srcParam = task_output ''parameters'' (pa_node (e_source e)) (pa_port (e_source e))
         in if it = FlowifyArtifactType then
              edgeInputs E n tmpCmp es
                (addArtifact tgt (task_output ''artifacts'' (pa_node (e_source e)) (pa_port (e_source e))) acc)
            else if it = FlowifyParameterType then
              edgeInputs E n tmpCmp es (addParam tgt (AnyStringPtr E srcParam) acc)
            else if it = FlowifyParameterArrayType then
              (case cmp_implementation tmpCmp of
                 ImplGraph g \<Rightarrow> edgeInputs E n tmpCmp es (addParam tgt (AnyStringPtr E srcParam) acc)
               | ImplMap mc \<Rightarrow> edgeInputs E n tmpCmp es (addParam tgt (AnyStringPtr E srcParam) acc)
               | ImplBrick b \<Rightarrow>
                   edgeInputs E n tmpCmp es
                     ((addParam tgt (AnyStringPtr E ''{{item}}'') acc)\<lparr>ta_withParam := srcParam\<rparr>)
               | _ \<Rightarrow> edgeInputs E n tmpCmp es acc)
            else if it = FlowifyVolumeType then edgeInputs E n tmpCmp es acc
            else Inl (Errorf ''Unrecognized edge target-type, %s, for target port-address %s.%s''
                        [it, pa_node (e_target e), tgt]))
      else edgeInputs E n tmpCmp es acc)"

definition task_ports :: "task_args \<Rightarrow> wf_ports" where
  "task_ports a = mk_ports (ta_params a) (ta_artifacts a)"

section \<open>Graphs\<close>

fun graphTasks :: "ext \<Rightarrow> graph \<Rightarrow> wf_ports \<Rightarrow> node list \<Rightarrow> dag_task list res" where
  "graphTasks E g inputs [] = Inr []"
| "graphTasks E g inputs (nd # nds) =
     (case n_node nd of
        NVComponent tmpCmp \<Rightarrow>
          rbind (mapInputs E (\<lambda>m. pa_node (e_target m) = n_id nd) inputs (cmp_inputs tmpCmp)
                   (g_inputMappings g) no_args) (\<lambda>a1.
          rbind (edgeInputs E (n_id nd) tmpCmp (g_edges g) a1) (\<lambda>a2.
          rbind (graphTasks E g inputs nds) (\<lambda>rest.
          Inr (\<lparr>tk_template = UUIDString E (cmp_uid tmpCmp), tk_name = n_id nd,
                tk_dependencies = getDependencies (g_edges g) (n_id nd),
                tk_arguments = task_ports a2, tk_withParam = ta_withParam a2, tk_when = ''''\<rparr> # rest))))
      | _ \<Rightarrow> Inl (Errorf ''Cannot unmarshal node id: %s. Object type: %s'' [n_id nd]))"

definition outputFrom :: "string \<Rightarrow> edge \<Rightarrow> wf_ports \<Rightarrow> wf_ports" where
  "outputFrom srcNode m outs =
     outs\<lparr>prt_parameters := map (\<lambda>p. if pa_port (e_target m) = prm_name p
              then p\<lparr>prm_valueFrom := Some \<lparr>vf_path = '''',
                       vf_parameter = task_output ''parameters'' srcNode (pa_port (e_source m)),
                       vf_expression = ''''\<rparr>\<rparr> else p) (prt_parameters outs),
          prt_artifacts := map (\<lambda>a. if pa_port (e_target m) = art_name a
              then a\<lparr>art_from := task_output ''artifacts'' srcNode (pa_port (e_source m))\<rparr> else a)
              (prt_artifacts outs)\<rparr>"

definition dag_template :: "string \<Rightarrow> dag_task list \<Rightarrow> wf_ports \<Rightarrow> wf_ports \<Rightarrow> wf_template" where
  "dag_template name tasks inputs outputs =
     \<lparr>tpl_name = name, tpl_container = None, tpl_dag = Some tasks, tpl_inputs = inputs,
      tpl_outputs = outputs\<rparr>"

definition AddGraph ::
  "ext \<Rightarrow> string \<Rightarrow> graph \<Rightarrow> wf_ports \<Rightarrow> wf_ports \<Rightarrow> wf_template list \<Rightarrow> wf_template list res" where
  "AddGraph E name cmp outputs inputs templates =
     rbind (graphTasks E cmp inputs (g_nodes cmp)) (\<lambda>tasks.
     Inr (templates @ [dag_template name tasks inputs
            (fold (\<lambda>m. outputFrom (pa_node (e_source m)) m) (g_outputMappings cmp) outputs)]))"

section \<open>Maps\<close>

definition AddMap ::
  "ext \<Rightarrow> string \<Rightarrow> map_component \<Rightarrow> wf_ports \<Rightarrow> wf_ports \<Rightarrow> wf_template list \<Rightarrow> wf_template list res" where
  "AddMap E name cmp outputs inputs templates =
     (case m_node cmp of
        NVComponent tmpCmp \<Rightarrow>
          rbind (mapInputs E (\<lambda>m. True) inputs (cmp_inputs tmpCmp) (m_inputMappings cmp) no_args) (\<lambda>a.
          Inr (templates @ [dag_template name
                 [\<lparr>tk_template = UUIDString E (cmp_uid tmpCmp), tk_name = ''mapnode'',
                   tk_dependencies = [], tk_arguments = task_ports a,
                   tk_withParam = ta_withParam a, tk_when = ''''\<rparr>]
                 inputs (fold (outputFrom ''mapnode'') (m_outputMappings cmp) outputs)]))
      | _ \<Rightarrow> Inl (Errorf ''Cannot unmarshal map subnode %s. Object type: %s'' [name]))"

section \<open>Conditionals\<close>

fun checkSameData :: "(data \<Rightarrow> data option) \<Rightarrow> string \<Rightarrow> data list \<Rightarrow> unit res" where
  "checkSameData get what [] = Inr ()"
| "checkSameData get what (d # ds) =
     (if get d = None then
        Inl (Errorf (''Missing '' @ what @ '' %s in false node of conditional component.'') [dt_name d])
      else checkSameData get what ds)"

definition checkBranches :: "string \<Rightarrow> component \<Rightarrow> component \<Rightarrow> unit res" where
  "checkBranches name ct cf =
     (if length (cmp_inputs ct) \<noteq> length (cmp_inputs cf)
       \<or> length (cmp_outputs ct) \<noteq> length (cmp_outputs cf) then
        Inl (Errorf ''Inputs and outputs of true and false nodes of conditional component %s have to be the same.''
               [name])
      else rbind (checkSameData (getInput cf) ''input'' (cmp_inputs ct)) (\<lambda>_.
           checkSameData (getOutput cf) ''output'' (cmp_outputs ct)))"

definition dquote :: string where "dquote = [CHR 0x22]"

definition choice_text :: "string \<Rightarrow> bool \<Rightarrow> string \<Rightarrow> string \<Rightarrow> string" where
  "choice_text cond hasFalse kind port =
     cond @ '' ? tasks.nodeTrue.outputs.'' @ kind @ ''.'' @ port @ '' : ''
       @ (if hasFalse then ''tasks.nodeFalse.outputs.'' @ kind @ ''.'' @ port else dquote @ dquote)"

definition outputChoice :: "string \<Rightarrow> bool \<Rightarrow> edge \<Rightarrow> wf_ports \<Rightarrow> wf_ports" where
  "outputChoice cond hasFalse m outs =
     outs\<lparr>prt_parameters := map (\<lambda>p. if pa_port (e_target m) = prm_name p
              then p\<lparr>prm_valueFrom := Some \<lparr>vf_path = '''', vf_parameter = '''',
                       vf_expression = choice_text cond hasFalse ''parameters'' (pa_port (e_source m))\<rparr>\<rparr>
              else p) (prt_parameters outs),
          prt_artifacts := map (\<lambda>a. if pa_port (e_target m) = art_name a
              then a\<lparr>art_fromExpression := choice_text cond hasFalse ''artifacts'' (pa_port (e_source m))\<rparr>
              else a) (prt_artifacts outs)\<rparr>"

definition branch_task :: "ext \<Rightarrow> component \<Rightarrow> string \<Rightarrow> task_args \<Rightarrow> string \<Rightarrow> dag_task" where
  "branch_task E c name a cond =
     \<lparr>tk_template = UUIDString E (cmp_uid c), tk_name = name, tk_dependencies = [],
      tk_arguments = task_ports a, tk_withParam = ta_withParam a, tk_when = cond\<rparr>"

definition addConditionalWith ::
  "ext \<Rightarrow> string \<Rightarrow> conditional \<Rightarrow> component \<Rightarrow> component option \<Rightarrow> wf_ports \<Rightarrow> wf_ports \<Rightarrow>
   wf_template list \<Rightarrow> wf_template list res" where
  "addConditionalWith E name cmp ct cfo outputs inputs templates =
     rbind (mapInputs E (\<lambda>m. True) inputs (cmp_inputs ct) (c_inputMappings cmp) no_args) (\<lambda>a.
     rbind (wrapres ''Cannot convert expression to string in conditional node''
              (expressionToString (c_expression cmp))) (\<lambda>cond.
     Inr (templates @ [dag_template name
            (branch_task E ct ''nodeTrue'' a cond #
             (case cfo of None \<Rightarrow> []
              | Some cf \<Rightarrow> [branch_task E cf ''nodeFalse'' a (''!('' @ cond @ '')'')]))
            inputs (fold (outputChoice cond (cfo \<noteq> None)) (c_outputMappings cmp) outputs)])))"

definition AddConditional ::
  "ext \<Rightarrow> string \<Rightarrow> conditional \<Rightarrow> wf_ports \<Rightarrow> wf_ports \<Rightarrow> wf_template list \<Rightarrow> wf_template list res" where
  "AddConditional E name cmp outputs inputs templates =
     (case c_nodeTrue cmp of
        NVComponent ct \<Rightarrow>
          (case c_nodeFalse cmp of
             NVNil \<Rightarrow> addConditionalWith E name cmp ct None outputs inputs templates
           | NVComponent cf \<Rightarrow>
               rbind (checkBranches name ct cf)
                 (\<lambda>_. addConditionalWith E name cmp ct (Some cf) outputs inputs templates)
           | _ \<Rightarrow> Inl (Errorf ''Cannot unmarshal conditional false node %s. Object type: %s'' [name]))
      | _ \<Rightarrow> Inl (Errorf ''Cannot unmarshal conditional true node %s. Object type: %s'' [name]))"

section \<open>Traversal\<close>

text \<open>The input and output ports of a template.\<close>

fun inputPorts :: "ext \<Rightarrow> string \<Rightarrow> secret_map \<Rightarrow> data list \<Rightarrow> wf_ports \<Rightarrow> wf_ports res" where
  "inputPorts E cmpName cmpSecrets [] acc = Inr acc"
| "inputPorts E cmpName cmpSecrets (i # is) acc =
     (if dt_type i = FlowifyArtifactType then
        inputPorts E cmpName cmpSecrets is
          (acc\<lparr>prt_artifacts := prt_artifacts acc @ [mk_artifact (dt_name i) '''']\<rparr>)
      else if dt_type i = FlowifyParameterType then
        inputPorts E cmpName cmpSecrets is
          (acc\<lparr>prt_parameters := prt_parameters acc @ [mk_param (dt_name i) None]\<rparr>)
      else if dt_type i = FlowifyParameterArrayType then
        inputPorts E cmpName cmpSecrets is
          (acc\<lparr>prt_parameters := prt_parameters acc
                 @ [mk_param (dt_name i) (Some (AnyStringPtr E ''{{item}}''))]\<rparr>)
      else if dt_type i = FlowifySecretType then
        (if map_of cmpSecrets (dt_name i) = None then
           Inl (Errorf ''missing secret <%s> for component: %s'' [dt_name i, cmpName])
         else inputPorts E cmpName cmpSecrets is acc)
      else if dt_type i = FlowifyVolumeType then inputPorts E cmpName cmpSecrets is acc
      else Inl (Errorf ''cannot append input data (name: %s, type %s) at node %s''
                  [dt_name i, dt_type i, cmpName]))"

fun outputPorts :: "data list \<Rightarrow> wf_ports \<Rightarrow> wf_ports" where
  "outputPorts [] acc = acc"
| "outputPorts (output # os) acc =
     outputPorts os
       (if dt_type output = FlowifyArtifactType then
          acc\<lparr>prt_artifacts := prt_artifacts acc @ [mk_artifact (dt_name output) '''']\<rparr>
        else if dt_type output = FlowifyParameterType \<or> dt_type output = FlowifyParameterArrayType then
          acc\<lparr>prt_parameters := prt_parameters acc @ [mk_param (dt_name output) None]\<rparr>
        else acc)"

text \<open>Secrets and volumes handed to the single node of a map or to the branches of a conditional.\<close>

fun nodeScope ::
  "data list \<Rightarrow> secret_map \<Rightarrow> volume_map \<Rightarrow> edge list \<Rightarrow> secret_map \<times> volume_map \<Rightarrow>
   secret_map \<times> volume_map" where
  "nodeScope cmpInputs cmpSecrets volumes [] acc = acc"
| "nodeScope cmpInputs cmpSecrets volumes (m # ms) (nodeSecrets, nodeVolumes) =
     (case checkInputType cmpInputs (pa_port (e_source m)) of (mt, ok) \<Rightarrow>
      nodeScope cmpInputs cmpSecrets volumes ms
        (if ok \<and> mt = FlowifySecretType then
           (AList.update (pa_port (e_target m)) (zget cmpSecrets (pa_port (e_source m))) nodeSecrets,
            nodeVolumes)
         else if ok \<and> mt = FlowifyVolumeType then
           (nodeSecrets,
            (case map_of volumes (pa_port (e_source m)) of
               None \<Rightarrow> nodeVolumes
             | Some val \<Rightarrow> AList.update (pa_port (e_target m)) val nodeVolumes))
         else (nodeSecrets, nodeVolumes)))"

text \<open>The volumes that the input mappings of a graph hand to each of its nodes.\<close>

definition addScopeVolume :: "string \<Rightarrow> string \<Rightarrow> volume \<Rightarrow> node_volume_map \<Rightarrow> node_volume_map" where
  "addScopeVolume nid port val scope =
     AList.update nid
       (AList.update port val (case map_of scope nid of None \<Rightarrow> [] | Some m \<Rightarrow> m)) scope"

fun graphScope :: "data list \<Rightarrow> volume_map \<Rightarrow> edge list \<Rightarrow> node_volume_map \<Rightarrow> node_volume_map" where
  "graphScope cmpInputs volumes [] scope = scope"
| "graphScope cmpInputs volumes (m # ms) scope =
     (case checkInputType cmpInputs (pa_port (e_source m)) of (mt, ok) \<Rightarrow>
      graphScope cmpInputs volumes ms
        (if ok \<and> mt = FlowifyVolumeType then
           (case map_of volumes (pa_port (e_source m)) of
              None \<Rightarrow> scope
            | Some val \<Rightarrow> addScopeVolume (pa_node (e_target m)) (pa_port (e_target m)) val scope)
         else scope))"

text \<open>A brick keeps only the secrets that are named by one of its inputs.\<close>

fun pruneSecrets :: "data list \<Rightarrow> string list \<Rightarrow> secret_map \<Rightarrow> secret_map" where
  "pruneSecrets cmpInputs [] s = s"
| "pruneSecrets cmpInputs (k # ks) s =
     pruneSecrets cmpInputs ks (if k \<in> set (map dt_name cmpInputs) then s else AList.delete k s)"

fun TraverseComponent ::
  "ext \<Rightarrow> component \<Rightarrow> secret_map \<Rightarrow> volume_map \<Rightarrow> wf_template list \<Rightarrow> wf_template list run"
  and TraverseNodes ::
  "ext \<Rightarrow> data list \<Rightarrow> graph \<Rightarrow> secret_map \<Rightarrow> node_volume_map \<Rightarrow> node list \<Rightarrow> wf_template list \<Rightarrow>
   wf_template list run"
where
  "TraverseComponent E (Component md ins outs ty impl) secrets volumes templates =
     (if uuid_IsZero (md_uid md) then
        Some (Inl (Errorf ''component (%s) uid (%s) is required to be unique and non-zero in transpilation''
                     [md_name md, UUIDString E (md_uid md)]))
      else
        (let cmpName = UUIDString E (md_uid md); cmpSecrets = mapCopy secrets;
             outputs = outputPorts outs (mk_ports [] [])
         in (case inputPorts E cmpName cmpSecrets ins (mk_ports [] []) of
               Inl e \<Rightarrow> Some (Inl e)
             | Inr inputs \<Rightarrow>
                 (case impl of
                    ImplConditional (Conditional t ex nt nf im om) \<Rightarrow>
                      (case AddConditional E cmpName (Conditional t ex nt nf im om) outputs inputs templates of
                         Inl e \<Rightarrow> Some (Inl (Wrap ''Cannot add conditional node into argo workflow'' e))
                       | Inr templates1 \<Rightarrow>
                           (case nodeScope ins cmpSecrets volumes im (mapCopy cmpSecrets, []) of
                              (nodeSecrets, nodeVolumes) \<Rightarrow>
                              (case nt of
                                 NVComponent tct \<Rightarrow>
                                   obind (TraverseComponent E tct nodeSecrets nodeVolumes templates1)
                                     (\<lambda>templates2.
                                       (case nf of
                                          NVNil \<Rightarrow> Some (Inr templates2)
                                        | NVComponent tcf \<Rightarrow>
                                            TraverseComponent E tcf nodeSecrets nodeVolumes templates2
                                        | _ \<Rightarrow> Some (Inl (Errorf ''Cannot unmarshal false node of map component: %s''
                                                            [cmpName]))))
                               | _ \<Rightarrow> Some (Inl (Errorf ''Cannot unmarshal true node of map component: %s''
                                                   [cmpName])))))
                  | ImplMap (MapComponent t n im om) \<Rightarrow>
                      (case AddMap E cmpName (MapComponent t n im om) outputs inputs templates of
                         Inl e \<Rightarrow> Some (Inl (Wrap ''Cannot add node into argo workflow'' e))
                       | Inr templates1 \<Rightarrow>
                           (case n of
                              NVComponent tc \<Rightarrow>
                                (case nodeScope ins cmpSecrets volumes im (mapCopy cmpSecrets, []) of
                                   (nodeSecrets, nodeVolumes) \<Rightarrow>
                                   TraverseComponent E tc nodeSecrets nodeVolumes templates1)
                            | _ \<Rightarrow> Some (Inl (Errorf ''Cannot unmarshal subnode of map component: %s''
                                                [cmpName]))))
                  | ImplGraph (Graph t ns es im om) \<Rightarrow>
                      (case AddGraph E cmpName (Graph t ns es im om) outputs inputs templates of
                         Inl e \<Rightarrow> Some (Inl (Wrap ''Cannot add node into argo workflow'' e))
                       | Inr templates1 \<Rightarrow>
                           TraverseNodes E ins (Graph t ns es im om) cmpSecrets
                             (graphScope ins volumes im []) ns templates1)
                  | ImplBrick b \<Rightarrow>
                      (case AddBrick E cmpName b outputs inputs templates
                              (pruneSecrets ins (map_keys cmpSecrets) cmpSecrets) volumes of
                         Inl e \<Rightarrow> Some (Inl (Wrap ''Cannot add node into argo workflow'' e))
                       | Inr templates1 \<Rightarrow> Some (Inr templates1))
                  | _ \<Rightarrow> Some (Inl (Errorf ''Unrecognized implementation type: %s'' []))))))"
| "TraverseNodes E ins g cmpSecrets scope [] templates = Some (Inr templates)"
| "TraverseNodes E ins g cmpSecrets scope (Node cid nv ud # nds) templates =
     (case nv of
        NVComponent tc \<Rightarrow>
          (case getConnectedVolumeMap E cid tc (g_edges g) (g_nodes g) scope of
             None \<Rightarrow> None
           | Some vols \<Rightarrow>
               obind (TraverseComponent E tc (getNodeSecretMap cid cmpSecrets ins (g_inputMappings g))
                        vols templates)
                 (\<lambda>templates1. TraverseNodes E ins g cmpSecrets scope nds templates1))
      | _ \<Rightarrow> Some (Inl (Errorf ''Cannot unmarshal node id: %s'' [cid])))"

declare TraverseComponent.simps [simp del] TraverseNodes.simps [simp del]

section \<open>Workflows and jobs\<close>

definition ParseComponentTree ::
  "ext \<Rightarrow> workflow \<Rightarrow> secret_map \<Rightarrow> volume_map \<Rightarrow> string gomap \<Rightarrow> string gomap \<Rightarrow> argo_workflow run" where
  "ParseComponentTree E wkf secrets volumes labels annotations =
     obind (TraverseComponent E (wf_component wkf) secrets volumes []) (\<lambda>templates.
     Some (Inr ((GenerateArgo (md_name (wf_metadata wkf)) (wf_workspace wkf) labels annotations)
                  \<lparr>awf_entrypoint := UUIDString E (cmp_uid (wf_component wkf)),
                   awf_templates := templates\<rparr>)))"

text \<open>The value of one secret input: the last job input with its name, which must be a string.\<close>

fun jobSecret :: "string \<Rightarrow> job_value list \<Rightarrow> string option \<Rightarrow> string option res" where
  "jobSecret name [] found = Inr found"
| "jobSecret name (v # vs) found =
     (if name = jv_target v then
        (case jv_value v of
           IVString s \<Rightarrow> jobSecret name vs (Some s)
         | _ \<Rightarrow> Inl (Errorf ''Cannot convert flowify secret %s to string.'' [jv_target v]))
      else jobSecret name vs found)"

fun jobSecrets :: "job \<Rightarrow> data list \<Rightarrow> secret_map \<Rightarrow> secret_map res" where
  "jobSecrets job [] s = Inr s"
| "jobSecrets job (i # is) s =
     (if dt_type i = FlowifySecretType then
        (case jobSecret (dt_name i) (job_inputValues job) None of
           Inl e \<Rightarrow> Inl e
         | Inr None \<Rightarrow> Inl (Errorf ''Missing input secret <%s> for job: %s''
                              [dt_name i, md_name (job_metadata job)])
         | Inr (Some val) \<Rightarrow> jobSecrets job is (AList.update (dt_name i) val s))
      else jobSecrets job is s)"

fun jobVolumeTargets :: "ext \<Rightarrow> job_value \<Rightarrow> data list \<Rightarrow> volume_map \<Rightarrow> volume_map res" where
  "jobVolumeTargets E v [] vm = Inr vm"
| "jobVolumeTargets E v (tgt # tgts) vm =
     (if dt_name tgt = jv_target v \<and> dt_type tgt = FlowifyVolumeType then
        (case jv_value v of
           IVString config \<Rightarrow>
             rbind (volumeFromConfig E config)
               (\<lambda>vol. jobVolumeTargets E v tgts (AList.update (dt_name tgt) vol vm))
         | _ \<Rightarrow> Inl (Errorf ''mount config must be json encoded string'' []))
      else jobVolumeTargets E v tgts vm)"

fun jobVolumes :: "ext \<Rightarrow> data list \<Rightarrow> job_value list \<Rightarrow> volume_map \<Rightarrow> volume_map res" where
  "jobVolumes E tgts [] vm = Inr vm"
| "jobVolumes E tgts (v # vs) vm =
     rbind (jobVolumeTargets E v tgts vm) (\<lambda>vm'. jobVolumes E tgts vs vm')"

text \<open>The text of a parameter array: the elements between quotes, with no escaping.\<close>

definition arrayText :: "string list \<Rightarrow> string" where
  "arrayText arr = ''['' @ dquote @ str_join (dquote @ '', '' @ dquote) arr @ dquote @ '']''"

fun jobParamTargets :: "ext \<Rightarrow> job_value \<Rightarrow> data list \<Rightarrow> wf_parameter list \<Rightarrow> wf_parameter list res" where
  "jobParamTargets E v [] ps = Inr ps"
| "jobParamTargets E v (i # is) ps =
     (if dt_name i = jv_target v then
        (if dt_type i = FlowifyParameterType then
           (case jv_value v of
              IVString s \<Rightarrow> jobParamTargets E v is (ps @ [mk_param (jv_target v) (Some (AnyStringPtr E s))])
            | _ \<Rightarrow> Inl (Errorf ''Cannot convert input value to flowify parameter %s.'' [jv_target v]))
         else if dt_type i = FlowifyParameterArrayType then
           (case jv_value v of
              IVArray arr \<Rightarrow>
                jobParamTargets E v is
                  (ps @ [mk_param (jv_target v) (Some (AnyStringPtr E (arrayText arr)))])
            | _ \<Rightarrow> Inl (Errorf ''Cannot convert input value to flowify parameter array %s.'' [jv_target v]))
         else jobParamTargets E v is ps)
      else jobParamTargets E v is ps)"

fun jobParams :: "ext \<Rightarrow> data list \<Rightarrow> job_value list \<Rightarrow> wf_parameter list \<Rightarrow> wf_parameter list res" where
  "jobParams E is [] ps = Inr ps"
| "jobParams E is (v # vs) ps = rbind (jobParamTargets E v is ps) (\<lambda>ps'. jobParams E is vs ps')"

definition specVolumes :: "ext \<Rightarrow> volume_map \<Rightarrow> volume list" where
  "specVolumes E vm = List.map_filter (map_of vm) (RangeKeys E ''volumes'' (map_keys vm))"

definition GetArgoWorkflow :: "ext \<Rightarrow> job \<Rightarrow> argo_workflow run" where
  "GetArgoWorkflow E job =
     (let wkf = job_workflow job; ins = cmp_inputs (wf_component wkf) in
      obind (Some (jobSecrets job ins [])) (\<lambda>secretMapValues.
      obind (Some (jobVolumes E ins (job_inputValues job) [])) (\<lambda>volumeMap.
      obind (ParseComponentTree E wkf secretMapValues volumeMap [] []) (\<lambda>awf.
      obind (Some (jobParams E ins (job_inputValues job) [])) (\<lambda>argoParams.
      Some (Inr (awf\<lparr>awf_arguments := mk_ports argoParams [],
                     awf_templates := RemoveDuplicatedTemplates (awf_templates awf),
                     awf_volumes := specVolumes E volumeMap\<rparr>)))))))"

end
