(* ===== verification/Workspaces.thy ===== *)
theory Workspaces
  imports Users Transpiler
begin

text \<open>
  \<^verbatim>\<open>pkg/workspace/workspace.go\<close>: who may use a workspace, how the roles of a workspace are
  written to and read from a Kubernetes config map, and the workspace client, whose list of
  workspaces follows the config maps. The Kubernetes client is a parameter: a record of the calls
  the source makes, on a cluster state of any type. \<^verbatim>\<open>encoding/json\<close> is modelled for the
  two targets the source decodes into, lists of strings and lists of lists of strings: any text
  that is not one of those is an error, whether it is not JSON at all or JSON of another shape.
\<close>

section \<open>Access\<close>

record workspace =
  ws_name :: string
  ws_description :: string
  ws_hideForUnauthorized :: bool
  ws_roles :: "role list list"

definition AdminRole :: "role \<Rightarrow> role" where
  "AdminRole userrole = userrole @ ''-admin''"

text \<open>
  The inner loop over one list of required roles. The result is the value of
  \<^verbatim>\<open>userHasRole\<close> after the loop, false when the list is empty.
\<close>

fun hasAllRoles :: "user \<Rightarrow> role list \<Rightarrow> bool \<Rightarrow> bool" where
  "hasAllRoles u [] userHasRole = userHasRole"
| "hasAllRoles u (r # rs) userHasRole =
     (if UserHasRole u r then hasAllRoles u rs True else False)"

fun accessLoop :: "user \<Rightarrow> role list list \<Rightarrow> bool" where
  "accessLoop u [] = False"
| "accessLoop u (rs # rss) =
     (if HasOwnership u rs then True
      else if \<not> hasAllRoles u rs False then accessLoop u rss
      else True)"

definition UserHasAccess :: "workspace \<Rightarrow> user \<Rightarrow> bool" where
  "UserHasAccess ws u = accessLoop u (ws_roles ws)"

fun hasAllAdminRoles :: "user \<Rightarrow> role list \<Rightarrow> bool \<Rightarrow> bool" where
  "hasAllAdminRoles u [] userHasRole = userHasRole"
| "hasAllAdminRoles u (r # rs) userHasRole =
     (if UserHasRole u (AdminRole r) then hasAllAdminRoles u rs True else False)"

fun adminAccessLoop :: "user \<Rightarrow> role list list \<Rightarrow> bool" where
  "adminAccessLoop u [] = False"
| "adminAccessLoop u (rs # rss) =
     (if HasOwnership u rs then True
      else if \<not> hasAllAdminRoles u rs False then adminAccessLoop u rss
      else True)"

definition UserHasAdminAccess :: "workspace \<Rightarrow> user \<Rightarrow> bool" where
  "UserHasAdminAccess ws u = adminAccessLoop u (ws_roles ws)"

definition UserCanSeeCustomRoles :: "workspace \<Rightarrow> user \<Rightarrow> role list \<times> bool" where
  "UserCanSeeCustomRoles ws u =
     (concat (map (filter (\<lambda>r. str_contains r ''--$'')) (ws_roles ws)), CanSeeCustomRoles u)"

text \<open>The interface: both checks are the same rule, with a different role asked for each entry.\<close>

locale access_rule =
  fixes allows :: "workspace \<Rightarrow> user \<Rightarrow> bool"
    and needed :: "role \<Rightarrow> role"
  assumes allows_iff:
    "allows ws u \<longleftrightarrow>
       (\<exists>rs \<in> set (ws_roles ws). owner_role u \<in> set rs \<or> rs \<noteq> [] \<and> needed ` set rs \<subseteq> set (usr_roles u))"
begin

lemma owner_allowed: "rs \<in> set (ws_roles ws) \<Longrightarrow> owner_role u \<in> set rs \<Longrightarrow> allows ws u"
  by (auto simp: allows_iff)

lemma mono_roles:
  "usr_email u' = usr_email u \<Longrightarrow> set (usr_roles u) \<subseteq> set (usr_roles u') \<Longrightarrow> allows ws u \<Longrightarrow> allows ws u'"
  by (simp add: allows_iff owner_role_def) (meson subset_trans)

lemma mono_lists:
  "set (ws_roles ws) \<subseteq> set (ws_roles ws') \<Longrightarrow> allows ws u \<Longrightarrow> allows ws' u"
  unfolding allows_iff by blast

lemma stranger_denied:
  "\<forall>rs \<in> set (ws_roles ws). owner_role u \<notin> set rs \<Longrightarrow> usr_roles u = [] \<Longrightarrow> \<not> allows ws u"
  by (auto simp: allows_iff)

lemma no_lists_denied: "ws_roles ws = [] \<or> ws_roles ws = [[]] \<Longrightarrow> \<not> allows ws u"
  by (auto simp: allows_iff)

end

lemma hasAllRoles_iff: "hasAllRoles u rs b \<longleftrightarrow> (if rs = [] then b else set rs \<subseteq> set (usr_roles u))"
  by (induction rs arbitrary: b) auto

lemma hasAllAdminRoles_iff:
  "hasAllAdminRoles u rs b \<longleftrightarrow> (if rs = [] then b else AdminRole ` set rs \<subseteq> set (usr_roles u))"
  by (induction rs arbitrary: b) auto

lemma accessLoop_iff:
  "accessLoop u rss \<longleftrightarrow>
     (\<exists>rs \<in> set rss. owner_role u \<in> set rs \<or> rs \<noteq> [] \<and> set rs \<subseteq> set (usr_roles u))"
  by (induction rss) (auto simp: HasOwnership_iff hasAllRoles_iff)

lemma adminAccessLoop_iff:
  "adminAccessLoop u rss \<longleftrightarrow>
     (\<exists>rs \<in> set rss. owner_role u \<in> set rs \<or> rs \<noteq> [] \<and> AdminRole ` set rs \<subseteq> set (usr_roles u))"
  by (induction rss) (auto simp: HasOwnership_iff hasAllAdminRoles_iff)

interpretation member: access_rule UserHasAccess "\<lambda>r. r"
  by unfold_locales (simp add: UserHasAccess_def accessLoop_iff)

interpretation admin: access_rule UserHasAdminAccess AdminRole
  by unfold_locales (simp add: UserHasAdminAccess_def adminAccessLoop_iff)

section \<open>Decoding lists of roles\<close>

text \<open>
  The parts of \<^verbatim>\<open>json.Unmarshal\<close> that decode a text into \<^verbatim>\<open>[]Role\<close> or
  \<^verbatim>\<open>[][]Role\<close>: white space, string literals with their escapes, brackets, commas and
  \<^verbatim>\<open>null\<close>. Config map values are valid UTF-8, so bytes above 127 are kept as they are.
\<close>

datatype jtoken = TOpen | TClose | TComma | TNull | TStr string

definition hexval :: "char \<Rightarrow> nat option" where
  "hexval c =
     (let n = of_char c :: nat in
      if 48 \<le> n \<and> n \<le> 57 then Some (n - 48)
      else if 97 \<le> n \<and> n \<le> 102 then Some (n - 87)
      else if 65 \<le> n \<and> n \<le> 70 then Some (n - 55)
      else None)"

fun hex4 :: "string \<Rightarrow> (nat \<times> string) option" where
  "hex4 (a # b # c # d # s) =
     (case (hexval a, hexval b, hexval c, hexval d) of
        (Some i, Some j, Some k, Some l) \<Rightarrow> Some (((i * 16 + j) * 16 + k) * 16 + l, s)
      | _ \<Rightarrow> None)"
| "hex4 s = None"

definition utf8 :: "nat \<Rightarrow> string" where
  "utf8 r =
     (if r < 128 then [char_of r]
      else if r < 2048 then [char_of (192 + r div 64), char_of (128 + r mod 64)]
      else if r < 65536 then
        [char_of (224 + r div 4096), char_of (128 + r div 64 mod 64), char_of (128 + r mod 64)]
      else [char_of (240 + r div 262144), char_of (128 + r div 4096 mod 64),
            char_of (128 + r div 64 mod 64), char_of (128 + r mod 64)])"

text \<open>
  A \<^verbatim>\<open>\u\<close> escape; a surrogate that is not followed by its partner becomes U+FFFD.
\<close>

definition unicode_escape :: "string \<Rightarrow> (string \<times> string) option" where
  "unicode_escape s =
     (case hex4 s of
        None \<Rightarrow> None
      | Some (r, s1) \<Rightarrow>
          if 55296 \<le> r \<and> r < 57344 then
            (case s1 of
               b # u # s2 \<Rightarrow>
                 if r < 56320 \<and> b = CHR 0x5C \<and> u = CHR ''u'' then
                   (case hex4 s2 of
                      Some (r1, s3) \<Rightarrow>
                        if 56320 \<le> r1 \<and> r1 < 57344
                        then Some (utf8 ((r - 55296) * 1024 + (r1 - 56320) + 65536), s3)
                        else Some (utf8 65533, s1)
                    | None \<Rightarrow> Some (utf8 65533, s1))
                 else Some (utf8 65533, s1)
             | _ \<Rightarrow> Some (utf8 65533, s1))
          else Some (utf8 r, s1))"

definition simple_escape :: "char \<Rightarrow> char option" where
  "simple_escape c =
     (if c = CHR 0x22 \<or> c = CHR 0x5C \<or> c = CHR ''/'' then Some c
      else if c = CHR ''b'' then Some (CHR 0x08) else if c = CHR ''f'' then Some (CHR 0x0C)
      else if c = CHR ''n'' then Some (CHR 0x0A) else if c = CHR ''r'' then Some (CHR 0x0D)
      else if c = CHR ''t'' then Some (CHR 0x09) else None)"

fun escape :: "string \<Rightarrow> (string \<times> string) option" where
  "escape [] = None"
| "escape (c # s) =
     (if c = CHR ''u'' then unicode_escape s
      else (case simple_escape c of None \<Rightarrow> None | Some x \<Rightarrow> Some ([x], s)))"

lemma hex4_length: "hex4 s = Some (r, s') \<Longrightarrow> length s' < length s"
  by (induction s rule: hex4.induct) (auto split: option.splits)

lemma unicode_escape_length: "unicode_escape s = Some (x, s') \<Longrightarrow> length s' < length s"
  by (auto simp: unicode_escape_def dest!: hex4_length split: option.splits if_splits list.splits)

lemma escape_length: "escape s = Some (x, s') \<Longrightarrow> length s' < length s"
  by (cases s) (auto dest: unicode_escape_length split: if_splits option.splits)

function str_body :: "string \<Rightarrow> (string \<times> string) option" where
  "str_body [] = None"
| "str_body (c # s) =
     (if c = CHR 0x22 then Some ([], s)
      else if c = CHR 0x5C then
        (case escape s of
           None \<Rightarrow> None
         | Some (x, s1) \<Rightarrow>
             (case str_body s1 of None \<Rightarrow> None | Some (w, s2) \<Rightarrow> Some (x @ w, s2)))
      else if (of_char c :: nat) < 32 then None
      else (case str_body s of None \<Rightarrow> None | Some (w, s2) \<Rightarrow> Some (c # w, s2)))"
  by pat_completeness auto
termination
  by (relation "measure length") (auto dest: escape_length)

lemma str_body_length: "str_body s = Some (w, s') \<Longrightarrow> length s' < length s"
proof (induction s arbitrary: w s' rule: str_body.induct)
  case (2 c s)
  consider "c = CHR 0x22" | "c = CHR 0x5C" | "c \<noteq> CHR 0x22" "c \<noteq> CHR 0x5C" by blast
  then show ?case
  proof cases
    case 2
    then obtain x s1 w1 where e: "escape s = Some (x, s1)" and b: "str_body s1 = Some (w1, s')"
      using "2.prems" by (auto split: option.splits)
    with "2.IH"(1) [of "(x, s1)" x s1] 2 escape_length [OF e] show ?thesis by fastforce
  next
    case 3
    then show ?thesis using "2.prems" "2.IH"(2) by (fastforce split: option.splits if_splits)
  qed (use "2.prems" in auto)
qed simp

definition is_space :: "char \<Rightarrow> bool" where
  "is_space c \<longleftrightarrow> c = CHR '' '' \<or> c = CHR 0x09 \<or> c = CHR 0x0A \<or> c = CHR 0x0D"

function jlex :: "string \<Rightarrow> jtoken list option" where
  "jlex [] = Some []"
| "jlex (c # s) =
     (if is_space c then jlex s
      else if c = CHR ''['' then map_option ((#) TOpen) (jlex s)
      else if c = CHR '']'' then map_option ((#) TClose) (jlex s)
      else if c = CHR '','' then map_option ((#) TComma) (jlex s)
      else if c = CHR 0x22 then
        (case str_body s of
           None \<Rightarrow> None
         | Some (w, s1) \<Rightarrow> map_option ((#) (TStr w)) (jlex s1))
      else if c = CHR ''n'' \<and> take 3 s = ''ull'' then map_option ((#) TNull) (jlex (drop 3 s))
      else None)"
  by pat_completeness auto
termination
  by (relation "measure length") (auto dest: str_body_length)

text \<open>The elements of a list after its opening bracket, and the list itself.\<close>

fun jstrings :: "jtoken list \<Rightarrow> (string list \<times> jtoken list) option" where
  "jstrings (TStr w # TComma # ts) =
     (case jstrings ts of None \<Rightarrow> None | Some (ws, ts') \<Rightarrow> Some (w # ws, ts'))"
| "jstrings (TStr w # TClose # ts) = Some ([w], ts)"
| "jstrings (TNull # TComma # ts) =
     (case jstrings ts of None \<Rightarrow> None | Some (ws, ts') \<Rightarrow> Some ('''' # ws, ts'))"
| "jstrings (TNull # TClose # ts) = Some ([''''], ts)"
| "jstrings ts = None"

fun jarray :: "jtoken list \<Rightarrow> (string list \<times> jtoken list) option" where
  "jarray (TNull # ts) = Some ([], ts)"
| "jarray (TOpen # TClose # ts) = Some ([], ts)"
| "jarray (TOpen # ts) = jstrings ts"
| "jarray ts = None"

lemma jstrings_length: "jstrings ts = Some (ws, ts') \<Longrightarrow> length ts' < length ts"
  by (induction ts arbitrary: ws ts' rule: jstrings.induct) (fastforce split: option.splits)+

lemma jarray_length: "jarray ts = Some (ws, ts') \<Longrightarrow> length ts' < length ts"
  by (induction ts rule: jarray.induct) (auto dest: jstrings_length)

function jarrays :: "jtoken list \<Rightarrow> (string list list \<times> jtoken list) option" where
  "jarrays ts =
     (case jarray ts of
        None \<Rightarrow> None
      | Some (ws, ts1) \<Rightarrow>
          (case ts1 of
             TComma # ts2 \<Rightarrow>
               (case jarrays ts2 of None \<Rightarrow> None | Some (wss, ts3) \<Rightarrow> Some (ws # wss, ts3))
           | TClose # ts2 \<Rightarrow> Some ([ws], ts2)
           | _ \<Rightarrow> None))"
  by pat_completeness auto
termination
  by (relation "measure length") (auto dest: jarray_length)

declare jarrays.simps [simp del]

definition json_error :: goerr where
  "json_error = Errorf ''invalid character or type in JSON text'' []"

definition unmarshal_strings :: "string \<Rightarrow> role list res" where
  "unmarshal_strings text =
     (case jlex text of
        None \<Rightarrow> Inl json_error
      | Some ts \<Rightarrow> (case jarray ts of Some (ws, []) \<Rightarrow> Inr ws | _ \<Rightarrow> Inl json_error))"

definition unmarshal_arrays :: "string \<Rightarrow> role list list res" where
  "unmarshal_arrays text =
     (case jlex text of
        None \<Rightarrow> Inl json_error
      | Some [TNull] \<Rightarrow> Inr []
      | Some [TOpen, TClose] \<Rightarrow> Inr []
      | Some (TOpen # ts) \<Rightarrow> (case jarrays ts of Some (wss, []) \<Rightarrow> Inr wss | _ \<Rightarrow> Inl json_error)
      | _ \<Rightarrow> Inl json_error)"

section \<open>Config maps\<close>

record namespace_obj =
  ns_name :: string
  ns_labels :: "string gomap"

record configmap =
  cm_name :: string
  cm_namespace :: string
  cm_labels :: "string gomap"
  cm_data :: "string gomap"
  cm_resourceVersion :: string

definition workspaceConfigMapLabel :: string where
  "workspaceConfigMapLabel = ''app.kubernetes.io/component''"

definition workspaceConfigMapLabelSelector :: string where
  "workspaceConfigMapLabelSelector = ''workspace-config''"

definition roleDescriptionConfigMapName :: string where
  "roleDescriptionConfigMapName = ''role-descriptions''"

definition getAccessTokens :: "configmap \<Rightarrow> role list list res" where
  "getAccessTokens cm =
     (let roleString = zget (cm_data cm) ''roles'' in
      if 1 < count_list roleString (CHR ''['') then
        wrapres ''cannot unmarshal token array of arrays'' (unmarshal_arrays roleString)
      else
        (case unmarshal_strings roleString of
           Inl e \<Rightarrow> Inl (Wrap ''cannot unmarshal token array of arrays'' e)
         | Inr tokens \<Rightarrow> Inr [tokens]))"

text \<open>
  The text of a role list as \<^verbatim>\<open>Create\<close> and \<^verbatim>\<open>Update\<close> write it: every role between
  quotes and followed by a comma and a space, then the last two bytes cut off. With no roles the
  buffer is one byte long and the slice bound is negative.
\<close>

definition rolesText :: "string list \<Rightarrow> string res" where
  "rolesText roles =
     (let buf = ''['' @ concat (map (\<lambda>role. dquote @ role @ dquote @ '', '') roles) in
      if length buf < 2 then Inl (GoPanic ''slice bounds out of range'')
      else Inr (take (length buf - 2) buf @ '']''))"

text \<open>Decoding \<^verbatim>\<open>hideForUnauthorized\<close>: the error is dropped, so any other text is false.\<close>

definition unmarshal_bool :: "string \<Rightarrow> bool" where
  "unmarshal_bool s \<longleftrightarrow> rev (dropWhile is_space (rev (dropWhile is_space s))) = ''true''"

section \<open>The cluster\<close>

record 'k kube =
  NsGet :: "string \<Rightarrow> 'k \<Rightarrow> namespace_obj res"
  NsCreate :: "namespace_obj \<Rightarrow> 'k \<Rightarrow> unit res \<times> 'k"
  NsUpdate :: "namespace_obj \<Rightarrow> 'k \<Rightarrow> unit res \<times> 'k"
  NsDelete :: "string \<Rightarrow> 'k \<Rightarrow> unit res \<times> 'k"
  CmGet :: "string \<Rightarrow> string \<Rightarrow> 'k \<Rightarrow> configmap \<times> goerr option"
  CmCreate :: "string \<Rightarrow> configmap \<Rightarrow> 'k \<Rightarrow> unit res \<times> 'k"
  CmUpdate :: "string \<Rightarrow> configmap \<Rightarrow> 'k \<Rightarrow> unit res \<times> 'k"
  CmDelete :: "string \<Rightarrow> string \<Rightarrow> 'k \<Rightarrow> unit res \<times> 'k"
  CmList :: "string \<Rightarrow> string gomap \<Rightarrow> 'k \<Rightarrow> configmap list \<times> goerr option"
  CmListerGet :: "string \<Rightarrow> string \<Rightarrow> 'k \<Rightarrow> configmap option \<times> goerr option"
  IsNotFound :: "goerr \<Rightarrow> bool"

record ws_data =
  wd_name :: string
  wd_roles :: "string list"
  wd_hideForUnauthorized :: string
  wd_labels :: "string gomap"
  wd_namespace :: string

record workspaceImpl =
  wi_namespace :: string
  wi_ws :: "workspace list"
  wi_roleDescriptions :: "string gomap"

definition cm_workspace :: "configmap \<Rightarrow> role list list \<Rightarrow> workspace" where
  "cm_workspace cm roles =
     \<lparr>ws_name = cm_name cm, ws_description = zget (cm_data cm) ''description'',
      ws_hideForUnauthorized = unmarshal_bool (zget (cm_data cm) ''hideForUnauthorized''),
      ws_roles = roles\<rparr>"

fun workspacesOf :: "configmap list \<Rightarrow> workspace list" where
  "workspacesOf [] = []"
| "workspacesOf (cm # cms) =
     (case getAccessTokens cm of
        Inl e \<Rightarrow> workspacesOf cms
      | Inr roles \<Rightarrow> cm_workspace cm roles # workspacesOf cms)"

text \<open>An error of the lister is only logged; the list is then the empty one.\<close>

definition listWorkspaceConfigMaps :: "'k kube \<Rightarrow> string \<Rightarrow> 'k \<Rightarrow> workspace list res" where
  "listWorkspaceConfigMaps K namespace k =
     (case CmList K namespace [(workspaceConfigMapLabel, workspaceConfigMapLabelSelector)] k of
        (configMaps, err) \<Rightarrow> Inr (workspacesOf configMaps))"

definition UpdateConfigMaps :: "'k kube \<Rightarrow> 'k \<Rightarrow> workspaceImpl \<Rightarrow> workspaceImpl" where
  "UpdateConfigMaps K k w =
     (case listWorkspaceConfigMaps K (wi_namespace w) k of
        Inl e \<Rightarrow> w
      | Inr ws \<Rightarrow>
          (case CmListerGet K (wi_namespace w) roleDescriptionConfigMapName k of
             (roleDescCM, err) \<Rightarrow>
               if err \<noteq> None \<and> \<not> IsNotFound K (the err) then w
               else (case roleDescCM of
                       None \<Rightarrow> w\<lparr>wi_ws := ws\<rparr>
                     | Some cm \<Rightarrow> w\<lparr>wi_ws := ws, wi_roleDescriptions := cm_data cm\<rparr>)))"

definition ListWorkspaces :: "workspaceImpl \<Rightarrow> workspace list" where
  "ListWorkspaces w = wi_ws w"

definition GetNamespace :: "workspaceImpl \<Rightarrow> string" where
  "GetNamespace w = wi_namespace w"

text \<open>The informer's event handlers.\<close>

datatype cm_event = CmAdded configmap | CmDeleted configmap | CmUpdated configmap configmap

fun handleEvent :: "'k kube \<Rightarrow> 'k \<Rightarrow> cm_event \<Rightarrow> workspaceImpl \<Rightarrow> workspaceImpl" where
  "handleEvent K k (CmAdded cm) w = UpdateConfigMaps K k w"
| "handleEvent K k (CmDeleted cm) w = UpdateConfigMaps K k w"
| "handleEvent K k (CmUpdated cm cmNew) w =
     (if cm_resourceVersion cm = cm_resourceVersion cmNew then w
      else if zget (cm_labels cmNew) ''app.kubernetes.io/component'' = ''workspace-config''
      then UpdateConfigMaps K k w
      else w)"

definition NewWorkspaceClient :: "'k kube \<Rightarrow> string \<Rightarrow> 'k \<Rightarrow> workspaceImpl" where
  "NewWorkspaceClient K namespace k =
     UpdateConfigMaps K k \<lparr>wi_namespace = namespace, wi_ws = [], wi_roleDescriptions = []\<rparr>"

definition workspace_cm_data :: "ws_data \<Rightarrow> string \<Rightarrow> string gomap" where
  "workspace_cm_data d roles =
     [(''roles'', roles), (''projectName'', wd_name d), (''hideForUnauthorized'', wd_hideForUnauthorized d)]"

definition ws_Create :: "'k kube \<Rightarrow> ws_data \<Rightarrow> 'k \<Rightarrow> string res \<times> 'k" where
  "ws_Create K d k =
     (case NsGet K (wd_namespace d) k of
        Inl e \<Rightarrow> (Inl (Wrap ''error %s'' e), k)
      | Inr ns \<Rightarrow>
          (case NsCreate K \<lparr>ns_name = wd_name d, ns_labels = ns_labels ns\<rparr> k of
             (Inl e, k1) \<Rightarrow> (Inl (Wrap ''error %s'' e), k1)
           | (Inr _, k1) \<Rightarrow>
               (case rolesText (wd_roles d) of
                  Inl e \<Rightarrow> (Inl e, k1)
                | Inr roles \<Rightarrow>
                    (case CmCreate K (wd_namespace d)
                            \<lparr>cm_name = wd_name d, cm_namespace = wd_namespace d,
                             cm_labels = [(''app.kubernetes.io/component'', ''workspace-config''),
                                          (''app.kubernetes.io/part-of'', ''flowify'')],
                             cm_data = workspace_cm_data d roles, cm_resourceVersion = ''''\<rparr> k1 of
                       (Inl e, k2) \<Rightarrow> (Inl (Wrap ''error %s'' e), k2)
                     | (Inr _, k2) \<Rightarrow>
                         (Inr (''The workspace '' @ wd_name d @ '' has been created''), k2)))))"

text \<open>The error of reading the config map is overwritten before it is looked at.\<close>

definition ws_Update :: "'k kube \<Rightarrow> ws_data \<Rightarrow> 'k \<Rightarrow> string res \<times> 'k" where
  "ws_Update K d k =
     (case NsGet K (wd_name d) k of
        Inl e \<Rightarrow> (Inl (Wrap ''error %s'' e), k)
      | Inr ns \<Rightarrow>
          (case NsUpdate K (ns\<lparr>ns_labels := wd_labels d\<rparr>) k of
             (Inl e, k1) \<Rightarrow> (Inl (Wrap ''error %s, NS %s'' e), k1)
           | (Inr _, k1) \<Rightarrow>
               (case rolesText (wd_roles d) of
                  Inl e \<Rightarrow> (Inl e, k1)
                | Inr roles \<Rightarrow>
                    (case CmUpdate K (wd_namespace d)
                            ((fst (CmGet K (wd_namespace d) (wd_name d) k1))
                               \<lparr>cm_name := wd_name d, cm_namespace := wd_namespace d,
                                cm_data := workspace_cm_data d roles\<rparr>) k1 of
                       (Inl e, k2) \<Rightarrow> (Inl (Wrap ''error %s'' e), k2)
                     | (Inr _, k2) \<Rightarrow>
                         (Inr (''The workspace '' @ ns_name ns @ '' has been updated''), k2)))))"

definition ws_Delete :: "'k kube \<Rightarrow> string \<Rightarrow> string \<Rightarrow> 'k \<Rightarrow> string res \<times> 'k" where
  "ws_Delete K namespace wsName k =
     (case NsDelete K wsName k of
        (Inl e, k1) \<Rightarrow> (Inl (Wrap ''error %s'' e), k1)
      | (Inr _, k1) \<Rightarrow>
          (case CmDelete K namespace wsName k1 of
             (Inl e, k2) \<Rightarrow> (Inl (Wrap ''error %s'' e), k2)
           | (Inr _, k2) \<Rightarrow> (Inr ''Success'', k2)))"

section \<open>Role texts\<close>

lemma roles_buffer:
  "roles \<noteq> [] \<Longrightarrow> concat (map (\<lambda>role. dquote @ role @ dquote @ '', '') roles) =
     dquote @ str_join (dquote @ '', '' @ dquote) roles @ dquote @ '', ''"
  by (induction roles rule: induct_list012) (simp_all add: dquote_def)

lemma rolesText_arrayText: "roles \<noteq> [] \<Longrightarrow> rolesText roles = Inr (arrayText roles)"
  unfolding rolesText_def Let_def roles_buffer arrayText_def by (simp add: dquote_def)

definition plain :: "string \<Rightarrow> bool" where
  "plain s \<longleftrightarrow> (\<forall>c \<in> set s. 32 \<le> (of_char c :: nat) \<and> c \<noteq> CHR 0x22 \<and> c \<noteq> CHR 0x5C)"

lemma str_body_plain: "plain w \<Longrightarrow> str_body (w @ CHR 0x22 # s) = Some (w, s)"
  by (induction w) (auto simp: plain_def)

lemma jlex_string: "plain w \<Longrightarrow> jlex (CHR 0x22 # w @ CHR 0x22 # s) = map_option ((#) (TStr w)) (jlex s)"
  by (simp add: str_body_plain is_space_def)

fun role_tokens :: "string list \<Rightarrow> jtoken list" where
  "role_tokens [] = [TClose]"
| "role_tokens [r] = [TStr r, TClose]"
| "role_tokens (r # rs) = TStr r # TComma # role_tokens rs"

lemma jlex_roles:
  "roles \<noteq> [] \<Longrightarrow> \<forall>r \<in> set roles. plain r \<Longrightarrow>
   jlex (dquote @ str_join (dquote @ '', '' @ dquote) roles @ dquote @ '']'') = Some (role_tokens roles)"
proof (induction roles rule: induct_list012)
  case (2 w)
  then show ?case by (simp add: dquote_def jlex_string del: jlex.simps(2)) (simp add: is_space_def)
next
  case (3 w v ws)
  have "jlex (CHR 0x22 # w @ CHR 0x22 # CHR '','' # CHR '' '' #
      (dquote @ str_join (dquote @ '', '' @ dquote) (v # ws) @ dquote @ '']'')) = Some (role_tokens (w # v # ws))"
    using 3 by (subst jlex_string) (simp_all add: is_space_def)
  then show ?case by (simp add: dquote_def)
qed simp

lemma jstrings_roles: "roles \<noteq> [] \<Longrightarrow> jstrings (role_tokens roles) = Some (roles, [])"
  by (induction roles rule: role_tokens.induct) auto

lemma jlex_arrayText:
  "roles \<noteq> [] \<Longrightarrow> \<forall>r \<in> set roles. plain r \<Longrightarrow> jlex (arrayText roles) = Some (TOpen # role_tokens roles)"
  unfolding arrayText_def using jlex_roles by (simp add: is_space_def dquote_def)

lemma unmarshal_roles:
  assumes "roles \<noteq> []" and "\<forall>r \<in> set roles. plain r"
  shows "unmarshal_strings (arrayText roles) = Inr roles"
proof -
  have "jarray (TOpen # role_tokens roles) = jstrings (role_tokens roles)"
    using assms(1) by (cases roles rule: role_tokens.cases) auto
  then show ?thesis
    by (simp add: unmarshal_strings_def jlex_arrayText [OF assms] jstrings_roles [OF assms(1)])
qed

lemma count_list_join:
  "count_list sep c = 0 \<Longrightarrow> count_list (str_join sep ws) c = sum_list (map (\<lambda>w. count_list w c) ws)"
  by (induction sep ws rule: str_join.induct) auto

lemma count_arrayText:
  "count_list (arrayText roles) (CHR ''['') = Suc (sum_list (map (\<lambda>w. count_list w (CHR ''['')) roles))"
  by (simp add: arrayText_def dquote_def count_list_join)

lemma count_brackets:
  "1 < count_list (arrayText roles) (CHR ''['') \<longleftrightarrow> (\<exists>r \<in> set roles. CHR ''['' \<in> set r)"
proof -
  have "sum_list (map (\<lambda>w. count_list w (CHR ''['')) roles) \<noteq> 0 \<longleftrightarrow> (\<exists>r \<in> set roles. CHR ''['' \<in> set r)"
    by (auto simp: count_list_0_iff)
  moreover have "1 < Suc n \<longleftrightarrow> n \<noteq> 0" for n by auto
  ultimately show ?thesis unfolding count_arrayText by (simp only:)
qed

section \<open>The cluster's contract\<close>

text \<open>
  What the source relies on of the cluster, over an abstraction \<open>view\<close> that lists the config maps:
  a config map that was created is stored with the name, namespace, labels and data it was given; a
  listing without error returns the config maps of the namespace whose labels match the selector.
\<close>

definition cm_same :: "configmap \<Rightarrow> configmap \<Rightarrow> bool" where
  "cm_same a b \<longleftrightarrow> cm_name a = cm_name b \<and> cm_namespace a = cm_namespace b \<and> cm_labels a = cm_labels b
     \<and> cm_data a = cm_data b"

definition selected :: "string \<Rightarrow> string gomap \<Rightarrow> configmap \<Rightarrow> bool" where
  "selected namespace sel cm \<longleftrightarrow>
     cm_namespace cm = namespace \<and> (\<forall>(l, v) \<in> set sel. map_of (cm_labels cm) l = Some v)"

definition kube_ok :: "'k kube \<Rightarrow> ('k \<Rightarrow> configmap list) \<Rightarrow> bool" where
  "kube_ok K view \<longleftrightarrow>
     (\<forall>ns cm k u k'. CmCreate K ns cm k = (Inr u, k') \<longrightarrow> (\<exists>cm'. cm_same cm' cm \<and> set (view k') = insert cm' (set (view k))))
     \<and> (\<forall>ns sel k cms. CmList K ns sel k = (cms, None) \<longrightarrow> set cms = {cm \<in> set (view k). selected ns sel cm})"

lemma workspacesOf_set:
  "set (workspacesOf cms) = {cm_workspace cm roles | cm roles. cm \<in> set cms \<and> getAccessTokens cm = Inr roles}"
  by (induction cms) (auto split: sum.splits)

lemma UpdateConfigMaps_fresh:
  assumes "CmListerGet K (wi_namespace w) roleDescriptionConfigMapName k = (d, e)"
    and "e = None \<or> IsNotFound K (the e)"
  shows "wi_ws (UpdateConfigMaps K k w) =
      workspacesOf (fst (CmList K (wi_namespace w) [(workspaceConfigMapLabel, workspaceConfigMapLabelSelector)] k))
    \<and> wi_namespace (UpdateConfigMaps K k w) = wi_namespace w"
  using assms
  by (auto simp: UpdateConfigMaps_def listWorkspaceConfigMaps_def split: prod.splits option.splits)

lemma ws_Create_success:
  assumes "ws_Create K d k = (Inr m, k2)"
  obtains k1 roles u cm where "rolesText (wd_roles d) = Inr roles"
    and "CmCreate K (wd_namespace d) cm k1 = (Inr u, k2)"
    and "cm_name cm = wd_name d" "cm_namespace cm = wd_namespace d"
    and "cm_data cm = workspace_cm_data d roles"
    and "map_of (cm_labels cm) workspaceConfigMapLabel = Some workspaceConfigMapLabelSelector"
  using assms
  by (auto simp: ws_Create_def workspaceConfigMapLabel_def workspaceConfigMapLabelSelector_def
      split: sum.splits prod.splits)

section \<open>Properties\<close>

text \<open>
  C13: the rule of access. A user has access to a workspace exactly if one of its role lists names
  the user as owner, or is not empty and holds only roles of the user; admin access is the same with
  the admin role in place of each role. An empty role list lets nobody in.
\<close>

theorem access_rules:
  "(UserHasAccess ws u \<longleftrightarrow>
      (\<exists>rs \<in> set (ws_roles ws). usr_email u @ ''--$owner'' \<in> set rs \<or> rs \<noteq> [] \<and> set rs \<subseteq> set (usr_roles u)))
   \<and> (UserHasAdminAccess ws u \<longleftrightarrow>
      (\<exists>rs \<in> set (ws_roles ws). usr_email u @ ''--$owner'' \<in> set rs
         \<or> rs \<noteq> [] \<and> (\<lambda>r. r @ ''-admin'') ` set rs \<subseteq> set (usr_roles u)))"
proof -
  have "owner_role u = usr_email u @ ''--$owner''" by (simp add: owner_role_def CustomRolePattern_def)
  then show ?thesis
    using member.allows_iff [of ws u] admin.allows_iff [of ws u] by (simp add: AdminRole_def [abs_def])
qed

definition ex_ws :: workspace where
  "ex_ws = \<lparr>ws_name = ''sandbox'', ws_description = '''', ws_hideForUnauthorized = False,
     ws_roles = [[''dev'', ''ops''], [''eve@x--$owner'']]\<rparr>"

definition ex_user :: "string \<Rightarrow> role list \<Rightarrow> user" where
  "ex_user m rs = \<lparr>usr_uid = ''0'', usr_name = ''n'', usr_email = m, usr_roles = rs\<rparr>"

theorem access_rules_witness:
  "UserHasAccess ex_ws (ex_user ''a@x'' [''ops'', ''dev'']) \<and> \<not> UserHasAccess ex_ws (ex_user ''a@x'' [''dev''])"
  using access_rules by (simp add: ex_ws_def ex_user_def)

text \<open>
  Access never shrinks when a user gains roles: a user with the same e-mail and at least the
  roles of another has every access, as member and as admin, that the other has.
\<close>

theorem access_monotone:
  assumes "usr_email u' = usr_email u" and "set (usr_roles u) \<subseteq> set (usr_roles u')"
  shows "(UserHasAccess ws u \<longrightarrow> UserHasAccess ws u') \<and> (UserHasAdminAccess ws u \<longrightarrow> UserHasAdminAccess ws u')"
  using member.mono_roles [OF assms] admin.mono_roles [OF assms] by blast

theorem access_monotone_witness:
  "UserHasAccess ex_ws (ex_user ''a@x'' [''dev'', ''ops'']) \<longrightarrow> UserHasAccess ex_ws (ex_user ''a@x'' [''x'', ''dev'', ''ops''])"
proof -
  have "usr_email (ex_user ''a@x'' [''x'', ''dev'', ''ops'']) = usr_email (ex_user ''a@x'' [''dev'', ''ops''])"
    "set (usr_roles (ex_user ''a@x'' [''dev'', ''ops''])) \<subseteq> set (usr_roles (ex_user ''a@x'' [''x'', ''dev'', ''ops'']))"
    by (auto simp: ex_user_def)
  from access_monotone [OF this, of ex_ws] show ?thesis by blast
qed

text \<open>
  the roles a workspace is created with are the roles it is read back with, if there is at least
  one and they hold no quote, backslash or control character, and if none of them holds an opening
  bracket; a role with an opening bracket makes the text unreadable, so the workspace is skipped.
\<close>

theorem roles_roundtrip:
  assumes "roles \<noteq> []" and "\<forall>r \<in> set roles. plain r"
    and "rolesText roles = Inr text" and "zget (cm_data cm) ''roles'' = text"
  shows "if \<exists>r \<in> set roles. CHR ''['' \<in> set r then \<exists>e. getAccessTokens cm = Inl e
    else getAccessTokens cm = Inr [roles]"
proof -
  have t: "text = arrayText roles" using rolesText_arrayText [OF assms(1)] assms(3) by simp
  show ?thesis
  proof (cases "\<exists>r \<in> set roles. CHR ''['' \<in> set r")
    case True
    have "unmarshal_arrays (arrayText roles) = Inl json_error"
      using assms(1) jlex_arrayText [OF assms(1,2)]
      by (cases roles rule: role_tokens.cases) (simp_all add: unmarshal_arrays_def jarrays.simps)
    with True count_brackets [of roles] assms(4) t show ?thesis by (simp add: getAccessTokens_def)
  next
    case False
    with unmarshal_roles [OF assms(1,2)] count_brackets [of roles] assms(4) t show ?thesis
      by (auto simp: getAccessTokens_def)
  qed
qed

definition ex_cm :: "string \<Rightarrow> configmap" where
  "ex_cm t = \<lparr>cm_name = ''w'', cm_namespace = ''argo'', cm_labels = [], cm_data = [(''roles'', t)],
     cm_resourceVersion = ''1''\<rparr>"

theorem roles_roundtrip_witness:
  "\<exists>t. rolesText [''dev'', ''ops''] = Inr t \<and> getAccessTokens (ex_cm t) = Inr [[''dev'', ''ops'']]"
proof -
  have r: "rolesText [''dev'', ''ops''] = Inr (arrayText [''dev'', ''ops''])"
    by (rule rolesText_arrayText) simp
  have "getAccessTokens (ex_cm (arrayText [''dev'', ''ops''])) = Inr [[''dev'', ''ops'']]"
    using roles_roundtrip [OF _ _ r, of "ex_cm (arrayText [''dev'', ''ops''])"]
    by (simp add: plain_def ex_cm_def zget_def)
  with r show ?thesis by blast
qed

definition created_workspace :: "ws_data \<Rightarrow> workspace" where
  "created_workspace d =
     \<lparr>ws_name = wd_name d, ws_description = '''',
      ws_hideForUnauthorized = unmarshal_bool (wd_hideForUnauthorized d), ws_roles = [wd_roles d]\<rparr>"

text \<open>
  C33: when a workspace that was created is the workspace the server lists. After a successful
  \<^verbatim>\<open>Create\<close> in the namespace the server watches, with a list of roles that is not empty and
  whose names are plain and have no opening bracket, the handler of the config map's event leaves the
  workspace in the client's list with exactly the roles asked for, provided that the lister of config maps
  reports no error. A list that is empty makes \<^verbatim>\<open>Create\<close> panic (below); with a bracket in a
  role, or an error of the lister, the workspace is not listed.
\<close>

theorem created_workspace_is_listed:
  assumes "kube_ok K view" and "ws_Create K d k = (Inr m, k')" and "wi_namespace w = wd_namespace d"
    and "\<forall>r \<in> set (wd_roles d). plain r \<and> CHR ''['' \<notin> set r" and "wd_roles d \<noteq> []"
    and "CmListerGet K (wi_namespace w) roleDescriptionConfigMapName k' = (desc, None)"
    and "\<forall>sel. snd (CmList K (wi_namespace w) sel k') = None"
  shows "created_workspace d \<in> set (ListWorkspaces (handleEvent K k' (CmAdded cm) w))"
proof -
  let ?sel = "[(workspaceConfigMapLabel, workspaceConfigMapLabelSelector)]"
  obtain k1 roles u cm0 where r: "rolesText (wd_roles d) = Inr roles"
    and c: "CmCreate K (wd_namespace d) cm0 k1 = (Inr u, k')"
    and n: "cm_name cm0 = wd_name d" and ns: "cm_namespace cm0 = wd_namespace d"
    and dat: "cm_data cm0 = workspace_cm_data d roles"
    and lab: "map_of (cm_labels cm0) workspaceConfigMapLabel = Some workspaceConfigMapLabelSelector"
    by (rule ws_Create_success [OF assms(2)])
  from assms(1) c obtain cm' where cm': "cm_same cm' cm0" "cm' \<in> set (view k')"
    unfolding kube_ok_def by blast
  obtain cms where cms: "CmList K (wi_namespace w) ?sel k' = (cms, None)"
    using assms(7) by (metis prod.collapse)
  have "cm' \<in> set cms"
    using assms(1,3) cms cm' ns lab unfolding kube_ok_def by (auto simp: cm_same_def selected_def)
  moreover have "getAccessTokens cm' = Inr [wd_roles d]"
    using roles_roundtrip [OF assms(5) _ r, of cm'] assms(4) cm'(1) dat
    by (auto simp: cm_same_def workspace_cm_data_def zget_def)
  ultimately have "cm_workspace cm' [wd_roles d] \<in> set (workspacesOf cms)"
    by (auto simp: workspacesOf_set)
  moreover have "cm_workspace cm' [wd_roles d] = created_workspace d"
    using cm'(1) n dat by (simp add: cm_workspace_def created_workspace_def cm_same_def workspace_cm_data_def zget_def)
  moreover have "wi_ws (UpdateConfigMaps K k' w) = workspacesOf cms"
    using UpdateConfigMaps_fresh [OF assms(6)] cms by simp
  ultimately show ?thesis by (simp add: ListWorkspaces_def)
qed

text \<open>A cluster that keeps its objects in two lists, on which witnesses are evaluated.\<close>

type_synonym mem_cluster = "namespace_obj list \<times> configmap list"

definition mem_kube :: "mem_cluster kube" where
  "mem_kube =
     \<lparr>NsGet = (\<lambda>n k. case find (\<lambda>o1. ns_name o1 = n) (fst k) of None \<Rightarrow> Inl (ExtErr ''not found'') | Some x \<Rightarrow> Inr x),
      NsCreate = (\<lambda>x k. (Inr (), (x # fst k, snd k))),
      NsUpdate = (\<lambda>x k. (Inr (), (map (\<lambda>y. if ns_name y = ns_name x then x else y) (fst k), snd k))),
      NsDelete = (\<lambda>n k. (Inr (), (filter (\<lambda>y. ns_name y \<noteq> n) (fst k), snd k))),
      CmGet = (\<lambda>ns n k. case find (\<lambda>c. cm_namespace c = ns \<and> cm_name c = n) (snd k) of
                 Some c \<Rightarrow> (c, None)
               | None \<Rightarrow> (\<lparr>cm_name = '''', cm_namespace = '''', cm_labels = [], cm_data = [], cm_resourceVersion = ''''\<rparr>,
                          Some (ExtErr ''not found''))),
      CmCreate = (\<lambda>ns c k. (Inr (), (fst k, c # snd k))),
      CmUpdate = (\<lambda>ns c k. (Inr (), (fst k, map (\<lambda>y. if cm_name y = cm_name c then c else y) (snd k)))),
      CmDelete = (\<lambda>ns n k. (Inr (), (fst k, filter (\<lambda>y. cm_name y \<noteq> n) (snd k)))),
      CmList = (\<lambda>ns sel k. (filter (\<lambda>c. cm_namespace c = ns
                 \<and> list_all (\<lambda>p. map_of (cm_labels c) (fst p) = Some (snd p)) sel) (snd k), None)),
      CmListerGet = (\<lambda>ns n k. (find (\<lambda>c. cm_namespace c = ns \<and> cm_name c = n) (snd k), None)),
      IsNotFound = (\<lambda>e. e = ExtErr ''not found'')\<rparr>"

lemma mem_kube_ok: "kube_ok mem_kube snd"
  by (auto simp: kube_ok_def mem_kube_def cm_same_def selected_def list_all_iff)

definition ex_cluster :: mem_cluster where
  "ex_cluster = ([\<lparr>ns_name = ''argo'', ns_labels = []\<rparr>], [])"

definition ex_ws_data :: "string list \<Rightarrow> ws_data" where
  "ex_ws_data roles = \<lparr>wd_name = ''team'', wd_roles = roles, wd_hideForUnauthorized = ''true'', wd_labels = [],
     wd_namespace = ''argo''\<rparr>"

definition ex_impl :: workspaceImpl where
  "ex_impl = \<lparr>wi_namespace = ''argo'', wi_ws = [], wi_roleDescriptions = []\<rparr>"

theorem created_workspace_is_listed_witness:
  "created_workspace (ex_ws_data [''dev'']) \<in> set (ListWorkspaces (handleEvent mem_kube
     (snd (ws_Create mem_kube (ex_ws_data [''dev'']) ex_cluster)) (CmAdded (ex_cm '''')) ex_impl))"
proof (rule created_workspace_is_listed [OF mem_kube_ok,
      where m = "''The workspace team has been created''" and desc = None])
  show "ws_Create mem_kube (ex_ws_data [''dev'']) ex_cluster =
      (Inr ''The workspace team has been created'', snd (ws_Create mem_kube (ex_ws_data [''dev'']) ex_cluster))"
    by code_simp
  show "CmListerGet mem_kube (wi_namespace ex_impl) roleDescriptionConfigMapName
      (snd (ws_Create mem_kube (ex_ws_data [''dev'']) ex_cluster)) = (None, None)"
    by code_simp
qed (simp_all add: ex_impl_def ex_ws_data_def plain_def mem_kube_def)

text \<open>
  Creating a workspace without roles panics on a negative slice bound, after the namespace has
  been created: the cluster is left with the namespace and without the config map.
\<close>

theorem create_without_roles_panics:
  assumes "wd_roles d = []" and "NsGet K (wd_namespace d) k = Inr ns"
    and "NsCreate K \<lparr>ns_name = wd_name d, ns_labels = ns_labels ns\<rparr> k = (Inr u, k1)"
  shows "\<exists>msg. ws_Create K d k = (Inl (GoPanic msg), k1)"
  using assms by (simp add: ws_Create_def rolesText_def)

theorem create_without_roles_panics_witness:
  "\<exists>msg. ws_Create mem_kube (ex_ws_data []) ex_cluster =
     (Inl (GoPanic msg), (\<lparr>ns_name = ''team'', ns_labels = []\<rparr> # fst ex_cluster, []))"
  by (rule create_without_roles_panics [where ns = "\<lparr>ns_name = ''argo'', ns_labels = []\<rparr>" and u = "()"])
    (simp_all add: ex_ws_data_def mem_kube_def ex_cluster_def)

definition fresh :: "'k kube \<Rightarrow> 'k \<Rightarrow> workspaceImpl \<Rightarrow> bool" where
  "fresh K k w \<longleftrightarrow> ListWorkspaces w =
     workspacesOf (fst (CmList K (wi_namespace w) [(workspaceConfigMapLabel, workspaceConfigMapLabelSelector)] k))"

text \<open>
  the client's list follows the config maps. After every event it is the list read from the
  cluster at that moment, unless the event is an update with an unchanged resource version or one
  whose new object does not carry the workspace label, which leaves the client as it was.
\<close>

theorem events_refresh_the_list:
  assumes "CmListerGet K (wi_namespace w) roleDescriptionConfigMapName k = (desc, e)"
    and "e = None \<or> IsNotFound K (the e)"
  shows "fresh K k (handleEvent K k ev w)
    \<or> handleEvent K k ev w = w \<and> (\<exists>cm cmNew. ev = CmUpdated cm cmNew
         \<and> (cm_resourceVersion cm = cm_resourceVersion cmNew
            \<or> zget (cm_labels cmNew) workspaceConfigMapLabel \<noteq> workspaceConfigMapLabelSelector))"
proof -
  have "fresh K k (UpdateConfigMaps K k w)"
    using UpdateConfigMaps_fresh [OF assms] by (simp add: fresh_def ListWorkspaces_def)
  then show ?thesis
    by (cases ev) (auto simp: workspaceConfigMapLabel_def workspaceConfigMapLabelSelector_def)
qed

theorem events_refresh_the_list_witness:
  "fresh mem_kube ex_cluster (handleEvent mem_kube ex_cluster (CmAdded (ex_cm '''')) ex_impl)"
proof -
  have "CmListerGet mem_kube (wi_namespace ex_impl) roleDescriptionConfigMapName ex_cluster = (None, None)"
    by code_simp
  from events_refresh_the_list [OF this, of "CmAdded (ex_cm '''')"] show ?thesis by simp
qed

definition ex_labelled :: "string gomap \<Rightarrow> string \<Rightarrow> configmap" where
  "ex_labelled ls v = \<lparr>cm_name = ''team'', cm_namespace = ''argo'', cm_labels = ls,
     cm_data = [(''roles'', arrayText [''dev''])], cm_resourceVersion = v\<rparr>"

text \<open>
  Taking the workspace label off a config map does not withdraw access. The informer reports the
  update, the handler ignores it because the new object has no label, and the client goes on listing
  the workspace, with its members, although the cluster no longer has it.
\<close>

theorem unlabelled_update_is_stale:
  "let old = ex_labelled [(workspaceConfigMapLabel, workspaceConfigMapLabelSelector)] ''1'';
       new = ex_labelled [] ''2'';
       w = NewWorkspaceClient mem_kube ''argo'' ([], [old]);
       w' = handleEvent mem_kube ([], [new]) (CmUpdated old new) w
   in map ws_name (ListWorkspaces w') = [''team'']
    \<and> list_all (\<lambda>ws. UserHasAccess ws (ex_user ''a@x'' [''dev''])) (ListWorkspaces w')
    \<and> \<not> fresh mem_kube ([], [new]) w'
    \<and> ListWorkspaces (UpdateConfigMaps mem_kube ([], [new]) w) = []"
  by code_simp

end
