(* ===== verification/Authorization.thy ===== *)
theory Authorization
  imports Workspaces
begin

text \<open>
  \<^verbatim>\<open>auth/auth.go\<close> and \<^verbatim>\<open>auth/azure_token.go\<close>: the role authorizer, which maps the
  access level of a user in a workspace to actions on secrets and volumes, and the authentication of
  a request by a bearer token. The token library is a parameter; what the source relies on of it is
  stated as \<open>jwt_ok\<close>.
\<close>

section \<open>The role authorizer\<close>

record AccessLevel =
  al_user :: bool
  al_admin :: bool

definition ReadAction :: string where "ReadAction = ''read''"
definition WriteAction :: string where "WriteAction = ''write''"
definition DeleteAction :: string where "DeleteAction = ''delete''"
definition ListAction :: string where "ListAction = ''list''"
definition SecretsSubject :: string where "SecretsSubject = ''secrets''"
definition VolumesSubject :: string where "VolumesSubject = ''volumes''"

lemmas auth_names = ReadAction_def WriteAction_def DeleteAction_def ListAction_def
  SecretsSubject_def VolumesSubject_def

text \<open>The object of a request is of any type; the authorizer expects a workspace name.\<close>

datatype auth_object = ObjString string | ObjOther

fun workspaceLevel :: "workspace list \<Rightarrow> string \<Rightarrow> user \<Rightarrow> AccessLevel res" where
  "workspaceLevel [] wsp usr = Inr \<lparr>al_user = False, al_admin = False\<rparr>"
| "workspaceLevel (ws # wss) wsp usr =
     (if ws_name ws = wsp
      then Inr \<lparr>al_user = UserHasAccess ws usr, al_admin = UserHasAdminAccess ws usr\<rparr>
      else workspaceLevel wss wsp usr)"

definition GetWorkspacePermissions :: "workspaceImpl \<Rightarrow> string \<Rightarrow> user \<Rightarrow> AccessLevel res" where
  "GetWorkspacePermissions wc wsp usr = workspaceLevel (ListWorkspaces wc) wsp usr"

definition GetSecretPermissions :: "workspaceImpl \<Rightarrow> user \<Rightarrow> auth_object \<Rightarrow> bool gomap res" where
  "GetSecretPermissions wc usr data =
     (case data of
        ObjOther \<Rightarrow> Inl (Errorf ''could not decode the workspace variable'' [])
      | ObjString ws \<Rightarrow>
          (case GetWorkspacePermissions wc ws usr of
             Inl e \<Rightarrow> Inl (Wrap ''could not get secret permissions'' e)
           | Inr al \<Rightarrow>
               Inr (AList.update DeleteAction (al_admin al)
                   (AList.update WriteAction (al_admin al)
                   (AList.update ListAction (al_user al \<or> al_admin al)
                   (AList.update ReadAction (al_user al \<or> al_admin al) []))))))"

definition GetVolumePermissions :: "workspaceImpl \<Rightarrow> user \<Rightarrow> auth_object \<Rightarrow> bool gomap res" where
  "GetVolumePermissions wc usr data =
     (case data of
        ObjOther \<Rightarrow> Inl (Errorf ''could not decode the workspace variable'' [])
      | ObjString ws \<Rightarrow>
          (case GetWorkspacePermissions wc ws usr of
             Inl e \<Rightarrow> Inl (Wrap ''could not get secret permissions'' e)
           | Inr al \<Rightarrow>
               Inr (AList.update DeleteAction (al_admin al)
                   (AList.update WriteAction (al_admin al)
                   (AList.update ListAction (al_admin al \<or> al_user al)
                   (AList.update ReadAction (al_user al \<or> al_admin al) []))))))"

definition lookupRule :: "string \<Rightarrow> string \<Rightarrow> bool gomap res \<Rightarrow> bool res" where
  "lookupRule subject action perms =
     (case perms of
        Inl e \<Rightarrow> Inl e
      | Inr p \<Rightarrow>
          (case map_of p action of
             Some b \<Rightarrow> Inr b
           | None \<Rightarrow> Inl (Errorf ''Rule %s:%s not found'' [subject, action])))"

definition GetPermissions :: "workspaceImpl \<Rightarrow> string \<Rightarrow> string \<Rightarrow> user \<Rightarrow> auth_object \<Rightarrow> bool res" where
  "GetPermissions wc subject action usr data =
     (if subject = SecretsSubject then lookupRule subject action (GetSecretPermissions wc usr data)
      else if subject = VolumesSubject then lookupRule subject action (GetVolumePermissions wc usr data)
      else Inl (Errorf ''no such subject %s'' [subject]))"

definition Authorize :: "workspaceImpl \<Rightarrow> string \<Rightarrow> string \<Rightarrow> user \<Rightarrow> auth_object \<Rightarrow> bool res" where
  "Authorize wc subject action usr object =
     wrapres ''could not authorize request'' (GetPermissions wc subject action usr object)"

section \<open>Permission tables\<close>

text \<open>
  The contract of a permission table: on a workspace name it grants reading and listing to members
  and admins, writing and deleting to admins, and it knows no other action.
\<close>

definition level_of :: "workspaceImpl \<Rightarrow> string \<Rightarrow> user \<Rightarrow> bool \<times> bool" where
  "level_of wc n u =
     (case find (\<lambda>ws. ws_name ws = n) (ListWorkspaces wc) of
        None \<Rightarrow> (False, False)
      | Some ws \<Rightarrow> (UserHasAccess ws u, UserHasAdminAccess ws u))"

locale permission_table =
  fixes perms :: "workspaceImpl \<Rightarrow> user \<Rightarrow> auth_object \<Rightarrow> bool gomap res"
  assumes other: "\<exists>e. perms wc u ObjOther = Inl e"
    and table: "level_of wc n u = (m, a) \<Longrightarrow> \<exists>p. perms wc u (ObjString n) = Inr p
      \<and> map_of p = [ReadAction \<mapsto> m \<or> a, ListAction \<mapsto> m \<or> a, WriteAction \<mapsto> a, DeleteAction \<mapsto> a]"
begin

lemma granted_iff:
  "lookupRule s act (perms wc u (ObjString n)) = Inr True \<longleftrightarrow>
     (act \<in> {ReadAction, ListAction} \<and> (fst (level_of wc n u) \<or> snd (level_of wc n u))
      \<or> act \<in> {WriteAction, DeleteAction} \<and> snd (level_of wc n u))"
proof -
  obtain m a where l: "level_of wc n u = (m, a)" by fastforce
  from table [OF l] obtain p where "perms wc u (ObjString n) = Inr p"
    "map_of p = [ReadAction \<mapsto> m \<or> a, ListAction \<mapsto> m \<or> a, WriteAction \<mapsto> a, DeleteAction \<mapsto> a]" by blast
  then show ?thesis by (auto simp: lookupRule_def l auth_names split: if_splits)
qed

lemma change_implies_read:
  "act \<in> {WriteAction, DeleteAction} \<Longrightarrow> lookupRule s act (perms wc u (ObjString n)) = Inr True \<Longrightarrow>
   act' \<in> {ReadAction, ListAction} \<Longrightarrow> lookupRule s act' (perms wc u (ObjString n)) = Inr True"
  unfolding granted_iff by (auto simp: auth_names)

lemma unknown_action:
  "act \<notin> {ReadAction, ListAction, WriteAction, DeleteAction} \<Longrightarrow>
   \<exists>e. lookupRule s act (perms wc u obj) = Inl e"
proof (cases obj)
  case (ObjString n)
  assume act: "act \<notin> {ReadAction, ListAction, WriteAction, DeleteAction}"
  obtain m a where l: "level_of wc n u = (m, a)" by fastforce
  from table [OF l] obtain p where "perms wc u (ObjString n) = Inr p"
    "map_of p = [ReadAction \<mapsto> m \<or> a, ListAction \<mapsto> m \<or> a, WriteAction \<mapsto> a, DeleteAction \<mapsto> a]" by blast
  with act show ?thesis by (simp add: lookupRule_def ObjString)
next
  case ObjOther
  with other [of wc u] show ?thesis by (auto simp: lookupRule_def)
qed

end

lemma workspaceLevel_find:
  "workspaceLevel wss n u = Inr (case find (\<lambda>ws. ws_name ws = n) wss of
     None \<Rightarrow> \<lparr>al_user = False, al_admin = False\<rparr>
   | Some ws \<Rightarrow> \<lparr>al_user = UserHasAccess ws u, al_admin = UserHasAdminAccess ws u\<rparr>)"
  by (induction wss) auto

lemma GetWorkspacePermissions_level:
  "level_of wc n u = (m, a) \<Longrightarrow> GetWorkspacePermissions wc n u = Inr \<lparr>al_user = m, al_admin = a\<rparr>"
  by (auto simp: GetWorkspacePermissions_def workspaceLevel_find level_of_def split: option.splits)

interpretation secrets: permission_table GetSecretPermissions
  by unfold_locales
    (auto simp: GetSecretPermissions_def GetWorkspacePermissions_level fun_eq_iff auth_names)

interpretation volumes: permission_table GetVolumePermissions
  by unfold_locales
    (auto simp: GetVolumePermissions_def GetWorkspacePermissions_level fun_eq_iff auth_names)

lemma Authorize_True:
  "Authorize wc s act u obj = Inr True \<longleftrightarrow>
     s = SecretsSubject \<and> lookupRule s act (GetSecretPermissions wc u obj) = Inr True
   \<or> s = VolumesSubject \<and> lookupRule s act (GetVolumePermissions wc u obj) = Inr True"
  by (auto simp: Authorize_def GetPermissions_def auth_names)

section \<open>Properties of the authorizer\<close>

text \<open>
  C14: who is authorized. A request on the secrets or volumes of a workspace is granted exactly if the
  first listed workspace of that name gives the user admin access, or gives access and the action
  only reads or lists; an unknown workspace grants nothing.
\<close>

theorem authorize_iff:
  "Authorize wc subject action u (ObjString n) = Inr True \<longleftrightarrow>
     subject \<in> {''secrets'', ''volumes''} \<and>
     (\<exists>ws. find (\<lambda>ws. ws_name ws = n) (ListWorkspaces wc) = Some ws
        \<and> (action \<in> {''read'', ''list''} \<and> (UserHasAccess ws u \<or> UserHasAdminAccess ws u)
           \<or> action \<in> {''write'', ''delete''} \<and> UserHasAdminAccess ws u))"
proof -
  have "Authorize wc subject action u (ObjString n) = Inr True \<longleftrightarrow> subject \<in> {SecretsSubject, VolumesSubject}
    \<and> (action \<in> {ReadAction, ListAction} \<and> (fst (level_of wc n u) \<or> snd (level_of wc n u))
      \<or> action \<in> {WriteAction, DeleteAction} \<and> snd (level_of wc n u))"
    unfolding Authorize_True secrets.granted_iff volumes.granted_iff by blast
  then show ?thesis
    by (cases "find (\<lambda>ws. ws_name ws = n) (ListWorkspaces wc)") (auto simp: level_of_def auth_names)
qed

text \<open>
  Whoever may change may look. A user who is authorized to write or delete the secrets or volumes
  of a workspace is authorized to read and to list them.
\<close>

theorem change_implies_look:
  assumes "Authorize wc subject action u (ObjString n) = Inr True"
    and "action \<in> {''write'', ''delete''}" and "look \<in> {''read'', ''list''}"
  shows "Authorize wc subject look u (ObjString n) = Inr True"
  using assms secrets.change_implies_read [of action subject wc u n look]
    volumes.change_implies_read [of action subject wc u n look]
  unfolding Authorize_True by (auto simp: auth_names)

definition ex_authorizer :: workspaceImpl where
  "ex_authorizer = \<lparr>wi_namespace = ''argo'', wi_ws = [ex_ws], wi_roleDescriptions = []\<rparr>"

theorem change_implies_look_witness:
  "Authorize ex_authorizer ''secrets'' ''read'' (ex_user ''eve@x'' []) (ObjString ''sandbox'') = Inr True"
proof (rule change_implies_look)
  show "Authorize ex_authorizer ''secrets'' ''write'' (ex_user ''eve@x'' []) (ObjString ''sandbox'') = Inr True"
    by code_simp
qed simp_all

text \<open>
  An action that is not read, list, write or delete, a subject that is not secrets or volumes,
  and an object that is not a workspace name are answered with an error, never with a grant.
\<close>

theorem authorize_errors:
  assumes "subject \<notin> {''secrets'', ''volumes''} \<or> action \<notin> {''read'', ''list'', ''write'', ''delete''} \<or> obj = ObjOther"
  shows "\<exists>e. Authorize wc subject action u obj = Inl e"
proof (cases "subject \<in> {SecretsSubject, VolumesSubject}")
  case False
  then show ?thesis by (auto simp: Authorize_def GetPermissions_def)
next
  case True
  have "\<exists>e. lookupRule subject action (GetSecretPermissions wc u obj) = Inl e
      \<and> (\<exists>e. lookupRule subject action (GetVolumePermissions wc u obj) = Inl e)"
  proof (cases "obj = ObjOther")
    case o: True
    then show ?thesis using secrets.other [of wc u] volumes.other [of wc u] by (auto simp: lookupRule_def)
  next
    case False
    with assms True have "action \<notin> {ReadAction, ListAction, WriteAction, DeleteAction}"
      by (auto simp: auth_names)
    from secrets.unknown_action [OF this, of subject wc u obj]
      volumes.unknown_action [OF this, of subject wc u obj] show ?thesis by blast
  qed
  then obtain e1 e2 where "lookupRule subject action (GetSecretPermissions wc u obj) = Inl e1"
    and "lookupRule subject action (GetVolumePermissions wc u obj) = Inl e2" by blast
  then show ?thesis unfolding Authorize_def GetPermissions_def by auto
qed

theorem authorize_errors_witness:
  "\<exists>e. Authorize ex_authorizer ''secrets'' ''execute'' (ex_user ''eve@x'' []) (ObjString ''sandbox'') = Inl e"
  by (rule authorize_errors) simp

section \<open>Authentication\<close>

text \<open>
  The claims of a token, with times in seconds. The library reads and verifies them:
  \<open>ParseUnverified\<close> decodes a token, \<open>ParseWithClaims\<close> decodes it, checks its signature with
  the key function and calls the given validity check.
\<close>

record claims =
  cl_name :: string
  cl_email :: string
  cl_oid :: string
  cl_roles :: "role list"
  cl_exp :: "int option"
  cl_iat :: "int option"
  cl_nbf :: "int option"
  cl_aud :: "string list"
  cl_iss :: string

record 'key jwt =
  ParseUnverified :: "string \<Rightarrow> claims res"
  ParseWithClaims :: "string \<Rightarrow> 'key \<Rightarrow> (claims \<Rightarrow> unit res) \<Rightarrow> claims res"
  VerifyExpiresAt :: "claims \<Rightarrow> int \<Rightarrow> bool \<Rightarrow> bool"
  VerifyIssuedAt :: "claims \<Rightarrow> int \<Rightarrow> bool \<Rightarrow> bool"
  VerifyNotBefore :: "claims \<Rightarrow> int \<Rightarrow> bool \<Rightarrow> bool"
  VerifyAudience :: "claims \<Rightarrow> string \<Rightarrow> bool \<Rightarrow> bool"

record AzureTokenUser =
  tu_claims :: claims
  tu_expectedAudience :: string
  tu_expectedIssuer :: string

record 'key AzureTokenAuthenticator =
  az_KeyFunc :: 'key
  az_Audience :: string
  az_Issuer :: string
  az_DisableVerification :: bool

definition token_user :: "AzureTokenUser \<Rightarrow> user" where
  "token_user t = \<lparr>usr_uid = cl_oid (tu_claims t), usr_name = cl_name (tu_claims t),
     usr_email = cl_email (tu_claims t), usr_roles = cl_roles (tu_claims t)\<rparr>"

definition token_Valid :: "'key jwt \<Rightarrow> int \<Rightarrow> AzureTokenUser \<Rightarrow> unit res" where
  "token_Valid J now t =
     (if \<not> VerifyExpiresAt J (tu_claims t) now True then Inl (Errorf ''token expired'' [])
      else if \<not> VerifyIssuedAt J (tu_claims t) now True then Inl (Errorf ''token not valid'' [])
      else if \<not> VerifyNotBefore J (tu_claims t) now True then Inl (Errorf ''token not yet valid'' [])
      else if \<not> VerifyAudience J (tu_claims t) (tu_expectedAudience t) True
      then Inl (Errorf ''invalid token `aud`'' [])
      else if cl_iss (tu_claims t) \<noteq> tu_expectedIssuer t then Inl (Errorf ''invalid token `iss`'' [])
      else Inr ())"

text \<open>Decoding the token overwrites the claims and keeps the two expected values.\<close>

definition token_Parse ::
  "'key jwt \<Rightarrow> int \<Rightarrow> string \<Rightarrow> 'key \<Rightarrow> bool \<Rightarrow> AzureTokenUser \<Rightarrow> AzureTokenUser res" where
  "token_Parse J now tokenString keyFunc disableVerification t =
     (if disableVerification then
        rbind (ParseUnverified J tokenString) (\<lambda>c.
        rbind (token_Valid J now (t\<lparr>tu_claims := c\<rparr>)) (\<lambda>_. Inr (t\<lparr>tu_claims := c\<rparr>)))
      else
        rbind (ParseWithClaims J tokenString keyFunc (\<lambda>c. token_Valid J now (t\<lparr>tu_claims := c\<rparr>)))
          (\<lambda>c. Inr (t\<lparr>tu_claims := c\<rparr>)))"

fun splitFirstSpace :: "string \<Rightarrow> string list" where
  "splitFirstSpace [] = [[]]"
| "splitFirstSpace (c # s) =
     (if c = CHR '' '' then [[], s]
      else (case splitFirstSpace s of [] \<Rightarrow> [[c]] | w # ws \<Rightarrow> (c # w) # ws))"

definition ascii_lower :: "char \<Rightarrow> char" where
  "ascii_lower c = (let n = of_char c :: nat in if 65 \<le> n \<and> n \<le> 90 then char_of (n + 32) else c)"

text \<open>
  \<^verbatim>\<open>strings.EqualFold\<close> against the text \<^verbatim>\<open>bearer\<close>, none of whose letters folds
  to a character outside ASCII.
\<close>

definition is_bearer :: "string \<Rightarrow> bool" where
  "is_bearer s \<longleftrightarrow> map ascii_lower s = ''bearer''"

definition empty_claims :: claims where
  "empty_claims = \<lparr>cl_name = '''', cl_email = '''', cl_oid = '''', cl_roles = [], cl_exp = None, cl_iat = None,
     cl_nbf = None, cl_aud = [], cl_iss = ''''\<rparr>"

definition NewAzureTokenUser :: "string \<Rightarrow> string \<Rightarrow> AzureTokenUser" where
  "NewAzureTokenUser audience issuer =
     \<lparr>tu_claims = empty_claims, tu_expectedAudience = audience, tu_expectedIssuer = issuer\<rparr>"

definition Authenticate :: "'key jwt \<Rightarrow> int \<Rightarrow> 'key AzureTokenAuthenticator \<Rightarrow> string \<Rightarrow> user res" where
  "Authenticate J now a authStr =
     (if authStr = '''' then Inl (Errorf ''no Authorization header given'' [])
      else
        (let parts = splitFirstSpace authStr
         in if length parts < 2 \<or> \<not> is_bearer (parts ! 0) then Inl (Errorf ''bad Authorization header'' [])
            else (case token_Parse J now (parts ! 1) (az_KeyFunc a) (az_DisableVerification a)
                         (NewAzureTokenUser (az_Audience a) (az_Issuer a)) of
                    Inl e \<Rightarrow> Inl (Wrap ''authentication error'' e)
                  | Inr t \<Rightarrow> Inr (token_user t))))"

text \<open>
  Documented behaviour of the library: a token is returned by \<open>ParseWithClaims\<close> only if its
  signature verifies under the key and the validity check accepts its claims; a claim that is
  required has to be present, a token is expired from its expiry on, and not usable before its
  other two times; the audience has to be listed.
\<close>

definition jwt_ok :: "'key jwt \<Rightarrow> (string \<Rightarrow> 'key \<Rightarrow> bool) \<Rightarrow> bool" where
  "jwt_ok J sig_ok \<longleftrightarrow>
     (\<forall>s key valid c. ParseWithClaims J s key valid = Inr c \<longrightarrow> sig_ok s key \<and> valid c = Inr ())
     \<and> (\<forall>c now. VerifyExpiresAt J c now True = (case cl_exp c of None \<Rightarrow> False | Some t \<Rightarrow> now < t))
     \<and> (\<forall>c now. VerifyIssuedAt J c now True = (case cl_iat c of None \<Rightarrow> False | Some t \<Rightarrow> t \<le> now))
     \<and> (\<forall>c now. VerifyNotBefore J c now True = (case cl_nbf c of None \<Rightarrow> False | Some t \<Rightarrow> t \<le> now))
     \<and> (\<forall>c aud. VerifyAudience J c aud True = (aud \<in> set (cl_aud c)))"

definition live_claims :: "int \<Rightarrow> string \<Rightarrow> string \<Rightarrow> claims \<Rightarrow> bool" where
  "live_claims now aud iss c \<longleftrightarrow>
     (\<exists>e i n. cl_exp c = Some e \<and> now < e \<and> cl_iat c = Some i \<and> i \<le> now \<and> cl_nbf c = Some n \<and> n \<le> now)
     \<and> aud \<in> set (cl_aud c) \<and> cl_iss c = iss"

lemma token_Valid_live:
  "jwt_ok J sig_ok \<Longrightarrow> token_Valid J now t = Inr () \<longleftrightarrow>
     live_claims now (tu_expectedAudience t) (tu_expectedIssuer t) (tu_claims t)"
  by (auto simp: token_Valid_def jwt_ok_def live_claims_def split: option.splits if_splits)

lemma token_Parse_live:
  assumes "jwt_ok J sig_ok" and "token_Parse J now s key off t = Inr t'"
  shows "live_claims now (tu_expectedAudience t) (tu_expectedIssuer t) (tu_claims t')
    \<and> (off \<or> sig_ok s key)"
proof (cases off)
  case True
  with assms show ?thesis by (auto simp: token_Parse_def go_simps token_Valid_live)
next
  case False
  with assms obtain c where c: "t' = t\<lparr>tu_claims := c\<rparr>"
    "ParseWithClaims J s key (\<lambda>c. token_Valid J now (t\<lparr>tu_claims := c\<rparr>)) = Inr c"
    by (auto simp: token_Parse_def go_simps)
  with assms(1) have "sig_ok s key \<and> token_Valid J now (t\<lparr>tu_claims := c\<rparr>) = Inr ()"
    unfolding jwt_ok_def by blast
  with token_Valid_live [OF assms(1)] c(1) show ?thesis by simp
qed

section \<open>Properties of authentication\<close>

text \<open>
  an authenticated user comes from a live token. When a request is authenticated, its header is a
  bearer token whose claims are in their time window, name the configured audience and come from the
  configured issuer, whether or not signatures are checked; when they are checked, the signature of
  the token verified; and the user is the one the claims name.
\<close>

theorem authenticated_token_is_live:
  assumes "jwt_ok J sig_ok" and "Authenticate J now a h = Inr u"
  shows "\<exists>scheme tok c. splitFirstSpace h = [scheme, tok] \<and> is_bearer scheme
    \<and> live_claims now (az_Audience a) (az_Issuer a) c
    \<and> (az_DisableVerification a \<or> sig_ok tok (az_KeyFunc a))
    \<and> usr_uid u = cl_oid c \<and> usr_email u = cl_email c \<and> usr_roles u = cl_roles c"
proof -
  have len: "length (splitFirstSpace h) \<le> 2" by (induction h rule: splitFirstSpace.induct) (auto split: list.splits)
  obtain t' where big: "\<not> length (splitFirstSpace h) < 2" "is_bearer (splitFirstSpace h ! 0)"
    and p: "token_Parse J now (splitFirstSpace h ! 1) (az_KeyFunc a) (az_DisableVerification a)
      (NewAzureTokenUser (az_Audience a) (az_Issuer a)) = Inr t'" and u: "u = token_user t'"
    using assms(2) by (auto simp: Authenticate_def Let_def split: if_splits sum.splits)
  have "length xs = 2 \<Longrightarrow> xs = [xs ! 0, xs ! 1]" for xs :: "string list"
    by (cases xs rule: remdups_adj.cases) auto
  then have "splitFirstSpace h = [splitFirstSpace h ! 0, splitFirstSpace h ! 1]"
    using len big(1) by (metis le_neq_implies_less)
  with big token_Parse_live [OF assms(1) p] u show ?thesis
    by (intro exI [of _ "splitFirstSpace h ! 0"] exI [of _ "splitFirstSpace h ! 1"] exI [of _ "tu_claims t'"])
      (simp add: NewAzureTokenUser_def token_user_def)
qed

definition ex_claims :: claims where
  "ex_claims = \<lparr>cl_name = ''Eve'', cl_email = ''eve@x'', cl_oid = ''7'', cl_roles = [''dev''], cl_exp = Some 20,
     cl_iat = Some 5, cl_nbf = Some 5, cl_aud = [''api''], cl_iss = ''idp''\<rparr>"

definition ex_jwt :: "string jwt" where
  "ex_jwt =
     \<lparr>ParseUnverified = (\<lambda>s. Inr ex_claims),
      ParseWithClaims = (\<lambda>s key valid. if s = key then rbind (valid ex_claims) (\<lambda>_. Inr ex_claims)
                                       else Inl (ExtErr ''signature is invalid'')),
      VerifyExpiresAt = (\<lambda>c now req. case cl_exp c of None \<Rightarrow> \<not> req | Some t \<Rightarrow> now < t),
      VerifyIssuedAt = (\<lambda>c now req. case cl_iat c of None \<Rightarrow> \<not> req | Some t \<Rightarrow> t \<le> now),
      VerifyNotBefore = (\<lambda>c now req. case cl_nbf c of None \<Rightarrow> \<not> req | Some t \<Rightarrow> t \<le> now),
      VerifyAudience = (\<lambda>c aud req. aud \<in> set (cl_aud c))\<rparr>"

lemma ex_jwt_ok: "jwt_ok ex_jwt (=)"
  by (auto simp: jwt_ok_def ex_jwt_def go_simps split: if_splits option.splits)

definition ex_authenticator :: "string AzureTokenAuthenticator" where
  "ex_authenticator = \<lparr>az_KeyFunc = ''key'', az_Audience = ''api'', az_Issuer = ''idp'', az_DisableVerification = False\<rparr>"

theorem authenticated_token_is_live_witness:
  "\<exists>u c. Authenticate ex_jwt 10 ex_authenticator ''Bearer key'' = Inr u \<and> usr_email u = ''eve@x''
     \<and> live_claims 10 ''api'' ''idp'' c"
proof -
  have "returned (Some (Authenticate ex_jwt 10 ex_authenticator ''Bearer key''))"
    and e: "map_option usr_email (case Authenticate ex_jwt 10 ex_authenticator ''Bearer key'' of
      Inl _ \<Rightarrow> None | Inr u \<Rightarrow> Some u) = Some ''eve@x''" by code_simp+
  then obtain u where u: "Authenticate ex_jwt 10 ex_authenticator ''Bearer key'' = Inr u"
    using returnedE by fastforce
  with authenticated_token_is_live [OF ex_jwt_ok u] e show ?thesis by (auto simp: ex_authenticator_def)
qed

end
