(* ===== verification/Bson.thy ===== *)
theory Bson
  imports Models
begin

text \<open>
  BSON values as the storage code builds them for queries and stores them as documents, and the
  documented meaning of the query operators it uses: what a filter matches and what an update does
  to a document. The database itself is a parameter of the storage model; this meaning is what its
  hypotheses are stated with.
\<close>

section \<open>Values and paths\<close>

datatype bson =
    BStr string
  | BInt int
  | BTime int
  | BArr "bson list"
  | BDoc "(string \<times> bson) list"
  | BOther string

type_synonym bsonD = "(string \<times> bson) list"

text \<open>The value at a dotted path of a document.\<close>

fun at_path :: "bsonD \<Rightarrow> string list \<Rightarrow> bson option" where
  "at_path d [] = None"
| "at_path d [k] = map_of d k"
| "at_path d (k # ks) = (case map_of d k of Some (BDoc d') \<Rightarrow> at_path d' ks | _ \<Rightarrow> None)"

definition field :: "bsonD \<Rightarrow> string \<Rightarrow> bson option" where
  "field d p = at_path d (str_split (CHR ''.'') p)"

section \<open>Filters\<close>

text \<open>
  Comparison is within one type. A condition on an array field holds if the array or one of its
  elements satisfies it.
\<close>

fun str_less :: "string \<Rightarrow> string \<Rightarrow> bool" where
  "str_less s [] = False"
| "str_less [] (c # t) = True"
| "str_less (b # s) (c # t) = ((of_char b :: nat) < of_char c \<or> b = c \<and> str_less s t)"

fun bson_less :: "bson \<Rightarrow> bson \<Rightarrow> bool" where
  "bson_less (BStr a) (BStr b) = str_less a b"
| "bson_less (BInt a) (BInt b) = (a < b)"
| "bson_less (BTime a) (BTime b) = (a < b)"
| "bson_less a b = False"

fun elements :: "bson option \<Rightarrow> bson list" where
  "elements None = []"
| "elements (Some (BArr xs)) = BArr xs # xs"
| "elements (Some v) = [v]"

definition known_operator :: "string \<Rightarrow> bool" where
  "known_operator op \<longleftrightarrow> op \<in> {''$eq'', ''$ne'', ''$in'', ''$gt'', ''$gte'', ''$lt'', ''$lte'', ''$regex'', ''$options''}"

text \<open>One operator of a condition; \<open>rx\<close> is the server's regular-expression matcher.\<close>

definition op_matches :: "(string \<Rightarrow> string \<Rightarrow> bool) \<Rightarrow> bson list \<Rightarrow> string \<times> bson \<Rightarrow> bool" where
  "op_matches rx vs c =
     (case c of (op, x) \<Rightarrow>
        if op = ''$eq'' then x \<in> set vs
        else if op = ''$ne'' then x \<notin> set vs
        else if op = ''$in'' then (case x of BArr xs \<Rightarrow> list_ex (\<lambda>v. v \<in> set xs) vs | _ \<Rightarrow> False)
        else if op = ''$gt'' then list_ex (\<lambda>v. bson_less x v) vs
        else if op = ''$gte'' then list_ex (\<lambda>v. bson_less x v \<or> v = x) vs
        else if op = ''$lt'' then list_ex (\<lambda>v. bson_less v x) vs
        else if op = ''$lte'' then list_ex (\<lambda>v. bson_less v x \<or> v = x) vs
        else if op = ''$regex'' then list_ex (\<lambda>v. case (v, x) of (BStr s, BStr r) \<Rightarrow> rx r s | _ \<Rightarrow> False) vs
        else op = ''$options'')"

definition is_condition :: "bson \<Rightarrow> bool" where
  "is_condition v = (case v of BDoc ((k, x) # cs) \<Rightarrow> has_prefix ''$'' k | _ \<Rightarrow> False)"

fun matches :: "(string \<Rightarrow> string \<Rightarrow> bool) \<Rightarrow> bsonD \<Rightarrow> bsonD \<Rightarrow> bool"
  and entry_matches :: "(string \<Rightarrow> string \<Rightarrow> bool) \<Rightarrow> bsonD \<Rightarrow> string \<Rightarrow> bson \<Rightarrow> bool"
  and all_match :: "(string \<Rightarrow> string \<Rightarrow> bool) \<Rightarrow> bsonD \<Rightarrow> bson list \<Rightarrow> bool" where
  "matches rx doc [] = True"
| "matches rx doc ((k, v) # es) = (entry_matches rx doc k v \<and> matches rx doc es)"
| "entry_matches rx doc k (BArr qs) =
     (if k = ''$and'' then all_match rx doc qs else BArr qs \<in> set (elements (field doc k)))"
| "entry_matches rx doc k v =
     (if is_condition v
      then (case v of BDoc cs \<Rightarrow> list_all (op_matches rx (elements (field doc k))) cs | _ \<Rightarrow> False)
      else v \<in> set (elements (field doc k)))"
| "all_match rx doc [] = True"
| "all_match rx doc (q # qs) =
     ((case q of BDoc d \<Rightarrow> matches rx doc d | _ \<Rightarrow> False) \<and> all_match rx doc qs)"

text \<open>A filter the server accepts: it rejects a condition with an operator it does not know.\<close>

fun accepted :: "bsonD \<Rightarrow> bool"
  and entry_accepted :: "string \<Rightarrow> bson \<Rightarrow> bool"
  and all_accepted :: "bson list \<Rightarrow> bool" where
  "accepted [] = True"
| "accepted ((k, v) # es) = (entry_accepted k v \<and> accepted es)"
| "entry_accepted k (BArr qs) = (k = ''$and'' \<longrightarrow> all_accepted qs)"
| "entry_accepted k v =
     (is_condition v \<longrightarrow> (case v of BDoc cs \<Rightarrow> list_all (\<lambda>c. known_operator (fst c)) cs | _ \<Rightarrow> True))"
| "all_accepted [] = True"
| "all_accepted (q # qs) = ((case q of BDoc d \<Rightarrow> accepted d | _ \<Rightarrow> False) \<and> all_accepted qs)"

section \<open>Updates\<close>

text \<open>\<^verbatim>\<open>$set\<close> with top-level keys replaces or adds those fields.\<close>

definition set_fields :: "bsonD \<Rightarrow> bsonD \<Rightarrow> bsonD" where
  "set_fields new doc = fold (\<lambda>(k, v) d. AList.update k v d) new doc"

text \<open>\<^verbatim>\<open>$pull\<close> with \<^verbatim>\<open>$in\<close> removes the listed elements of the array at a path.\<close>

definition pull_value :: "bson list \<Rightarrow> bson \<Rightarrow> bson" where
  "pull_value xs v = (case v of BArr ys \<Rightarrow> BArr (filter (\<lambda>y. y \<notin> set xs) ys) | _ \<Rightarrow> v)"

fun update_path :: "(bson \<Rightarrow> bson) \<Rightarrow> string list \<Rightarrow> bsonD \<Rightarrow> bsonD" where
  "update_path f [] d = d"
| "update_path f [k] d = map (\<lambda>(k', v). (k', if k' = k then f v else v)) d"
| "update_path f (k # ks) d =
     map (\<lambda>(k', v). (k', if k' = k then (case v of BDoc d' \<Rightarrow> BDoc (update_path f ks d') | _ \<Rightarrow> v) else v)) d"

definition apply_update :: "bsonD \<Rightarrow> bsonD \<Rightarrow> bsonD" where
  "apply_update u doc =
     (case u of
        [(op, BDoc new)] \<Rightarrow>
          if op = ''$set'' then set_fields new doc
          else if op = ''$pull'' then
            fold (\<lambda>(p, c) d. case c of
                BDoc [(o1, BArr xs)] \<Rightarrow> if o1 = ''$in'' then update_path (pull_value xs) (str_split (CHR ''.'') p) d else d
              | _ \<Rightarrow> d) new doc
          else doc
      | _ \<Rightarrow> doc)"

section \<open>Lemmas\<close>

lemma matches_append: "matches rx doc (f @ g) \<longleftrightarrow> matches rx doc f \<and> matches rx doc g"
  by (induction f) auto

lemma accepted_append: "accepted (f @ g) \<longleftrightarrow> accepted f \<and> accepted g"
  by (induction f) auto

lemma all_match_iff: "all_match rx doc (map BDoc qs) \<longleftrightarrow> (\<forall>q \<in> set qs. matches rx doc q)"
  by (induction qs) auto

lemma map_of_update_key:
  "map_of (map (\<lambda>(k', v). (k', if k' = k then f v else v)) d) k'' =
     (if k'' = k then map_option f (map_of d k'') else map_of d k'')"
  by (induction d) auto

end
