(* ===== verification/Query.thy ===== *)
theory Query
  imports Bson
begin

text \<open>
  \<^verbatim>\<open>storage/parsequery.go\<close>: sort and filter strings of a request, turned into BSON
  queries. The regular expressions of the source are written out as recognizers; the time stamps of
  filters are read as \<^verbatim>\<open>time.Parse\<close> reads the RFC 3339 layout.
\<close>

section \<open>Fields\<close>

definition is_word :: "char \<Rightarrow> bool" where
  "is_word c =
     (let n = of_char c :: nat in 48 \<le> n \<and> n \<le> 57 \<or> 65 \<le> n \<and> n \<le> 90 \<or> 97 \<le> n \<and> n \<le> 122 \<or> n = 95)"

text \<open>\<^verbatim>\<open>(\w+(?:\.\w+)*)\<close>: words separated by dots.\<close>

definition fieldDotField :: "string \<Rightarrow> bool" where
  "fieldDotField s \<longleftrightarrow> list_all (\<lambda>w. w \<noteq> '''' \<and> list_all is_word w) (str_split (CHR ''.'') s)"

section \<open>Sorting\<close>

text \<open>The submatches of the sort expression: a sign and a field.\<close>

definition sort_match :: "string \<Rightarrow> (string \<times> string) option" where
  "sort_match p =
     (case p of
        [] \<Rightarrow> None
      | c # f \<Rightarrow> if (c = CHR ''+'' \<or> c = CHR ''-'') \<and> fieldDotField f then Some ([c], f) else None)"

fun parse_sort_parts :: "string \<Rightarrow> nat \<Rightarrow> string list \<Rightarrow> bsonD \<Rightarrow> bsonD res" where
  "parse_sort_parts sortstr i [] result = Inr result"
| "parse_sort_parts sortstr i (p # ps) result =
     (case sort_match p of
        None \<Rightarrow> Inl (Errorf ''cannot parse sort (%d:%s) from query (%s)'' [itoa (int i), p, sortstr])
      | Some (sign, f) \<Rightarrow>
          (let order = (if sign = ''+'' then 1 else if sign = ''-'' then - 1 else 0 :: int)
           in if order = 0 then
                Inl (Errorf ''can never parse sort (%d,%s) from query (%s)'' [itoa (int i), p, sortstr])
              else parse_sort_parts sortstr (Suc i) ps (result @ [(f, BInt order)])))"

definition parse_sort_query :: "string \<Rightarrow> bsonD res" where
  "parse_sort_query sortstr = parse_sort_parts sortstr 0 (str_split (CHR '','') sortstr) []"

fun sort_queries :: "string list \<Rightarrow> bsonD res" where
  "sort_queries [] = Inr []"
| "sort_queries (f # fs) =
     (case parse_sort_query f of
        Inl e \<Rightarrow> Inl (Wrap ''could not parse filter query'' e)
      | Inr mf \<Rightarrow> rbind (sort_queries fs) (\<lambda>rest. Inr (mf @ rest)))"

section \<open>Time stamps\<close>

definition digit :: "char \<Rightarrow> nat option" where
  "digit c = (let n = of_char c :: nat in if 48 \<le> n \<and> n \<le> 57 then Some (n - 48) else None)"

text \<open>\<^verbatim>\<open>getnum\<close>: two digits, or one when the field is not of fixed width.\<close>

fun getnum :: "bool \<Rightarrow> string \<Rightarrow> (nat \<times> string) option" where
  "getnum fixed [] = None"
| "getnum fixed (a # s) =
     (case digit a of
        None \<Rightarrow> None
      | Some i \<Rightarrow>
          (case s of
             b # s' \<Rightarrow> (case digit b of
                          Some j \<Rightarrow> Some (10 * i + j, s')
                        | None \<Rightarrow> if fixed then None else Some (i, s))
           | [] \<Rightarrow> if fixed then None else Some (i, s)))"

definition skip_char :: "char \<Rightarrow> string \<Rightarrow> string option" where
  "skip_char c s = (case s of x # s' \<Rightarrow> if x = c then Some s' else None | [] \<Rightarrow> None)"

definition is_leap :: "nat \<Rightarrow> bool" where
  "is_leap y \<longleftrightarrow> y mod 4 = 0 \<and> (y mod 100 \<noteq> 0 \<or> y mod 400 = 0)"

definition days_in :: "nat \<Rightarrow> nat \<Rightarrow> nat" where
  "days_in m y = (if m = 2 then (if is_leap y then 29 else 28) else if m \<in> {4, 6, 9, 11} then 30 else 31)"

text \<open>Days from 1 January 1970, by the proleptic Gregorian calendar.\<close>

definition days_from_civil :: "nat \<Rightarrow> nat \<Rightarrow> nat \<Rightarrow> int" where
  "days_from_civil y m d =
     (let y' = (if m \<le> 2 then int y - 1 else int y); era = y' div 400; yoe = y' - era * 400;
          doy = (153 * (int m + (if m > 2 then - 3 else 9)) + 2) div 5 + int d - 1;
          doe = yoe * 365 + yoe div 4 - yoe div 100 + doy
      in era * 146097 + doe - 719468)"

text \<open>A fraction of a second, in nanoseconds; digits after the ninth are dropped.\<close>

fun frac_nanos :: "nat \<Rightarrow> string \<Rightarrow> int" where
  "frac_nanos 0 s = 0"
| "frac_nanos (Suc k) [] = 0"
| "frac_nanos (Suc k) (c # s) = (case digit c of None \<Rightarrow> 0 | Some i \<Rightarrow> int i * 10 ^ k + frac_nanos k s)"

definition read_fraction :: "string \<Rightarrow> int \<times> string" where
  "read_fraction s =
     (case s of
        p # d # s' \<Rightarrow>
          if (p = CHR ''.'' \<or> p = CHR '','') \<and> digit d \<noteq> None
          then (frac_nanos 9 (takeWhile (\<lambda>c. digit c \<noteq> None) (d # s')), dropWhile (\<lambda>c. digit c \<noteq> None) (d # s'))
          else (0, s)
      | _ \<Rightarrow> (0, s))"

text \<open>The zone: \<^verbatim>\<open>Z\<close>, or a signed offset that ends the text.\<close>

definition read_zone :: "string \<Rightarrow> (int \<times> string) option" where
  "read_zone s =
     (case s of
        z # s' \<Rightarrow>
          if z = CHR ''Z'' then (if s' = [] then Some (0, ''UTC'') else None)
          else if z = CHR ''+'' \<or> z = CHR ''-'' then
            (case getnum True s' of
               Some (h, c # s1) \<Rightarrow>
                 (case getnum True s1 of
                    Some (m, s2) \<Rightarrow>
                      if c = CHR '':'' \<and> s2 = [] \<and> h \<le> 24 \<and> m \<le> 60
                      then Some ((if z = CHR ''-'' then - 1 else 1) * int ((h * 60 + m) * 60), '''')
                      else None
                  | None \<Rightarrow> None)
             | _ \<Rightarrow> None)
          else None
      | [] \<Rightarrow> None)"

definition read_date :: "string \<Rightarrow> (nat \<times> nat \<times> nat \<times> string) option" where
  "read_date s =
     Option.bind (getnum True s) (\<lambda>(y1, s1). Option.bind (getnum True s1) (\<lambda>(y2, s2).
     Option.bind (skip_char (CHR ''-'') s2) (\<lambda>s3. Option.bind (getnum True s3) (\<lambda>(m, s4).
     Option.bind (skip_char (CHR ''-'') s4) (\<lambda>s5. Option.bind (getnum True s5) (\<lambda>(d, s6).
     if 1 \<le> m \<and> m \<le> 12 \<and> 1 \<le> d \<and> d \<le> days_in m (100 * y1 + y2)
     then Some (100 * y1 + y2, m, d, s6) else None))))))"

definition read_clock :: "string \<Rightarrow> (nat \<times> string) option" where
  "read_clock s =
     Option.bind (getnum False s) (\<lambda>(h, s1). Option.bind (skip_char (CHR '':'') s1) (\<lambda>s2.
     Option.bind (getnum True s2) (\<lambda>(m, s3). Option.bind (skip_char (CHR '':'') s3) (\<lambda>s4.
     Option.bind (getnum True s4) (\<lambda>(sec, s5).
     if h < 24 \<and> m < 60 \<and> sec < 60 then Some (3600 * h + 60 * m + sec, s5) else None)))))"

definition parse_rfc3339 :: "string \<Rightarrow> int res" where
  "parse_rfc3339 s =
     (case Option.bind (read_date s) (\<lambda>(y, m, d, s1). Option.bind (skip_char (CHR ''T'') s1) (\<lambda>s2.
           Option.bind (read_clock s2) (\<lambda>(sec, s3).
           (case read_fraction s3 of (ns, s4) \<Rightarrow>
            Option.bind (read_zone s4) (\<lambda>(off, loc).
            Some ((days_from_civil y m d * 86400 + int sec - off) * 1000000000 + ns)))))) of
        None \<Rightarrow> Inl (Errorf ''parsing time %s as RFC3339: cannot parse'' [s])
      | Some t \<Rightarrow> Inr t)"

section \<open>Filtering\<close>

definition mongo_operator :: "string \<Rightarrow> bson \<Rightarrow> bsonD res" where
  "mongo_operator op value =
     (if op = ''=='' then Inr [(''$eq'', value)]
      else if op = ''!='' then Inr [(''$neq'', value)]
      else if op = ''>='' then Inr [(''$gte'', value)]
      else if op = ''<='' then Inr [(''$lte'', value)]
      else if op = ''>'' then Inr [(''$gt'', value)]
      else if op = ''<'' then Inr [(''$lt'', value)]
      else if op = ''search'' then Inr [(''$regex'', value), (''$options'', BStr ''i'')]
      else Inl (Errorf ''no such filter operator (%s)'' [op]))"

definition mongo_filter :: "string \<Rightarrow> string \<Rightarrow> bson \<Rightarrow> (string \<times> bson) res" where
  "mongo_filter attr ops value =
     (case mongo_operator ops value of
        Inl e \<Rightarrow> Inl (Wrap ''could not construct filter'' e)
      | Inr op \<Rightarrow> Inr (attr, BDoc op))"

definition filter_ops :: "string list" where
  "filter_ops = [''=='', ''>='', ''<='', ''search'', ''>'', ''<'', ''!='']"

fun strip_prefix :: "string \<Rightarrow> string \<Rightarrow> string option" where
  "strip_prefix [] s = Some s"
| "strip_prefix (c # p) [] = None"
| "strip_prefix (c # p) (d # s) = (if c = d then strip_prefix p s else None)"

fun first_op :: "string list \<Rightarrow> string \<Rightarrow> (string \<times> string) option" where
  "first_op [] s = None"
| "first_op (op # ops) s =
     (case strip_prefix (op @ '']='') s of Some v \<Rightarrow> Some (op, v) | None \<Rightarrow> first_op ops s)"

text \<open>
  The submatches of the filter expression: a field, an operator between brackets, an equals sign,
  and a value without line breaks.
\<close>

definition filter_match :: "string \<Rightarrow> (string \<times> string \<times> string) option" where
  "filter_match p =
     (let f = takeWhile (\<lambda>c. is_word c \<or> c = CHR ''.'') p;
          rest = dropWhile (\<lambda>c. is_word c \<or> c = CHR ''.'') p
      in if fieldDotField f then
           (case strip_prefix ''['' rest of
              None \<Rightarrow> None
            | Some r \<Rightarrow>
                (case first_op filter_ops r of
                   None \<Rightarrow> None
                 | Some (op, v) \<Rightarrow> if CHR 0x0A \<in> set v then None else Some (f, op, v)))
         else None)"

definition filter_value :: "string \<Rightarrow> string \<Rightarrow> bson res" where
  "filter_value attributeName text =
     (if attributeName = ''timestamp'' then rbind (parse_rfc3339 text) (\<lambda>t. Inr (BTime t))
      else Inr (BStr text))"

fun parse_filter_parts :: "string \<Rightarrow> nat \<Rightarrow> string list \<Rightarrow> bsonD \<Rightarrow> bsonD res" where
  "parse_filter_parts query i [] result = Inr result"
| "parse_filter_parts query i (p # ps) result =
     (case filter_match p of
        None \<Rightarrow> Inl (Errorf ''cannot parse filter (%d:%s) from query (%s)'' [itoa (int i), p, query])
      | Some (attributeName, opName, text) \<Rightarrow>
          (case filter_value attributeName text of
             Inl e \<Rightarrow> Inl (Wrap ''cannot parse timestamp (%s) in (%d:%s) from query (%s)'' e)
           | Inr value \<Rightarrow>
               (case mongo_filter attributeName opName value of
                  Inl e \<Rightarrow> Inl (Wrap ''cannot parse filter (%d:%s) from query (%s)'' e)
                | Inr f \<Rightarrow> parse_filter_parts query (Suc i) ps (result @ [f]))))"

definition parse_filter_query :: "string \<Rightarrow> bsonD res" where
  "parse_filter_query query = parse_filter_parts query 0 (str_split (CHR '','') query) []"

fun filter_queries :: "string list \<Rightarrow> bsonD list res" where
  "filter_queries [] = Inr []"
| "filter_queries (f # fs) =
     (case parse_filter_query f of
        Inl e \<Rightarrow> Inl (Wrap ''could not parse filter query'' e)
      | Inr mf \<Rightarrow> rbind (filter_queries fs) (\<lambda>rest. Inr (mf # rest)))"

definition AND :: string where "AND = ''$and''"

definition join_queries :: "bsonD list \<Rightarrow> string \<Rightarrow> bsonD" where
  "join_queries queries op =
     (case queries of
        [] \<Rightarrow> []
      | [q] \<Rightarrow> q
      | _ \<Rightarrow> [(op, BArr (map BDoc queries))])"

section \<open>Splitting and joining\<close>

lemma str_split_word: "d \<notin> set w \<Longrightarrow> str_split d w = [w]"
  by (induction w) auto

lemma str_split_append: "d \<notin> set w \<Longrightarrow> str_split d (w @ d # s) = w # str_split d s"
  by (induction w) auto

lemma str_split_join:
  "ws \<noteq> [] \<Longrightarrow> \<forall>w \<in> set ws. d \<notin> set w \<Longrightarrow> str_split d (str_join [d] ws) = ws"
  by (induction ws rule: induct_list012) (auto simp: str_split_word str_split_append)

lemma str_split_set: "c \<in> set s \<Longrightarrow> c = d \<or> (\<exists>w \<in> set (str_split d s). c \<in> set w)"
  by (induction s) (auto split: list.splits)

lemma fieldDotField_chars: "fieldDotField f \<Longrightarrow> c \<in> set f \<Longrightarrow> is_word c \<or> c = CHR ''.''"
  using str_split_set [of c f "CHR ''.''"] by (auto simp: fieldDotField_def list_all_iff)

lemma fieldDotField_no_comma: "fieldDotField f \<Longrightarrow> CHR '','' \<notin> set f"
  using fieldDotField_chars [of f "CHR '',''"] by (auto simp: is_word_def)

section \<open>Sort strings\<close>

text \<open>The text of a sort document, and which documents have one.\<close>

definition sort_part :: "string \<times> bson \<Rightarrow> string" where
  "sort_part e = (if snd e = BInt 1 then ''+'' else ''-'') @ fst e"

definition print_sort :: "bsonD \<Rightarrow> string" where
  "print_sort r = str_join '','' (map sort_part r)"

definition sort_doc :: "bsonD \<Rightarrow> bool" where
  "sort_doc r \<longleftrightarrow> r \<noteq> [] \<and> list_all (\<lambda>(f, v). fieldDotField f \<and> (v = BInt 1 \<or> v = BInt (- 1))) r"

lemma sort_match_iff:
  "sort_match p = Some (sign, f) \<longleftrightarrow> fieldDotField f \<and> (sign = ''+'' \<or> sign = ''-'') \<and> p = sign @ f"
  by (cases p) (auto simp: sort_match_def)

lemma parse_sort_parts_iff:
  "parse_sort_parts s i ps acc = Inr r \<longleftrightarrow>
   (\<exists>r'. r = acc @ r' \<and> ps = map sort_part r'
      \<and> list_all (\<lambda>(f, v). fieldDotField f \<and> (v = BInt 1 \<or> v = BInt (- 1))) r')"
proof (induction ps arbitrary: i acc r)
  case Nil
  show ?case by auto
next
  case (Cons p ps)
  show ?case (is "_ \<longleftrightarrow> ?rhs")
  proof (cases "sort_match p")
    case None
    then have "p \<noteq> sort_part e \<or> \<not> fieldDotField (fst e)" for e
      by (auto simp: sort_match_def sort_part_def split: list.splits if_splits)
    then have "\<not> ?rhs" by (fastforce simp: list_all_iff)
    with None show ?thesis by simp
  next
    case (Some m)
    obtain sign f where m: "m = (sign, f)" by fastforce
    with Some have p: "fieldDotField f" "sign = ''+'' \<or> sign = ''-''" "p = sign @ f"
      by (simp_all add: sort_match_iff)
    let ?v = "if sign = ''+'' then BInt 1 else BInt (- 1)"
    have step: "parse_sort_parts s i (p # ps) acc = parse_sort_parts s (Suc i) ps (acc @ [(f, ?v)])"
      using Some m p(2) by auto
    have unique: "sort_part e = p \<and> fieldDotField (fst e) \<and> (snd e = BInt 1 \<or> snd e = BInt (- 1))
        \<longleftrightarrow> e = (f, ?v)" for e
      using p by (cases e) (auto simp: sort_part_def)
    show ?thesis
    proof
      assume "parse_sort_parts s i (p # ps) acc = Inr r"
      then obtain r' where "r = (acc @ [(f, ?v)]) @ r'" "ps = map sort_part r'"
        "list_all (\<lambda>(f, v). fieldDotField f \<and> (v = BInt 1 \<or> v = BInt (- 1))) r'"
        unfolding step Cons.IH by blast
      with unique [of "(f, ?v)"] show ?rhs by (intro exI [of _ "(f, ?v) # r'"]) auto
    next
      assume ?rhs
      then obtain e r' where e: "r = acc @ e # r'" "sort_part e = p" "ps = map sort_part r'"
        "fieldDotField (fst e) \<and> (snd e = BInt 1 \<or> snd e = BInt (- 1))"
        "list_all (\<lambda>(f, v). fieldDotField f \<and> (v = BInt 1 \<or> v = BInt (- 1))) r'"
        by (auto simp: Cons_eq_map_conv)
      then have "e = (f, ?v)" using unique by blast
      with e show "parse_sort_parts s i (p # ps) acc = Inr r" unfolding step Cons.IH by simp
    qed
  qed
qed

text \<open>
  sort strings are parsed exactly. The parser accepts a text and returns a sort document if and
  only if the text is the printed form of that document, a comma-separated list of signed fields, so
  printing and parsing are inverse to each other.
\<close>

theorem parse_sort_query_iff:
  "parse_sort_query s = Inr r \<longleftrightarrow> sort_doc r \<and> s = print_sort r"
proof -
  have eq: "parse_sort_query s = Inr r \<longleftrightarrow> str_split (CHR '','') s = map sort_part r
      \<and> list_all (\<lambda>(f, v). fieldDotField f \<and> (v = BInt 1 \<or> v = BInt (- 1))) r"
    by (simp add: parse_sort_query_def parse_sort_parts_iff)
  show ?thesis
  proof
    assume "parse_sort_query s = Inr r"
    then have r: "str_split (CHR '','') s = map sort_part r"
      "list_all (\<lambda>(f, v). fieldDotField f \<and> (v = BInt 1 \<or> v = BInt (- 1))) r" by (simp_all add: eq)
    then have "s = print_sort r" by (metis print_sort_def str_join_split)
    moreover have "r \<noteq> []" using r(1) str_split_not_Nil [of "CHR '',''" s] by auto
    ultimately show "sort_doc r \<and> s = print_sort r" using r(2) by (simp add: sort_doc_def)
  next
    assume a: "sort_doc r \<and> s = print_sort r"
    then have "\<forall>w \<in> set (map sort_part r). CHR '','' \<notin> set w"
      by (auto simp: sort_doc_def list_all_iff sort_part_def dest!: fieldDotField_no_comma split: if_splits)
    with a show "parse_sort_query s = Inr r"
      unfolding eq by (simp add: sort_doc_def print_sort_def str_split_join)
  qed
qed

section \<open>Filter strings\<close>

lemma strip_prefix_append [simp]: "strip_prefix p (p @ s) = Some s"
  by (induction p) auto

lemma first_op_known:
  assumes "op \<in> set filter_ops"
  shows "first_op filter_ops (op @ '']='' @ v) = Some (op, v)"
  using assms by (auto simp: filter_ops_def)

lemma takeWhile_field:
  assumes "fieldDotField f"
  shows "takeWhile (\<lambda>c. is_word c \<or> c = CHR ''.'') (f @ CHR ''['' # s) = f"
    and "dropWhile (\<lambda>c. is_word c \<or> c = CHR ''.'') (f @ CHR ''['' # s) = CHR ''['' # s"
  using fieldDotField_chars [OF assms] by (simp_all add: is_word_def)

lemma filter_match_known:
  assumes "fieldDotField f" and "op \<in> set filter_ops" and "CHR 0x0A \<notin> set v"
  shows "filter_match (f @ ''['' @ op @ '']='' @ v) = Some (f, op, v)"
  using assms first_op_known [OF assms(2), of v]
  by (simp add: filter_match_def Let_def takeWhile_field)

lemma filter_ops_no_comma: "op \<in> set filter_ops \<Longrightarrow> CHR '','' \<notin> set op"
  by (auto simp: filter_ops_def)

definition mongo_name :: "string \<Rightarrow> string" where
  "mongo_name op =
     (if op = ''=='' then ''$eq'' else if op = ''!='' then ''$neq'' else if op = ''>='' then ''$gte''
      else if op = ''<='' then ''$lte'' else if op = ''>'' then ''$gt'' else if op = ''<'' then ''$lt''
      else ''$regex'')"

lemma mongo_operator_known:
  "op \<in> set filter_ops \<Longrightarrow>
   mongo_operator op x = Inr ((mongo_name op, x) # (if op = ''search'' then [(''$options'', BStr ''i'')] else []))"
  by (auto simp: filter_ops_def mongo_operator_def mongo_name_def)

lemma parse_filter_one:
  assumes "fieldDotField f" and "f \<noteq> ''timestamp''" and "op \<in> set filter_ops"
    and "CHR 0x0A \<notin> set v" and "CHR '','' \<notin> set v"
  shows "parse_filter_query (f @ ''['' @ op @ '']='' @ v) =
    Inr [(f, BDoc ((mongo_name op, BStr v) # (if op = ''search'' then [(''$options'', BStr ''i'')] else [])))]"
proof -
  have "CHR '','' \<notin> set (f @ ''['' @ op @ '']='' @ v)"
    using assms fieldDotField_no_comma [of f] filter_ops_no_comma [of op] by auto
  then have "str_split (CHR '','') (f @ ''['' @ op @ '']='' @ v) = [f @ ''['' @ op @ '']='' @ v]"
    by (rule str_split_word)
  then show ?thesis
    using filter_match_known [OF assms(1,3,4)] assms(2) mongo_operator_known [OF assms(3), of "BStr v"]
    by (simp add: parse_filter_query_def filter_value_def mongo_filter_def del: append.simps append_Cons)
qed

text \<open>
  what a filter string selects. A filter on a field other than the time stamp is parsed, for each
  operator of the grammar, and for equality the query it becomes matches exactly the documents whose
  field, or an element of whose array field, is the given text.
\<close>

theorem equality_filter_selects:
  assumes "fieldDotField f" and "f \<noteq> ''timestamp''" and "CHR 0x0A \<notin> set v" and "CHR '','' \<notin> set v"
  shows "\<exists>q. parse_filter_query (f @ ''[==]='' @ v) = Inr q
    \<and> (\<forall>rx doc. matches rx doc q \<longleftrightarrow> BStr v \<in> set (elements (field doc f)))"
proof -
  have "''=='' \<in> set filter_ops" by (simp add: filter_ops_def)
  from parse_filter_one [OF assms(1,2) this assms(3,4)] show ?thesis
    by (simp add: mongo_name_def is_condition_def op_matches_def)
qed

theorem equality_filter_selects_witness:
  "\<exists>q. parse_filter_query (''name'' @ ''[==]='' @ ''x'') = Inr q \<and> matches (\<lambda>r s. False) [(''name'', BStr ''x'')] q
     \<and> \<not> matches (\<lambda>r s. False) [(''name'', BStr ''y'')] q"
proof -
  have "fieldDotField ''name''" by code_simp
  from equality_filter_selects [OF this, of "''x''"] obtain q
    where q: "parse_filter_query (''name'' @ ''[==]='' @ ''x'') = Inr q"
      "\<And>rx doc. matches rx doc q \<longleftrightarrow> BStr ''x'' \<in> set (elements (field doc ''name''))" by auto
  have "field [(''name'', BStr ''x'')] ''name'' = Some (BStr ''x'')"
    "field [(''name'', BStr ''y'')] ''name'' = Some (BStr ''y'')" by code_simp+
  with q show ?thesis by auto
qed

text \<open>
  The operators of the grammar that the database knows are all but one. Every parsed filter with a
  comparison, an equality or a search is accepted by the database; the inequality filter is parsed into
  an operator that the database does not have and rejects.
\<close>

theorem inequality_filter_unknown:
  assumes "fieldDotField f" and "f \<noteq> ''timestamp''" and "op \<in> set filter_ops"
    and "CHR 0x0A \<notin> set v" and "CHR '','' \<notin> set v"
  shows "\<exists>q. parse_filter_query (f @ ''['' @ op @ '']='' @ v) = Inr q \<and> (accepted q \<longleftrightarrow> op \<noteq> ''!='')"
  using parse_filter_one [OF assms] assms(3)
  by (auto simp: filter_ops_def mongo_name_def is_condition_def known_operator_def)

theorem inequality_filter_unknown_witness:
  "\<exists>q. parse_filter_query (''name'' @ ''['' @ ''!='' @ '']='' @ ''x'') = Inr q \<and> \<not> accepted q"
proof -
  have "fieldDotField ''name''" "''!='' \<in> set filter_ops" by code_simp+
  from inequality_filter_unknown [OF this(1) _ this(2), of "''x''"] show ?thesis by auto
qed

section \<open>Joined filters\<close>

text \<open>Joining filters with \<open>AND\<close> is their conjunction, for the documents matched and for acceptance.\<close>

lemma join_queries_AND:
  "matches rx doc (join_queries qs AND) \<longleftrightarrow> (\<forall>q \<in> set qs. matches rx doc q)"
  "accepted (join_queries qs AND) \<longleftrightarrow> (\<forall>q \<in> set qs. accepted q)"
proof -
  have "all_accepted (map BDoc qs) \<longleftrightarrow> (\<forall>q \<in> set qs. accepted q)" for qs by (induction qs) auto
  then show "matches rx doc (join_queries qs AND) \<longleftrightarrow> (\<forall>q \<in> set qs. matches rx doc q)"
    and "accepted (join_queries qs AND) \<longleftrightarrow> (\<forall>q \<in> set qs. accepted q)"
    by (cases qs rule: remdups_adj.cases,
      auto simp: join_queries_def AND_def all_match_iff simp del: all_match.simps all_accepted.simps list.map)+
qed

end
