(* ===== verification/Mongo.thy ===== *)
theory Mongo
  imports Argo_Types Query Workspaces
begin

text \<open>
  \<^verbatim>\<open>storage/mongo.go\<close> and \<^verbatim>\<open>storage/mongovolumestorage.go\<close>: components, workflows,
  jobs and volumes in a document database. The database driver is a parameter, a record of the calls
  the source makes on a database state of any type, with the driver's encoding and decoding of the
  stored types; filters, updates and pipelines are the BSON documents the source builds. A call
  that changes the database returns the state after it. The third argument of \<open>FindOne\<close> is the
  projection, empty for none.
\<close>

section \<open>The request context\<close>

record ctx =
  cx_user :: "user option"
  cx_workspaces :: "workspace list option"

definition getWorkspacesFromContext :: "ctx \<Rightarrow> workspace list" where
  "getWorkspacesFromContext cx = (case cx_workspaces cx of None \<Rightarrow> [] | Some wss \<Rightarrow> wss)"

text \<open>
  Without a user in the context the access check calls a method of a nil interface as soon as a
  workspace has a role to check.
\<close>

definition UserHasAccess_of :: "workspace \<Rightarrow> user option \<Rightarrow> bool res" where
  "UserHasAccess_of ws u =
     (case u of
        Some usr \<Rightarrow> Inr (UserHasAccess ws usr)
      | None \<Rightarrow> if list_all (\<lambda>rs. rs = []) (ws_roles ws) then Inr False
                else Inl (GoPanic ''nil pointer dereference: user''))"

fun accessIn :: "workspace list \<Rightarrow> string \<Rightarrow> user option \<Rightarrow> bool res" where
  "accessIn [] ns u = Inr False"
| "accessIn (w # wss) ns u = (if ws_name w = ns then UserHasAccess_of w u else accessIn wss ns u)"

definition CheckWorkspaceAccess :: "ctx \<Rightarrow> string \<Rightarrow> bool res" where
  "CheckWorkspaceAccess cx ns = accessIn (getWorkspacesFromContext cx) ns (cx_user cx)"

fun accessible :: "workspace list \<Rightarrow> user option \<Rightarrow> workspace list res" where
  "accessible [] u = Inr []"
| "accessible (w # wss) u =
     rbind (UserHasAccess_of w u) (\<lambda>b. rbind (accessible wss u) (\<lambda>rest. Inr (if b then w # rest else rest)))"

section \<open>Documents and the driver\<close>

record flowify_volume =
  fv_uid :: component_reference
  fv_workspace :: string
  fv_volume :: volume

datatype document = DComponent component | DWorkflow workflow | DJob job | DVolume flowify_volume

record page_info =
  pg_totalNumber :: int
  pg_limit :: int
  pg_skip :: int

record pagination =
  pn_limit :: int
  pn_skip :: int

datatype tx_result = TxInsert | TxSingle "bsonD option res" | TxDelete int

record 'd mongo =
  InsertOne :: "string \<Rightarrow> bsonD \<Rightarrow> 'd \<Rightarrow> unit res \<times> 'd"
  FindOne :: "string \<Rightarrow> bsonD \<Rightarrow> bsonD \<Rightarrow> 'd \<Rightarrow> bsonD option res"
  UpdateMany :: "string \<Rightarrow> bsonD \<Rightarrow> bsonD \<Rightarrow> 'd \<Rightarrow> unit res \<times> 'd"
  UpdateOne :: "string \<Rightarrow> bsonD \<Rightarrow> bsonD \<Rightarrow> 'd \<Rightarrow> unit res \<times> 'd"
  ReplaceOne :: "string \<Rightarrow> bsonD \<Rightarrow> bsonD \<Rightarrow> 'd \<Rightarrow> unit res \<times> 'd"
  FindOneAndUpdate :: "string \<Rightarrow> bsonD \<Rightarrow> bsonD \<Rightarrow> 'd \<Rightarrow> bsonD option res \<times> 'd"
  DeleteOne :: "string \<Rightarrow> bsonD \<Rightarrow> 'd \<Rightarrow> int res \<times> 'd"
  Aggregate :: "string \<Rightarrow> bsonD list \<Rightarrow> 'd \<Rightarrow> bsonD list res"
  StartSession :: "'d \<Rightarrow> unit res"
  WithTransaction :: "('d \<Rightarrow> tx_result res \<times> 'd) \<Rightarrow> 'd \<Rightarrow> tx_result res \<times> 'd"
  Marshal :: "document \<Rightarrow> bsonD res"
  DecodeComponent :: "bsonD \<Rightarrow> component res"
  DecodeWorkflow :: "bsonD \<Rightarrow> workflow res"
  DecodeJob :: "bsonD \<Rightarrow> job res"
  DecodeVolume :: "bsonD \<Rightarrow> flowify_volume res"
  DecodeVersion :: "bsonD \<Rightarrow> version res"
  DecodeVersions :: "bsonD \<Rightarrow> version list res"
  DecodeTimestamp :: "bsonD \<Rightarrow> gotime res"
  DecodeFacets :: "bsonD \<Rightarrow> (page_info list \<times> metadata list) res"
  DecodeFacetsWs :: "bsonD \<Rightarrow> (page_info list \<times> (metadata \<times> string) list) res"
  DecodeFacetsVol :: "bsonD \<Rightarrow> (page_info list \<times> flowify_volume list) res"

datatype DocumentKind = JobKind | ComponentKind | WorkflowKind | OtherKind string

definition componentCollection :: string where "componentCollection = ''Components''"
definition workflowCollection :: string where "workflowCollection = ''Workflows''"
definition jobCollection :: string where "jobCollection = ''Jobs''"
definition volumeCollection :: string where "volumeCollection = ''Volumes''"

lemmas collections = componentCollection_def workflowCollection_def jobCollection_def volumeCollection_def

fun selectGetter :: "DocumentKind \<Rightarrow> string option" where
  "selectGetter ComponentKind = Some componentCollection"
| "selectGetter WorkflowKind = Some workflowCollection"
| "selectGetter JobKind = Some jobCollection"
| "selectGetter (OtherKind k) = None"

text \<open>A component reference is stored as the text of its UUID.\<close>

definition bson_uid :: "ext \<Rightarrow> component_reference \<Rightarrow> bson" where
  "bson_uid E u = BStr (UUIDString E u)"

definition uid_filter :: "ext \<Rightarrow> component_reference \<Rightarrow> bsonD" where
  "uid_filter E u = [(''uid'', bson_uid E u)]"

definition version_filter :: "ext \<Rightarrow> component_reference \<Rightarrow> int \<Rightarrow> bsonD" where
  "version_filter E u n = [(''uid'', bson_uid E u), (''version.current'', BInt n)]"

section \<open>Versions\<close>

definition latestStages :: "ext \<Rightarrow> component_reference \<Rightarrow> bsonD list" where
  "latestStages E cref =
     [[(''$match'', BDoc (uid_filter E cref))],
      [(''$project'', BDoc [(''_id'', BInt 0), (''version'', BInt 1)])],
      [(''$sort'', BDoc [(''version.current'', BInt (- 1))])],
      [(''$limit'', BInt 1)]]"

text \<open>An empty result wraps the error of the query, which is nil there.\<close>

definition GetLatestVersion :: "ext \<Rightarrow> 'd mongo \<Rightarrow> component_reference \<Rightarrow> string \<Rightarrow> 'd \<Rightarrow> version res" where
  "GetLatestVersion E M cref coll d =
     (case Aggregate M coll (latestStages E cref) d of
        Inl e \<Rightarrow> Inl (Wrap ''Error getting latest document version from storage'' e)
      | Inr [] \<Rightarrow>
          (case Wrapf E None ''Error decoding document latest version from storage'' of
             None \<Rightarrow> Inr zero_version
           | Some e \<Rightarrow> Inl e)
      | Inr (b # bs) \<Rightarrow>
          wrapres ''Error getting latest document version from storage'' (DecodeVersion M b))"

definition allVersionsStages :: "ext \<Rightarrow> component_reference \<Rightarrow> bsonD list" where
  "allVersionsStages E cref =
     [[(''$match'', BDoc (uid_filter E cref))],
      [(''$group'', BDoc [(''_id'', BInt 0), (''items'', BDoc [(''$push'', BStr ''$version'')])])]]"

definition GetAllVersions :: "ext \<Rightarrow> 'd mongo \<Rightarrow> component_reference \<Rightarrow> string \<Rightarrow> 'd \<Rightarrow> version list res" where
  "GetAllVersions E M cref coll d =
     (case Aggregate M coll (allVersionsStages E cref) d of
        Inl e \<Rightarrow> Inl (Wrap ''Error getting document versions from storage'' e)
      | Inr [] \<Rightarrow>
          (case Wrapf E None ''Error decoding document versions from storage'' of
             None \<Rightarrow> Inr []
           | Some e \<Rightarrow> Inl e)
      | Inr (b # bs) \<Rightarrow> wrapres ''Error getting document versions from storage'' (DecodeVersions M b))"

definition latestTagFilter :: "ext \<Rightarrow> component_reference \<Rightarrow> int \<Rightarrow> bsonD" where
  "latestTagFilter E u current =
     [(''uid'', bson_uid E u), (''version.tags'', BDoc [(''$in'', BArr [BStr VersionTagLatest])]),
      (''version.current'', BDoc [(''$ne'', BInt current)])]"

definition latestTagPull :: bsonD where
  "latestTagPull = [(''$pull'', BDoc [(''version.tags'', BDoc [(''$in'', BArr [BStr VersionTagLatest])])])]"

definition replaceLatestTag ::
  "ext \<Rightarrow> 'd mongo \<Rightarrow> component_reference \<Rightarrow> int \<Rightarrow> string \<Rightarrow> 'd \<Rightarrow> unit res \<times> 'd" where
  "replaceLatestTag E M u current coll d =
     (case UpdateMany M coll (latestTagFilter E u current) latestTagPull d of
        (Inl e, d') \<Rightarrow> (Inl (Wrap ''cannot clear latest tag'' e), d')
      | (Inr _, d') \<Rightarrow> (Inr (), d'))"

text \<open>The two document types that have versions, as lenses onto their metadata.\<close>

definition cmp_set_metadata :: "metadata \<Rightarrow> component \<Rightarrow> component" where
  "cmp_set_metadata md c = Component md (cmp_inputs c) (cmp_outputs c) (cmp_type c) (cmp_implementation c)"

definition wf_set_metadata :: "metadata \<Rightarrow> workflow \<Rightarrow> workflow" where
  "wf_set_metadata md w = w\<lparr>wf_metadata := md\<rparr>"

definition nextVersion :: "version \<Rightarrow> metadata \<Rightarrow> metadata" where
  "nextVersion latest md =
     md\<lparr>md_version := SetLatestTag ((md_version md)
          \<lparr>ver_current := wrap64 (ver_current latest + 1),
           ver_previous := \<lparr>crv_version = ver_current latest, crv_uid = 0\<rparr>\<rparr>)\<rparr>"

text \<open>The common end of the two branches: encode, insert, clear the tag of the other versions.\<close>

definition insertVersion ::
  "ext \<Rightarrow> 'd mongo \<Rightarrow> document \<Rightarrow> component_reference \<Rightarrow> int \<Rightarrow> string \<Rightarrow> 'd \<Rightarrow> tx_result res \<times> 'd" where
  "insertVersion E M doc u current coll d =
     (case Marshal M doc of
        Inl e \<Rightarrow> (Inl (Wrap ''cannot marshal %s for database'' e), d)
      | Inr bzon \<Rightarrow>
          (case InsertOne M coll bzon d of
             (Inl e, d1) \<Rightarrow> (Inl (Wrap ''cannot put %s: %s'' e), d1)
           | (Inr _, d1) \<Rightarrow>
               (case replaceLatestTag E M u current coll d1 of
                  (Inl e, d2) \<Rightarrow> (Inl (Wrap ''cannot set latest tag on updated %s: %s'' e), d2)
                | (Inr _, d2) \<Rightarrow> (Inr TxInsert, d2))))"

definition updateCallback :: "ext \<Rightarrow> 'd mongo \<Rightarrow> document \<Rightarrow> 'd \<Rightarrow> tx_result res \<times> 'd" where
  "updateCallback E M document d =
     (case document of
        DComponent node \<Rightarrow>
          (case GetLatestVersion E M (cmp_uid node) componentCollection d of
             Inl e \<Rightarrow> (Inl (Wrap ''cannot get previous document version'' e), d)
           | Inr latest \<Rightarrow>
               (let md = nextVersion latest (cmp_metadata node)
                in insertVersion E M (DComponent (cmp_set_metadata md node)) (cmp_uid node)
                     (ver_current (md_version md)) componentCollection d))
      | DWorkflow node \<Rightarrow>
          (case GetLatestVersion E M (md_uid (wf_metadata node)) workflowCollection d of
             Inl e \<Rightarrow> (Inl (Wrap ''cannot get previous document version'' e), d)
           | Inr latest \<Rightarrow>
               (let md = nextVersion latest (wf_metadata node)
                in insertVersion E M (DWorkflow (wf_set_metadata md node)) (md_uid (wf_metadata node))
                     (ver_current (md_version md)) workflowCollection d))
      | _ \<Rightarrow> (Inl (Errorf ''cannot update document, unknown type: %s'' []), d))"

definition timestampProjection :: bsonD where "timestampProjection = [(''timestamp'', BInt 1)]"

text \<open>The checks of a patch after the branch on the type.\<close>

definition patchVersion ::
  "ext \<Rightarrow> 'd mongo \<Rightarrow> document \<Rightarrow> component_reference \<Rightarrow> int \<Rightarrow> string \<Rightarrow> gotime \<Rightarrow> 'd \<Rightarrow>
   tx_result res \<times> 'd" where
  "patchVersion E M doc u current coll nodeTimestamp d =
     (case GetLatestVersion E M u coll d of
        Inl e \<Rightarrow> (Inl (Wrap ''cannot get document version'' e), d)
      | Inr latest \<Rightarrow>
          if current \<noteq> ver_current latest then
            (Inl (Errorf ''only latest version of document can be patched'' []), d)
          else
            (case FindOne M coll (version_filter E u current) timestampProjection d of
               Inl e \<Rightarrow> (Inl (Wrap ''cannot get document timestamp'' e), d)
             | Inr None \<Rightarrow> (Inl (Wrap ''cannot get document timestamp'' (ExtErr ''mongo: no documents in result'')), d)
             | Inr (Some b) \<Rightarrow>
                 (case DecodeTimestamp M b of
                    Inl e \<Rightarrow> (Inl (Wrap ''cannot get document timestamp'' e), d)
                  | Inr dbTimestamp \<Rightarrow>
                      if dbTimestamp \<noteq> nodeTimestamp then (Inl ErrNewerDocumentExists, d)
                      else
                        (case Marshal M doc of
                           Inl e \<Rightarrow> (Inl (Wrap ''cannot marshal %s for database'' e), d)
                         | Inr bzon \<Rightarrow>
                             (case FindOneAndUpdate M coll (version_filter E u current) [(''$set'', BDoc bzon)] d of
                                (r, d1) \<Rightarrow> (Inr (TxSingle r), d1))))))"

definition patchCallback :: "ext \<Rightarrow> 'd mongo \<Rightarrow> document \<Rightarrow> gotime \<Rightarrow> 'd \<Rightarrow> tx_result res \<times> 'd" where
  "patchCallback E M document nodeTimestamp d =
     (case document of
        DComponent node \<Rightarrow>
          patchVersion E M document (cmp_uid node) (ver_current (md_version (cmp_metadata node)))
            componentCollection nodeTimestamp d
      | DWorkflow node \<Rightarrow>
          patchVersion E M document (md_uid (wf_metadata node)) (ver_current (md_version (wf_metadata node)))
            workflowCollection nodeTimestamp d
      | _ \<Rightarrow> (Inl (Errorf ''cannot patch document, unknown type: %s'' []), d))"

definition deleteCallback :: "ext \<Rightarrow> 'd mongo \<Rightarrow> DocumentKind \<Rightarrow> cref_version \<Rightarrow> 'd \<Rightarrow> tx_result res \<times> 'd" where
  "deleteCallback E M kind cref d =
     (case selectGetter kind of
        None \<Rightarrow> (Inl (Errorf ''cannot delete document, unknown document kind: %s'' []), d)
      | Some coll \<Rightarrow>
          (case DeleteOne M coll
                  (if kind = JobKind then uid_filter E (crv_uid cref)
                   else version_filter E (crv_uid cref) (crv_version cref)) d of
             (Inl e, d1) \<Rightarrow> (Inl e, d1)
           | (Inr n, d1) \<Rightarrow> (Inr (TxDelete n), d1)))"

section \<open>References to documents\<close>

text \<open>A document is looked up by a reference or a versioned reference.\<close>

definition getCRefVersion ::
  "ext \<Rightarrow> 'd mongo \<Rightarrow> node_value \<Rightarrow> string \<Rightarrow> 'd \<Rightarrow> cref_version res" where
  "getCRefVersion E M vid coll d =
     (case vid of
        NVReference u \<Rightarrow>
          (case GetLatestVersion E M u coll d of
             Inl e \<Rightarrow> Inl (Wrap ''cannot get latest version of component %s'' e)
           | Inr tmp \<Rightarrow> Inr \<lparr>crv_version = ver_current tmp, crv_uid = u\<rparr>)
      | NVCRefVersion r \<Rightarrow>
          if crv_version r = 0 then
            (case GetLatestVersion E M (crv_uid r) coll d of
               Inl e \<Rightarrow> Inl (Wrap ''cannot get latest version of component %s'' e)
             | Inr tmp \<Rightarrow> Inr (r\<lparr>crv_version := ver_current tmp\<rparr>))
          else Inr r
      | _ \<Rightarrow> Inl (Errorf ''Cannot convert to CRefVersion object. Incorect type: %s'' []))"

definition ref_filter :: "ext \<Rightarrow> cref_version \<Rightarrow> bsonD" where
  "ref_filter E r = (if crv_version r \<noteq> 0 then version_filter E (crv_uid r) (crv_version r) else uid_filter E (crv_uid r))"

definition in_session ::
  "'d mongo \<Rightarrow> string \<Rightarrow> string \<Rightarrow> ('d \<Rightarrow> tx_result res \<times> 'd) \<Rightarrow> 'd \<Rightarrow> tx_result res \<times> 'd" where
  "in_session M noSession failed callback d =
     (case StartSession M d of
        Inl e \<Rightarrow> (Inl (Wrap noSession e), d)
      | Inr _ \<Rightarrow> (case WithTransaction M callback d of (r, d') \<Rightarrow> (wrapres failed r, d')))"

section \<open>Components\<close>

text \<open>\<^verbatim>\<open>FindOne(...).Decode(...)\<close>, where no document is told apart from other errors.\<close>

definition findDecode :: "'d mongo \<Rightarrow> (bsonD \<Rightarrow> 'a res) \<Rightarrow> string \<Rightarrow> bsonD \<Rightarrow> string \<Rightarrow> 'd \<Rightarrow> 'a res" where
  "findDecode M dec coll f msg d =
     (case FindOne M coll f [] d of
        Inl e \<Rightarrow> Inl (Wrap msg e)
      | Inr None \<Rightarrow> Inl ErrNotFound
      | Inr (Some b) \<Rightarrow> wrapres msg (dec b))"

definition insertDocument :: "'d mongo \<Rightarrow> document \<Rightarrow> string \<Rightarrow> string \<Rightarrow> string \<Rightarrow> 'd \<Rightarrow> unit res \<times> 'd" where
  "insertDocument M doc coll badMarshal badInsert d =
     (case Marshal M doc of
        Inl e \<Rightarrow> (Inl (Wrap badMarshal e), d)
      | Inr bzon \<Rightarrow> (case InsertOne M coll bzon d of (r, d') \<Rightarrow> (wrapres badInsert r, d')))"

definition CreateComponent :: "'d mongo \<Rightarrow> component \<Rightarrow> 'd \<Rightarrow> unit res \<times> 'd" where
  "CreateComponent M node d =
     (if uuid_IsZero (cmp_uid node) then (Inl (Errorf ''cannot store component with zero Uid'' []), d)
      else
        (case InitializeNew (md_version (cmp_metadata node)) of
           Inl e \<Rightarrow> (Inl (Wrap ''cannot create component %s'' e), d)
         | Inr v \<Rightarrow>
             insertDocument M (DComponent (cmp_set_metadata ((cmp_metadata node)\<lparr>md_version := v\<rparr>) node))
               componentCollection ''cannot marshal workflow for database'' ''cannot insert node %s'' d))"

definition PutComponent :: "ext \<Rightarrow> 'd mongo \<Rightarrow> component \<Rightarrow> 'd \<Rightarrow> unit res \<times> 'd" where
  "PutComponent E M node d =
     (if uuid_IsZero (cmp_uid node) then (Inl (Errorf ''cannot store component with zero Uid'' []), d)
      else
        (case in_session M ''cannot start DB session for update document transaction''
                ''update document transaction fail'' (updateCallback E M (DComponent node)) d of
           (Inl e, d') \<Rightarrow> (Inl e, d')
         | (Inr _, d') \<Rightarrow> (Inr (), d')))"

text \<open>A nil result of the type assertion would be dereferenced.\<close>

definition decodeSingle :: "(bsonD \<Rightarrow> 'a res) \<Rightarrow> tx_result res \<Rightarrow> 'a res" where
  "decodeSingle dec r =
     (case r of
        Inl e \<Rightarrow> Inl e
      | Inr (TxSingle (Inl e)) \<Rightarrow> Inl e
      | Inr (TxSingle (Inr None)) \<Rightarrow> Inl (ExtErr ''mongo: no documents in result'')
      | Inr (TxSingle (Inr (Some b))) \<Rightarrow> dec b
      | _ \<Rightarrow> Inl (GoPanic ''nil pointer dereference: result''))"

definition PatchComponent :: "ext \<Rightarrow> 'd mongo \<Rightarrow> component \<Rightarrow> gotime \<Rightarrow> 'd \<Rightarrow> component res \<times> 'd" where
  "PatchComponent E M node oldTimestamp d =
     (case in_session M ''cannot start DB session for update document transaction''
             ''patch document transaction fail'' (patchCallback E M (DComponent node) oldTimestamp) d of
        (r, d') \<Rightarrow> (decodeSingle (DecodeComponent M) r, d'))"

definition GetComponent :: "ext \<Rightarrow> 'd mongo \<Rightarrow> node_value \<Rightarrow> 'd \<Rightarrow> component res" where
  "GetComponent E M vid d =
     (case getCRefVersion E M vid componentCollection d of
        Inl e \<Rightarrow> Inl (Wrap ''error retriving component.'' e)
      | Inr vcref \<Rightarrow>
          findDecode M (DecodeComponent M) componentCollection (ref_filter E vcref)
            ''Error getting component {uid: %s, version: %s} from storage'' d)"

section \<open>Workflows and jobs\<close>

definition no_access :: "string \<Rightarrow> goerr" where
  "no_access ws = Errorf ''user has no access to workspace (%s)'' [ws]"

definition CreateWorkflow :: "'d mongo \<Rightarrow> ctx \<Rightarrow> workflow \<Rightarrow> 'd \<Rightarrow> unit res \<times> 'd" where
  "CreateWorkflow M cx node d =
     (case CheckWorkspaceAccess cx (wf_workspace node) of
        Inl e \<Rightarrow> (Inl e, d)
      | Inr hasWsAccess \<Rightarrow>
          if \<not> hasWsAccess then (Inl (no_access (wf_workspace node)), d)
          else
            (case InitializeNew (md_version (wf_metadata node)) of
               Inl e \<Rightarrow> (Inl (Wrap ''cannot create workflow %s'' e), d)
             | Inr v \<Rightarrow>
                 insertDocument M (DWorkflow (wf_set_metadata ((wf_metadata node)\<lparr>md_version := v\<rparr>) node))
                   workflowCollection ''cannot marshal workflow for database'' ''cannot insert node %s'' d))"

text \<open>The context is not looked at when a workflow is patched.\<close>

definition PatchWorkflow :: "ext \<Rightarrow> 'd mongo \<Rightarrow> ctx \<Rightarrow> workflow \<Rightarrow> gotime \<Rightarrow> 'd \<Rightarrow> workflow res \<times> 'd" where
  "PatchWorkflow E M cx node oldTimestamp d =
     (case in_session M ''cannot start DB session for update document transaction''
             ''patch document transaction fail'' (patchCallback E M (DWorkflow node) oldTimestamp) d of
        (r, d') \<Rightarrow> (decodeSingle (DecodeWorkflow M) r, d'))"

definition GetWorkflow :: "ext \<Rightarrow> 'd mongo \<Rightarrow> ctx \<Rightarrow> node_value \<Rightarrow> 'd \<Rightarrow> workflow res" where
  "GetWorkflow E M cx vid d =
     (case getCRefVersion E M vid workflowCollection d of
        Inl e \<Rightarrow> Inl (Wrap ''error retriving component.'' e)
      | Inr vcref \<Rightarrow>
          (case findDecode M (DecodeWorkflow M) workflowCollection (ref_filter E vcref)
                  ''Error getting workflow {uid: %s, version: %s} from storage'' d of
             Inl e \<Rightarrow> Inl e
           | Inr result \<Rightarrow>
               rbind (CheckWorkspaceAccess cx (wf_workspace result)) (\<lambda>hasWsAccess.
               if \<not> hasWsAccess then Inl (no_access (wf_workspace result)) else Inr result)))"

definition PutWorkflow :: "ext \<Rightarrow> 'd mongo \<Rightarrow> ctx \<Rightarrow> workflow \<Rightarrow> 'd \<Rightarrow> unit res \<times> 'd" where
  "PutWorkflow E M cx node d =
     (if uuid_IsZero (md_uid (wf_metadata node))
      then (Inl (Errorf ''cannot store workflow with zero Uid'' []), d)
      else
        (case GetWorkflow E M cx (NVReference (md_uid (wf_metadata node))) d of
           Inl e \<Rightarrow> (Inl (Wrap ''could not access workflow for storage'' e), d)
         | Inr wkf \<Rightarrow>
             if wf_workspace wkf \<noteq> wf_workspace node
             then (Inl (Errorf ''cannot move workflows from workspace (%s)'' [wf_workspace wkf]), d)
             else
               (case in_session M ''cannot start DB session for update document transaction''
                       ''update document transaction fail'' (updateCallback E M (DWorkflow node)) d of
                  (Inl e, d') \<Rightarrow> (Inl e, d')
                | (Inr _, d') \<Rightarrow> (Inr (), d'))))"

definition GetJob :: "ext \<Rightarrow> 'd mongo \<Rightarrow> ctx \<Rightarrow> component_reference \<Rightarrow> 'd \<Rightarrow> job res" where
  "GetJob E M cx u d =
     (case findDecode M (DecodeJob M) jobCollection (uid_filter E u) ''Error getting job %s from storage'' d of
        Inl e \<Rightarrow> Inl e
      | Inr result \<Rightarrow>
          rbind (CheckWorkspaceAccess cx (wf_workspace (job_workflow result))) (\<lambda>ok.
          if \<not> ok then Inl (no_access (wf_workspace (job_workflow result))) else Inr result))"

definition CreateJob :: "'d mongo \<Rightarrow> ctx \<Rightarrow> job \<Rightarrow> 'd \<Rightarrow> unit res \<times> 'd" where
  "CreateJob M cx node d =
     (case CheckWorkspaceAccess cx (wf_workspace (job_workflow node)) of
        Inl e \<Rightarrow> (Inl e, d)
      | Inr ok \<Rightarrow>
          if \<not> ok then (Inl (no_access (wf_workspace (job_workflow node))), d)
          else insertDocument M (DJob node) jobCollection ''cannot marshal job for database''
                 ''cannot insert node %s'' d)"

definition AddJobEvents :: "ext \<Rightarrow> 'd mongo \<Rightarrow> component_reference \<Rightarrow> string list \<Rightarrow> 'd \<Rightarrow> unit res \<times> 'd" where
  "AddJobEvents E M u events d =
     UpdateOne M jobCollection (uid_filter E u)
       [(''$set'', BDoc [(''events'', BArr (map BOther events))])] d"

definition deleteAccess :: "ext \<Rightarrow> 'd mongo \<Rightarrow> ctx \<Rightarrow> DocumentKind \<Rightarrow> cref_version \<Rightarrow> 'd \<Rightarrow> unit res" where
  "deleteAccess E M cx kind r d =
     (case kind of
        WorkflowKind \<Rightarrow>
          wrapres ''could not access workflow from storage or document not found''
            (rbind (GetWorkflow E M cx (NVCRefVersion r) d) (\<lambda>_. Inr ()))
      | JobKind \<Rightarrow>
          wrapres ''could not access job from storage or document not found''
            (rbind (GetJob E M cx (crv_uid r) d) (\<lambda>_. Inr ()))
      | _ \<Rightarrow> Inr ())"

definition DeleteDocument ::
  "ext \<Rightarrow> 'd mongo \<Rightarrow> ctx \<Rightarrow> DocumentKind \<Rightarrow> cref_version \<Rightarrow> 'd \<Rightarrow> cref_version res \<times> 'd" where
  "DeleteDocument E M cx kind r d =
     (case deleteAccess E M cx kind r d of
        Inl e \<Rightarrow> (Inl e, d)
      | Inr _ \<Rightarrow>
          (case in_session M ''cannot start DB session for delete document transaction''
                  ''delete document transaction fail'' (deleteCallback E M kind r) d of
             (Inl e, d') \<Rightarrow> (Inl e, d')
           | (Inr (TxDelete n), d') \<Rightarrow>
               if n = 0 then (Inl (Errorf ''document not found'' []), d')
               else if n \<noteq> 1 then (Inl (Errorf ''unexpected delete count %d, for %s'' [itoa n]), d')
               else (Inr r, d')
           | (Inr _, d') \<Rightarrow> (Inl (Errorf ''unexpected database delete result'' []), d')))"

section \<open>Volumes\<close>

definition GetVolume :: "ext \<Rightarrow> 'd mongo \<Rightarrow> ctx \<Rightarrow> component_reference \<Rightarrow> 'd \<Rightarrow> flowify_volume res" where
  "GetVolume E M cx u d =
     (case findDecode M (DecodeVolume M) volumeCollection (uid_filter E u) ''Error getting component %s from storage'' d of
        Inl e \<Rightarrow> Inl e
      | Inr result \<Rightarrow>
          rbind (CheckWorkspaceAccess cx (fv_workspace result)) (\<lambda>ok.
          if \<not> ok then Inl ErrNoAccess else Inr result))"

text \<open>
  Only the error "not found" makes a new document; any other outcome of the lookup, an error
  included, replaces the document with the volume's UUID. A panic of the lookup is not caught.
\<close>

definition PutVolume :: "ext \<Rightarrow> 'd mongo \<Rightarrow> ctx \<Rightarrow> flowify_volume \<Rightarrow> 'd \<Rightarrow> unit res \<times> 'd" where
  "PutVolume E M cx vol d =
     (if uuid_IsZero (fv_uid vol) then (Inl (Errorf ''uid required'' []), d)
      else
        (case CheckWorkspaceAccess cx (fv_workspace vol) of
           Inl e \<Rightarrow> (Inl e, d)
         | Inr ok \<Rightarrow>
             if \<not> ok then (Inl ErrNoAccess, d)
             else
               (case Marshal M (DVolume vol) of
                  Inl e \<Rightarrow> (Inl (Wrap ''cannot marshal volume for database'' e), d)
                | Inr bzon \<Rightarrow>
                    (case GetVolume E M cx (fv_uid vol) d of
                       Inl (GoPanic m) \<Rightarrow> (Inl (GoPanic m), d)
                     | Inl ErrNotFound \<Rightarrow>
                         (case InsertOne M volumeCollection bzon d of
                            (r, d') \<Rightarrow> (wrapres ''could put node %s'' r, d'))
                     | _ \<Rightarrow>
                         (case ReplaceOne M volumeCollection (uid_filter E (fv_uid vol)) bzon d of
                            (r, d') \<Rightarrow> (wrapres ''could put node %s'' r, d'))))))"

definition DeleteVolume :: "ext \<Rightarrow> 'd mongo \<Rightarrow> ctx \<Rightarrow> component_reference \<Rightarrow> 'd \<Rightarrow> unit res \<times> 'd" where
  "DeleteVolume E M cx u d =
     (case GetVolume E M cx u d of
        Inl e \<Rightarrow> (Inl (Wrap ''could not delete volume'' e), d)
      | Inr vol \<Rightarrow>
          (case CheckWorkspaceAccess cx (fv_workspace vol) of
             Inl e \<Rightarrow> (Inl e, d)
           | Inr ok \<Rightarrow>
               if \<not> ok then (Inl ErrNoAccess, d)
               else
                 (case DeleteOne M volumeCollection (uid_filter E u) d of
                    (Inl e, d') \<Rightarrow> (Inl (Wrap ''error deleting volume %s from storage'' e), d')
                  | (Inr n, d') \<Rightarrow>
                      if n \<noteq> 1 then (Inl (Errorf ''unexpected delete count %d, for %s'' [itoa n]), d')
                      else (Inr (), d'))))"

end
