(* ===== verification/Mongo_Lists.thy ===== *)
theory Mongo_Lists
  imports Mongo
begin

text \<open>
  The listings of \<^verbatim>\<open>storage/mongo.go\<close> and \<^verbatim>\<open>storage/mongovolumestorage.go\<close>:
  the aggregation pipelines they build and how their result is read. The reflection over struct tags
  that makes a projection is modelled on a description of the struct.
\<close>

section \<open>Projections\<close>

text \<open>A struct field: its \<^verbatim>\<open>bson\<close> tag, and its own fields when it is a struct.\<close>

datatype struct_field = SF (sf_tag: string) (sf_struct: "struct_field list option")

fun flattenedField :: "struct_field \<Rightarrow> struct_field list"
  and flattenedFields :: "struct_field list \<Rightarrow> struct_field list" where
  "flattenedField (SF tag None) = [SF tag None]"
| "flattenedField (SF tag (Some fs)) =
     (if str_contains tag ''inline'' then flattenedFields fs else [SF tag (Some fs)])"
| "flattenedFields [] = []"
| "flattenedFields (f # fs) = flattenedField f @ flattenedFields fs"

definition ProjectionFromBsonTags :: "struct_field list \<Rightarrow> bsonD" where
  "ProjectionFromBsonTags fs = map (\<lambda>f. (takeWhile (\<lambda>c. c \<noteq> CHR '','') (sf_tag f), BInt 1)) fs"

definition metadata_struct :: "struct_field list" where
  "metadata_struct =
     [SF ''name,omitempty'' None, SF ''description,omitempty'' None,
      SF ''modifiedBy,omitempty'' (Some [SF ''oid'' None, SF ''email,omitempty'' None]),
      SF ''uid,omitempty'' None,
      SF ''version,omitempty'' (Some [SF ''current'' None, SF ''tags,omitempty'' None,
         SF ''previous,omitempty'' (Some [SF ''version,omitempty'' None, SF ''uid,omitempty'' None])]),
      SF ''timestamp'' (Some [SF '''' None, SF '''' None, SF '''' None])]"

definition metadata_workspace_struct :: "struct_field list" where
  "metadata_workspace_struct = [SF '',inline'' (Some metadata_struct), SF ''workspace'' None]"

section \<open>Stages\<close>

definition createWorkspaceFilter :: "workspace list \<Rightarrow> string \<Rightarrow> bsonD" where
  "createWorkspaceFilter wsAccesses wsFieldPath =
     [(wsFieldPath, BDoc [(''$in'', BArr (map (\<lambda>s. BStr (ws_name s)) wsAccesses))])]"

definition facetStage :: "pagination \<Rightarrow> bsonD" where
  "facetStage p =
     [(''$facet'', BDoc
        [(''pageInfo'', BArr
            [BDoc [(''$count'', BStr ''totalNumber'')],
             BDoc [(''$addFields'', BDoc [(''skip'', BInt (pn_skip p)), (''limit'', BInt (pn_limit p))])]]),
         (''items'', BArr
            [BDoc [(''$skip'', BInt (pn_skip p))], BDoc [(''$limit'', BInt (pn_limit p))]])])]"

definition matchStage :: "bsonD \<Rightarrow> bsonD list" where
  "matchStage f = (if f \<noteq> [] then [[(''$match'', BDoc f)]] else [])"

definition sortStage :: "bsonD \<Rightarrow> bsonD list" where
  "sortStage s = (if s \<noteq> [] then [[(''$sort'', BDoc s)]] else [])"

definition projectStage :: "struct_field list \<Rightarrow> bsonD" where
  "projectStage fs = [(''$project'', BDoc (ProjectionFromBsonTags (flattenedFields fs)))]"

definition addWorkspaceStage :: bsonD where
  "addWorkspaceStage = [(''$addFields'', BDoc [(''workspace'', BStr ''$workflow.workspace'')])]"

definition zero_page :: page_info where
  "zero_page = \<lparr>pg_totalNumber = 0, pg_limit = 0, pg_skip = 0\<rparr>"

text \<open>
  Reading the single document of a facet aggregation. A listing with no documents has no page info;
  the error returned then wraps a nil error, so the result is the empty list.
\<close>

definition readFacets ::
  "ext \<Rightarrow> string \<Rightarrow> string \<Rightarrow> (bsonD \<Rightarrow> (page_info list \<times> 'a list) res) \<Rightarrow>
   ('a list \<times> page_info) res \<Rightarrow> bsonD list res \<Rightarrow> ('a list \<times> page_info) res" where
  "readFacets E badGet badDecode dec noResult agg =
     (case agg of
        Inl e \<Rightarrow> Inl (Wrap badGet e)
      | Inr [] \<Rightarrow> noResult
      | Inr (b # bs) \<Rightarrow>
          (case dec b of
             Inl e \<Rightarrow> Inl (Wrap badDecode e)
           | Inr (pages, items) \<Rightarrow>
               (case pages of
                  [] \<Rightarrow> (case Wrapf E None badDecode of
                           None \<Rightarrow> Inr ([], zero_page) | Some e \<Rightarrow> Inl e)
                | p # ps \<Rightarrow> Inr (items, p))))"

type_synonym metadata_list = "metadata list \<times> page_info"
type_synonym metadata_ws_list = "(metadata \<times> string) list \<times> page_info"

text \<open>Two ways the listings treat an aggregation without a document.\<close>

definition wrapNilResult :: "ext \<Rightarrow> ('a list \<times> page_info) res" where
  "wrapNilResult E =
     (case Wrapf E None ''Error decoding component from storage, empty aggregation result'' of
        None \<Rightarrow> Inr ([], zero_page) | Some e \<Rightarrow> Inl e)"

definition errorResult :: "('a list \<times> page_info) res" where
  "errorResult = Inl (Errorf ''Error decoding component from storage, empty aggregation result'' [])"

section \<open>Listings\<close>

definition ListComponentsMetadata ::
  "ext \<Rightarrow> 'd mongo \<Rightarrow> pagination \<Rightarrow> string list \<Rightarrow> string list \<Rightarrow> 'd \<Rightarrow> metadata_list res" where
  "ListComponentsMetadata E M p filterstrings sorts d =
     rbind (wrapres ''could not list metadata for workflows'' (filter_queries filterstrings)) (\<lambda>userFilters.
     rbind (wrapres ''could not list metadata for components'' (sort_queries sorts)) (\<lambda>sortQuery.
     readFacets E ''Error getting components from storage'' ''Error decoding component from storage'' (DecodeFacets M) (wrapNilResult E)
       (Aggregate M componentCollection
          (matchStage (join_queries userFilters AND) @ sortStage sortQuery
             @ [projectStage metadata_struct, facetStage p]) d)))"

definition ListComponentVersionsMetadata ::
  "ext \<Rightarrow> 'd mongo \<Rightarrow> component_reference \<Rightarrow> pagination \<Rightarrow> string list \<Rightarrow> 'd \<Rightarrow> metadata_list res" where
  "ListComponentVersionsMetadata E M u p sorts d =
     rbind (wrapres ''could not list metadata for components'' (sort_queries sorts)) (\<lambda>sortQuery.
     readFacets E ''Error getting document versions from storage'' ''Error decoding component version from storage'' (DecodeFacets M) (wrapNilResult E)
       (Aggregate M componentCollection
          ([[(''$match'', BDoc (uid_filter E u))]] @ sortStage sortQuery
             @ [projectStage metadata_struct, facetStage p]) d))"

text \<open>The filter of a listing: the workspaces, and the filters of the request if there are any.\<close>

definition securedFilter :: "bsonD \<Rightarrow> bsonD list \<Rightarrow> bsonD" where
  "securedFilter wsFilter userFilters =
     (if userFilters \<noteq> [] then join_queries (wsFilter # userFilters) AND else wsFilter)"

definition ListWorkflowsMetadata ::
  "ext \<Rightarrow> 'd mongo \<Rightarrow> ctx \<Rightarrow> pagination \<Rightarrow> string list \<Rightarrow> string list \<Rightarrow> 'd \<Rightarrow> metadata_ws_list res" where
  "ListWorkflowsMetadata E M cx p filterstrings sorts d =
     rbind (accessible (getWorkspacesFromContext cx) (cx_user cx)) (\<lambda>wsAccess.
     if wsAccess = [] then Inr ([], zero_page)
     else
       rbind (wrapres ''could not list metadata for workflows'' (filter_queries filterstrings)) (\<lambda>userFilters.
       rbind (wrapres ''could not list metadata for workflows'' (sort_queries sorts)) (\<lambda>sortQuery.
       readFacets E ''Error getting components from storage'' ''Error decoding component from storage'' (DecodeFacetsWs M) errorResult
         (Aggregate M workflowCollection
            (matchStage (securedFilter (createWorkspaceFilter wsAccess ''workspace'') userFilters)
               @ sortStage sortQuery @ [projectStage metadata_workspace_struct, facetStage p]) d))))"

definition ListWorkflowVersionsMetadata ::
  "ext \<Rightarrow> 'd mongo \<Rightarrow> ctx \<Rightarrow> component_reference \<Rightarrow> pagination \<Rightarrow> string list \<Rightarrow> 'd \<Rightarrow> metadata_ws_list res" where
  "ListWorkflowVersionsMetadata E M cx u p sorts d =
     (let wss = getWorkspacesFromContext cx in
      if wss = [] then Inr ([], zero_page)
      else
        rbind (wrapres ''could not list metadata for workflow'' (sort_queries sorts)) (\<lambda>sortQuery.
        readFacets E ''Error getting document versions from storage'' ''Error decoding component version from storage'' (DecodeFacetsWs M) (wrapNilResult E)
          (Aggregate M workflowCollection
             ([[(''$match'', BDoc (createWorkspaceFilter wss ''workspace'' @ uid_filter E u))]]
                @ sortStage sortQuery @ [projectStage metadata_workspace_struct, facetStage p]) d)))"

definition ListJobsMetadata ::
  "ext \<Rightarrow> 'd mongo \<Rightarrow> ctx \<Rightarrow> pagination \<Rightarrow> string list \<Rightarrow> string list \<Rightarrow> 'd \<Rightarrow> metadata_ws_list res" where
  "ListJobsMetadata E M cx p filterstrings sorts d =
     rbind (accessible (getWorkspacesFromContext cx) (cx_user cx)) (\<lambda>wsAccess.
     if wsAccess = [] then Inr ([], zero_page)
     else
       rbind (wrapres ''could not list metadata for workflows'' (filter_queries filterstrings)) (\<lambda>userFilters.
       rbind (wrapres ''could not list metadata for workflows'' (sort_queries sorts)) (\<lambda>sortQuery.
       readFacets E ''Error getting components from storage'' ''Error decoding component from storage'' (DecodeFacetsWs M) errorResult
         (Aggregate M jobCollection
            (matchStage (securedFilter (createWorkspaceFilter wsAccess ''workflow.workspace'') userFilters)
               @ sortStage sortQuery @ [addWorkspaceStage, projectStage metadata_workspace_struct, facetStage p]) d))))"

definition makeFilterSortPipeline :: "pagination \<Rightarrow> string list \<Rightarrow> string list \<Rightarrow> bsonD list res" where
  "makeFilterSortPipeline p filterstrings sortstrings =
     rbind (wrapres ''could not create pipeline'' (filter_queries filterstrings)) (\<lambda>filter.
     rbind (wrapres ''could create pipeline sort stage'' (sort_queries sortstrings)) (\<lambda>sortQuery.
     Inr ((if filter \<noteq> [] then [[(''$match'', BDoc (join_queries filter AND))]] else [])
            @ sortStage sortQuery @ [facetStage p])))"

definition ListVolumes ::
  "ext \<Rightarrow> 'd mongo \<Rightarrow> ctx \<Rightarrow> pagination \<Rightarrow> string list \<Rightarrow> string list \<Rightarrow> 'd \<Rightarrow>
   (flowify_volume list \<times> page_info) res" where
  "ListVolumes E M cx p filterstrings sortstrings d =
     rbind (wrapres ''Error listing volumes'' (makeFilterSortPipeline p filterstrings sortstrings)) (\<lambda>userStages.
     readFacets E ''Error getting components from storage'' ''Error decoding component from storage'' (DecodeFacetsVol M) (wrapNilResult E)
       (Aggregate M volumeCollection
          ([[(''$match'', BDoc (createWorkspaceFilter (getWorkspacesFromContext cx) ''workspace''))]] @ userStages) d))"

end
