(* ===== verification/Transpiler_Proofs.thy ===== *)
theory Transpiler_Proofs
  imports Transpiler
begin

text \<open>
  What the transpiler's output satisfies. A component tree is listed in the order the transpiler
  visits it; a successful traversal appends exactly one template per component of that list, and
  each template is the one its component calls for: its name is the component's UUID, the tasks of
  a composite refer to the templates of its sub-components, and the container of a brick gets
  secrets and volumes only from those the job supplied.
\<close>

section \<open>The components of a tree, in visiting order\<close>

definition value_component :: "node_value \<Rightarrow> component list" where
  "value_component v = (case v of NVComponent c \<Rightarrow> [c] | _ \<Rightarrow> [])"

definition inline_subs :: "component \<Rightarrow> component list" where
  "inline_subs c = concat (map value_component (sub_values (cmp_implementation c)))"

lemma value_component_NVComponent [simp]: "value_component (NVComponent c) = [c]"
  by (simp add: value_component_def)

lemma size_sub_value: "v \<in> set (sub_values i) \<Longrightarrow> size v < size i"
proof (induction i rule: sub_values.induct)
  case (1 t ns es im om)
  then obtain n where n: "n \<in> set ns" "v = n_node n" by auto
  have "size v < size n" using n(2) by (cases n) auto
  also have "size n \<le> size_list size ns" using n(1) by (rule size_list_estimation') simp
  finally show ?case by simp
qed (auto split: if_splits)

lemma size_inline_subs: "c' \<in> set (inline_subs c) \<Longrightarrow> size c' < size c"
proof -
  assume "c' \<in> set (inline_subs c)"
  then obtain v where v: "v \<in> set (sub_values (cmp_implementation c))" "c' \<in> set (value_component v)"
    by (auto simp: inline_subs_def)
  have "size c' < size v" using v(2) by (auto simp: value_component_def split: node_value.splits)
  moreover have "size (cmp_implementation c) < size c" by (cases c) auto
  ultimately show ?thesis using size_sub_value [OF v(1)] by linarith
qed

function preorder :: "component \<Rightarrow> component list" where
  "preorder c = c # concat (map preorder (inline_subs c))"
  by pat_completeness auto
termination
  by (relation "measure size") (auto dest: size_inline_subs)

declare preorder.simps [simp del]

lemma preorder_self: "c \<in> set (preorder c)"
  by (subst preorder.simps) simp

lemma preorder_closed:
  "x \<in> set (preorder c) \<Longrightarrow> y \<in> set (inline_subs x) \<Longrightarrow> y \<in> set (preorder c)"
proof (induction c rule: preorder.induct)
  case (1 c)
  from 1(2) consider "x = c" | d where "d \<in> set (inline_subs c)" "x \<in> set (preorder d)"
    by (subst (asm) preorder.simps) auto
  then show ?case
  proof cases
    case 1
    with \<open>y \<in> set (inline_subs x)\<close> show ?thesis
      by (subst preorder.simps) (use preorder_self in force)
  next
    case (2 d)
    then have "y \<in> set (preorder d)" using "1.IH" "1.prems" by blast
    with 2 show ?thesis by (subst preorder.simps) auto
  qed
qed

section \<open>What a successful traversal did\<close>

lemma inputPorts_supplied:
  "inputPorts E n s ins acc = Inr p \<Longrightarrow> secrets_supplied ins s"
  by (induction ins arbitrary: acc) (auto simp: secrets_supplied_def split: if_splits)

definition traverse_did ::
  "ext \<Rightarrow> string \<Rightarrow> data list \<Rightarrow> wf_ports \<Rightarrow> implementation \<Rightarrow> secret_map \<Rightarrow> volume_map \<Rightarrow>
   wf_ports \<Rightarrow> wf_template list \<Rightarrow> wf_template list \<Rightarrow> bool" where
  "traverse_did E name ins outputs impl s v inputs ts ts' \<longleftrightarrow>
     (case impl of
         ImplBrick b \<Rightarrow> AddBrick E name b outputs inputs ts (pruneSecrets ins (map_keys s) s) v = Inr ts'
       | ImplGraph g \<Rightarrow> \<exists>ts1. AddGraph E name g outputs inputs ts = Inr ts1 \<and>
             TraverseNodes E ins g s (graphScope ins v (g_inputMappings g) []) (g_nodes g) ts1
               = Some (Inr ts')
       | ImplMap m \<Rightarrow> \<exists>ts1 tc ns nv. AddMap E name m outputs inputs ts = Inr ts1 \<and>
             m_node m = NVComponent tc \<and>
             nodeScope ins s v (m_inputMappings m) (mapCopy s, []) = (ns, nv) \<and>
             TraverseComponent E tc ns nv ts1 = Some (Inr ts')
       | ImplConditional c \<Rightarrow> \<exists>ts1 ts2 ct ns nv. AddConditional E name c outputs inputs ts = Inr ts1 \<and>
             c_nodeTrue c = NVComponent ct \<and>
             nodeScope ins s v (c_inputMappings c) (mapCopy s, []) = (ns, nv) \<and>
             TraverseComponent E ct ns nv ts1 = Some (Inr ts2) \<and>
             (c_nodeFalse c = NVNil \<and> ts' = ts2 \<or>
              (\<exists>cf. c_nodeFalse c = NVComponent cf \<and> TraverseComponent E cf ns nv ts2 = Some (Inr ts')))
       | _ \<Rightarrow> False)"

lemma TraverseComponent_success:
  assumes "TraverseComponent E (Component md ins outs ty impl) s v ts = Some (Inr ts')"
  obtains inputs where "md_uid md \<noteq> 0"
    and "inputPorts E (UUIDString E (md_uid md)) (mapCopy s) ins (mk_ports [] []) = Inr inputs"
    and "traverse_did E (UUIDString E (md_uid md)) ins (outputPorts outs (mk_ports [] [])) impl
           (mapCopy s) v inputs ts ts'"
proof -
  have uid: "md_uid md \<noteq> 0"
    using assms by (auto simp: TraverseComponent.simps uuid_IsZero_def)
  obtain inputs where i:
    "inputPorts E (UUIDString E (md_uid md)) (mapCopy s) ins (mk_ports [] []) = Inr inputs"
    using assms by (auto simp: TraverseComponent.simps Let_def split: if_splits sum.splits)
  have "traverse_did E (UUIDString E (md_uid md)) ins (outputPorts outs (mk_ports [] [])) impl
           (mapCopy s) v inputs ts ts'"
    using assms uid i
    by (cases impl)
      (auto simp: traverse_did_def TraverseComponent.simps Let_def uuid_IsZero_def obind_def
        split: sum.splits option.splits prod.splits node_value.splits graph.splits
        map_component.splits conditional.splits)
  with uid i show thesis by (rule that)
qed

section \<open>What the template of a component has to be\<close>

text \<open>
  \<open>S\<close> and \<open>V\<close> are the secret keys and the volumes the caller may hand out. A brick's
  environment holds one variable for each of its secret inputs and no variable that is not named
  by an input, each read from a key in \<open>S\<close> of the workspace's secret object; its mounts refer to
  volumes in \<open>V\<close>.
\<close>

definition brick_container_ok :: "string set \<Rightarrow> volume set \<Rightarrow> data list \<Rightarrow> container \<Rightarrow> bool" where
  "brick_container_ok S V ins ctr \<longleftrightarrow>
     (\<forall>e \<in> set (ctr_env ctr). env_name e \<in> dt_name ` set ins \<and> env_secretKey e \<in> S
        \<and> env_secretName e = DefaultObjectName \<and> env_value e = [] \<and> env_rest e = []) \<and>
     (\<forall>d \<in> set ins. dt_type d = FlowifySecretType \<longrightarrow> dt_name d \<in> env_name ` set (ctr_env ctr)) \<and>
     distinct (map env_name (ctr_env ctr)) \<and>
     (\<forall>m \<in> set (ctr_volumeMounts ctr). vm_name m \<in> vol_name ` V)"

text \<open>What else a container holds is what the brick's container holds, \<open>envFrom\<close> included.\<close>

definition brick_container_of :: "container \<Rightarrow> container \<Rightarrow> bool" where
  "brick_container_of c0 ctr \<longleftrightarrow>
     ctr = c0\<lparr>ctr_args := ctr_args ctr, ctr_env := ctr_env ctr, ctr_volumeMounts := ctr_volumeMounts ctr\<rparr>"

definition template_ok :: "ext \<Rightarrow> string set \<Rightarrow> volume set \<Rightarrow> component \<Rightarrow> wf_template \<Rightarrow> bool" where
  "template_ok E S V c t \<longleftrightarrow>
     tpl_name t = UUIDString E (cmp_uid c) \<and>
     (case cmp_implementation c of
        ImplBrick b \<Rightarrow> tpl_dag t = None \<and>
          (\<exists>c0 ctr. br_container b = Some c0 \<and> tpl_container t = Some ctr \<and> brick_container_of c0 ctr
             \<and> getContainerArgs (br_args b) = Inr (ctr_args ctr) \<and> brick_container_ok S V (cmp_inputs c) ctr)
      | _ \<Rightarrow> tpl_container t = None \<and>
          (\<exists>tasks. tpl_dag t = Some tasks \<and>
             map tk_template tasks = map (UUIDString E \<circ> cmp_uid) (inline_subs c)))"

section \<open>Bricks\<close>

lemma map_of_pruneSecrets:
  "map_of (pruneSecrets ins ks s) =
     (\<lambda>k. if k \<in> set ks \<and> k \<notin> dt_name ` set ins then None else map_of s k)"
  by (induction ks arbitrary: s) (auto simp: fun_eq_iff delete_conv')

lemma gomap_wf_pruneSecrets: "gomap_wf s \<Longrightarrow> gomap_wf (pruneSecrets ins ks s)"
  by (induction ks arbitrary: s) auto

lemma pruneSecrets_keys:
  "dom (map_of (pruneSecrets ins (map_keys s) s)) = dom (map_of s) \<inter> dt_name ` set ins"
  by (auto simp: map_of_pruneSecrets dom_def split: if_splits)

lemma brick_env:
  assumes r: "range_ok E" and S: "ran (map_of s) \<subseteq> S" and sup: "secrets_supplied ins s"
    and w: "gomap_wf s"
    and env: "env = map (secretEnv (pruneSecrets ins (map_keys s) s))
      (RangeKeys E name (map_keys (pruneSecrets ins (map_keys s) s)))"
  shows "(\<forall>e \<in> set env. env_name e \<in> dt_name ` set ins \<and> env_secretKey e \<in> S
        \<and> env_secretName e = DefaultObjectName \<and> env_value e = [] \<and> env_rest e = [])"
    and "(\<forall>d \<in> set ins. dt_type d = FlowifySecretType \<longrightarrow> dt_name d \<in> env_name ` set env)"
    and "distinct (map env_name env)"
proof -
  let ?p = "pruneSecrets ins (map_keys s) s"
  have keys: "set (RangeKeys E name (map_keys ?p)) = dom (map_of s) \<inter> dt_name ` set ins"
    by (simp add: range_ok_set [OF r] pruneSecrets_keys)
  have val: "zget ?p k \<in> S" if "k \<in> dom (map_of s) \<inter> dt_name ` set ins" for k
    using that S by (auto simp: zget_def map_of_pruneSecrets ran_def)
  show "\<forall>e \<in> set env. env_name e \<in> dt_name ` set ins \<and> env_secretKey e \<in> S
        \<and> env_secretName e = DefaultObjectName \<and> env_value e = [] \<and> env_rest e = []"
    using keys val unfolding env secretEnv_def by force
  have "env_name ` set env = dom (map_of s) \<inter> dt_name ` set ins"
    using keys by (simp add: env secretEnv_def image_image)
  then show "\<forall>d \<in> set ins. dt_type d = FlowifySecretType \<longrightarrow> dt_name d \<in> env_name ` set env"
    using sup by (auto simp: secrets_supplied_def)
  have "map env_name env = RangeKeys E name (map_keys ?p)"
    by (simp add: env secretEnv_def o_def)
  moreover have "distinct (map_keys ?p)"
    using gomap_wf_pruneSecrets [OF w] by (simp add: gomap_wf_def map_keys_def)
  ultimately show "distinct (map env_name env)"
    by (simp add: range_ok_distinct [OF r])
qed

lemma AddBrick_ok:
  assumes add: "AddBrick E name b outputs inputs ts (pruneSecrets ins (map_keys s) s) v = Inr ts'"
    and r: "range_ok E" and S: "ran (map_of s) \<subseteq> S" and V: "ran (map_of v) \<subseteq> V"
    and sup: "secrets_supplied ins s" and w: "gomap_wf s"
  obtains t c0 ctr where "ts' = ts @ [t]" and "tpl_name t = name" and "tpl_dag t = None"
    and "br_container b = Some c0" and "tpl_container t = Some ctr" and "brick_container_of c0 ctr"
    and "getContainerArgs (br_args b) = Inr (ctr_args ctr)" and "brick_container_ok S V ins ctr"
proof -
  obtain mv c0 args where mv: "getContainerVolumes (br_args b) v = Inr mv"
    and c0: "br_container b = Some c0" and args: "getContainerArgs (br_args b) = Inr args"
    using add by (auto simp: AddBrick_def Let_def split: sum.splits option.splits)
  let ?env = "map (secretEnv (pruneSecrets ins (map_keys s) s))
      (RangeKeys E name (map_keys (pruneSecrets ins (map_keys s) s)))"
  let ?ctr = "c0\<lparr>ctr_volumeMounts := map brickMount mv, ctr_args := args, ctr_env := ?env\<rparr>"
  have mounts: "\<forall>m \<in> set (ctr_volumeMounts ?ctr). vm_name m \<in> vol_name ` V"
    using getContainerVolumes_refs [OF mv] V by (fastforce simp: brickMount_def)
  have "brick_container_ok S V ins ?ctr"
    unfolding brick_container_ok_def using brick_env [OF r S sup w refl, where name = name] mounts by simp
  with add mv c0 args show thesis
    by (intro that [of "last ts'" c0 ?ctr]) (auto simp: AddBrick_def Let_def brick_container_of_def)
qed

section \<open>Composites\<close>

lemma graphTasks_spec:
  "graphTasks E g inputs nds = Inr tasks \<Longrightarrow>
   map tk_template tasks = map (UUIDString E \<circ> cmp_uid) (concat (map (value_component \<circ> n_node) nds)) \<and>
   map tk_name tasks = map n_id nds \<and>
   map tk_dependencies tasks = map (getDependencies (g_edges g) \<circ> n_id) nds"
  by (induction nds arbitrary: tasks)
    (auto simp: go_simps value_component_def split: node_value.splits)

lemma AddGraph_ok:
  assumes "AddGraph E name g outputs inputs ts = Inr ts'" and "cmp_implementation c = ImplGraph g"
    and "name = UUIDString E (cmp_uid c)"
  obtains t where "ts' = ts @ [t]" and "template_ok E S V c t"
  using assms graphTasks_spec [of E g inputs "g_nodes g"]
  by (cases g) (auto simp: AddGraph_def go_simps template_ok_def dag_template_def inline_subs_def o_def)

lemma AddMap_ok:
  assumes "AddMap E name m outputs inputs ts = Inr ts'" and "cmp_implementation c = ImplMap m"
    and "name = UUIDString E (cmp_uid c)"
  obtains t where "ts' = ts @ [t]" and "template_ok E S V c t"
  using assms
  by (cases m) (auto simp: AddMap_def go_simps template_ok_def dag_template_def inline_subs_def
      value_component_def split: node_value.splits)

lemma AddConditional_ok:
  assumes "AddConditional E name cd outputs inputs ts = Inr ts'" and "cmp_implementation c = ImplConditional cd"
    and "name = UUIDString E (cmp_uid c)"
  obtains t where "ts' = ts @ [t]" and "template_ok E S V c t"
  using assms
  by (cases cd) (auto simp: AddConditional_def addConditionalWith_def branch_task_def go_simps
      template_ok_def dag_template_def inline_subs_def value_component_def split: node_value.splits)

section \<open>Scopes\<close>

lemma nodeScope_ran:
  assumes sup: "secrets_supplied ins s"
    and "nodeScope ins s v ms (s0, v0) = (s', v')"
    and "ran (map_of s0) \<subseteq> ran (map_of s)" and "ran (map_of v0) \<subseteq> ran (map_of v)"
  shows "ran (map_of s') \<subseteq> ran (map_of s) \<and> ran (map_of v') \<subseteq> ran (map_of v)"
  using assms(2-)
proof (induction ms arbitrary: s0 v0)
  case Nil
  then show ?case by simp
next
  case (Cons m ms)
  obtain mt ok where c: "checkInputType ins (pa_port (e_source m)) = (mt, ok)" by fastforce
  let ?p = "pa_port (e_source m)" and ?t = "pa_port (e_target m)"
  consider (sec) "ok" "mt = FlowifySecretType"
    | (vol) x where "ok" "mt = FlowifyVolumeType" "map_of v ?p = Some x"
    | (same) "nodeScope ins s v ms (s0, v0) = (s', v')"
    using Cons.prems(1) by (auto simp: c split: if_splits option.splits)
  then show ?case
  proof cases
    case sec
    have "ran (map_of (AList.update ?t (zget s ?p) s0)) \<subseteq> ran (map_of s)"
      using zget_supplied_ran [OF sup, of ?p] sec c Cons.prems(2) ran_gomap_update [of ?t "zget s ?p" s0]
      by auto
    moreover have "nodeScope ins s v ms (AList.update ?t (zget s ?p) s0, v0) = (s', v')"
      using Cons.prems(1) sec by (simp add: c)
    ultimately show ?thesis using Cons.IH Cons.prems(3) by blast
  next
    case (vol x)
    have "ran (map_of (AList.update ?t x v0)) \<subseteq> ran (map_of v)"
      using vol(3) Cons.prems(3) ran_gomap_update [of ?t x v0] ranI [of "map_of v" ?p x] by blast
    moreover have "nodeScope ins s v ms (s0, AList.update ?t x v0) = (s', v')"
      using Cons.prems(1) vol by (simp add: c)
    ultimately show ?thesis using Cons.IH Cons.prems(2) by blast
  next
    case same
    with Cons show ?thesis by blast
  qed
qed

lemma addScopeVolume_volumes:
  "scope_volumes (addScopeVolume nid port val scope) \<subseteq> insert val (scope_volumes scope)"
proof
  fix x
  assume "x \<in> scope_volumes (addScopeVolume nid port val scope)"
  then obtain n c where "scope_lookup (addScopeVolume nid port val scope) n c = Some x"
    by (auto simp: scope_volumes_def)
  then have "x = val \<or> scope_lookup scope n c = Some x"
    by (auto simp: scope_lookup_def addScopeVolume_def split: option.splits if_splits)
  then show "x \<in> insert val (scope_volumes scope)" by (auto simp: scope_volumes_def)
qed

lemma graphScope_volumes:
  "scope_volumes scope \<subseteq> ran (map_of v) \<Longrightarrow>
   scope_volumes (graphScope ins v ms scope) \<subseteq> ran (map_of v)"
proof (induction ms arbitrary: scope)
  case Nil
  then show ?case by simp
next
  case (Cons m ms)
  have "scope_volumes (addScopeVolume n p x scope) \<subseteq> ran (map_of v)"
    if "map_of v q = Some x" for n p q x
    using addScopeVolume_volumes [of n p x scope] Cons.prems ranI [of "map_of v" q x] that by blast
  with Cons show ?case by (auto split: prod.splits option.splits)
qed

lemma graphScope_ran: "scope_volumes (graphScope ins v ms []) \<subseteq> ran (map_of v)"
  by (rule graphScope_volumes) (simp add: scope_volumes_def scope_lookup_def)

section \<open>The whole traversal\<close>

definition appended :: "ext \<Rightarrow> string set \<Rightarrow> volume set \<Rightarrow> component list \<Rightarrow> wf_template list \<Rightarrow>
  wf_template list \<Rightarrow> bool" where
  "appended E S V cs ts ts' \<longleftrightarrow> (\<exists>news. ts' = ts @ news \<and> list_all2 (template_ok E S V) cs news)"

lemma appended_Nil [simp]: "appended E S V [] ts ts' \<longleftrightarrow> ts' = ts"
  by (auto simp: appended_def)

lemma appended_trans:
  "appended E S V cs ts ts1 \<Longrightarrow> appended E S V ds ts1 ts2 \<Longrightarrow> appended E S V (cs @ ds) ts ts2"
  by (auto simp: appended_def intro: list_all2_appendI)

lemma appended_one: "template_ok E S V c t \<Longrightarrow> appended E S V [c] ts (ts @ [t])"
  by (simp add: appended_def)

lemma TraverseNodes_appended:
  assumes IH: "\<And>c s v ts ts'. c \<in> set (concat (map (value_component \<circ> n_node) nds)) \<Longrightarrow>
      ran (map_of s) \<subseteq> S \<Longrightarrow> ran (map_of v) \<subseteq> V \<Longrightarrow>
      TraverseComponent E c s v ts = Some (Inr ts') \<Longrightarrow> appended E S V (preorder c) ts ts'"
    and sup: "secrets_supplied ins s" and S: "ran (map_of s) \<subseteq> S" and V: "scope_volumes scope \<subseteq> V"
    and run: "TraverseNodes E ins g s scope nds ts = Some (Inr ts')"
  shows "appended E S V (concat (map preorder (concat (map (value_component \<circ> n_node) nds)))) ts ts'"
  using IH run
proof (induction nds arbitrary: ts)
  case Nil
  then show ?case by (simp add: TraverseNodes.simps)
next
  case (Cons nd nds)
  obtain cid nv ud where nd: "nd = Node cid nv ud" by (cases nd)
  obtain tc vols ts1 where tc: "nv = NVComponent tc"
    and vols: "getConnectedVolumeMap E cid tc (g_edges g) (g_nodes g) scope = Some vols"
    and t1: "TraverseComponent E tc (getNodeSecretMap cid s ins (g_inputMappings g)) vols ts = Some (Inr ts1)"
    and t2: "TraverseNodes E ins g s scope nds ts1 = Some (Inr ts')"
    using Cons.prems(2) by (auto simp: nd TraverseNodes.simps go_simps split: node_value.splits option.splits)
  have one: "appended E S V (preorder tc) ts ts1"
  proof (rule Cons.prems(1) [OF _ _ _ t1])
    show "ran (map_of (getNodeSecretMap cid s ins (g_inputMappings g))) \<subseteq> S"
      using getNodeSecretMap_ran [OF sup, of cid "g_inputMappings g"] S by blast
    show "ran (map_of vols) \<subseteq> V" using getConnectedVolumeMap_ran [OF vols] V by blast
  qed (simp add: nd tc value_component_def)
  have rest: "appended E S V (concat (map preorder (concat (map (value_component \<circ> n_node) nds)))) ts1 ts'"
  proof (rule Cons.IH [OF _ t2])
    fix c s v ts ts'
    assume "c \<in> set (concat (map (value_component \<circ> n_node) nds))" and "ran (map_of s) \<subseteq> S"
      and "ran (map_of v) \<subseteq> V" and "TraverseComponent E c s v ts = Some (Inr ts')"
    then show "appended E S V (preorder c) ts ts'" by (intro Cons.prems(1)) auto
  qed
  show ?case
    using appended_trans [OF one rest] by (simp add: nd tc o_def)
qed

lemma TraverseComponent_appended:
  assumes r: "range_ok E"
  shows "ran (map_of s) \<subseteq> S \<Longrightarrow> ran (map_of v) \<subseteq> V \<Longrightarrow>
    TraverseComponent E c s v ts = Some (Inr ts') \<Longrightarrow> appended E S V (preorder c) ts ts'"
proof (induction c arbitrary: s v ts ts' rule: preorder.induct)
  case (1 c)
  obtain md ins outs ty impl where c: "c = Component md ins outs ty impl" by (cases c)
  let ?name = "UUIDString E (md_uid md)" and ?outs = "outputPorts outs (mk_ports [] [])"
  obtain inputs where inp: "inputPorts E ?name (mapCopy s) ins (mk_ports [] []) = Inr inputs"
    and did: "traverse_did E ?name ins ?outs impl (mapCopy s) v inputs ts ts'"
    using TraverseComponent_success "1.prems"(3) unfolding c by metis
  have sup: "secrets_supplied ins (mapCopy s)" by (rule inputPorts_supplied [OF inp])
  have S: "ran (map_of (mapCopy s)) \<subseteq> S" using "1.prems"(1) by simp
  have pre: "preorder c = c # concat (map preorder (inline_subs c))" by (rule preorder.simps)
  have step: "appended E S V (preorder c) ts ts'"
    if "template_ok E S V c t" "appended E S V (concat (map preorder (inline_subs c))) (ts @ [t]) ts'" for t
    using appended_trans [OF appended_one [OF that(1)] that(2)] by (simp add: pre)
  have scope: "ran (map_of ns) \<subseteq> S \<and> ran (map_of nv) \<subseteq> V"
    if "nodeScope ins (mapCopy s) v ms (mapCopy (mapCopy s), []) = (ns, nv)" for ms ns nv
    using nodeScope_ran [OF sup that] S "1.prems"(2) by auto
  show ?case
  proof (cases impl)
    case (ImplBrick b)
    with did have "AddBrick E ?name b ?outs inputs ts
        (pruneSecrets ins (map_keys (mapCopy s)) (mapCopy s)) v = Inr ts'"
      by (simp add: traverse_did_def)
    then obtain t c0 ctr where "ts' = ts @ [t]" "tpl_name t = ?name" "tpl_dag t = None"
      "br_container b = Some c0" "tpl_container t = Some ctr" "brick_container_of c0 ctr"
      "getContainerArgs (br_args b) = Inr (ctr_args ctr)" "brick_container_ok S V ins ctr"
      by (rule AddBrick_ok [OF _ r S "1.prems"(2) sup gomap_wf_mapCopy])
    then show ?thesis
      by (intro step [of t]) (simp_all add: c ImplBrick template_ok_def inline_subs_def)
  next
    case (ImplGraph g)
    with did obtain ts1 where a: "AddGraph E ?name g ?outs inputs ts = Inr ts1"
      and n: "TraverseNodes E ins g (mapCopy s) (graphScope ins v (g_inputMappings g) []) (g_nodes g) ts1
              = Some (Inr ts')"
      by (auto simp: traverse_did_def)
    have subs: "inline_subs c = concat (map (value_component \<circ> n_node) (g_nodes g))"
      by (cases g) (simp add: c ImplGraph inline_subs_def)
    obtain t where t: "ts1 = ts @ [t]" "template_ok E S V c t"
      by (rule AddGraph_ok [OF a, of c]) (simp_all add: c ImplGraph)
    have "appended E S V (concat (map preorder (concat (map (value_component \<circ> n_node) (g_nodes g))))) ts1 ts'"
    proof (rule TraverseNodes_appended [OF _ sup S _ n])
      show "scope_volumes (graphScope ins v (g_inputMappings g) []) \<subseteq> V"
        using graphScope_ran "1.prems"(2) by blast
    qed (rule "1.IH", auto simp: subs)
    with t show ?thesis by (intro step [of t]) (simp_all add: subs)
  next
    case (ImplMap m)
    with did obtain ts1 tc ns nv where a: "AddMap E ?name m ?outs inputs ts = Inr ts1"
      and tc: "m_node m = NVComponent tc"
      and sc: "nodeScope ins (mapCopy s) v (m_inputMappings m) (mapCopy (mapCopy s), []) = (ns, nv)"
      and n: "TraverseComponent E tc ns nv ts1 = Some (Inr ts')"
      by (auto simp: traverse_did_def)
    have subs: "inline_subs c = [tc]"
      using tc by (cases m) (simp add: c ImplMap inline_subs_def value_component_def)
    obtain t where t: "ts1 = ts @ [t]" "template_ok E S V c t"
      by (rule AddMap_ok [OF a, of c]) (simp_all add: c ImplMap)
    have "appended E S V (preorder tc) ts1 ts'"
      using "1.IH" [of tc ns nv ts1 ts'] scope [OF sc] n by (simp add: subs)
    with t show ?thesis by (intro step [of t]) (simp_all add: subs)
  next
    case (ImplConditional cd)
    with did obtain ts1 ts2 ct ns nv where a: "AddConditional E ?name cd ?outs inputs ts = Inr ts1"
      and ct: "c_nodeTrue cd = NVComponent ct"
      and sc: "nodeScope ins (mapCopy s) v (c_inputMappings cd) (mapCopy (mapCopy s), []) = (ns, nv)"
      and n: "TraverseComponent E ct ns nv ts1 = Some (Inr ts2)"
      and f: "c_nodeFalse cd = NVNil \<and> ts' = ts2 \<or>
        (\<exists>cf. c_nodeFalse cd = NVComponent cf \<and> TraverseComponent E cf ns nv ts2 = Some (Inr ts'))"
      unfolding traverse_did_def by auto
    obtain t where t: "ts1 = ts @ [t]" "template_ok E S V c t"
      by (rule AddConditional_ok [OF a, of c]) (simp_all add: c ImplConditional)
    have subs: "inline_subs c = ct # value_component (c_nodeFalse cd)"
      using ct by (cases cd) (auto simp: c ImplConditional inline_subs_def value_component_def)
    have true: "appended E S V (preorder ct) ts1 ts2"
      using "1.IH" [of ct ns nv ts1 ts2] scope [OF sc] n by (simp add: subs)
    have false: "appended E S V (concat (map preorder (value_component (c_nodeFalse cd)))) ts2 ts'"
      using f "1.IH" [of _ ns nv ts2 ts'] scope [OF sc] by (auto simp: subs value_component_def)
    show ?thesis
      using appended_trans [OF true false] t by (intro step [of t]) (simp_all add: subs)
  qed (use did in \<open>simp_all add: traverse_did_def\<close>)
qed

end
