(* ===== verification/Transpiler_Correct.thy ===== *)
theory Transpiler_Correct
  imports Transpiler_Proofs
begin

text \<open>
  The theorems about the transpiler as a whole: what the manifest that \<open>GetArgoWorkflow\<close> returns
  for a job looks like, when it returns and when it panics, and which jobs it rejects.
\<close>

section \<open>Secrets and volumes of a job\<close>

definition job_inputs :: "job \<Rightarrow> data list" where
  "job_inputs job = cmp_inputs (wf_component (job_workflow job))"

text \<open>The secret keys a job supplies for the secret inputs of its workflow.\<close>

definition supplied_secrets :: "job \<Rightarrow> string set" where
  "supplied_secrets job =
     {s. \<exists>v \<in> set (job_inputValues job). \<exists>d \<in> set (job_inputs job).
           dt_type d = FlowifySecretType \<and> jv_target v = dt_name d \<and> jv_value v = IVString s}"

lemma jobSecret_from:
  "jobSecret n vs found = Inr (Some s) \<Longrightarrow>
   found = Some s \<or> (\<exists>v \<in> set vs. jv_target v = n \<and> jv_value v = IVString s)"
  by (induction vs arbitrary: found) (auto split: if_splits input_value.splits)

lemma jobSecret_missing: "n \<notin> jv_target ` set vs \<Longrightarrow> jobSecret n vs found = Inr found"
  by (induction vs arbitrary: found) auto

lemma jobSecrets_ran:
  assumes "jobSecrets job ins s = Inr s'" and "set ins \<subseteq> set (job_inputs job)"
    and "ran (map_of s) \<subseteq> supplied_secrets job"
  shows "ran (map_of s') \<subseteq> supplied_secrets job"
  using assms
proof (induction ins arbitrary: s)
  case Nil
  then show ?case by simp
next
  case (Cons i ins)
  show ?case
  proof (cases "dt_type i = FlowifySecretType")
    case True
    then obtain x where x: "jobSecret (dt_name i) (job_inputValues job) None = Inr (Some x)"
      and rest: "jobSecrets job ins (AList.update (dt_name i) x s) = Inr s'"
      using Cons.prems(1) by (auto split: sum.splits option.splits)
    have "x \<in> supplied_secrets job"
      using jobSecret_from [OF x] True Cons.prems(2) by (auto simp: supplied_secrets_def)
    then have "ran (map_of (AList.update (dt_name i) x s)) \<subseteq> supplied_secrets job"
      using ran_gomap_update [of "dt_name i" x s] Cons.prems(3) by blast
    from Cons.IH [OF rest _ this] Cons.prems(2) show ?thesis by simp
  qed (use Cons in auto)
qed

lemma jobSecrets_missing:
  "i \<in> set ins \<Longrightarrow> dt_type i = FlowifySecretType \<Longrightarrow> dt_name i \<notin> jv_target ` set (job_inputValues job) \<Longrightarrow>
   \<exists>e. jobSecrets job ins s = Inl e"
  by (induction ins arbitrary: s) (auto simp: jobSecret_missing split: sum.splits option.splits)

lemma gomap_wf_jobVolumes:
  "jobVolumes E tgts vs vm = Inr vm' \<Longrightarrow> gomap_wf vm \<Longrightarrow> gomap_wf vm'"
proof (induction vs arbitrary: vm)
  case (Cons v vs)
  have "jobVolumeTargets E v ts m = Inr m' \<Longrightarrow> gomap_wf m \<Longrightarrow> gomap_wf m'" for ts m m'
    by (induction ts arbitrary: m) (auto simp: go_simps split: if_splits input_value.splits)
  with Cons show ?case by (auto simp: go_simps)
qed simp

lemma specVolumes_set:
  assumes "range_ok E"
  shows "set (specVolumes E vm) = ran (map_of vm)"
proof -
  have "set (specVolumes E vm) = {v. \<exists>k \<in> dom (map_of vm). map_of vm k = Some v}"
    using range_ok_set [OF assms]
    by (auto simp: specVolumes_def List.map_filter_def dom_def) force
  then show ?thesis by (auto simp: ran_def)
qed

section \<open>What a successful transpilation did\<close>

lemma GetArgoWorkflow_success:
  assumes "GetArgoWorkflow E job = Some (Inr awf)" and r: "range_ok E"
  obtains ts ps where
    "list_all2 (template_ok E (supplied_secrets job) (set (awf_volumes awf)))
       (preorder (wf_component (job_workflow job))) ts"
    "awf_templates awf = RemoveDuplicatedTemplates ts"
    "awf_entrypoint awf = UUIDString E (cmp_uid (wf_component (job_workflow job)))"
    "jobParams E (job_inputs job) (job_inputValues job) [] = Inr ps" "awf_arguments awf = mk_ports ps []"
    "awf_name awf = md_name (wf_metadata (job_workflow job))"
    "awf_namespace awf = wf_workspace (job_workflow job)"
proof -
  let ?c = "wf_component (job_workflow job)"
  obtain s v ts ps where s: "jobSecrets job (job_inputs job) [] = Inr s"
    and v: "jobVolumes E (job_inputs job) (job_inputValues job) [] = Inr v"
    and t: "TraverseComponent E ?c s v [] = Some (Inr ts)"
    and p: "jobParams E (job_inputs job) (job_inputValues job) [] = Inr ps"
    and awf: "awf = (GenerateArgo (md_name (wf_metadata (job_workflow job))) (wf_workspace (job_workflow job)) [] [])
      \<lparr>awf_entrypoint := UUIDString E (cmp_uid ?c), awf_templates := RemoveDuplicatedTemplates ts,
       awf_arguments := mk_ports ps [], awf_volumes := specVolumes E v\<rparr>"
    using assms(1)
    by (auto simp: GetArgoWorkflow_def ParseComponentTree_def Let_def go_simps job_inputs_def)
  have "ran (map_of s) \<subseteq> supplied_secrets job" by (rule jobSecrets_ran [OF s]) simp_all
  moreover have "ran (map_of v) \<subseteq> set (awf_volumes awf)" by (simp add: awf specVolumes_set [OF r])
  ultimately have "list_all2 (template_ok E (supplied_secrets job) (set (awf_volumes awf))) (preorder ?c) ts"
    using TraverseComponent_appended [OF r _ _ t] by (auto simp: appended_def)
  then show thesis by (rule that) (simp_all add: awf p GenerateArgo_def)
qed

lemma template_names:
  "list_all2 (template_ok E S V) cs ts \<Longrightarrow> map tpl_name ts = map (UUIDString E \<circ> cmp_uid) cs"
  by (induction rule: list_all2_induct) (auto simp: template_ok_def)

lemma template_of:
  assumes "list_all2 (template_ok E S V) cs ts" and "t \<in> set ts"
  obtains c where "c \<in> set cs" and "template_ok E S V c t"
  using assms by (metis in_set_conv_nth list_all2_conv_all_nth)

lemma template_tasks:
  assumes "template_ok E S V c t" and "tpl_dag t = Some tasks"
  shows "tk_template ` set tasks = UUIDString E ` cmp_uid ` set (inline_subs c)"
proof -
  have "map tk_template tasks = map (UUIDString E \<circ> cmp_uid) (inline_subs c)"
    using assms by (auto simp: template_ok_def inline_subs_def split: implementation.splits)
  then have "set (map tk_template tasks) = set (map (UUIDString E \<circ> cmp_uid) (inline_subs c))" by simp
  then show ?thesis by (simp add: image_comp)
qed

section \<open>Dereferenced trees and acyclic graphs\<close>

text \<open>
  A tree is dereferenced when every node below it is held inline, and its graphs are acyclic when
  each has a rank on node names that falls along its edges.
\<close>

definition dereferenced :: "component \<Rightarrow> bool" where
  "dereferenced c \<longleftrightarrow>
     (\<forall>x \<in> set (preorder c). \<forall>v \<in> set (sub_values (cmp_implementation x)). \<exists>d. v = NVComponent d)"

definition acyclic_graphs :: "component \<Rightarrow> bool" where
  "acyclic_graphs c \<longleftrightarrow>
     (\<forall>x \<in> set (preorder c). \<forall>g. cmp_implementation x = ImplGraph g \<longrightarrow>
        (\<exists>rank. edges_ranked rank (g_edges g)))"

lemma preorder_trans: "x \<in> set (preorder d) \<Longrightarrow> d \<in> set (inline_subs c) \<Longrightarrow> x \<in> set (preorder c)"
  by (subst preorder.simps) auto

lemma acyclic_graphs_sub: "acyclic_graphs c \<Longrightarrow> d \<in> set (inline_subs c) \<Longrightarrow> acyclic_graphs d"
  using preorder_trans by (auto simp: acyclic_graphs_def)

lemma inline_subs_graph:
  "cmp_implementation c = ImplGraph g \<Longrightarrow> inline_subs c = concat (map (value_component \<circ> n_node) (g_nodes g))"
  by (cases g) (simp add: inline_subs_def)

lemma inline_subs_map:
  "cmp_implementation c = ImplMap m \<Longrightarrow> inline_subs c = value_component (m_node m)"
  by (cases m) (simp add: inline_subs_def)

lemma inline_subs_conditional:
  "cmp_implementation c = ImplConditional cd \<Longrightarrow>
   inline_subs c = value_component (c_nodeTrue cd) @ value_component (c_nodeFalse cd)"
  by (cases cd) (simp add: inline_subs_def value_component_def)

lemma TraverseNodes_returns:
  assumes "\<And>d s v ts. d \<in> set (concat (map (value_component \<circ> n_node) nds)) \<Longrightarrow>
      TraverseComponent E d s v ts \<noteq> None"
    and "edges_ranked rank (g_edges g)"
  shows "TraverseNodes E ins g s scope nds ts \<noteq> None"
  using assms(1)
proof (induction nds arbitrary: ts)
  case Nil
  then show ?case by (simp add: TraverseNodes.simps)
next
  case (Cons nd nds)
  obtain cid nv ud where nd: "nd = Node cid nv ud" by (cases nd)
  have rest: "TraverseNodes E ins g s scope nds ts1 \<noteq> None" for ts1
    by (rule Cons.IH) (use Cons.prems in auto)
  show ?case
  proof (cases nv)
    case (NVComponent tc)
    have "TraverseComponent E tc s' v' t' \<noteq> None" for s' v' t'
      by (rule Cons.prems) (simp add: nd NVComponent)
    then have "obind (TraverseComponent E tc s' v' ts) (TraverseNodes E ins g s scope nds) \<noteq> None" for s' v'
      by (rule obind_not_None) (rule rest)
    with getConnectedVolumeMap_returns [OF assms(2), of E cid tc "g_nodes g" scope] show ?thesis
      by (auto simp: nd NVComponent TraverseNodes.simps)
  qed (simp_all add: nd TraverseNodes.simps)
qed

lemma TraverseComponent_returns:
  "acyclic_graphs c \<Longrightarrow> TraverseComponent E c s v ts \<noteq> None"
proof (induction c arbitrary: s v ts rule: preorder.induct)
  case (1 c)
  obtain md ins outs ty impl where c: "c = Component md ins outs ty impl" by (cases c)
  have sub: "TraverseComponent E d s' v' ts' \<noteq> None" if "d \<in> set (inline_subs c)" for d s' v' ts'
    using "1.IH" [OF that] acyclic_graphs_sub [OF "1.prems" that] by blast
  show ?case
  proof (cases impl)
    case (ImplGraph g)
    then obtain rank where "edges_ranked rank (g_edges g)"
      using "1.prems" preorder_self [of c] unfolding acyclic_graphs_def c by fastforce
    moreover have "inline_subs c = concat (map (value_component \<circ> n_node) (g_nodes g))"
      by (rule inline_subs_graph) (simp add: c ImplGraph)
    ultimately have "TraverseNodes E ins g s' sc (g_nodes g) ts1 \<noteq> None" for s' sc ts1
      by (intro TraverseNodes_returns) (use sub in auto)
    then show ?thesis
      by (cases g) (auto simp: c ImplGraph TraverseComponent.simps Let_def split: sum.splits)
  next
    case (ImplMap m)
    have "d \<in> set (value_component (m_node m)) \<Longrightarrow> TraverseComponent E d s' v' ts' \<noteq> None" for d s' v' ts'
      by (rule sub) (simp add: inline_subs_map c ImplMap)
    then show ?thesis
      by (cases m) (auto simp: c ImplMap TraverseComponent.simps Let_def value_component_def
          split: sum.splits node_value.splits prod.splits)
  next
    case (ImplConditional cd)
    have none: "d \<notin> set (value_component (c_nodeTrue cd)) \<and> d \<notin> set (value_component (c_nodeFalse cd))"
      if "TraverseComponent E d s' v' ts' = None" for d s' v' ts'
      using sub [of d s' v' ts'] that by (auto simp: inline_subs_conditional c ImplConditional)
    show ?thesis
    proof
      assume "TraverseComponent E c s v ts = None"
      then show False
        by (cases cd) (auto simp: c ImplConditional TraverseComponent.simps Let_def value_component_def
          obind_def dest!: none split: if_splits sum.splits node_value.splits prod.splits option.splits)
    qed
  qed (auto simp: c TraverseComponent.simps Let_def split: sum.splits)
qed

definition traversed :: "ext \<Rightarrow> component \<Rightarrow> bool" where
  "traversed E c \<longleftrightarrow> (\<exists>s v ts ts'. TraverseComponent E c s v ts = Some (Inr ts'))"

lemma traversedI: "TraverseComponent E c s v ts = Some (Inr ts') \<Longrightarrow> traversed E c"
  unfolding traversed_def by blast

lemma TraverseNodes_visits:
  "TraverseNodes E ins g s scope nds ts = Some (Inr ts') \<Longrightarrow> nd \<in> set nds \<Longrightarrow>
   \<exists>c. n_node nd = NVComponent c \<and> traversed E c"
proof (induction nds arbitrary: ts)
  case (Cons x nds)
  obtain cid nv ud where x: "x = Node cid nv ud" by (cases x)
  obtain tc vols ts1 where "nv = NVComponent tc"
    and "TraverseComponent E tc (getNodeSecretMap cid s ins (g_inputMappings g)) vols ts = Some (Inr ts1)"
    and "TraverseNodes E ins g s scope nds ts1 = Some (Inr ts')"
    using Cons.prems(1) by (auto simp: x TraverseNodes.simps go_simps split: node_value.splits option.splits)
  with Cons.IH [of ts1] Cons.prems(2) show ?case by (auto simp: x intro: traversedI)
qed simp

lemma traversed_sub:
  assumes "traversed E c"
  shows "cmp_uid c \<noteq> 0 \<and> (\<forall>v \<in> set (sub_values (cmp_implementation c)). \<exists>d. v = NVComponent d \<and> traversed E d)"
proof -
  obtain md ins outs ty impl where c: "c = Component md ins outs ty impl" by (cases c)
  obtain s v ts ts' where "TraverseComponent E c s v ts = Some (Inr ts')"
    using assms by (auto simp: traversed_def)
  then obtain inputs where uid: "md_uid md \<noteq> 0"
    and did: "traverse_did E (UUIDString E (md_uid md)) ins (outputPorts outs (mk_ports [] [])) impl
           (mapCopy s) v inputs ts ts'"
    unfolding c by (rule TraverseComponent_success) blast
  have "\<forall>v \<in> set (sub_values impl). \<exists>d. v = NVComponent d \<and> traversed E d"
  proof (cases impl)
    case (ImplGraph g)
    then show ?thesis
      using did TraverseNodes_visits by (cases g) (fastforce simp: traverse_did_def)
  next
    case (ImplMap m)
    then show ?thesis using did by (cases m) (auto simp: traverse_did_def intro: traversedI)
  next
    case (ImplConditional cd)
    then show ?thesis using did by (cases cd) (auto simp: traverse_did_def intro: traversedI)
  qed auto
  with uid show ?thesis by (simp add: c)
qed

lemma traversed_preorder: "traversed E c \<Longrightarrow> x \<in> set (preorder c) \<Longrightarrow> traversed E x"
proof (induction c rule: preorder.induct)
  case (1 c)
  have "traversed E d" if "d \<in> set (inline_subs c)" for d
    using traversed_sub [OF "1.prems"(1)] that
    by (fastforce simp: inline_subs_def value_component_def split: node_value.splits)
  with 1 show ?case by (subst (asm) (2) preorder.simps) auto
qed

section \<open>A job to evaluate on\<close>

text \<open>
  A graph of two bricks: the first reads a secret and mounts a volume that it passes on, the
  second takes a parameter from the first and mounts the volume that reaches it along an edge.
\<close>

definition ex_metadata :: "string \<Rightarrow> uuid \<Rightarrow> metadata" where
  "ex_metadata n u =
     \<lparr>md_name = n, md_description = '''', md_modifiedBy = \<lparr>mb_oid = '''', mb_email = ''''\<rparr>, md_uid = u,
      md_version = zero_version, md_timestamp = \<lparr>tm_nanos = 0, tm_loc = ''UTC''\<rparr>\<rparr>"

definition ex_data :: "string \<Rightarrow> string \<Rightarrow> data" where
  "ex_data n t = \<lparr>dt_name = n, dt_mediatype = [], dt_type = t, dt_userdata = ''''\<rparr>"

definition ex_edge :: "string \<Rightarrow> string \<Rightarrow> string \<Rightarrow> string \<Rightarrow> edge" where
  "ex_edge n p m q = \<lparr>e_source = port_at n p, e_target = port_at m q\<rparr>"

definition ex_volume_arg :: "string \<Rightarrow> argument" where
  "ex_volume_arg p = \<lparr>arg_description = '''',
     arg_target = \<lparr>at_type = FlowifyVolumeType, at_prefix = ''/mnt'', at_suffix = ''''\<rparr>,
     arg_source = SrcPort p\<rparr>"

definition ex_brick :: "argument list \<Rightarrow> brick_result list \<Rightarrow> brick" where
  "ex_brick as rs = \<lparr>br_type = ''brick'',
     br_container = Some
       \<lparr>ctr_name = '''', ctr_image = ''image'', ctr_command = [''run''], ctr_args = [], ctr_workingDir = '''',
        ctr_envFrom = [\<lparr>ef_prefix = '''', ef_source = EnvConfigMap ''settings''\<rparr>],
        ctr_env = [], ctr_volumeMounts = [], ctr_rest = ''''\<rparr>,
     br_args = as, br_results = rs\<rparr>"

definition ex_producer :: component where
  "ex_producer = Component (ex_metadata ''producer'' 2)
     [ex_data ''key'' FlowifySecretType, ex_data ''vol'' FlowifyVolumeType]
     [ex_data ''out'' FlowifyParameterType, ex_data ''volout'' FlowifyVolumeType] ''component''
     (ImplBrick (ex_brick [ex_volume_arg ''vol'']
        [\<lparr>res_description = '''', res_target = port_at '''' ''out'', res_source = ResFile ''/tmp/out''\<rparr>,
         \<lparr>res_description = '''', res_target = port_at '''' ''volout'', res_source = ResVolume ''vol''\<rparr>]))"

definition ex_consumer :: component where
  "ex_consumer = Component (ex_metadata ''consumer'' 3)
     [ex_data ''in'' FlowifyParameterType, ex_data ''volin'' FlowifyVolumeType] [] ''component''
     (ImplBrick (ex_brick [ex_volume_arg ''volin''] []))"

definition ex_root :: component where
  "ex_root = Component (ex_metadata ''root'' 1)
     [ex_data ''secret'' FlowifySecretType, ex_data ''disk'' FlowifyVolumeType] [] ''component''
     (ImplGraph (Graph ''graph''
        [Node ''a'' (NVComponent ex_producer) '''', Node ''b'' (NVComponent ex_consumer) '''']
        [ex_edge ''a'' ''out'' ''b'' ''in'', ex_edge ''a'' ''volout'' ''b'' ''volin'']
        [ex_edge '''' ''secret'' ''a'' ''key'', ex_edge '''' ''disk'' ''a'' ''vol''] []))"

definition ex_job_of :: "component \<Rightarrow> job" where
  "ex_job_of c =
     \<lparr>job_metadata = ex_metadata ''job'' 9, job_type = ''job'',
      job_inputValues = [\<lparr>jv_value = IVString ''the-key'', jv_target = ''secret''\<rparr>,
                         \<lparr>jv_value = IVString ''pvc'', jv_target = ''disk''\<rparr>],
      job_workflow = \<lparr>wf_metadata = ex_metadata ''wf'' 8, wf_component = c,
                      wf_type = ''workflow'', wf_workspace = ''ws''\<rparr>, job_events = []\<rparr>"

definition ex_job :: job where "ex_job = ex_job_of ex_root"

lemma ex_job_transpiles: "returned (GetArgoWorkflow ext_example ex_job)"
  by code_simp

section \<open>Properties of the manifest\<close>

text \<open>
  C1: the manifest of a job is closed. Template names are pairwise distinct, the entry point is one
  of them, and every task of every DAG refers to one of them, so each reference is resolved by
  exactly one template.
\<close>

theorem manifest_closed:
  assumes "GetArgoWorkflow E job = Some (Inr awf)" and "range_ok E"
  shows "distinct (map tpl_name (awf_templates awf))
    \<and> awf_entrypoint awf \<in> tpl_name ` set (awf_templates awf)
    \<and> (\<forall>t \<in> set (awf_templates awf). \<forall>tasks. tpl_dag t = Some tasks \<longrightarrow>
         tk_template ` set tasks \<subseteq> tpl_name ` set (awf_templates awf))"
proof -
  let ?c = "wf_component (job_workflow job)"
  obtain ts where ok: "list_all2 (template_ok E (supplied_secrets job) (set (awf_volumes awf))) (preorder ?c) ts"
    and t: "awf_templates awf = removeDupLoop [] ts" and e: "awf_entrypoint awf = UUIDString E (cmp_uid ?c)"
    using GetArgoWorkflow_success [OF assms] unfolding RemoveDuplicatedTemplates_def by metis
  have names: "tpl_name ` set (awf_templates awf) = UUIDString E ` cmp_uid ` set (preorder ?c)"
    using arg_cong [OF template_names [OF ok], of set] by (simp add: t removeDupLoop_names image_comp)
  have "tk_template ` set tasks \<subseteq> UUIDString E ` cmp_uid ` set (preorder ?c)"
    if "x \<in> set (awf_templates awf)" "tpl_dag x = Some tasks" for x tasks
  proof -
    have "x \<in> set ts" using that(1) removeDupLoop_sub by (auto simp: t)
    from ok this obtain d where d: "d \<in> set (preorder ?c)"
      "template_ok E (supplied_secrets job) (set (awf_volumes awf)) d x" by (rule template_of)
    have "set (inline_subs d) \<subseteq> set (preorder ?c)" using preorder_closed [OF d(1)] by blast
    then show ?thesis using template_tasks [OF d(2) that(2)] by blast
  qed
  with names e preorder_self [of ?c] removeDupLoop_distinct [of "[]" ts] show ?thesis
    by (simp add: t)
qed

theorem manifest_closed_witness:
  "\<exists>awf. GetArgoWorkflow ext_example ex_job = Some (Inr awf)
    \<and> distinct (map tpl_name (awf_templates awf))
    \<and> awf_entrypoint awf \<in> tpl_name ` set (awf_templates awf)"
proof -
  obtain awf where "GetArgoWorkflow ext_example ex_job = Some (Inr awf)"
    using returnedE [OF ex_job_transpiles] by blast
  with manifest_closed [OF this] show ?thesis by simp
qed

text \<open>
  C2: what a job's containers read and mount. Every container is that of a brick of the job's workflow
  with only its arguments, its variables and its mounts replaced: every variable set on it has no other
  source than the workspace's secret object under a key the job gave for one of the workflow's secret inputs, and
  every mount refers to a volume the manifest declares. None of the brick's own variables and mounts is
  left. What the brick names under \<open>envFrom\<close> is not replaced: there it may name any config map and
  any secret of the namespace.
\<close>

theorem manifest_secrets_and_mounts:
  assumes "GetArgoWorkflow E job = Some (Inr awf)" and "range_ok E"
    and "t \<in> set (awf_templates awf)" and "tpl_container t = Some ctr"
  shows "(\<forall>e \<in> set (ctr_env ctr). env_secretKey e \<in> supplied_secrets job
            \<and> env_secretName e = DefaultObjectName \<and> env_value e = [] \<and> env_rest e = [])
    \<and> vm_name ` set (ctr_volumeMounts ctr) \<subseteq> vol_name ` set (awf_volumes awf)
    \<and> (\<exists>c b c0. c \<in> set (preorder (wf_component (job_workflow job))) \<and> tpl_name t = UUIDString E (cmp_uid c)
         \<and> cmp_implementation c = ImplBrick b \<and> br_container b = Some c0
         \<and> ctr = c0\<lparr>ctr_args := ctr_args ctr, ctr_env := ctr_env ctr, ctr_volumeMounts := ctr_volumeMounts ctr\<rparr>)"
proof -
  obtain ts where ok: "list_all2 (template_ok E (supplied_secrets job) (set (awf_volumes awf)))
      (preorder (wf_component (job_workflow job))) ts"
    and ts: "awf_templates awf = removeDupLoop [] ts"
    using GetArgoWorkflow_success [OF assms(1,2)] unfolding RemoveDuplicatedTemplates_def by metis
  have "t \<in> set ts" using assms(3) removeDupLoop_sub by (auto simp: ts)
  with ok obtain d where d: "d \<in> set (preorder (wf_component (job_workflow job)))"
    "template_ok E (supplied_secrets job) (set (awf_volumes awf)) d t"
    by (rule template_of)
  from d(2) obtain b where b: "cmp_implementation d = ImplBrick b"
    using assms(4) by (cases "cmp_implementation d") (auto simp: template_ok_def)
  have "brick_container_ok (supplied_secrets job) (set (awf_volumes awf)) (cmp_inputs d) ctr"
    "\<exists>c0. br_container b = Some c0 \<and> brick_container_of c0 ctr"
    using d(2) b assms(4) by (auto simp: template_ok_def)
  then show ?thesis using d b by (auto simp: brick_container_ok_def brick_container_of_def template_ok_def)
qed

definition ex_container :: "job \<Rightarrow> string \<Rightarrow> container option" where
  "ex_container job n = (case GetArgoWorkflow ext_example job of
     Some (Inr awf) \<Rightarrow> (case find (\<lambda>t. tpl_name t = n) (awf_templates awf) of
        Some t \<Rightarrow> tpl_container t | None \<Rightarrow> None)
   | _ \<Rightarrow> None)"

lemma ex_containerE:
  assumes "ex_container job n = Some ctr"
  obtains awf t where "GetArgoWorkflow ext_example job = Some (Inr awf)"
    and "t \<in> set (awf_templates awf)" and "tpl_container t = Some ctr"
  using assms by (auto simp: ex_container_def dest!: find_SomeD split: option.splits sum.splits)

lemma ex_container_some:
  "map_option (\<lambda>c. map env_secretKey (ctr_env c)) (ex_container ex_job ''uu'') = Some [''the-key'']"
  by code_simp

theorem manifest_secrets_and_mounts_witness:
  "\<exists>awf t ctr. GetArgoWorkflow ext_example ex_job = Some (Inr awf) \<and> t \<in> set (awf_templates awf)
     \<and> tpl_container t = Some ctr \<and> map env_secretKey (ctr_env ctr) = [''the-key'']
     \<and> vm_name ` set (ctr_volumeMounts ctr) \<subseteq> vol_name ` set (awf_volumes awf)"
proof -
  obtain ctr where c: "ex_container ex_job ''uu'' = Some ctr"
    and k: "map env_secretKey (ctr_env ctr) = [''the-key'']"
    using ex_container_some by (cases "ex_container ex_job ''uu''") auto
  from c obtain awf t where "GetArgoWorkflow ext_example ex_job = Some (Inr awf)"
    and "t \<in> set (awf_templates awf)" and "tpl_container t = Some ctr"
    by (rule ex_containerE)
  with manifest_secrets_and_mounts [of ext_example ex_job awf t ctr] k show ?thesis by auto
qed

text \<open>
  C17: when no two components of the tree share a UUID, the manifest has exactly one template per
  component, in the order the tree is visited, and each is the template its component calls for: a
  brick's container is the one the brick has, with the brick's arguments, one variable per secret input
  and none that is not an input, a composite's tasks are the templates of its sub-components.
\<close>

theorem manifest_one_template_per_component:
  assumes "GetArgoWorkflow E job = Some (Inr awf)" and "range_ok E" and "uuid_string_ok E"
    and "distinct (map cmp_uid (preorder (wf_component (job_workflow job))))"
  shows "list_all2 (template_ok E (supplied_secrets job) (set (awf_volumes awf)))
    (preorder (wf_component (job_workflow job))) (awf_templates awf)"
proof -
  let ?cs = "preorder (wf_component (job_workflow job))"
  obtain ts where ok: "list_all2 (template_ok E (supplied_secrets job) (set (awf_volumes awf))) ?cs ts"
    and ts: "awf_templates awf = removeDupLoop [] ts"
    using GetArgoWorkflow_success [OF assms(1,2)] unfolding RemoveDuplicatedTemplates_def by metis
  have "map tpl_name ts = map (UUIDString E) (map cmp_uid ?cs)"
    using template_names [OF ok] by simp
  then have "distinct (map tpl_name ts)"
    using assms(3,4) by (simp add: uuid_string_ok_def distinct_map inj_on_def del: map_map)
  with ok show ?thesis by (simp add: ts removeDupLoop_id)
qed

lemma ex_root_uids: "map cmp_uid (preorder ex_root) = [1, 2, 3]"
  by code_simp

theorem manifest_one_template_per_component_witness:
  "\<exists>awf. GetArgoWorkflow ext_example ex_job = Some (Inr awf)
    \<and> list_all2 (template_ok ext_example (supplied_secrets ex_job) (set (awf_volumes awf)))
        (preorder ex_root) (awf_templates awf)"
proof -
  obtain awf where a: "GetArgoWorkflow ext_example ex_job = Some (Inr awf)"
    using returnedE [OF ex_job_transpiles] by blast
  have "wf_component (job_workflow ex_job) = ex_root" by (simp add: ex_job_def ex_job_of_def)
  with manifest_one_template_per_component [OF a] a show ?thesis by (auto simp: ex_root_uids)
qed

text \<open>
  only a fully dereferenced tree is transpiled. When \<open>GetArgoWorkflow\<close> returns a manifest, no
  node below the workflow's component is a reference or empty, and no component has the zero UUID.
\<close>

theorem transpiled_is_dereferenced:
  assumes "GetArgoWorkflow E job = Some (Inr awf)"
  shows "dereferenced (wf_component (job_workflow job))
    \<and> (\<forall>x \<in> set (preorder (wf_component (job_workflow job))). cmp_uid x \<noteq> 0)"
proof -
  have "traversed E (wf_component (job_workflow job))"
    using assms unfolding GetArgoWorkflow_def ParseComponentTree_def Let_def
    by (auto simp: go_simps intro: traversedI)
  then have "traversed E x" if "x \<in> set (preorder (wf_component (job_workflow job)))" for x
    using that by (rule traversed_preorder)
  then show ?thesis using traversed_sub unfolding dereferenced_def by meson
qed

theorem transpiled_is_dereferenced_witness: "dereferenced ex_root \<and> cmp_uid ex_root \<noteq> 0"
proof -
  obtain awf where a: "GetArgoWorkflow ext_example ex_job = Some (Inr awf)"
    using returnedE [OF ex_job_transpiles] by blast
  have "wf_component (job_workflow ex_job) = ex_root" by (simp add: ex_job_def ex_job_of_def)
  with transpiled_is_dereferenced [OF a] preorder_self [of ex_root] show ?thesis by auto
qed

section \<open>Panics\<close>

text \<open>
  Where the transpiler may panic: at a brick without a container, and where an input mapping takes an
  artifact input of the component to a parameter of a component below it.
\<close>

definition input_mappings :: "implementation \<Rightarrow> edge list" where
  "input_mappings i =
     (case i of ImplGraph g \<Rightarrow> g_inputMappings g | ImplMap m \<Rightarrow> m_inputMappings m
      | ImplConditional c \<Rightarrow> c_inputMappings c | _ \<Rightarrow> [])"

definition has_input :: "component \<Rightarrow> string \<Rightarrow> string \<Rightarrow> bool" where
  "has_input c n t \<longleftrightarrow> (\<exists>i \<in> set (cmp_inputs c). dt_name i = n \<and> dt_type i = t)"

definition may_panic :: "component \<Rightarrow> bool" where
  "may_panic c \<longleftrightarrow>
     (\<exists>b. cmp_implementation c = ImplBrick b \<and> br_container b = None)
   \<or> (\<exists>m \<in> set (input_mappings (cmp_implementation c)). \<exists>d \<in> set (inline_subs c).
        has_input c (pa_port (e_source m)) FlowifyArtifactType \<and> has_input d (pa_port (e_target m)) FlowifyParameterType)"

lemma checkInputType_has:
  "fst (checkInputType ins n) = t \<Longrightarrow> t \<noteq> [] \<Longrightarrow> \<exists>i \<in> set ins. dt_name i = n \<and> dt_type i = t"
  by (induction ins) (auto split: if_splits)

lemma inputPorts_artifacts:
  "inputPorts E n s ins acc = Inr inputs \<Longrightarrow> a \<in> set (prt_artifacts inputs) \<Longrightarrow>
   a \<in> set (prt_artifacts acc) \<or> (\<exists>i \<in> set ins. dt_name i = art_name a \<and> dt_type i = FlowifyArtifactType)"
proof (induction ins arbitrary: acc)
  case (Cons d ds)
  from Cons.prems(1) show ?case
    by (simp split: if_split_asm) (drule Cons.IH, rule Cons.prems(2), auto simp: mk_artifact_def)+
qed simp

text \<open>\<open>safe_mappings\<close> says of a composite with inputs \<open>ins\<close> that its mappings take no artifact to a parameter of \<open>d\<close>.\<close>

definition safe_mappings :: "data list \<Rightarrow> component \<Rightarrow> edge list \<Rightarrow> bool" where
  "safe_mappings ins d ms \<longleftrightarrow>
     (\<forall>m \<in> set ms. \<not> ((\<exists>i \<in> set ins. dt_name i = pa_port (e_source m) \<and> dt_type i = FlowifyArtifactType)
        \<and> has_input d (pa_port (e_target m)) FlowifyParameterType))"

lemma mapInputs_calm:
  assumes E: "artifact_lookup_ok E" and i: "inputPorts E n s ins (mk_ports [] []) = Inr inputs"
    and safe: "safe_mappings ins d ms"
  shows "calm (mapInputs E guard inputs (cmp_inputs d) ms acc)"
  using safe
proof (induction ms arbitrary: acc)
  case (Cons m ms)
  let ?src = "pa_port (e_source m)" and ?it = "fst (checkInputType (cmp_inputs d) (pa_port (e_target m)))"
  have IH: "calm (mapInputs E guard inputs (cmp_inputs d) ms acc)" for acc
    using Cons by (auto simp: safe_mappings_def)
  have "\<exists>i \<in> set ins. dt_name i = ?src \<and> dt_type i = FlowifyArtifactType" if "GetArtifactByName E inputs ?src = Some a" for a
  proof -
    have "a \<in> set (prt_artifacts inputs)" "art_name a = ?src"
      using E that by (auto simp: artifact_lookup_ok_def dest!: find_SomeD)
    then show ?thesis using inputPorts_artifacts [OF i, of a] by (simp add: mk_ports_def)
  qed
  moreover have "has_input d (pa_port (e_target m)) FlowifyParameterType" if "?it = FlowifyParameterType"
    using checkInputType_has [OF that] by (auto simp: has_input_def FlowifyParameterType_def)
  ultimately have "GetParameterByName E inputs ?src \<noteq> None"
    if "GetArtifactByName E inputs ?src = Some a" "?it = FlowifyParameterType" for a
    using Cons.prems that unfolding safe_mappings_def by (metis list.set_intros(1))
  then have "GetArtifactByName E inputs ?src = None"
    if "GetParameterByName E inputs ?src = None" "?it = FlowifyParameterType"
    using that by (cases "GetArtifactByName E inputs ?src") blast+
  then show ?case using IH by (auto simp: Let_def split: option.split)
qed simp

lemma edgeInputs_calm: "calm (edgeInputs E n c es acc)"
  by (induction es arbitrary: acc) (auto simp: Let_def split: implementation.split)

lemma graphTasks_calm:
  assumes "artifact_lookup_ok E" "inputPorts E n s ins (mk_ports [] []) = Inr inputs"
    and "\<And>d. d \<in> set (concat (map (value_component \<circ> n_node) nds)) \<Longrightarrow> safe_mappings ins d (g_inputMappings g)"
  shows "calm (graphTasks E g inputs nds)"
  using assms(3)
proof (induction nds)
  case (Cons nd nds)
  show ?case
  proof (cases "n_node nd")
    case (NVComponent c)
    then have "safe_mappings ins c (g_inputMappings g)" "calm (graphTasks E g inputs nds)"
      using Cons by (auto simp: value_component_def)
    then show ?thesis using mapInputs_calm [OF assms(1,2)] edgeInputs_calm by (auto simp: NVComponent intro!: calm_rbind)
  qed simp_all
qed simp

lemma containers_calm: "calm (getContainerVolumes as v)" "calm (getContainerArgs as)"
  by (induction as) (auto split: arg_source.split option.split intro!: calm_rbind)

lemma condition_calm: "calm (expressionToString e)"
  by (auto simp: expressionToString_def expr_operand_def Let_def intro!: calm_rbind split: expr_value.split)

lemma branches_calm: "calm (checkSameData f w ds)" "calm (checkBranches n ct cf)"
proof -
  show c: "calm (checkSameData f w ds)" for f w ds by (induction ds) auto
  show "calm (checkBranches n ct cf)" by (auto simp: checkBranches_def c intro!: calm_rbind)
qed

lemma inputPorts_calm: "calm (inputPorts E n s ins acc)"
  by (induction ins arbitrary: acc) auto

lemma AddBrick_calm: "br_container b \<noteq> None \<Longrightarrow> calm (AddBrick E n b outs ins ts s v)"
  using containers_calm(1) [of "br_args b" v] containers_calm(2) [of "br_args b"]
  by (auto simp: AddBrick_def Let_def split: sum.split option.split)

lemma Add_calm:
  assumes "artifact_lookup_ok E" "inputPorts E n0 s ins (mk_ports [] []) = Inr inputs"
    and "\<And>d. d \<in> set (inline_subs (Component md ins outs ty impl)) \<Longrightarrow> safe_mappings ins d (input_mappings impl)"
  shows "impl = ImplGraph g \<Longrightarrow> calm (AddGraph E n g os inputs ts)"
    and "impl = ImplMap m \<Longrightarrow> calm (AddMap E n m os inputs ts)"
    and "impl = ImplConditional c \<Longrightarrow> calm (AddConditional E n c os inputs ts)"
proof -
  note calm = mapInputs_calm [OF assms(1,2)] graphTasks_calm [OF assms(1,2)] condition_calm branches_calm(2)
  show "impl = ImplGraph g \<Longrightarrow> calm (AddGraph E n g os inputs ts)"
    using assms(3) unfolding AddGraph_def
    by (intro calm_rbind calm) (auto simp: inline_subs_graph input_mappings_def)
  show "impl = ImplMap m \<Longrightarrow> calm (AddMap E n m os inputs ts)"
    using assms(3) unfolding AddMap_def
    by (auto simp: inline_subs_map input_mappings_def value_component_def split: node_value.split intro!: calm_rbind calm)
  show "impl = ImplConditional c \<Longrightarrow> calm (AddConditional E n c os inputs ts)"
    using assms(3) unfolding AddConditional_def addConditionalWith_def
    by (auto simp: inline_subs_conditional input_mappings_def value_component_def split: node_value.split intro!: calm_rbind calm)
qed

lemma safe_sub:
  assumes "\<not> may_panic c" "d \<in> set (inline_subs c)"
  shows "safe_mappings (cmp_inputs c) d (input_mappings (cmp_implementation c))"
  using assms by (auto simp: may_panic_def safe_mappings_def has_input_def)

lemma TraverseNodes_calm:
  "(\<And>d s v ts. d \<in> set (concat (map (value_component \<circ> n_node) nds)) \<Longrightarrow> calm_run (TraverseComponent E d s v ts)) \<Longrightarrow>
   calm_run (TraverseNodes E ins g s scope nds ts)"
proof (induction nds arbitrary: ts)
  case Nil
  then show ?case by (simp add: TraverseNodes.simps)
next
  case (Cons nd nds)
  obtain cid nv ud where nd: "nd = Node cid nv ud" by (cases nd)
  have "calm_run (TraverseNodes E ins g s scope nds ts1)" for ts1
    by (rule Cons.IH) (use Cons.prems in auto)
  moreover have "calm_run (TraverseComponent E tc s' v' t')" if "nv = NVComponent tc" for tc s' v' t'
    by (rule Cons.prems) (simp add: nd that)
  ultimately show ?case
    by (auto simp: nd TraverseNodes.simps intro!: calm_obind split: node_value.split option.split)
qed

lemma TraverseComponent_calm:
  assumes E: "artifact_lookup_ok E"
  shows "(\<forall>x \<in> set (preorder c). \<not> may_panic x) \<Longrightarrow> calm_run (TraverseComponent E c s v ts)"
proof (induction c arbitrary: s v ts rule: preorder.induct)
  case (1 c)
  obtain md ins outs ty impl where c: "c = Component md ins outs ty impl" by (cases c)
  have np: "\<not> may_panic c" using "1.prems" preorder_self [of c] by blast
  have sub: "calm_run (TraverseComponent E d s' v' ts')" if "d \<in> set (inline_subs c)" for d s' v' ts'
    using "1.IH" [OF that] "1.prems" preorder_trans [OF _ that] by blast
  let ?i = "inputPorts E (UUIDString E (md_uid md)) (mapCopy s) ins (mk_ports [] [])"
  have ports: "\<not> is_panic e" if "?i = Inl e" for e
    using inputPorts_calm [of E "UUIDString E (md_uid md)" "mapCopy s" ins "mk_ports [] []"] that by simp
  have adds: "impl = ImplGraph g \<Longrightarrow> calm (AddGraph E n g os inputs ts)" "impl = ImplMap m \<Longrightarrow> calm (AddMap E n m os inputs ts)"
    "impl = ImplConditional cd \<Longrightarrow> calm (AddConditional E n cd os inputs ts)" if "?i = Inr inputs" for g m cd n os inputs ts
    using Add_calm [OF E that, where md = md and outs = outs and ty = ty and impl = impl] safe_sub [OF np] by (simp_all add: c)
  show ?case
  proof (cases "?i")
    case (Inl e)
    then show ?thesis using ports by (simp add: c TraverseComponent.simps Let_def)
  next
    case (Inr inputs)
    note add = adds [OF Inr]
    show ?thesis
    proof (cases impl)
      case (ImplBrick b)
      have "br_container b \<noteq> None" using np by (auto simp: may_panic_def c ImplBrick)
      then have "\<not> is_panic e" if "AddBrick E n b os inputs ts s' v = Inl e" for n os s' e
        using calm_Inl [OF AddBrick_calm that] by blast
      then show ?thesis by (auto simp: c ImplBrick Inr TraverseComponent.simps Let_def split: sum.split)
    next
      case (ImplGraph g)
      have "calm_run (TraverseNodes E ins g s' sc (g_nodes g) ts1)" for s' sc ts1
        by (rule TraverseNodes_calm, rule sub) (simp add: inline_subs_graph c ImplGraph)
      moreover have "\<not> is_panic e" if "AddGraph E n g os inputs ts' = Inl e" for n os ts' e
        using calm_Inl [OF add(1) [OF ImplGraph] that] .
      ultimately show ?thesis
        by (cases g) (auto simp: c ImplGraph Inr TraverseComponent.simps Let_def split: sum.split)
    next
      case (ImplMap m)
      have "calm_run (TraverseComponent E d s' v' ts')" if "m_node m = NVComponent d" for d s' v' ts'
        by (rule sub) (simp add: inline_subs_map c ImplMap that value_component_def)
      moreover have "\<not> is_panic e" if "AddMap E n m os inputs ts' = Inl e" for n os ts' e
        using calm_Inl [OF add(2) [OF ImplMap] that] .
      ultimately show ?thesis
        by (cases m) (auto simp: c ImplMap Inr TraverseComponent.simps Let_def
            split: sum.split node_value.split prod.split)
    next
      case (ImplConditional cd)
      have "calm_run (TraverseComponent E d s' v' ts')" if "c_nodeTrue cd = NVComponent d \<or> c_nodeFalse cd = NVComponent d" for d s' v' ts'
        by (rule sub) (use that in \<open>auto simp: inline_subs_conditional c ImplConditional value_component_def\<close>)
      moreover have "\<not> is_panic e" if "AddConditional E n cd os inputs ts' = Inl e" for n os ts' e
        using calm_Inl [OF add(3) [OF ImplConditional] that] .
      ultimately show ?thesis
        by (cases cd) (auto simp: c ImplConditional Inr TraverseComponent.simps Let_def intro!: calm_obind
            split: sum.split node_value.split prod.split)
    qed (simp_all add: c Inr TraverseComponent.simps Let_def)
  qed
qed

lemma job_values_calm:
  assumes "\<And>t. calm (VolumeFromJson E t)"
  shows "calm (jobSecrets job ins s)" "calm (jobVolumes E ins vs vm)" "calm (jobParams E ins vs ps)"
proof -
  have "calm (jobSecret n vs f)" for n vs f
    by (induction vs arbitrary: f) (auto split: input_value.split)
  then have "\<not> is_panic e" if "jobSecret n vs f = Inl e" for n vs f e using that by (metis calm_Inl)
  then show "calm (jobSecrets job ins s)"
    by (induction ins arbitrary: s) (auto split: sum.split option.split)
  have "calm (volumeFromConfig E t)" for t by (simp add: volumeFromConfig_def assms)
  then have "calm (jobVolumeTargets E v ins vm)" for v ins vm
    by (induction ins arbitrary: vm) (auto split: input_value.split intro!: calm_rbind)
  then show "calm (jobVolumes E ins vs vm)"
    by (induction vs arbitrary: vm) (auto intro!: calm_rbind)
  have "calm (jobParamTargets E v ins ps)" for v ins ps
    by (induction ins arbitrary: ps) (auto split: input_value.split)
  then show "calm (jobParams E ins vs ps)"
    by (induction vs arbitrary: ps) (auto intro!: calm_rbind)
qed

text \<open>
  C18: how the transpilation of a job ends. When the edges of every graph of the tree are acyclic it comes
  to an end, whatever the job's values: with a manifest, an error or a panic. It panics only if the tree has a
  brick without a container, or an input mapping of a composite that takes an artifact input to an input of a
  component below it that is a parameter.
\<close>

theorem transpile_returns:
  assumes "acyclic_graphs (wf_component (job_workflow job))" and "artifact_lookup_ok E"
    and "\<And>t e. VolumeFromJson E t = Inl e \<Longrightarrow> \<not> is_panic e"
  shows "\<exists>r. GetArgoWorkflow E job = Some r
    \<and> (\<forall>e. r = Inl e \<longrightarrow> is_panic e \<longrightarrow> (\<exists>c \<in> set (preorder (wf_component (job_workflow job))).
          (\<exists>b. cmp_implementation c = ImplBrick b \<and> br_container b = None)
        \<or> (\<exists>m \<in> set (input_mappings (cmp_implementation c)). \<exists>d \<in> set (inline_subs c).
             has_input c (pa_port (e_source m)) FlowifyArtifactType \<and> has_input d (pa_port (e_target m)) FlowifyParameterType)))"
proof -
  have "GetArgoWorkflow E job \<noteq> None"
    unfolding GetArgoWorkflow_def ParseComponentTree_def Let_def
    by (intro obind_not_None TraverseComponent_returns assms(1)) simp_all
  then obtain r where r: "GetArgoWorkflow E job = Some r" by blast
  have "calm (VolumeFromJson E t)" for t using assms(3) by (simp add: calm_def)
  note jv = job_values_calm [OF this]
  have "calm r" if "\<forall>c \<in> set (preorder (wf_component (job_workflow job))). \<not> may_panic c"
  proof -
    have "calm_run (GetArgoWorkflow E job)"
      unfolding GetArgoWorkflow_def ParseComponentTree_def Let_def
      by (intro calm_obind TraverseComponent_calm assms(2) that) (simp_all add: jv)
    then show ?thesis by (simp add: r)
  qed
  then show ?thesis using r unfolding may_panic_def calm_def by blast
qed

definition ex_rank :: "string \<Rightarrow> nat" where
  "ex_rank n = (if n = ''b'' then 1 else 0)"

theorem transpile_returns_witness: "\<exists>r. GetArgoWorkflow ext_example ex_job = Some r"
proof -
  have "preorder ex_root = [ex_root, ex_producer, ex_consumer]" by code_simp
  moreover have "edges_ranked ex_rank [ex_edge ''a'' ''out'' ''b'' ''in'', ex_edge ''a'' ''volout'' ''b'' ''volin'']"
    by code_simp
  ultimately have "acyclic_graphs (wf_component (job_workflow ex_job))"
    by (auto simp: ex_job_def ex_job_of_def acyclic_graphs_def ex_root_def ex_producer_def ex_consumer_def)
  moreover have "VolumeFromJson ext_example t = Inl e \<Longrightarrow> \<not> is_panic e" for t e by (auto simp: ext_example_def split: if_split_asm)
  ultimately show ?thesis using transpile_returns [of ex_job ext_example] by simp blast
qed

text \<open>
  a job that gives no value for a secret input of its workflow is rejected with an error.
\<close>

theorem missing_secret_rejected:
  assumes "d \<in> set (job_inputs job)" and "dt_type d = FlowifySecretType"
    and "dt_name d \<notin> jv_target ` set (job_inputValues job)"
  shows "\<exists>e. GetArgoWorkflow E job = Some (Inl e)"
  using jobSecrets_missing [OF assms(1,2,3), of "[]"]
  by (auto simp: GetArgoWorkflow_def Let_def job_inputs_def)

theorem missing_secret_rejected_witness:
  "\<exists>e. GetArgoWorkflow ext_example (ex_job\<lparr>job_inputValues := []\<rparr>) = Some (Inl e)"
  by (rule missing_secret_rejected [of "ex_data ''secret'' FlowifySecretType"])
    (simp_all add: ex_job_def ex_job_of_def job_inputs_def ex_root_def ex_data_def)

section \<open>Properties of the parts\<close>

definition node_task :: "ext \<Rightarrow> graph \<Rightarrow> node \<Rightarrow> dag_task \<Rightarrow> bool" where
  "node_task E g n k \<longleftrightarrow> tk_name k = n_id n
     \<and> (\<exists>c. n_node n = NVComponent c \<and> tk_template k = UUIDString E (cmp_uid c))
     \<and> set (tk_dependencies k) =
         {pa_node (e_source e) | e. e \<in> set (g_edges g) \<and> pa_node (e_target e) = n_id n}"

lemma graphTasks_nodes:
  "graphTasks E g inputs nds = Inr tasks \<Longrightarrow> list_all2 (node_task E g) nds tasks"
  by (induction nds arbitrary: tasks)
    (auto simp: go_simps node_task_def getDependencies_eq split: node_value.splits)

text \<open>
  C38: the tasks of a graph mirror its nodes. Each node has one task, in order, named by the node's
  id, that runs the template of the node's component and depends exactly on the nodes its incoming
  edges start from.
\<close>

theorem graph_tasks_mirror_nodes:
  assumes "AddGraph E name g outputs inputs ts = Inr ts'"
  shows "\<exists>t tasks. ts' = ts @ [t] \<and> tpl_name t = name \<and> tpl_dag t = Some tasks
    \<and> list_all2 (node_task E g) (g_nodes g) tasks"
  using assms graphTasks_nodes [of E g inputs "g_nodes g"]
  by (auto simp: AddGraph_def go_simps dag_template_def)

theorem graph_tasks_mirror_nodes_witness:
  "\<exists>ts' t tasks. AddGraph ext_example ''g'' (Graph ''graph'' [Node ''a'' (NVComponent ex_producer) '''']
       [] [] []) (mk_ports [] []) (mk_ports [] []) [] = Inr ts' \<and> ts' = [] @ [t] \<and> tpl_dag t = Some tasks
     \<and> list_all2 (node_task ext_example (Graph ''graph'' [Node ''a'' (NVComponent ex_producer) ''''] [] [] []))
         [Node ''a'' (NVComponent ex_producer) ''''] tasks"
proof -
  let ?g = "Graph ''graph'' [Node ''a'' (NVComponent ex_producer) ''''] [] [] []"
  have "\<exists>ts'. AddGraph ext_example ''g'' ?g (mk_ports [] []) (mk_ports [] []) [] = Inr ts'"
    by (simp add: AddGraph_def)
  with graph_tasks_mirror_nodes [of ext_example "''g''" ?g "mk_ports [] []" "mk_ports [] []" "[]"]
  show ?thesis by fastforce
qed

text \<open>
  removing duplicated templates keeps exactly the first template of each name: the result has
  distinct names and the same set of names, looking a name up gives what it gave before, and a
  second pass changes nothing.
\<close>

theorem RemoveDuplicatedTemplates_spec:
  "distinct (map tpl_name (RemoveDuplicatedTemplates ts))
   \<and> tpl_name ` set (RemoveDuplicatedTemplates ts) = tpl_name ` set ts
   \<and> (\<forall>n. find (\<lambda>t. tpl_name t = n) (RemoveDuplicatedTemplates ts) = find (\<lambda>t. tpl_name t = n) ts)
   \<and> RemoveDuplicatedTemplates (RemoveDuplicatedTemplates ts) = RemoveDuplicatedTemplates ts"
  by (simp add: RemoveDuplicatedTemplates_def removeDupLoop_distinct removeDupLoop_names
      removeDupLoop_find removeDupLoop_id)

lemma checkSameData_ok:
  "checkSameData get w ds = Inr u \<longleftrightarrow> (\<forall>d \<in> set ds. get d \<noteq> None)"
  by (induction ds) auto

lemma find_data_ok:
  "find_data is d \<noteq> None \<longleftrightarrow> (\<exists>i \<in> set is. dt_name i = dt_name d \<and> dt_type i = dt_type d)"
  by (induction "is") auto

definition same_ports :: "data list \<Rightarrow> data list \<Rightarrow> bool" where
  "same_ports ds ds' \<longleftrightarrow> length ds = length ds'
     \<and> (\<forall>d \<in> set ds. \<exists>d' \<in> set ds'. dt_name d' = dt_name d \<and> dt_type d' = dt_type d)"

text \<open>
  A conditional is transpiled only when its branches have the same ports, and then to two tasks
  guarded by complementary conditions: with \<open>cond\<close> the text of the expression, the true branch runs
  when \<open>cond\<close> and the false branch when \<open>!(cond)\<close>, on the same arguments.
\<close>

theorem conditional_branches:
  assumes "AddConditional E name cd outputs inputs ts = Inr ts'" and "c_nodeFalse cd \<noteq> NVNil"
  shows "\<exists>ct cf cond t k1 k2. c_nodeTrue cd = NVComponent ct \<and> c_nodeFalse cd = NVComponent cf
    \<and> same_ports (cmp_inputs ct) (cmp_inputs cf) \<and> same_ports (cmp_outputs ct) (cmp_outputs cf)
    \<and> expressionToString (c_expression cd) = Inr cond
    \<and> ts' = ts @ [t] \<and> tpl_dag t = Some [k1, k2]
    \<and> tk_template k1 = UUIDString E (cmp_uid ct) \<and> tk_when k1 = cond
    \<and> tk_template k2 = UUIDString E (cmp_uid cf) \<and> tk_when k2 = ''!('' @ cond @ '')''
    \<and> tk_arguments k1 = tk_arguments k2"
proof -
  obtain ct cf where ct: "c_nodeTrue cd = NVComponent ct" and cf: "c_nodeFalse cd = NVComponent cf"
    and ok: "checkBranches name ct cf = Inr ()"
    and w: "addConditionalWith E name cd ct (Some cf) outputs inputs ts = Inr ts'"
    using assms by (auto simp: AddConditional_def go_simps split: node_value.splits)
  have "same_ports (cmp_inputs ct) (cmp_inputs cf) \<and> same_ports (cmp_outputs ct) (cmp_outputs cf)"
    using ok by (auto simp: checkBranches_def go_simps checkSameData_ok getInput_def getOutput_def
        find_data_ok same_ports_def simp del: not_None_eq split: if_splits)
  with ct cf w show ?thesis
    by (auto simp: addConditionalWith_def go_simps dag_template_def branch_task_def)
qed

definition ex_conditional :: conditional where
  "ex_conditional = Conditional ''conditional''
     \<lparr>ex_left = EVString ''1'', ex_right = EVString ''2'', ex_operator = ''<''\<rparr>
     (NVComponent ex_producer) (NVComponent ex_producer) [] []"

theorem conditional_branches_witness:
  "\<exists>ts' t k1 k2. AddConditional ext_example ''c'' ex_conditional (mk_ports [] []) (mk_ports [] []) [] = Inr ts'
    \<and> ts' = [t] \<and> tpl_dag t = Some [k1, k2] \<and> tk_when k1 = ''1 < 2'' \<and> tk_when k2 = ''!(1 < 2)''"
proof -
  let ?r = "AddConditional ext_example ''c'' ex_conditional (mk_ports [] []) (mk_ports [] []) []"
  have "returned (Some ?r)" by code_simp
  then obtain ts' where r: "?r = Inr ts'" using returnedE by blast
  have "c_nodeFalse ex_conditional \<noteq> NVNil" by (simp add: ex_conditional_def)
  moreover have "expressionToString (c_expression ex_conditional) = Inr ''1 < 2''" by code_simp
  ultimately show ?thesis using conditional_branches [OF r] r by auto
qed

section \<open>Parameters\<close>

text \<open>The parameter that one job value stands for, by the type of the input of its name.\<close>

definition param_of :: "ext \<Rightarrow> data list \<Rightarrow> job_value \<Rightarrow> wf_parameter option" where
  "param_of E ins v =
     (case findByName ins (jv_target v) of
        None \<Rightarrow> None
      | Some d \<Rightarrow>
          (case jv_value v of
             IVString s \<Rightarrow> if dt_type d = FlowifyParameterType
                           then Some (mk_param (jv_target v) (Some (AnyStringPtr E s))) else None
           | IVArray xs \<Rightarrow> if dt_type d = FlowifyParameterArrayType
                           then Some (mk_param (jv_target v) (Some (AnyStringPtr E (arrayText xs)))) else None
           | IVNil \<Rightarrow> None))"

lemma jobParamTargets_absent: "jv_target v \<notin> dt_name ` set ins \<Longrightarrow> jobParamTargets E v ins ps = Inr ps"
  by (induction ins) auto

lemma jobParamTargets_param_of:
  "distinct (map dt_name ins) \<Longrightarrow> jobParamTargets E v ins ps = Inr ps' \<Longrightarrow>
   ps' = ps @ (case param_of E ins v of None \<Rightarrow> [] | Some p \<Rightarrow> [p])"
proof (induction ins)
  case (Cons i ins)
  show ?case
  proof (cases "dt_name i = jv_target v")
    case True
    with Cons.prems(1) have "jv_target v \<notin> dt_name ` set ins" by (metis distinct.simps(2) list.simps(9) set_map)
    with True Cons.prems(2) show ?thesis
      by (auto simp: param_of_def jobParamTargets_absent split: if_splits input_value.splits)
  next
    case False
    with Cons show ?thesis by (simp add: param_of_def)
  qed
qed (simp add: param_of_def)

lemma jobParams_append:
  "distinct (map dt_name ins) \<Longrightarrow> jobParams E ins vs ps = Inr ps' \<Longrightarrow>
   ps' = ps @ List.map_filter (param_of E ins) vs"
proof (induction vs arbitrary: ps)
  case (Cons v vs)
  then obtain ps1 where 1: "jobParamTargets E v ins ps = Inr ps1" and 2: "jobParams E ins vs ps1 = Inr ps'"
    by (auto simp: go_simps)
  show ?case
    using Cons.IH [OF Cons.prems(1) 2] jobParamTargets_param_of [OF Cons.prems(1) 1]
    by (simp add: List.map_filter_simps split: option.splits)
qed (simp add: List.map_filter_simps)

text \<open>
  The workflow arguments of a manifest are the job's parameter values, in the job's order. With
  distinct input names, every value whose target is a parameter input gives one argument with that
  value, every array whose target is an array input gives one with the array's text, and no other
  value gives one.
\<close>

theorem manifest_arguments:
  assumes "GetArgoWorkflow E job = Some (Inr awf)" and "distinct (map dt_name (job_inputs job))"
  shows "awf_arguments awf = mk_ports (List.map_filter (param_of E (job_inputs job)) (job_inputValues job)) []"
proof -
  obtain ps where "jobParams E (job_inputs job) (job_inputValues job) [] = Inr ps"
    and "awf_arguments awf = mk_ports ps []"
    using assms(1) by (auto simp: GetArgoWorkflow_def Let_def go_simps job_inputs_def)
  with jobParams_append [OF assms(2)] show ?thesis by fastforce
qed

definition ex_param_job :: job where
  "ex_param_job = (ex_job_of (Component (ex_metadata ''root'' 1)
       [ex_data ''p'' FlowifyParameterType, ex_data ''xs'' FlowifyParameterArrayType] [] ''component''
       (ImplBrick (ex_brick [] []))))
     \<lparr>job_inputValues := [\<lparr>jv_value = IVArray [''x'', ''y''], jv_target = ''xs''\<rparr>,
                          \<lparr>jv_value = IVString ''1'', jv_target = ''p''\<rparr>]\<rparr>"

theorem manifest_arguments_witness:
  "\<exists>awf. GetArgoWorkflow ext_example ex_param_job = Some (Inr awf)
    \<and> map prm_name (prt_parameters (awf_arguments awf)) = [''xs'', ''p'']"
proof -
  have "returned (GetArgoWorkflow ext_example ex_param_job)" by code_simp
  then obtain awf where a: "GetArgoWorkflow ext_example ex_param_job = Some (Inr awf)"
    using returnedE by blast
  have "distinct (map dt_name (job_inputs ex_param_job))" by code_simp
  note args = manifest_arguments [OF a this]
  have "map prm_name (List.map_filter (param_of ext_example (job_inputs ex_param_job))
      (job_inputValues ex_param_job)) = [''xs'', ''p'']" by code_simp
  with a args show ?thesis by simp
qed

lemma arrayText_Cons:
  "str_join (dquote @ '', '' @ dquote) (x # xs) @ dquote @ '']'' =
     x @ CHR 0x22 # (if xs = [] then '']''
       else '', '' @ dquote @ str_join (dquote @ '', '' @ dquote) xs @ dquote @ '']'')"
  by (cases xs) (simp_all add: dquote_def)

text \<open>
  The text of a parameter array determines the array when it is not empty and no element holds
  a quote character; without those conditions it does not: the empty array has the text of the array
  with one empty element, and an element can close its quotes and add elements of its own.
\<close>

theorem arrayText_injective:
  "inj_on arrayText {xs. xs \<noteq> [] \<and> (\<forall>x \<in> set xs. CHR 0x22 \<notin> set x)}
   \<and> arrayText [] = arrayText ['''']
   \<and> arrayText [x @ dquote @ '', '' @ dquote @ y] = arrayText [x, y]"
proof (intro conjI inj_onI)
  fix xs ys assume "xs \<in> {xs. xs \<noteq> [] \<and> (\<forall>x \<in> set xs. CHR 0x22 \<notin> set x)}"
    and "ys \<in> {xs. xs \<noteq> [] \<and> (\<forall>x \<in> set xs. CHR 0x22 \<notin> set x)}" and "arrayText xs = arrayText ys"
  then have "xs \<noteq> []" "ys \<noteq> []" "\<forall>x \<in> set xs. CHR 0x22 \<notin> set x" "\<forall>y \<in> set ys. CHR 0x22 \<notin> set y"
    "str_join (dquote @ '', '' @ dquote) xs @ dquote @ '']'' =
     str_join (dquote @ '', '' @ dquote) ys @ dquote @ '']''"
    by (simp_all add: arrayText_def dquote_def)
  then show "xs = ys"
  proof (induction xs arbitrary: ys)
    case (Cons x xs)
    then obtain y ys' where ys: "ys = y # ys'" by (cases ys) auto
    let ?rest = "\<lambda>l. if l = [] then '']'' else '', '' @ dquote @ str_join (dquote @ '', '' @ dquote) l @ dquote @ '']''"
    have "x = y \<and> ?rest xs = ?rest ys'"
      by (rule append_sep_eq) (use Cons.prems ys in \<open>simp_all only: arrayText_Cons, auto\<close>)
    with Cons ys show ?case by (auto simp: dquote_def split: if_splits)
  qed simp
qed (simp_all add: arrayText_def dquote_def)

theorem arrayText_injective_witness:
  "arrayText [''a'', ''b''] \<noteq> arrayText [''ab''] \<and> arrayText [] = arrayText ['''']"
proof -
  have "[''a'', ''b''] \<in> {xs. xs \<noteq> [] \<and> (\<forall>x \<in> set xs. CHR 0x22 \<notin> set x)}"
    "[''ab''] \<in> {xs. xs \<noteq> [] \<and> (\<forall>x \<in> set xs. CHR 0x22 \<notin> set x)}" by auto
  then show ?thesis using arrayText_injective inj_onD by fastforce
qed

section \<open>Volumes along cycles\<close>

declare cmp_bridgeVolume.simps [simp del]

text \<open>The bridge of a node leads back to the port it came from: the walk is on a cycle of length one.\<close>

definition self_loop :: "ext \<Rightarrow> node list \<Rightarrow> edge list \<Rightarrow> node \<Rightarrow> string \<Rightarrow> bool" where
  "self_loop E nodes edges nd claim \<longleftrightarrow>
     (\<exists>c e. getNode (n_id nd) nodes = Inr nd \<and> n_node nd = NVComponent c
       \<and> getConnectedSourceEdge (port_at (n_id nd) claim) edges = Inr e
       \<and> pa_node (e_source e) = n_id nd
       \<and> cmp_bridgeVolume E c (pa_port (e_source e)) = Inr claim)"

text \<open>
  on a volume edge from a node to itself the resolver does not return: nothing bounds the walk
  upstream, so a job whose graph has such a cycle hangs the transpiler.
\<close>

theorem resolve_diverges_on_self_loop:
  assumes "self_loop E nodes edges nd claim" and "scope_lookup scope (n_id nd) claim = None"
  shows "resolve E nodes edges scope nd claim = None"
proof (rule ccontr)
  assume "resolve E nodes edges scope nd claim \<noteq> None"
  then obtain y where y: "resolve E nodes edges scope nd claim = Some y" by blast
  have "\<not> (self_loop E nodes edges nd claim \<and> scope_lookup scope (n_id nd) claim = None)"
  proof (rule resolve.raw_induct [where P = "\<lambda>E nodes edges scope nd claim r.
      \<not> (self_loop E nodes edges nd claim \<and> scope_lookup scope (n_id nd) claim = None)", OF _ y], goal_cases)
    case (1 f E nodes edges scope nd claim y)
    show ?case
    proof
      assume l: "self_loop E nodes edges nd claim \<and> scope_lookup scope (n_id nd) claim = None"
      with 1(2) have "f E nodes edges scope nd claim = Some y" by (auto simp: self_loop_def)
      from 1(1) [OF this] l show False by blast
    qed
  qed
  with assms show False by blast
qed

definition ex_loop_node :: node where "ex_loop_node = Node ''a'' (NVComponent ex_producer) ''''"

definition ex_loop_edges :: "edge list" where "ex_loop_edges = [ex_edge ''a'' ''volout'' ''a'' ''vol'']"

lemma ex_loop: "self_loop ext_example [ex_loop_node] ex_loop_edges ex_loop_node ''vol''"
proof -
  have "cmp_bridgeVolume ext_example ex_producer ''volout'' = Inr ''vol''" by code_simp
  then show ?thesis
    by (simp add: self_loop_def ex_loop_node_def ex_loop_edges_def ex_edge_def port_at_def)
qed

theorem resolve_diverges_on_self_loop_witness:
  "resolve ext_example [ex_loop_node] ex_loop_edges [] ex_loop_node ''vol'' = None"
  by (rule resolve_diverges_on_self_loop [OF ex_loop]) (simp add: scope_lookup_def)

lemma bridge_loop_exhausted:
  assumes "self_loop E (g_nodes g) (g_edges g) nd claim" and "wrapf_ok E"
    and "\<forall>e \<in> set (g_inputMappings g). e_target e \<noteq> port_at (n_id nd) claim"
    and "getConnectedSourceEdge (port_at (n_id nd) claim) (g_edges g) = Inr e"
  shows "graph_bridge_loop E k g (n_id nd) (pa_port (e_source e)) = Inr ''''"
proof (induction k)
  case 0
  show ?case using assms(2) by (simp add: wrapf_ok_def)
next
  case (Suc k)
  obtain err where "getConnectedSourceEdge (port_at (n_id nd) claim) (g_inputMappings g) = Inl err"
    using getConnectedSourceEdge_Inl assms(3) by metis
  with Suc assms(1,4) show ?case by (auto simp: self_loop_def)
qed

text \<open>
  Bridging a volume through a graph stops on a cycle, because its loop is bounded by the number
  of nodes, but then it reports success with the empty port name: the error it means to return wraps
  an error variable that is nil at that point.
\<close>

theorem graph_bridge_cycle_is_silent:
  assumes "self_loop E (g_nodes g) (g_edges g) nd claim" and "wrapf_ok E"
    and "\<forall>e \<in> set (g_inputMappings g). e_target e \<noteq> port_at (n_id nd) claim"
    and "getConnectedSourceEdge (port_at (n_id nd) claim) (g_edges g) = Inr e"
    and "getConnectedSourceEdge (port_at '''' out) (g_outputMappings g) = Inr m"
    and "e_source m = e_source e"
  shows "graph_bridgeVolume E g out = Inr ''''"
proof -
  have "pa_node (e_source e) = n_id nd" using assms(1,4) by (auto simp: self_loop_def)
  with bridge_loop_exhausted [OF assms(1-4), of "length (g_nodes g)"] assms(5,6) show ?thesis by simp
qed

theorem graph_bridge_cycle_is_silent_witness:
  "graph_bridgeVolume ext_example (Graph ''graph'' [ex_loop_node] ex_loop_edges []
     [ex_edge ''a'' ''volout'' '''' ''o'']) ''o'' = Inr ''''"
  by (rule graph_bridge_cycle_is_silent [of _ _ ex_loop_node "''vol''" "hd ex_loop_edges" _
        "ex_edge ''a'' ''volout'' '''' ''o''"])
    (simp_all add: ex_loop, simp_all add: ex_loop_node_def ex_loop_edges_def ex_edge_def port_at_def)

text \<open>
  An input mapping from an artifact input to a parameter port panics. The loop looks the source
  up as a parameter and as an artifact, goes on when either is found, and then reads the value of
  the parameter, which is nil.
\<close>

theorem artifact_into_parameter_panics:
  assumes "param_lookup_ok E" and "artifact_lookup_ok E"
    and "pa_port (e_source m) \<notin> prm_name ` set (prt_parameters inputs)"
    and "pa_port (e_source m) \<in> art_name ` set (prt_artifacts inputs)"
    and "checkInputType ins (pa_port (e_target m)) = (FlowifyParameterType, True)" and "guard m"
  shows "\<exists>msg. mapInputs E guard inputs ins (m # ms) acc = Inl (GoPanic msg)"
proof -
  have "GetParameterByName E inputs (pa_port (e_source m)) = None"
    using assms(1,3) by (force simp: param_lookup_ok_def find_None_iff)
  moreover have "GetArtifactByName E inputs (pa_port (e_source m)) \<noteq> None"
    using assms(2,4) unfolding artifact_lookup_ok_def by (metis (mono_tags, lifting) find_None_iff image_iff)
  ultimately show ?thesis using assms(5,6) by (simp add: Let_def)
qed

theorem artifact_into_parameter_panics_witness:
  "\<exists>msg. mapInputs ext_example (\<lambda>m. True) (mk_ports [] [mk_artifact ''f'' ''''])
     [ex_data ''p'' FlowifyParameterType] [ex_edge '''' ''f'' '''' ''p''] no_args = Inl (GoPanic msg)"
  by (rule artifact_into_parameter_panics) (simp_all add: ex_edge_def port_at_def ex_data_def)

section \<open>Secrets of a node\<close>

lemma map_of_addNodeSecrets:
  "k \<notin> {pa_port (e_target m) | m. m \<in> set ms \<and> pa_node (e_target m) = tid} \<Longrightarrow>
   map_of (addNodeSecrets tid cs ins ms s) k = map_of s k"
proof (induction ms arbitrary: s)
  case (Cons m ms)
  let ?s = "if snd (checkInputType ins (pa_port (e_source m)))
      \<and> fst (checkInputType ins (pa_port (e_source m))) = FlowifySecretType \<and> pa_node (e_target m) = tid
    then AList.update (pa_port (e_target m)) (zget cs (pa_port (e_source m))) s else s"
  have "map_of (addNodeSecrets tid cs ins ms ?s) k = map_of ?s k"
    by (rule Cons.IH) (use Cons.prems in auto)
  moreover have "map_of ?s k = map_of s k" using Cons.prems by auto
  ultimately show ?case by (simp add: case_prod_beta)
qed simp

text \<open>
  A node of a graph inherits every secret of the enclosing component under its outer name,
  unless an input mapping to a port of that name of the node replaces it: the map handed to a node
  is not the subset of secrets connected to it.
\<close>

theorem node_secrets_inherited:
  assumes "map_of cs k = Some v"
    and "\<forall>m \<in> set ms. e_target m \<noteq> port_at tid k"
  shows "map_of (getNodeSecretMap tid cs ins ms) k = Some v"
proof -
  have "k \<notin> {pa_port (e_target m) | m. m \<in> set ms \<and> pa_node (e_target m) = tid}"
    using assms(2) by (auto simp: port_at_def)
  then show ?thesis using assms(1) by (simp add: getNodeSecretMap_def map_of_addNodeSecrets)
qed

theorem node_secrets_inherited_witness:
  "map_of (getNodeSecretMap ''b'' [(''key'', ''the-key'')] [ex_data ''key'' FlowifySecretType]
     [ex_edge '''' ''key'' ''a'' ''k'']) ''key'' = Some ''the-key''"
  by (rule node_secrets_inherited) (simp_all add: ex_edge_def port_at_def)

end
