(* ===== verification/References.thy ===== *)
theory References
  imports Transpiler_Correct
begin

text \<open>
  \<^verbatim>\<open>storage/references.go\<close>: replacing the references below a component by the components
  they name. The storage client is the argument \<open>get\<close>, its \<^verbatim>\<open>GetComponent\<close> on a versioned
  reference. The recursion follows references, which may form a cycle in the store, so it carries a
  depth bound: \<open>None\<close> means that the bound was reached, and the theorems say how much is enough.
\<close>

type_synonym component_getter = "cref_version \<Rightarrow> component res"

section \<open>The dereferencer\<close>

definition latest_ref :: "component_reference \<Rightarrow> cref_version" where
  "latest_ref u = \<lparr>crv_version = 0, crv_uid = u\<rparr>"

definition drefComponent :: "component_getter \<Rightarrow> node_value \<Rightarrow> component res" where
  "drefComponent get cmp =
     (case cmp of
        NVComponent c \<Rightarrow> Inr c
      | NVReference u \<Rightarrow> get (latest_ref u)
      | NVCRefVersion r \<Rightarrow> get r
      | NVNil \<Rightarrow> Inl (Errorf ''Cannot convert to component object. Incorect type: %s'' []))"

definition drefNode :: "component_getter \<Rightarrow> node \<Rightarrow> node res" where
  "drefNode get nd =
     (case n_node nd of
        NVComponent c \<Rightarrow> Inr nd
      | NVReference u \<Rightarrow>
          (case drefComponent get (NVReference u) of
             Inl e \<Rightarrow> Inl (Wrap ''Cannot dereference node'' e)
           | Inr cmp \<Rightarrow> Inr (Node (n_id nd) (NVComponent cmp) ''''))
      | NVCRefVersion r \<Rightarrow>
          (case drefComponent get (NVCRefVersion r) of
             Inl e \<Rightarrow> Inl (Wrap ''Cannot dereference node'' e)
           | Inr cmp \<Rightarrow> Inr (Node (n_id nd) (NVComponent cmp) ''''))
      | NVNil \<Rightarrow> Inl (Errorf ''Cannot convert to component object. Incorect node type: %s'' []))"

fun traverseComponent :: "component_getter \<Rightarrow> nat \<Rightarrow> component \<Rightarrow> component run"
  and traverseNodes :: "component_getter \<Rightarrow> nat \<Rightarrow> node list \<Rightarrow> node list run"
where
  "traverseComponent get 0 cmp = None"
| "traverseComponent get (Suc depth) cmp =
     (case cmp of Component md ins outs ty impl \<Rightarrow>
      (case impl of
         ImplGraph (Graph t ns es im om) \<Rightarrow>
           obind (traverseNodes get depth ns) (\<lambda>new_nodes.
           Some (Inr (Component md ins outs ty (ImplGraph (Graph t new_nodes es im om)))))
       | ImplMap (MapComponent t n im om) \<Rightarrow>
           (case drefComponent get n of
              Inl e \<Rightarrow> Some (Inl e)
            | Inr newNode \<Rightarrow>
                obind (traverseComponent get depth newNode) (\<lambda>nc.
                Some (Inr (Component md ins outs ty (ImplMap (MapComponent t (NVComponent nc) im om))))))
       | ImplBrick b \<Rightarrow> Some (Inr cmp)
       | _ \<Rightarrow> Some (Inl (Errorf ''Dereference of type %s is not implemented.'' []))))"
| "traverseNodes get depth [] = Some (Inr [])"
| "traverseNodes get depth (nd # nds) =
     (case drefNode get nd of
        Inl e \<Rightarrow> Some (Inl e)
      | Inr sub \<Rightarrow>
          (case n_node sub of
             NVComponent c \<Rightarrow>
               obind (traverseComponent get depth c) (\<lambda>nc.
               obind (traverseNodes get depth nds) (\<lambda>rest.
               Some (Inr (Node (n_id sub) (NVComponent nc) (n_userdata sub) # rest))))
           | _ \<Rightarrow> obind (traverseNodes get depth nds) (\<lambda>rest. Some (Inr (sub # rest)))))"

definition DereferenceComponent :: "component_getter \<Rightarrow> nat \<Rightarrow> node_value \<Rightarrow> component run" where
  "DereferenceComponent get depth cmp =
     (case drefComponent get cmp of
        Inl e \<Rightarrow> Some (Inl e)
      | Inr out \<Rightarrow> traverseComponent get depth out)"

section \<open>One level\<close>

lemma drefNode_Inr:
  "drefNode get nd = Inr sub \<Longrightarrow> \<exists>c. n_node sub = NVComponent c \<and> drefComponent get (n_node nd) = Inr c
     \<and> n_id sub = n_id nd"
  by (auto simp: drefNode_def drefComponent_def split: node_value.splits sum.splits)

lemma traverseNodes_Cons_Inr:
  "traverseNodes get k (nd # nds) = Some (Inr out) \<longleftrightarrow>
   (\<exists>sub c nc rest. drefNode get nd = Inr sub \<and> n_node sub = NVComponent c
      \<and> traverseComponent get k c = Some (Inr nc) \<and> traverseNodes get k nds = Some (Inr rest)
      \<and> out = Node (n_id sub) (NVComponent nc) (n_userdata sub) # rest)"
  by (auto simp: go_simps dest: drefNode_Inr split: sum.splits node_value.splits)

lemma traverseComponent_Inr:
  assumes "traverseComponent get k c = Some (Inr d)"
  obtains (brick) j b where "k = Suc j" "cmp_implementation c = ImplBrick b" "d = c"
  | (graph) j t ns ns' es im om where "k = Suc j" "cmp_implementation c = ImplGraph (Graph t ns es im om)"
      "traverseNodes get j ns = Some (Inr ns')"
      "d = Component (cmp_metadata c) (cmp_inputs c) (cmp_outputs c) (cmp_type c) (ImplGraph (Graph t ns' es im om))"
  | (map) j t n nn nc im om where "k = Suc j" "cmp_implementation c = ImplMap (MapComponent t n im om)"
      "drefComponent get n = Inr nn" "traverseComponent get j nn = Some (Inr nc)"
      "d = Component (cmp_metadata c) (cmp_inputs c) (cmp_outputs c) (cmp_type c)
             (ImplMap (MapComponent t (NVComponent nc) im om))"
proof (cases k)
  case 0
  with assms show thesis by simp
next
  case (Suc j)
  obtain md ins outs ty impl where c: "c = Component md ins outs ty impl" by (cases c)
  show thesis
  proof (cases impl)
    case (ImplBrick b)
    with assms Suc show thesis by (intro brick [of j b]) (auto simp: c)
  next
    case (ImplGraph g)
    with assms Suc show thesis by (cases g) (auto simp: c go_simps intro: graph)
  next
    case (ImplMap m)
    with assms Suc show thesis
      by (cases m) (auto simp: c go_simps intro: map split: sum.splits)
  qed (use assms Suc in \<open>simp_all add: c\<close>)
qed

lemma traverseComponent_frame:
  "traverseComponent get k c = Some (Inr d) \<Longrightarrow>
   cmp_metadata d = cmp_metadata c \<and> cmp_inputs d = cmp_inputs c \<and> cmp_outputs d = cmp_outputs c"
  by (erule traverseComponent_Inr) auto

section \<open>Dereferenced results\<close>

lemma dereferenced_iff:
  "dereferenced c \<longleftrightarrow> (\<forall>v \<in> set (sub_values (cmp_implementation c)). \<exists>d. v = NVComponent d \<and> dereferenced d)"
  (is "_ \<longleftrightarrow> ?r")
proof
  assume d: "dereferenced c"
  show ?r
  proof
    fix v assume v: "v \<in> set (sub_values (cmp_implementation c))"
    then obtain x where x: "v = NVComponent x"
      using d preorder_self [of c] unfolding dereferenced_def by blast
    then have "x \<in> set (inline_subs c)" using v by (auto simp: inline_subs_def intro!: bexI [of _ v])
    then have "set (preorder x) \<subseteq> set (preorder c)" using preorder_trans by blast
    with d x show "\<exists>d. v = NVComponent d \<and> dereferenced d" unfolding dereferenced_def by blast
  qed
next
  assume r: ?r
  have "dereferenced x" if "x \<in> set (inline_subs c)" for x
    using r that by (fastforce simp: inline_subs_def value_component_def split: node_value.splits)
  with r show "dereferenced c"
    unfolding dereferenced_def by (subst preorder.simps) auto
qed

lemma traverse_dereferences:
  "traverseComponent get k c = Some (Inr d) \<Longrightarrow> dereferenced d"
  "traverseNodes get k ns = Some (Inr ns') \<Longrightarrow>
     \<forall>nd \<in> set ns'. \<exists>d. n_node nd = NVComponent d \<and> dereferenced d"
proof (induction get k c and get k ns arbitrary: d and ns' rule: traverseComponent_traverseNodes.induct)
  case (2 get depth cmp)
  from "2.prems" show ?case
  proof (cases rule: traverseComponent_Inr)
    case (brick j b)
    then show ?thesis by (subst dereferenced_iff) simp
  next
    case (graph j t ns ns' es im om)
    then have "\<forall>nd \<in> set ns'. \<exists>d. n_node nd = NVComponent d \<and> dereferenced d"
      using "2.IH"(1) by (cases cmp) auto
    with graph show ?thesis by (subst dereferenced_iff) auto
  next
    case (map j t n nn nc im om)
    then have "dereferenced nc" using "2.IH"(2) by (cases cmp) auto
    with map show ?thesis by (subst dereferenced_iff) auto
  qed
next
  case (4 get depth nd nds)
  then show ?case unfolding traverseNodes_Cons_Inr by auto
qed simp_all

section \<open>The depth bound\<close>

lemma traverse_mono:
  "traverseComponent get k c = Some r \<Longrightarrow> k \<le> k' \<Longrightarrow> traverseComponent get k' c = Some r"
  "traverseNodes get k ns = Some s \<Longrightarrow> k \<le> k' \<Longrightarrow> traverseNodes get k' ns = Some s"
proof (induction get k c and get k ns arbitrary: r k' and s k' rule: traverseComponent_traverseNodes.induct)
  case (2 get depth cmp)
  obtain md ins outs ty impl where cmp: "cmp = Component md ins outs ty impl" by (cases cmp)
  obtain j where j: "k' = Suc j" "depth \<le> j" using "2.prems"(2) by (cases k') auto
  show ?case
  proof (cases impl)
    case (ImplGraph g)
    obtain t ns es im om where g: "g = Graph t ns es im om" by (cases g)
    obtain r1 where r1: "traverseNodes get depth ns = Some r1"
      using "2.prems"(1) by (cases "traverseNodes get depth ns") (simp_all add: cmp ImplGraph g)
    have "traverseNodes get j ns = Some r1" by (rule "2.IH"(1) [OF cmp ImplGraph g r1 j(2)])
    with "2.prems"(1) j r1 show ?thesis by (simp add: cmp ImplGraph g)
  next
    case (ImplMap m)
    obtain t n im om where m: "m = MapComponent t n im om" by (cases m)
    show ?thesis
    proof (cases "drefComponent get n")
      case (Inl e)
      with "2.prems"(1) j show ?thesis by (auto simp: cmp ImplMap m)
    next
      case (Inr nn)
      obtain r1 where r1: "traverseComponent get depth nn = Some r1"
        using "2.prems"(1) Inr by (cases "traverseComponent get depth nn") (simp_all add: cmp ImplMap m)
      have "traverseComponent get j nn = Some r1"
        by (rule "2.IH"(2) [OF cmp ImplMap m Inr r1 j(2)])
      with "2.prems"(1) j r1 Inr show ?thesis by (simp add: cmp ImplMap m)
    qed
  qed (use "2.prems" j in \<open>simp_all add: cmp\<close>)
next
  case (4 get depth nd nds)
  show ?case
  proof (cases "drefNode get nd")
    case (Inl e)
    with "4.prems" show ?thesis by simp
  next
    case (Inr sub)
    then obtain c where c: "n_node sub = NVComponent c" using drefNode_Inr by blast
    obtain r where r: "traverseComponent get depth c = Some r"
      using "4.prems"(1) by (cases "traverseComponent get depth c") (simp_all add: Inr c)
    have r': "traverseComponent get k' c = Some r" using "4.IH"(4) [OF Inr c r "4.prems"(2)] .
    show ?thesis
    proof (cases r)
      case (Inl e)
      with "4.prems"(1) r r' \<open>drefNode get nd = Inr sub\<close> show ?thesis by (simp add: c)
    next
      case (Inr nc)
      obtain t where t: "traverseNodes get depth nds = Some t"
        using "4.prems"(1) r Inr \<open>drefNode get nd = Inr sub\<close>
        by (cases "traverseNodes get depth nds") (simp_all add: c)
      have "traverseNodes get k' nds = Some t"
        by (rule "4.IH"(5) [OF \<open>drefNode get nd = Inr sub\<close> c _ t "4.prems"(2)]) (simp_all add: r Inr)
      with "4.prems"(1) r r' t Inr \<open>drefNode get nd = Inr sub\<close> show ?thesis by (simp add: c)
    qed
  qed
qed simp_all

text \<open>
  A rank on components that falls along every sub-component, held inline or fetched from the store,
  bounds the depth: such a rank exists exactly when no component reaches itself.
\<close>

definition store_ranked :: "component_getter \<Rightarrow> (component \<Rightarrow> nat) \<Rightarrow> bool" where
  "store_ranked get rank \<longleftrightarrow>
     (\<forall>c v d. v \<in> set (sub_values (cmp_implementation c)) \<longrightarrow> drefComponent get v = Inr d \<longrightarrow> rank d < rank c)"

lemma traverseNodes_returns:
  "(\<And>nd c. nd \<in> set nds \<Longrightarrow> drefComponent get (n_node nd) = Inr c \<Longrightarrow> traverseComponent get k c \<noteq> None) \<Longrightarrow>
   traverseNodes get k nds \<noteq> None"
proof (induction nds)
  case (Cons nd nds)
  have "traverseNodes get k nds \<noteq> None" by (rule Cons.IH) (use Cons.prems in auto)
  moreover have "n_node sub = NVComponent c \<Longrightarrow> traverseComponent get k c \<noteq> None"
    if "drefNode get nd = Inr sub" for sub c
    using drefNode_Inr [OF that] Cons.prems [of nd c] by auto
  ultimately show ?case
    by (fastforce simp: obind_def split: option.splits sum.splits node_value.splits)
qed simp

lemma traverseComponent_returns:
  assumes "store_ranked get rank"
  shows "rank c < k \<Longrightarrow> traverseComponent get k c \<noteq> None"
proof (induction k arbitrary: c)
  case (Suc k)
  obtain md ins outs ty impl where c: "c = Component md ins outs ty impl" by (cases c)
  have sub: "traverseComponent get k d \<noteq> None"
    if "v \<in> set (sub_values impl)" "drefComponent get v = Inr d" for v d
  proof (rule Suc.IH)
    have "rank d < rank c" using assms that unfolding store_ranked_def c by fastforce
    with Suc.prems show "rank d < k" by simp
  qed
  show ?case
  proof (cases impl)
    case (ImplGraph g)
    then have "traverseNodes get k (g_nodes g) \<noteq> None"
      using sub by (intro traverseNodes_returns) (cases g, auto)
    then show ?thesis by (cases g) (auto simp: c ImplGraph obind_def split: sum.splits option.splits)
  next
    case (ImplMap m)
    then have "traverseComponent get k d \<noteq> None" if "drefComponent get (m_node m) = Inr d" for d
      using sub that by (cases m) auto
    then show ?thesis
      by (cases m) (fastforce simp: c ImplMap obind_def split: sum.splits option.splits)
  qed (simp_all add: c)
qed simp

section \<open>Properties\<close>

text \<open>
  C8: what the dereferencer returns holds no references. Every node below the result is a component
  held inline, and the result has the metadata, the inputs and the outputs of the component it was
  called on or that the storage client returned for it.
\<close>

theorem dereference_leaves_no_references:
  assumes "DereferenceComponent get k v = Some (Inr d)"
  shows "dereferenced d
    \<and> (\<exists>c. drefComponent get v = Inr c \<and> cmp_metadata d = cmp_metadata c
         \<and> cmp_inputs d = cmp_inputs c \<and> cmp_outputs d = cmp_outputs c)"
  using assms traverse_dereferences(1) traverseComponent_frame
  by (fastforce simp: DereferenceComponent_def split: sum.splits)

definition ex_store :: component_getter where
  "ex_store r = (if crv_uid r = 2 then Inr ex_producer else if crv_uid r = 3 then Inr ex_consumer else Inl ErrNotFound)"

definition ex_ref_root :: component where
  "ex_ref_root = Component (ex_metadata ''root'' 1) [] [] ''component''
     (ImplGraph (Graph ''graph'' [Node ''a'' (NVReference 2) ''u'', Node ''b'' (NVCRefVersion \<lparr>crv_version = 1, crv_uid = 3\<rparr>) '''']
        [] [] []))"

lemma ex_dereferences: "returned (DereferenceComponent ex_store 2 (NVComponent ex_ref_root))"
  by code_simp

theorem dereference_leaves_no_references_witness:
  "\<exists>d. DereferenceComponent ex_store 2 (NVComponent ex_ref_root) = Some (Inr d) \<and> dereferenced d"
  using returnedE [OF ex_dereferences] dereference_leaves_no_references by blast

text \<open>
  C19: the dereferencer returns, with a component or an error, when the store has no reference cycle:
  a depth bound above the rank of the component it starts from is enough.
\<close>

theorem dereference_returns:
  assumes "store_ranked get rank" and "\<And>c. drefComponent get v = Inr c \<Longrightarrow> rank c < k"
  shows "DereferenceComponent get k v \<noteq> None"
  using assms traverseComponent_returns by (fastforce simp: DereferenceComponent_def split: sum.splits)

definition ex_store_rank :: "component \<Rightarrow> nat" where
  "ex_store_rank c = (case cmp_implementation c of ImplBrick b \<Rightarrow> 0 | _ \<Rightarrow> Suc (size c))"

lemma ex_store_ranked: "store_ranked ex_store ex_store_rank"
  unfolding store_ranked_def
proof (intro allI impI)
  fix c v d assume v: "v \<in> set (sub_values (cmp_implementation c))" and d: "drefComponent ex_store v = Inr d"
  have c: "ex_store_rank c = Suc (size c)"
    using v by (cases "cmp_implementation c") (simp_all add: ex_store_rank_def)
  have le: "ex_store_rank x \<le> Suc (size x)" for x
    by (simp add: ex_store_rank_def split: implementation.splits)
  have bricks: "ex_store_rank ex_producer = 0" "ex_store_rank ex_consumer = 0"
    by (simp_all add: ex_store_rank_def ex_producer_def ex_consumer_def)
  show "ex_store_rank d < ex_store_rank c"
  proof (cases v)
    case (NVComponent x)
    have "size x < size c"
      using v size_inline_subs [of x c] by (force simp: inline_subs_def NVComponent)
    with d le [of x] show ?thesis by (simp add: c NVComponent drefComponent_def)
  qed (use d in \<open>auto simp: c bricks drefComponent_def ex_store_def split: if_splits\<close>)
qed

theorem dereference_returns_witness:
  "DereferenceComponent ex_store (Suc (ex_store_rank ex_ref_root)) (NVComponent ex_ref_root) \<noteq> None"
  by (rule dereference_returns [OF ex_store_ranked]) (simp add: drefComponent_def)

text \<open>
  On a component that refers to itself the dereferencer never returns: no depth bound is enough.
\<close>

theorem dereference_cycle_diverges:
  assumes "cmp_implementation c = ImplGraph g" and "g_nodes g = nd # nds"
    and "drefComponent get (n_node nd) = Inr c"
  shows "traverseComponent get k c = None"
proof (induction k)
  case (Suc k)
  obtain sub where sub: "drefNode get nd = Inr sub"
    using assms(3) by (auto simp: drefNode_def drefComponent_def split: node_value.splits sum.splits)
  then have "n_node sub = NVComponent c" using drefNode_Inr assms(3) by fastforce
  with Suc sub assms(1,2) show ?case by (cases c; cases g) auto
qed simp

definition ex_self :: component where
  "ex_self = Component (ex_metadata ''self'' 7) [] [] ''component''
     (ImplGraph (Graph ''graph'' [Node ''a'' (NVReference 7) ''''] [] [] []))"

theorem dereference_cycle_diverges_witness: "\<forall>k. traverseComponent (\<lambda>r. Inr ex_self) k ex_self = None"
proof
  show "traverseComponent (\<lambda>r. Inr ex_self) k ex_self = None" for k
    by (rule dereference_cycle_diverges [of _ "Graph ''graph'' [Node ''a'' (NVReference 7) ''''] [] [] []"])
      (simp_all add: drefComponent_def, simp_all add: ex_self_def)
qed

lemma traverse_again:
  "traverseComponent get k c = Some (Inr d) \<Longrightarrow> traverseComponent get' k d = Some (Inr d)"
  "traverseNodes get k ns = Some (Inr ns') \<Longrightarrow> traverseNodes get' k ns' = Some (Inr ns')"
proof (induction get k c and get k ns arbitrary: d and ns' rule: traverseComponent_traverseNodes.induct)
  case (2 get depth cmp)
  from "2.prems" show ?case
  proof (cases rule: traverseComponent_Inr)
    case (brick j b)
    then show ?thesis by (cases cmp) simp
  next
    case (graph j t ns ns' es im om)
    then have "traverseNodes get' depth ns' = Some (Inr ns')" using "2.IH"(1) by (cases cmp) auto
    with graph show ?thesis by simp
  next
    case (map j t n nn nc im om)
    then have "traverseComponent get' depth nc = Some (Inr nc)" using "2.IH"(2) by (cases cmp) auto
    with map show ?thesis by (simp add: drefComponent_def)
  qed
next
  case (4 get depth nd nds)
  then obtain sub c nc rest where s: "drefNode get nd = Inr sub" "n_node sub = NVComponent c"
    "traverseComponent get depth c = Some (Inr nc)" "traverseNodes get depth nds = Some (Inr rest)"
    "ns' = Node (n_id sub) (NVComponent nc) (n_userdata sub) # rest"
    unfolding traverseNodes_Cons_Inr by blast
  have "traverseComponent get' depth nc = Some (Inr nc)" by (rule "4.IH"(4) [OF s(1,2,3)])
  moreover have "traverseNodes get' depth rest = Some (Inr rest)"
    by (rule "4.IH"(5) [OF s(1,2) _ s(4)]) (simp_all add: s(3))
  ultimately show ?case by (simp add: s(5) drefNode_def)
qed simp_all

text \<open>
  Dereferencing is idempotent, and the second pass does not depend on the store: dereferencing
  the result again, with any storage client, gives the same result.
\<close>

theorem dereference_idempotent:
  assumes "DereferenceComponent get k v = Some (Inr d)"
  shows "DereferenceComponent get' k (NVComponent d) = Some (Inr d)"
  using assms traverse_again(1)
  by (auto simp: DereferenceComponent_def drefComponent_def split: sum.splits)

theorem dereference_idempotent_witness:
  "\<exists>d. DereferenceComponent ex_store 2 (NVComponent ex_ref_root) = Some (Inr d)
     \<and> DereferenceComponent (\<lambda>r. Inl ErrNotFound) 2 (NVComponent d) = Some (Inr d)"
  using returnedE [OF ex_dereferences] dereference_idempotent by blast

text \<open>
  A workflow with a conditional cannot be dereferenced: the dereferencer rejects a component that
  is implemented by a conditional, though the transpiler translates one.
\<close>

theorem conditional_not_dereferenced:
  assumes "cmp_implementation c = ImplConditional cd" and "0 < k"
  shows "\<exists>e. DereferenceComponent get k (NVComponent c) = Some (Inl e)"
  using assms by (cases c; cases k) (auto simp: DereferenceComponent_def drefComponent_def)

definition ex_cond_component :: component where
  "ex_cond_component = Component (ex_metadata ''cond'' 5) [] [] ''component'' (ImplConditional ex_conditional)"

theorem conditional_not_dereferenced_witness:
  "(\<exists>e. DereferenceComponent ex_store 5 (NVComponent ex_cond_component) = Some (Inl e))"
  by (rule conditional_not_dereferenced [of _ ex_conditional]) (simp_all add: ex_cond_component_def)

end
