(* ===== verification/Http.thy ===== *)
theory Http
  imports Go_Numbers Authorization Mongo_Lists References
begin

text \<open>
  \<^verbatim>\<open>rest/rest.go\<close> and what the handlers share: requests, the response writer of
  \<^verbatim>\<open>net/http\<close> (the first status wins, headers are sent with it, and some statuses allow no
  body), reading and validating a body, writing a response, pagination, the middleware, and the
  storage interfaces of \<^verbatim>\<open>storage/storage.go\<close>. The JSON text of a value, the schema library and
  the UUID parser are a parameter.
\<close>

section \<open>Requests and responses\<close>

datatype etext = Text string | ErrorText goerr | TextArgs string "string list"

record api_error =
  ae_code :: int
  ae_summary :: etext
  ae_detail :: etext

record workspace_item =
  wg_name :: string
  wg_description :: string
  wg_roles :: "string list"

datatype resp_body =
    BodyError api_error
  | BodyNil
  | BodyComponent component
  | BodyWorkflow workflow
  | BodyJob job
  | BodyMetadataList metadata_list
  | BodyMetadataWsList metadata_ws_list
  | BodyVolume flowify_volume
  | BodyVolumes "flowify_volume list \<times> page_info"
  | BodyRef cref_version
  | BodyUid component_reference
  | BodyStatus component_reference string
  | BodyKeys "string list"
  | BodyBytes string
  | BodyUser "user option"
  | BodyWorkspaces "workspace_item list"
  | BodyMessage etext

text \<open>
  The response writer: the header map, what was sent with the first status, the bodies written,
  whether the handler panicked. Writing a body first sends status 200 if none was sent; a body of a
  status that allows none is refused.
\<close>

type_synonym header = "(string \<times> string) list"

record rw =
  rw_header :: header
  rw_sent :: "(int \<times> header) option"
  rw_bodies :: "resp_body list"
  rw_panic :: bool
  rw_hung :: bool

definition new_rw :: rw where
  "new_rw = \<lparr>rw_header = [], rw_sent = None, rw_bodies = [], rw_panic = False, rw_hung = False\<rparr>"

definition bodyAllowed :: "int \<Rightarrow> bool" where
  "bodyAllowed status \<longleftrightarrow> \<not> (100 \<le> status \<and> status \<le> 199 \<or> status = 204 \<or> status = 304)"

definition WriteHeader :: "int \<Rightarrow> rw \<Rightarrow> rw" where
  "WriteHeader status w =
     (case rw_sent w of None \<Rightarrow> w\<lparr>rw_sent := Some (status, rw_header w)\<rparr> | Some _ \<Rightarrow> w)"

definition WriteBody :: "resp_body \<Rightarrow> rw \<Rightarrow> rw" where
  "WriteBody b w =
     (let w' = WriteHeader 200 w in
      case rw_sent w' of
        Some (status, h) \<Rightarrow> if bodyAllowed status then w'\<lparr>rw_bodies := rw_bodies w' @ [b]\<rparr> else w'
      | None \<Rightarrow> w')"

definition AddHeader :: "string \<Rightarrow> string \<Rightarrow> rw \<Rightarrow> rw" where
  "AddHeader k v w = w\<lparr>rw_header := rw_header w @ [(k, v)]\<rparr>"

definition SetHeader :: "string \<Rightarrow> string \<Rightarrow> rw \<Rightarrow> rw" where
  "SetHeader k v w = w\<lparr>rw_header := filter (\<lambda>(k', v'). k' \<noteq> k) (rw_header w) @ [(k, v)]\<rparr>"

definition DelHeader :: "string \<Rightarrow> rw \<Rightarrow> rw" where
  "DelHeader k w = w\<lparr>rw_header := filter (\<lambda>(k', v'). k' \<noteq> k) (rw_header w)\<rparr>"

definition abort :: "rw \<Rightarrow> rw" where
  "abort w = w\<lparr>rw_panic := True\<rparr>"

definition hang :: "rw \<Rightarrow> rw" where
  "hang w = w\<lparr>rw_hung := True\<rparr>"

text \<open>
  A request, with the values its context, the clock and the source of random UUIDs give while it is
  served. Its body is the bytes that can be read, and the error that ended the reading, if any.
\<close>

record request =
  rq_method :: string
  rq_header :: header
  rq_vars :: "string gomap"
  rq_query :: "string list gomap"
  rq_uri :: string
  rq_body :: "string \<times> goerr option"
  rq_ctx :: ctx
  rq_now :: int
  rq_newId :: uuid

definition HeaderGet :: "request \<Rightarrow> string \<Rightarrow> string" where
  "HeaderGet r k = zget (rq_header r) k"

definition QueryOf :: "request \<Rightarrow> string \<Rightarrow> string list" where
  "QueryOf r k = (case map_of (rq_query r) k of None \<Rightarrow> [] | Some vs \<Rightarrow> vs)"

record input_data =
  in_name :: string
  in_roles :: "string list"
  in_hideForUnauthorized :: string
  in_labels :: "string list list"

record rest_ext =
  MarshalError :: "resp_body \<Rightarrow> goerr option"
  JsonError :: "string \<Rightarrow> goerr option"
  SchemaError :: "string \<Rightarrow> string \<Rightarrow> goerr option"
  UnmarshalComponentPost :: "string \<Rightarrow> component res"
  UnmarshalWorkflowPost :: "string \<Rightarrow> workflow res"
  UnmarshalJobPost :: "string \<Rightarrow> (job \<times> string list) res"
  UnmarshalVolume :: "string \<Rightarrow> flowify_volume res"
  UnmarshalSecret :: "string \<Rightarrow> (string \<times> string) res"
  DecodeInput :: "string \<times> goerr option \<Rightarrow> input_data \<times> goerr option"
  ParseUUID :: "string \<Rightarrow> uuid res"

section \<open>Reading and writing\<close>

text \<open>The types that have a compiled schema.\<close>

definition RegisteredSchemas :: "string list" where
  "RegisteredSchemas =
     [''Component'', ''Workflow'', ''Job'', ''Node'', ''ComponentPostRequest'', ''WorkflowPostRequest'',
      ''JobPostRequest'', ''MetadataList'', ''MetadataWorkspaceList'', ''FlowifyVolume'', ''FlowifyVolumeList'']"

definition ValidateDocument :: "rest_ext \<Rightarrow> string \<Rightarrow> string \<Rightarrow> goerr option" where
  "ValidateDocument R document t =
     (case JsonError R document of
        Some e \<Rightarrow> Some (Wrap ''type validate %s'' e)
      | None \<Rightarrow>
          if t \<notin> set RegisteredSchemas then Some ErrNoSchemaFound
          else (case SchemaError R t document of
                  Some e \<Rightarrow> Some (Wrap ''type validate %s'' e)
                | None \<Rightarrow> None))"

definition ReadBody :: "rest_ext \<Rightarrow> string \<Rightarrow> (string \<Rightarrow> 'a res) \<Rightarrow> request \<Rightarrow> 'a res" where
  "ReadBody R itemType unmarshal r =
     (case rq_body r of
        (buf, Some e) \<Rightarrow> Inl e
      | (buf, None) \<Rightarrow>
          (case ValidateDocument R buf itemType of
             Some e \<Rightarrow> if e = ErrNoSchemaFound then unmarshal buf
                      else Inl (Wrap ''cannot unmarshal item %s'' e)
           | None \<Rightarrow> unmarshal buf))"

text \<open>An \<^verbatim>\<open>APIError\<close> holds a number and two strings, which always have a JSON text.\<close>

definition writeBytes :: "rw \<Rightarrow> int \<Rightarrow> header \<Rightarrow> resp_body \<Rightarrow> rw" where
  "writeBytes w status headers body =
     WriteBody body (WriteHeader status (foldl (\<lambda>w (k, v). AddHeader k v w) w headers))"

definition WriteErrorResponse :: "rw \<Rightarrow> api_error \<Rightarrow> rw" where
  "WriteErrorResponse w apierr = writeBytes w (ae_code apierr) [] (BodyError apierr)"

definition WriteResponse :: "rest_ext \<Rightarrow> rw \<Rightarrow> int \<Rightarrow> header \<Rightarrow> resp_body \<Rightarrow> string \<Rightarrow> rw" where
  "WriteResponse R w status headers body tag =
     (case MarshalError R body of
        Some e \<Rightarrow>
          WriteErrorResponse w \<lparr>ae_code = 500, ae_summary = TextArgs ''cannot marshal response object %s'' [tag],
                                ae_detail = ErrorText e\<rparr>
      | None \<Rightarrow> writeBytes w status headers body)"

definition respond_error :: "rw \<Rightarrow> int \<Rightarrow> string \<Rightarrow> etext \<Rightarrow> rw" where
  "respond_error w code summary detail =
     WriteErrorResponse w \<lparr>ae_code = code, ae_summary = Text summary, ae_detail = detail\<rparr>"

text \<open>The result of a call in a handler: a panic ends the request without a response.\<close>

definition on_result :: "'a res \<Rightarrow> rw \<times> 'd \<Rightarrow> (goerr \<Rightarrow> rw \<times> 'd) \<Rightarrow> ('a \<Rightarrow> rw \<times> 'd) \<Rightarrow> rw \<times> 'd" where
  "on_result r panicked failed ok =
     (case r of
        Inr x \<Rightarrow> ok x
      | Inl e \<Rightarrow> if is_panic e then (abort (fst panicked), snd panicked) else failed e)"

text \<open>The same for a call that may not return.\<close>

definition on_run :: "'a run \<Rightarrow> rw \<times> 'd \<Rightarrow> (goerr \<Rightarrow> rw \<times> 'd) \<Rightarrow> ('a \<Rightarrow> rw \<times> 'd) \<Rightarrow> rw \<times> 'd" where
  "on_run r panicked failed ok =
     (case r of
        None \<Rightarrow> (hang (fst panicked), snd panicked)
      | Some res \<Rightarrow> on_result res panicked failed ok)"

section \<open>Parameters\<close>

definition parseNonNegative :: "string \<Rightarrow> int \<Rightarrow> string \<Rightarrow> int res" where
  "parseNonNegative name dflt s =
     (if s = '''' then Inr dflt
      else (case Atoi s of
              Inl e \<Rightarrow> Inl (Wrap (''could not parse '' @ name @ '' query parameter into non-negative integer'') e)
            | Inr i \<Rightarrow>
                if i < 0 then Inl (Errorf (''could not parse '' @ name @ '' query parameter (%s) into non-negative integer'') [s])
                else Inr i))"

definition parsePaginationOrDefault :: "string \<Rightarrow> string \<Rightarrow> pagination res" where
  "parsePaginationOrDefault limitString offsetString =
     rbind (parseNonNegative ''limit'' 10 limitString) (\<lambda>limit.
     rbind (parseNonNegative ''offset'' 0 offsetString) (\<lambda>offset.
     Inr \<lparr>pn_limit = limit, pn_skip = offset\<rparr>))"

definition parsePaginationsOrDefault :: "string list \<Rightarrow> string list \<Rightarrow> pagination res" where
  "parsePaginationsOrDefault limits offsets =
     parsePaginationOrDefault (case limits of [] \<Rightarrow> '''' | l # ls \<Rightarrow> l)
       (case offsets of [] \<Rightarrow> '''' | ofs # ofss \<Rightarrow> ofs)"

definition getIdFromMuxerPath :: "rest_ext \<Rightarrow> request \<Rightarrow> component_reference res" where
  "getIdFromMuxerPath R r =
     (case map_of (rq_vars r) ''id'' of
        None \<Rightarrow> Inl (Errorf ''no {id} parameter in component query'' [])
      | Some idString \<Rightarrow> wrapres ''error parsing id parameter'' (ParseUUID R idString))"

text \<open>The number and the error are both returned.\<close>

definition getVersionNoFromMuxerPath :: "request \<Rightarrow> int \<times> goerr option" where
  "getVersionNoFromMuxerPath r =
     (case map_of (rq_vars r) ''version'' of
        None \<Rightarrow> (- 1, Some (Errorf ''no {version} parameter in component query'' []))
      | Some verString \<Rightarrow>
          (case Atoi verString of
             Inl e \<Rightarrow> (- 2, Some (Wrap ''error parsing version parameter'' e))
           | Inr version \<Rightarrow> (version, None)))"

section \<open>Middleware\<close>

type_synonym 'd handler = "rw \<Rightarrow> request \<Rightarrow> 'd \<Rightarrow> rw \<times> 'd"

definition CheckContentHeaderMiddleware :: "string \<Rightarrow> 'd handler \<Rightarrow> 'd handler" where
  "CheckContentHeaderMiddleware contentType next w r d =
     (if \<not> (rq_method r = ''PUT'' \<or> rq_method r = ''POST'' \<or> rq_method r = ''PATCH'') then next w r d
      else
        (let ct = takeWhile (\<lambda>c. c \<noteq> CHR '';'') (HeaderGet r ''Content-Type'')
         in if ct = contentType then next w r d
            else (respond_error w 415 ''Unsupported content type''
                    (TextArgs ''Unsupported Content-Type header (%q): expecting %q'' [ct, contentType]), d)))"

definition CheckAcceptRequestHeaderMiddleware :: "string \<Rightarrow> 'd handler \<Rightarrow> 'd handler" where
  "CheckAcceptRequestHeaderMiddleware mediatype next w r d =
     (let val = HeaderGet r ''Accept''
      in if val \<noteq> '''' \<and> val \<noteq> ''*/*'' \<and> val \<noteq> mediatype
         then (respond_error w 406 ''Accept media type not acceptable''
                 (TextArgs ''requested Accept type %s is not available, expecting %s'' [val, mediatype]), d)
         else next w r d)"

definition SetContentTypeMiddleware :: "string \<Rightarrow> 'd handler \<Rightarrow> 'd handler" where
  "SetContentTypeMiddleware mediatype next w r d = next (AddHeader ''Content-Type'' mediatype w) r d"

definition AuthorizationDenied :: "rw \<Rightarrow> goerr \<Rightarrow> rw" where
  "AuthorizationDenied w err = respond_error w 401 ''Authorization Denied'' (ErrorText err)"

text \<open>An authorization client decides on a subject, an action, the user if any, and an object.\<close>

type_synonym authz_client = "string \<Rightarrow> string \<Rightarrow> user option \<Rightarrow> auth_object \<Rightarrow> bool res"

definition PathAuthorization :: "string \<Rightarrow> string \<Rightarrow> string \<Rightarrow> authz_client \<Rightarrow> 'd handler \<Rightarrow> 'd handler" where
  "PathAuthorization subject action pathVariableName authz next w r d =
     (case map_of (rq_vars r) pathVariableName of
        None \<Rightarrow> (AuthorizationDenied w (Errorf ''bad request'' []), d)
      | Some pathVariable \<Rightarrow>
          on_result (authz subject action (cx_user (rq_ctx r)) (ObjString pathVariable)) (w, d)
            (\<lambda>err. (AuthorizationDenied w err, d))
            (\<lambda>allow. if \<not> allow then (AuthorizationDenied w (Errorf ''not authorized'' []), d)
                     else next w r d))"

text \<open>The role authorizer as a client: without a user it dereferences nil once there is a role to check.\<close>

definition nobody :: user where
  "nobody = \<lparr>usr_uid = '''', usr_name = '''', usr_email = '''', usr_roles = []\<rparr>"

definition role_authorizer :: "workspaceImpl \<Rightarrow> authz_client" where
  "role_authorizer wc subject action u obj =
     (case u of
        Some usr \<Rightarrow> Authorize wc subject action usr obj
      | None \<Rightarrow>
          (case obj of
             ObjString n \<Rightarrow>
               if (subject = SecretsSubject \<or> subject = VolumesSubject)
                  \<and> (case find (\<lambda>ws. ws_name ws = n) (ListWorkspaces wc) of
                       Some ws \<Rightarrow> \<not> list_all (\<lambda>rs. rs = []) (ws_roles ws) | None \<Rightarrow> False)
               then Inl (GoPanic ''nil pointer dereference: user'')
               else Authorize wc subject action nobody obj
           | ObjOther \<Rightarrow> Authorize wc subject action nobody obj))"

definition NewAuthenticationMiddleware :: "(request \<Rightarrow> user res) \<Rightarrow> 'd handler \<Rightarrow> 'd handler" where
  "NewAuthenticationMiddleware sec next w r d =
     on_result (sec r) (w, d)
       (\<lambda>err. (respond_error w 400 ''could not authenticate'' (ErrorText err), d))
       (\<lambda>usr. next w (r\<lparr>rq_ctx := (rq_ctx r)\<lparr>cx_user := Some usr\<rparr>\<rparr>) d)"

definition azure_sec :: "'key jwt \<Rightarrow> 'key AzureTokenAuthenticator \<Rightarrow> request \<Rightarrow> user res" where
  "azure_sec J a r = Authenticate J (rq_now r) a (HeaderGet r ''Authorization'')"

text \<open>The workspaces of a request: those the user may use, and those that are not hidden.\<close>

fun visibleWorkspaces :: "workspace list \<Rightarrow> user option \<Rightarrow> workspace list res" where
  "visibleWorkspaces [] usr = Inr []"
| "visibleWorkspaces (ws # wss) usr =
     rbind (UserHasAccess_of ws usr) (\<lambda>hasAccess.
     rbind (visibleWorkspaces wss usr) (\<lambda>aws.
     Inr (if hasAccess \<or> \<not> ws_hideForUnauthorized ws then ws # aws else aws)))"

definition NewAuthorizationContext :: "workspaceImpl \<Rightarrow> 'd handler \<Rightarrow> 'd handler" where
  "NewAuthorizationContext wsclient next w r d =
     on_result (visibleWorkspaces (ListWorkspaces wsclient) (cx_user (rq_ctx r))) (w, d)
       (\<lambda>err. (abort w, d))
       (\<lambda>aws. next w (r\<lparr>rq_ctx := (rq_ctx r)\<lparr>cx_workspaces := Some aws\<rparr>\<rparr>) d)"

text \<open>The stack every JSON subrouter puts before its handlers, and the one of the server.\<close>

definition json_stack :: "'d handler \<Rightarrow> 'd handler" where
  "json_stack h =
     CheckContentHeaderMiddleware ''application/json''
       (CheckAcceptRequestHeaderMiddleware ''application/json''
         (SetContentTypeMiddleware ''application/json'' h))"

definition authenticated :: "(request \<Rightarrow> user res) \<Rightarrow> workspaceImpl \<Rightarrow> 'd handler \<Rightarrow> 'd handler" where
  "authenticated sec wc h = NewAuthenticationMiddleware sec (NewAuthorizationContext wc h)"

section \<open>Storage interfaces\<close>

record 'd component_client =
  cc_ListComponentsMetadata :: "ctx \<Rightarrow> pagination \<Rightarrow> string list \<Rightarrow> string list \<Rightarrow> 'd \<Rightarrow> metadata_list res"
  cc_ListComponentVersionsMetadata :: "ctx \<Rightarrow> component_reference \<Rightarrow> pagination \<Rightarrow> string list \<Rightarrow> 'd \<Rightarrow> metadata_list res"
  cc_GetComponent :: "ctx \<Rightarrow> node_value \<Rightarrow> 'd \<Rightarrow> component res"
  cc_CreateComponent :: "ctx \<Rightarrow> component \<Rightarrow> 'd \<Rightarrow> unit res \<times> 'd"
  cc_PutComponent :: "ctx \<Rightarrow> component \<Rightarrow> 'd \<Rightarrow> unit res \<times> 'd"
  cc_PatchComponent :: "ctx \<Rightarrow> component \<Rightarrow> gotime \<Rightarrow> 'd \<Rightarrow> component res \<times> 'd"
  cc_ListWorkflowsMetadata :: "ctx \<Rightarrow> pagination \<Rightarrow> string list \<Rightarrow> string list \<Rightarrow> 'd \<Rightarrow> metadata_ws_list res"
  cc_ListWorkflowVersionsMetadata :: "ctx \<Rightarrow> component_reference \<Rightarrow> pagination \<Rightarrow> string list \<Rightarrow> 'd \<Rightarrow> metadata_ws_list res"
  cc_GetWorkflow :: "ctx \<Rightarrow> node_value \<Rightarrow> 'd \<Rightarrow> workflow res"
  cc_CreateWorkflow :: "ctx \<Rightarrow> workflow \<Rightarrow> 'd \<Rightarrow> unit res \<times> 'd"
  cc_PutWorkflow :: "ctx \<Rightarrow> workflow \<Rightarrow> 'd \<Rightarrow> unit res \<times> 'd"
  cc_PatchWorkflow :: "ctx \<Rightarrow> workflow \<Rightarrow> gotime \<Rightarrow> 'd \<Rightarrow> workflow res \<times> 'd"
  cc_ListJobsMetadata :: "ctx \<Rightarrow> pagination \<Rightarrow> string list \<Rightarrow> string list \<Rightarrow> 'd \<Rightarrow> metadata_ws_list res"
  cc_GetJob :: "ctx \<Rightarrow> component_reference \<Rightarrow> 'd \<Rightarrow> job res"
  cc_CreateJob :: "ctx \<Rightarrow> job \<Rightarrow> 'd \<Rightarrow> unit res \<times> 'd"
  cc_DeleteDocument :: "ctx \<Rightarrow> DocumentKind \<Rightarrow> cref_version \<Rightarrow> 'd \<Rightarrow> cref_version res \<times> 'd"
  cc_AddJobEvents :: "ctx \<Rightarrow> component_reference \<Rightarrow> string list \<Rightarrow> 'd \<Rightarrow> unit res \<times> 'd"

record 'd volume_client =
  vc_ListVolumes :: "ctx \<Rightarrow> pagination \<Rightarrow> string list \<Rightarrow> string list \<Rightarrow> 'd \<Rightarrow> (flowify_volume list \<times> page_info) res"
  vc_GetVolume :: "ctx \<Rightarrow> component_reference \<Rightarrow> 'd \<Rightarrow> flowify_volume res"
  vc_PutVolume :: "ctx \<Rightarrow> flowify_volume \<Rightarrow> 'd \<Rightarrow> unit res \<times> 'd"
  vc_DeleteVolume :: "ctx \<Rightarrow> component_reference \<Rightarrow> 'd \<Rightarrow> unit res \<times> 'd"

text \<open>The database clients implement the interfaces.\<close>

definition mongo_client :: "ext \<Rightarrow> 'd mongo \<Rightarrow> 'd component_client" where
  "mongo_client E M =
     \<lparr>cc_ListComponentsMetadata = (\<lambda>cx. ListComponentsMetadata E M),
      cc_ListComponentVersionsMetadata = (\<lambda>cx. ListComponentVersionsMetadata E M),
      cc_GetComponent = (\<lambda>cx. GetComponent E M),
      cc_CreateComponent = (\<lambda>cx. CreateComponent M),
      cc_PutComponent = (\<lambda>cx. PutComponent E M),
      cc_PatchComponent = (\<lambda>cx. PatchComponent E M),
      cc_ListWorkflowsMetadata = ListWorkflowsMetadata E M,
      cc_ListWorkflowVersionsMetadata = ListWorkflowVersionsMetadata E M,
      cc_GetWorkflow = GetWorkflow E M,
      cc_CreateWorkflow = CreateWorkflow M,
      cc_PutWorkflow = PutWorkflow E M,
      cc_PatchWorkflow = PatchWorkflow E M,
      cc_ListJobsMetadata = ListJobsMetadata E M,
      cc_GetJob = GetJob E M,
      cc_CreateJob = CreateJob M,
      cc_DeleteDocument = DeleteDocument E M,
      cc_AddJobEvents = (\<lambda>cx. AddJobEvents E M)\<rparr>"

definition mongo_volumes :: "ext \<Rightarrow> 'd mongo \<Rightarrow> 'd volume_client" where
  "mongo_volumes E M =
     \<lparr>vc_ListVolumes = ListVolumes E M, vc_GetVolume = GetVolume E M, vc_PutVolume = PutVolume E M,
      vc_DeleteVolume = DeleteVolume E M\<rparr>"

end
