(* ===== verification/Rest_Documents.thy ===== *)
theory Rest_Documents
  imports Http
begin

text \<open>
  \<^verbatim>\<open>rest/components.go\<close>, \<^verbatim>\<open>rest/workflows.go\<close> and \<^verbatim>\<open>rest/volumes.go\<close>: the handlers
  over the storage clients. A handler maps the response writer, the request and the state behind the
  clients to the writer and the state after it, with every early return, and without one where the
  source has none.
\<close>

section \<open>Metadata\<close>

text \<open>\<^verbatim>\<open>errors.Is\<close>: some error of the chain is the given one.\<close>

fun errors_Is :: "goerr \<Rightarrow> goerr \<Rightarrow> bool" where
  "errors_Is (Wrap m e) t = (Wrap m e = t \<or> errors_Is e t)"
| "errors_Is e t = (e = t)"

definition TouchMetadata :: "ctx \<Rightarrow> int \<Rightarrow> metadata \<Rightarrow> metadata" where
  "TouchMetadata cx now md =
     (case cx_user cx of
        None \<Rightarrow> md
      | Some user \<Rightarrow>
          md\<lparr>md_modifiedBy := \<lparr>mb_oid = usr_uid user, mb_email = usr_email user\<rparr>,
             md_timestamp := \<lparr>tm_nanos = now - now mod 1000000, tm_loc = ''UTC''\<rparr>\<rparr>)"

definition InitializeMetadata :: "ext \<Rightarrow> ctx \<Rightarrow> int \<Rightarrow> uuid \<Rightarrow> metadata \<Rightarrow> metadata res" where
  "InitializeMetadata E cx now newId md =
     (if \<not> uuid_IsZero (md_uid md)
      then Inl (Errorf ''cannot initialize Metadata when uid (%s) is set'' [UUIDString E (md_uid md)])
      else
        (let md' = TouchMetadata cx now (md\<lparr>md_uid := newId\<rparr>)
         in rbind (InitializeNew (md_version md')) (\<lambda>v. Inr (md'\<lparr>md_version := v\<rparr>))))"

section \<open>Listings\<close>

text \<open>
  An unknown kind of a version listing writes an error and goes on to write the nil result.
\<close>

definition ComponentVersionLikeListHandler :: "rest_ext \<Rightarrow> 'd component_client \<Rightarrow> string \<Rightarrow> 'd handler" where
  "ComponentVersionLikeListHandler R client kind w r d =
     on_result (parsePaginationsOrDefault (QueryOf r ''limit'') (QueryOf r ''offset'')) (w, d)
       (\<lambda>err. (respond_error w 400 ''error parsing query parameters'' (ErrorText err), d))
       (\<lambda>pagination.
          on_result (getIdFromMuxerPath R r) (w, d)
            (\<lambda>err. (WriteErrorResponse w \<lparr>ae_code = 400, ae_summary = ErrorText err, ae_detail = Text ''''\<rparr>, d))
            (\<lambda>id.
               let failed = (\<lambda>err. (respond_error w 500 ''error retrieving component versions'' (ErrorText err), d))
               in if kind = ''component'' then
                    on_result (cc_ListComponentVersionsMetadata client (rq_ctx r) id pagination (QueryOf r ''sort'') d) (w, d) failed
                      (\<lambda>l. (WriteResponse R w 200 [] (BodyMetadataList l) ''getComponentVersions'', d))
                  else if kind = ''workflow'' then
                    on_result (cc_ListWorkflowVersionsMetadata client (rq_ctx r) id pagination (QueryOf r ''sort'') d) (w, d) failed
                      (\<lambda>l. (WriteResponse R w 200 [] (BodyMetadataWsList l) ''getWorkflowVersions'', d))
                  else
                    (WriteResponse R
                       (respond_error w 500 ''error geting component versions''
                          (TextArgs ''Versions list method not implemented for kind: %s'' [kind]))
                       200 [] BodyNil (''get'' @ kind @ ''Versions''), d)))"

definition ComponentLikeListHandler :: "rest_ext \<Rightarrow> 'd component_client \<Rightarrow> string \<Rightarrow> 'd handler" where
  "ComponentLikeListHandler R client kind w r d =
     on_result (parsePaginationsOrDefault (QueryOf r ''limit'') (QueryOf r ''offset'')) (w, d)
       (\<lambda>err. (respond_error w 400 ''error parsing query parameters'' (ErrorText err), d))
       (\<lambda>pagination.
          let failed = (\<lambda>err. (WriteErrorResponse w \<lparr>ae_code = 500,
                          ae_summary = TextArgs ''error listing %ss'' [kind], ae_detail = ErrorText err\<rparr>, d));
              filters = QueryOf r ''filter''; sorts = QueryOf r ''sort''
          in if kind = ''component'' then
               on_result (cc_ListComponentsMetadata client (rq_ctx r) pagination filters sorts d) (w, d) failed
                 (\<lambda>l. (WriteResponse R w 200 [] (BodyMetadataList l) kind, d))
             else if kind = ''workflow'' then
               on_result (cc_ListWorkflowsMetadata client (rq_ctx r) pagination filters sorts d) (w, d) failed
                 (\<lambda>l. (WriteResponse R w 200 [] (BodyMetadataWsList l) kind, d))
             else if kind = ''job'' then
               on_result (cc_ListJobsMetadata client (rq_ctx r) pagination filters sorts d) (w, d) failed
                 (\<lambda>l. (WriteResponse R w 200 [] (BodyMetadataWsList l) kind, d))
             else (WriteResponse R w 200 [] BodyNil kind, d))"

section \<open>Components\<close>

definition bad_request :: "rw \<Rightarrow> goerr \<Rightarrow> rw" where
  "bad_request w err = WriteErrorResponse w \<lparr>ae_code = 400, ae_summary = ErrorText err, ae_detail = Text ''''\<rparr>"

text \<open>
  A version that cannot be parsed is reported as -2; the path parameter -2 itself comes without an
  error, whose text is then taken of nil.
\<close>

definition bad_version :: "rw \<Rightarrow> goerr option \<Rightarrow> rw" where
  "bad_version w err = (case err of None \<Rightarrow> abort w | Some e \<Rightarrow> bad_request w e)"

definition ComponentGetHandler :: "rest_ext \<Rightarrow> 'd component_client \<Rightarrow> 'd handler" where
  "ComponentGetHandler R client w r d =
     on_result (getIdFromMuxerPath R r) (w, d) (\<lambda>err. (bad_request w err, d))
       (\<lambda>id.
          case getVersionNoFromMuxerPath r of (version, err) \<Rightarrow>
            if version = - 2 then (bad_version w err, d)
            else
              on_result
                (cc_GetComponent client (rq_ctx r)
                   (NVCRefVersion \<lparr>crv_version = (if version > - 1 then version else 0), crv_uid = id\<rparr>) d) (w, d)
                (\<lambda>err. (respond_error w 500 ''error retrieving component'' (ErrorText err), d))
                (\<lambda>cmp. (WriteResponse R w 200 [] (BodyComponent cmp) ''getComponent'', d)))"

text \<open>Deleting: a zero reference is answered with "not found", and then with "no content".\<close>

definition deleteHandler ::
  "ext \<Rightarrow> rest_ext \<Rightarrow> 'd component_client \<Rightarrow> DocumentKind \<Rightarrow> string \<Rightarrow> string \<Rightarrow> 'd handler" where
  "deleteHandler E R client kind failedText tag w r d =
     on_result (getIdFromMuxerPath R r) (w, d) (\<lambda>err. (bad_request w err, d))
       (\<lambda>id.
          case getVersionNoFromMuxerPath r of (version, err) \<Rightarrow>
            if version = - 2 then (bad_version w err, d)
            else
              (let uid = \<lparr>crv_version = version, crv_uid = id\<rparr>
               in case cc_DeleteDocument client (rq_ctx r) kind uid d of (res, d') \<Rightarrow>
                    on_result res (w, d')
                      (\<lambda>err. (respond_error w 500 failedText (ErrorText err), d'))
                      (\<lambda>crefver.
                         (WriteResponse R
                            (if cref_IsZero crefver
                             then respond_error w 404 ''document not found'' 
                                    (TextArgs ''UID: %s, version: %d'' [UUIDString E id, itoa version])
                             else w)
                            204 [] (BodyRef uid) tag, d'))))"

definition ComponentDeleteHandler :: "ext \<Rightarrow> rest_ext \<Rightarrow> 'd component_client \<Rightarrow> 'd handler" where
  "ComponentDeleteHandler E R client =
     deleteHandler E R client ComponentKind ''error deleting component'' ''deleteComponent''"

definition InitializeComponent :: "ext \<Rightarrow> ctx \<Rightarrow> int \<Rightarrow> uuid \<Rightarrow> component \<Rightarrow> component res" where
  "InitializeComponent E cx now newId component =
     rbind (wrapres ''cannot initialize component'' (InitializeMetadata E cx now newId (cmp_metadata component))) (\<lambda>md.
     if cmp_implementation component = ImplNil
     then Inl (Errorf ''cannot create a component with nil implementation'' [])
     else Inr (cmp_set_metadata md component))"

definition StoreComponent ::
  "'d component_client \<Rightarrow> ctx \<Rightarrow> component \<Rightarrow> 'd \<Rightarrow> component_reference res \<times> 'd" where
  "StoreComponent client cx component d =
     (if uuid_IsZero (cmp_uid component) then (Inl (Errorf ''cannot store a component without uid set'' []), d)
      else if cmp_implementation component = ImplNil
      then (Inl (Errorf ''cannot store a component with nil implementation'' []), d)
      else
        (case cc_CreateComponent client cx component d of
           (Inl e, d') \<Rightarrow> (Inl e, d')
         | (Inr _, d') \<Rightarrow> (Inr (cmp_uid component), d')))"

definition ComponentCreateHandler :: "ext \<Rightarrow> rest_ext \<Rightarrow> 'd component_client \<Rightarrow> 'd handler" where
  "ComponentCreateHandler E R client w r d =
     on_result (ReadBody R ''ComponentPostRequest'' (UnmarshalComponentPost R) r) (w, d)
       (\<lambda>err. (respond_error w 400 ''cannot read request'' (ErrorText err), d))
       (\<lambda>cmp.
          on_result (InitializeComponent E (rq_ctx r) (rq_now r) (rq_newId r) cmp) (w, d)
            (\<lambda>err. (respond_error w 500 ''cannot create component'' (ErrorText err), d))
            (\<lambda>component.
               case StoreComponent client (rq_ctx r) component d of (res, d') \<Rightarrow>
                 on_result res (w, d')
                   (\<lambda>err. (respond_error w 500 ''cannot store component'' (ErrorText err), d'))
                   (\<lambda>uid. (WriteResponse R w 201 [(''Location'', path_join [rq_uri r, UUIDString E uid])]
                             (BodyComponent component) ''Component'', d'))))"

definition rest_PutComponent :: "'d component_client \<Rightarrow> ctx \<Rightarrow> int \<Rightarrow> component \<Rightarrow> 'd \<Rightarrow> unit res \<times> 'd" where
  "rest_PutComponent client cx now component d =
     (if uuid_IsZero (cmp_uid component) then (Inl (Errorf ''cannot put a component without uid set'' []), d)
      else
        (case cc_PutComponent client cx
                (cmp_set_metadata (TouchMetadata cx now (cmp_metadata component)) component) d of
           (res, d') \<Rightarrow> (wrapres ''storage could not put component'' res, d')))"

text \<open>The path parameter is parsed even when it is absent, which fails on the empty text.\<close>

definition ComponentPutHandler :: "rest_ext \<Rightarrow> 'd component_client \<Rightarrow> 'd handler" where
  "ComponentPutHandler R client w r d =
     on_result (ReadBody R ''ComponentPostRequest'' (UnmarshalComponentPost R) r) (w, d)
       (\<lambda>err. (respond_error w 400 ''cannot read request'' (ErrorText err), d))
       (\<lambda>cmp.
          on_result (ParseUUID R (zget (rq_vars r) ''id'')) (w, d)
            (\<lambda>err. (respond_error w 400 ''could not parse {id} parameter in component query'' (Text ''''), d))
            (\<lambda>id.
               if id \<noteq> cmp_uid cmp
               then (respond_error w 400 ''put request id-parameter does not match component uid'' (Text ''''), d)
               else
                 (case rest_PutComponent client (rq_ctx r) (rq_now r) cmp d of (res, d') \<Rightarrow>
                    on_result res (w, d')
                      (\<lambda>err. (respond_error w 500 ''could not handle put request'' (Text ''''), d'))
                      (\<lambda>_. (WriteResponse R w 204 [(''Location'', path_join [rq_uri r])] BodyNil ''putComponent'', d')))))"

text \<open>
  An error annotated by the storage is unwrapped by one level; what is left has the same message and
  the same chain below it, so it is kept as it is here.
\<close>

definition patch_error :: "goerr \<Rightarrow> goerr" where
  "patch_error err =
     (case err of
        Wrap m e \<Rightarrow> if errors_Is err ErrNewerDocumentExists then err
                    else Wrap ''storage could not patch component'' err
      | _ \<Rightarrow> Wrap ''storage could not patch component'' err)"

definition rest_PatchComponent ::
  "'d component_client \<Rightarrow> ctx \<Rightarrow> int \<Rightarrow> component \<Rightarrow> 'd \<Rightarrow> component res \<times> 'd" where
  "rest_PatchComponent client cx now component d =
     (case cc_PatchComponent client cx
             (cmp_set_metadata (TouchMetadata cx now (cmp_metadata component)) component)
             (md_timestamp (cmp_metadata component)) d of
        (Inl err, d') \<Rightarrow> (Inl (patch_error err), d')
      | (Inr cmp, d') \<Rightarrow> (Inr cmp, d'))"

definition ComponentPatchHandler :: "rest_ext \<Rightarrow> 'd component_client \<Rightarrow> 'd handler" where
  "ComponentPatchHandler R client w r d =
     on_result (ReadBody R ''ComponentPostRequest'' (UnmarshalComponentPost R) r) (w, d)
       (\<lambda>err. (respond_error w 400 ''cannot read request'' (ErrorText err), d))
       (\<lambda>cmp.
          on_result (getIdFromMuxerPath R r) (w, d) (\<lambda>err. (bad_request w err, d))
            (\<lambda>id.
               if id \<noteq> cmp_uid cmp
               then (respond_error w 400 ''patch request id-parameter does not match component uid'' (Text ''''), d)
               else
                 (case rest_PatchComponent client (rq_ctx r) (rq_now r) cmp d of (res, d') \<Rightarrow>
                    on_result res (w, d')
                      (\<lambda>err. if errors_Is err ErrNewerDocumentExists
                              then (WriteErrorResponse w \<lparr>ae_code = 409, ae_summary = ErrorText err, ae_detail = Text ''''\<rparr>, d')
                              else (respond_error w 500 ''could not handle patch request'' (Text ''''), d'))
                      (\<lambda>c. (WriteResponse R w 200 [(''Location'', path_join [rq_uri r])] (BodyComponent c) ''patchComponent'', d')))))"

definition ComponentListHandler :: "rest_ext \<Rightarrow> 'd component_client \<Rightarrow> 'd handler" where
  "ComponentListHandler R client = ComponentLikeListHandler R client ''component''"

definition ComponentVersionListHandler :: "rest_ext \<Rightarrow> 'd component_client \<Rightarrow> 'd handler" where
  "ComponentVersionListHandler R client = ComponentVersionLikeListHandler R client ''component''"

section \<open>Workflows\<close>

definition WorkflowListHandler :: "rest_ext \<Rightarrow> 'd component_client \<Rightarrow> 'd handler" where
  "WorkflowListHandler R client = ComponentLikeListHandler R client ''workflow''"

definition WorkflowVersionListHandler :: "rest_ext \<Rightarrow> 'd component_client \<Rightarrow> 'd handler" where
  "WorkflowVersionListHandler R client = ComponentVersionLikeListHandler R client ''workflow''"

definition WorkflowGetHandler :: "rest_ext \<Rightarrow> 'd component_client \<Rightarrow> 'd handler" where
  "WorkflowGetHandler R client w r d =
     on_result (getIdFromMuxerPath R r) (w, d) (\<lambda>err. (bad_request w err, d))
       (\<lambda>id.
          case getVersionNoFromMuxerPath r of (version, err) \<Rightarrow>
            if version = - 2 then (bad_version w err, d)
            else
              on_result
                (cc_GetWorkflow client (rq_ctx r)
                   (if version = - 1 then NVReference id
                    else NVCRefVersion \<lparr>crv_version = version, crv_uid = id\<rparr>) d) (w, d)
                (\<lambda>err. (respond_error w 500 ''error retrieving workflow'' (ErrorText err), d))
                (\<lambda>wf. (WriteResponse R w 200 [] (BodyWorkflow wf) ''workflow'', d)))"

definition WorkflowDeleteHandler :: "ext \<Rightarrow> rest_ext \<Rightarrow> 'd component_client \<Rightarrow> 'd handler" where
  "WorkflowDeleteHandler E R client =
     deleteHandler E R client WorkflowKind ''error deleting workflow'' ''deleteWorkflow''"

definition rest_PutWorkflow :: "'d component_client \<Rightarrow> ctx \<Rightarrow> int \<Rightarrow> workflow \<Rightarrow> 'd \<Rightarrow> unit res \<times> 'd" where
  "rest_PutWorkflow client cx now workflow d =
     (if uuid_IsZero (md_uid (wf_metadata workflow))
      then (Inl (Errorf ''cannot put a component without uid set'' []), d)
      else
        (case cc_PutWorkflow client cx
                (wf_set_metadata (TouchMetadata cx now (wf_metadata workflow)) workflow) d of
           (res, d') \<Rightarrow> (wrapres ''storage could not put component'' res, d')))"

definition WorkflowPutHandler :: "rest_ext \<Rightarrow> 'd component_client \<Rightarrow> 'd handler" where
  "WorkflowPutHandler R client w r d =
     on_result (ReadBody R ''WorkflowPostRequest'' (UnmarshalWorkflowPost R) r) (w, d)
       (\<lambda>err. (respond_error w 400 ''cannot read request'' (ErrorText err), d))
       (\<lambda>wf.
          on_result (ParseUUID R (zget (rq_vars r) ''id'')) (w, d)
            (\<lambda>err. (respond_error w 400 ''could not parse {id} parameter in workflow query'' (Text ''''), d))
            (\<lambda>id.
               if id \<noteq> md_uid (wf_metadata wf)
               then (respond_error w 400 ''put request id-parameter does not match workflow uid'' (Text ''''), d)
               else
                 (case rest_PutWorkflow client (rq_ctx r) (rq_now r) wf d of (res, d') \<Rightarrow>
                    on_result res (w, d')
                      (\<lambda>err. (respond_error w 500 ''could not handle put request'' (Text ''''), d'))
                      (\<lambda>_. (WriteResponse R w 204 [(''Location'', path_join [rq_uri r])] BodyNil ''putWorkflow'', d')))))"

definition rest_PatchWorkflow ::
  "'d component_client \<Rightarrow> ctx \<Rightarrow> int \<Rightarrow> workflow \<Rightarrow> 'd \<Rightarrow> workflow res \<times> 'd" where
  "rest_PatchWorkflow client cx now workflow d =
     (case cc_PatchWorkflow client cx
             (wf_set_metadata (TouchMetadata cx now (wf_metadata workflow)) workflow)
             (md_timestamp (wf_metadata workflow)) d of
        (Inl err, d') \<Rightarrow> (Inl (patch_error err), d')
      | (Inr wf', d') \<Rightarrow> (Inr wf', d'))"

text \<open>After the answer to a conflict there is no return: a second error is written.\<close>

definition WorkflowPatchHandler :: "rest_ext \<Rightarrow> 'd component_client \<Rightarrow> 'd handler" where
  "WorkflowPatchHandler R client w r d =
     on_result (ReadBody R ''WorkflowPostRequest'' (UnmarshalWorkflowPost R) r) (w, d)
       (\<lambda>err. (respond_error w 400 ''cannot read request'' (ErrorText err), d))
       (\<lambda>wf.
          on_result (getIdFromMuxerPath R r) (w, d) (\<lambda>err. (bad_request w err, d))
            (\<lambda>id.
               if id \<noteq> md_uid (wf_metadata wf)
               then (respond_error w 400 ''patch request id-parameter does not match workflow uid'' (Text ''''), d)
               else
                 (case rest_PatchWorkflow client (rq_ctx r) (rq_now r) wf d of (res, d') \<Rightarrow>
                    on_result res (w, d')
                      (\<lambda>err.
                         (respond_error
                            (if errors_Is err ErrNewerDocumentExists
                             then WriteErrorResponse w \<lparr>ae_code = 409, ae_summary = ErrorText err, ae_detail = Text ''''\<rparr>
                             else w)
                            500 ''could not handle patch request'' (Text ''''), d'))
                      (\<lambda>wf. (WriteResponse R w 200 [(''Location'', path_join [rq_uri r])] (BodyWorkflow wf) ''patchWorkflow'', d')))))"

definition InitializeWorkflow :: "ext \<Rightarrow> ctx \<Rightarrow> int \<Rightarrow> uuid \<Rightarrow> workflow \<Rightarrow> workflow res" where
  "InitializeWorkflow E cx now newId workflow =
     rbind (wrapres ''cannot initialize workflow'' (InitializeMetadata E cx now newId (wf_metadata workflow)))
       (\<lambda>md. Inr (wf_set_metadata md workflow))"

definition StoreWorkflow ::
  "'d component_client \<Rightarrow> ctx \<Rightarrow> workflow \<Rightarrow> 'd \<Rightarrow> component_reference res \<times> 'd" where
  "StoreWorkflow client cx workflow d =
     (if uuid_IsZero (md_uid (wf_metadata workflow))
      then (Inl (Errorf ''cannot store a component without uid set'' []), d)
      else
        (case cc_CreateWorkflow client cx workflow d of
           (Inl e, d') \<Rightarrow> (Inl e, d')
         | (Inr _, d') \<Rightarrow> (Inr (md_uid (wf_metadata workflow)), d')))"

text \<open>
  After a failed initialization there is no return either: the empty workflow goes on to be stored,
  which its zero identifier prevents.
\<close>

definition WorkflowPostHandler :: "ext \<Rightarrow> rest_ext \<Rightarrow> 'd component_client \<Rightarrow> 'd handler" where
  "WorkflowPostHandler E R client w r d =
     on_result (ReadBody R ''WorkflowPostRequest'' (UnmarshalWorkflowPost R) r) (w, d)
       (\<lambda>err. (respond_error w 400 ''cannot read request'' (ErrorText err), d))
       (\<lambda>wf.
          let (workflow, w1) =
                (case InitializeWorkflow E (rq_ctx r) (rq_now r) (rq_newId r) wf of
                   Inl err \<Rightarrow> (zero_workflow, respond_error w 400 ''error parsing request body'' (ErrorText err))
                 | Inr workflow \<Rightarrow> (workflow, w))
          in case StoreWorkflow client (rq_ctx r) workflow d of (res, d') \<Rightarrow>
               on_result res (w1, d')
                 (\<lambda>err. (respond_error w1 500 ''error listing workflows'' (ErrorText err), d'))
                 (\<lambda>uid. (WriteResponse R w1 201 [(''Location'', path_join [rq_uri r, UUIDString E uid])]
                           (BodyWorkflow workflow) ''workflow'', d')))"

section \<open>Volumes\<close>

definition VolumesListHandler :: "rest_ext \<Rightarrow> 'd volume_client \<Rightarrow> 'd handler" where
  "VolumesListHandler R vclient w r d =
     on_result (parsePaginationsOrDefault (QueryOf r ''limit'') (QueryOf r ''offset'')) (w, d)
       (\<lambda>err. (respond_error w 400 ''error parsing query parameters'' (ErrorText err), d))
       (\<lambda>pagination.
          on_result
            (vc_ListVolumes vclient (rq_ctx r) pagination [''workspace[==]='' @ zget (rq_vars r) ''workspace''] [] d) (w, d)
            (\<lambda>err. (respond_error w 500 ''could not list volumes in workspace'' (ErrorText err), d))
            (\<lambda>list. (WriteResponse R w 200 [] (BodyVolumes list) ''listVolumes'', d)))"

definition VolumeGetHandler :: "rest_ext \<Rightarrow> 'd volume_client \<Rightarrow> 'd handler" where
  "VolumeGetHandler R vclient w r d =
     on_result (ParseUUID R (zget (rq_vars r) ''id'')) (w, d)
       (\<lambda>err. (respond_error w 400 ''error parsing id parameter'' (ErrorText err), d))
       (\<lambda>id.
          on_result (vc_GetVolume vclient (rq_ctx r) id d) (w, d)
            (\<lambda>err. (respond_error w (if err = ErrNotFound then 404 else 500) ''could not get volume'' (ErrorText err), d))
            (\<lambda>vol. if fv_workspace vol \<noteq> zget (rq_vars r) ''workspace''
                   then (respond_error w 500 ''could not get volume'' (Text ''''), d)
                   else (WriteResponse R w 200 [] (BodyVolume vol) ''getVolume'', d)))"

definition VolumeDeleteHandler :: "rest_ext \<Rightarrow> 'd volume_client \<Rightarrow> 'd handler" where
  "VolumeDeleteHandler R vclient w r d =
     on_result (ParseUUID R (zget (rq_vars r) ''id'')) (w, d)
       (\<lambda>err. (respond_error w 400 ''error parsing id parameter'' (ErrorText err), d))
       (\<lambda>id.
          case vc_DeleteVolume vclient (rq_ctx r) id d of (res, d') \<Rightarrow>
            on_result res (w, d')
              (\<lambda>err. (respond_error w 500 ''could not delete volume'' (ErrorText err), d'))
              (\<lambda>_. (WriteResponse R w 200 [] BodyNil ''deleteVolume'', d')))"

definition VolumePutHandler :: "rest_ext \<Rightarrow> 'd volume_client \<Rightarrow> 'd handler" where
  "VolumePutHandler R vclient w r d =
     on_result (ParseUUID R (zget (rq_vars r) ''id'')) (w, d)
       (\<lambda>err. (respond_error w 400 ''error parsing id parameter'' (ErrorText err), d))
       (\<lambda>id.
          on_result (ReadBody R ''FlowifyVolume'' (UnmarshalVolume R) r) (w, d)
            (\<lambda>err. (respond_error w 400 ''cannot read volume put request body'' (ErrorText err), d))
            (\<lambda>request.
               if fv_workspace request \<noteq> zget (rq_vars r) ''workspace''
               then (respond_error w 400 ''request workspace does not match path parameter'' (Text ''''), d)
               else if fv_uid request \<noteq> id
               then (respond_error w 400 ''request id required to match body'' (Text ''''), d)
               else
                 (case vc_PutVolume vclient (rq_ctx r) request d of (res, d') \<Rightarrow>
                    on_result res (w, d')
                      (\<lambda>err. (respond_error w 400 ''could not put volume'' (ErrorText err), d'))
                      (\<lambda>_. (WriteResponse R w 204 [] BodyNil ''putVolume'', d')))))"

definition VolumePostHandler :: "ext \<Rightarrow> rest_ext \<Rightarrow> 'd volume_client \<Rightarrow> 'd handler" where
  "VolumePostHandler E R vclient w r d =
     on_result (ReadBody R ''FlowifyVolume'' (UnmarshalVolume R) r) (w, d)
       (\<lambda>err. (respond_error w 400 ''cannot read request'' (ErrorText err), d))
       (\<lambda>request.
          if \<not> uuid_IsZero (fv_uid request) then (respond_error w 400 ''volume id required to be zero'' (Text ''''), d)
          else if fv_workspace request \<noteq> zget (rq_vars r) ''workspace''
          then (respond_error w 400 ''volume workspace mismatch'' (Text ''''), d)
          else
            (case vc_PutVolume vclient (rq_ctx r) (request\<lparr>fv_uid := rq_newId r\<rparr>) d of (res, d') \<Rightarrow>
               on_result res (w, d')
                 (\<lambda>err. (respond_error w 400 ''could not put volume'' (ErrorText err), d'))
                 (\<lambda>_. (WriteResponse R w 201 [(''Location'', path_join [rq_uri r, UUIDString E (rq_newId r)])]
                         BodyNil ''postVolume'', d'))))"

definition VolumesPathAuthorization :: "string \<Rightarrow> authz_client \<Rightarrow> 'd handler \<Rightarrow> 'd handler" where
  "VolumesPathAuthorization action authz next = PathAuthorization VolumesSubject action ''workspace'' authz next"

end
