(* ===== verification/Rest_Jobs.thy ===== *)
theory Rest_Jobs
  imports Rest_Documents
begin

text \<open>
  \<^verbatim>\<open>rest/jobs.go\<close>: submitting a job (stored, dereferenced, transpiled, created in Argo),
  collecting and streaming its events, its status, termination and deletion. The Argo client is a
  parameter, a record of calls on the state of the cluster; what a watch delivers is a list of
  receives from its channel. The handlers run on a pair of the storage state and the Argo state,
  with the event savers that were started.
\<close>

section \<open>Argo\<close>

record argo_wf =
  aw_name :: string
  aw_namespace :: string
  aw_phase :: string
  aw_finishedAt :: "gotime option"
  aw_text :: string

text \<open>
  A receive from the channel of a watch: an event with a workflow, an event with any other object
  (and the error the library makes of that object), the zero value of a closed channel, or the end
  of the context. A watch that fails gives a nil interface and an error.
\<close>

datatype watch_recv = EvWorkflow argo_wf | EvOther goerr | ChanClosed | CtxDone

record 'a argo =
  WfList :: "string \<Rightarrow> string \<Rightarrow> 'a \<Rightarrow> argo_wf list res"
  WfGet :: "string \<Rightarrow> string \<Rightarrow> 'a \<Rightarrow> argo_wf res"
  WfCreate :: "string \<Rightarrow> argo_workflow \<Rightarrow> 'a \<Rightarrow> unit res \<times> 'a"
  WfDelete :: "bool \<Rightarrow> string \<Rightarrow> string \<Rightarrow> 'a \<Rightarrow> unit res \<times> 'a"
  WfTerminate :: "string \<Rightarrow> string \<Rightarrow> 'a \<Rightarrow> unit res \<times> 'a"
  WfWatch :: "string \<Rightarrow> string \<Rightarrow> 'a \<Rightarrow> watch_recv list res"
  PhaseCompleted :: "string \<Rightarrow> bool"
  IsStatusError :: "goerr \<Rightarrow> bool"
  EqualSelector :: "string \<Rightarrow> string \<Rightarrow> string"
  WfJson :: "argo_wf \<Rightarrow> string res"
  StreamWrite :: "string \<Rightarrow> goerr option"

record ('d, 'a) jobs_state =
  js_db :: 'd
  js_argo :: 'a
  js_savers :: "(string \<times> component_reference) list"

definition GetFieldnameSelector :: "'a argo \<Rightarrow> string \<Rightarrow> string" where
  "GetFieldnameSelector A jobname = EqualSelector A ''metadata.name'' jobname"

definition getWorkspaceByJobUID :: "ext \<Rightarrow> 'a argo \<Rightarrow> component_reference \<Rightarrow> 'a \<Rightarrow> string res" where
  "getWorkspaceByJobUID E A jid a =
     (case WfList A '''' (GetFieldnameSelector A (UUIDString E jid)) a of
        Inl err \<Rightarrow> if is_panic err then Inl err else Inl (Errorf ''error finding job %s'' [UUIDString E jid])
      | Inr items \<Rightarrow>
          (case items of
             [] \<Rightarrow> Inl (Errorf ''no such job %s'' [UUIDString E jid])
           | [aw] \<Rightarrow> Inr (aw_namespace aw)
           | _ \<Rightarrow> Inl (Errorf ''more than one job found for %s'' [UUIDString E jid])))"

section \<open>Reading jobs\<close>

definition JobGetHandler :: "rest_ext \<Rightarrow> 'd component_client \<Rightarrow> 'd handler" where
  "JobGetHandler R client w r d =
     (case map_of (rq_vars r) ''id'' of
        None \<Rightarrow> (respond_error w 400 ''no {id} parameter in component query'' (Text ''''), d)
      | Some idString \<Rightarrow>
          on_result (ParseUUID R idString) (w, d)
            (\<lambda>err. (respond_error w 400 ''error parsing id parameter'' (ErrorText err), d))
            (\<lambda>id.
               on_result (cc_GetJob client (rq_ctx r) id d) (w, d)
                 (\<lambda>err. (respond_error w 500 ''error retrieving component'' (ErrorText err), d))
                 (\<lambda>job. (WriteResponse R w 200 [] (BodyJob job) ''getJob'', d))))"

definition JobsListHandler :: "rest_ext \<Rightarrow> 'd component_client \<Rightarrow> 'd handler" where
  "JobsListHandler R client = ComponentLikeListHandler R client ''job''"

section \<open>Submitting a job\<close>

definition InitializeJob :: "ext \<Rightarrow> ctx \<Rightarrow> int \<Rightarrow> uuid \<Rightarrow> job \<Rightarrow> job res" where
  "InitializeJob E cx now newId job =
     rbind (wrapres ''cannot initialize job'' (InitializeMetadata E cx now newId (job_metadata job)))
       (\<lambda>md. Inr (job\<lparr>job_metadata := md\<rparr>))"

definition StoreJob :: "'d component_client \<Rightarrow> ctx \<Rightarrow> job \<Rightarrow> 'd \<Rightarrow> component_reference res \<times> 'd" where
  "StoreJob client cx job d =
     (if uuid_IsZero (md_uid (job_metadata job))
      then (Inl (Errorf ''cannot store a job without uid set'' []), d)
      else
        (case cc_CreateJob client cx job d of
           (Inl e, d') \<Rightarrow> (Inl e, d')
         | (Inr _, d') \<Rightarrow> (Inr (md_uid (job_metadata job)), d')))"

text \<open>
  The storage client's reading of references is that of the request, on the state after the job was
  stored. The dereferencer has a depth; a job whose components it does not bottom out on is a
  request that does not return.
\<close>

definition submitGetter :: "'d component_client \<Rightarrow> ctx \<Rightarrow> 'd \<Rightarrow> component_getter" where
  "submitGetter client cx d = (\<lambda>ref. cc_GetComponent client cx (NVCRefVersion ref) d)"

definition jobManifest :: "ext \<Rightarrow> 'd component_client \<Rightarrow> nat \<Rightarrow> ctx \<Rightarrow> job \<Rightarrow> 'd \<Rightarrow> argo_workflow run" where
  "jobManifest E client depth cx job d =
     obind (DereferenceComponent (submitGetter client cx d) depth (NVComponent (wf_component (job_workflow job))))
       (\<lambda>derefCmp. GetArgoWorkflow E (job\<lparr>job_workflow := (job_workflow job)\<lparr>wf_component := derefCmp\<rparr>\<rparr>))"

definition named_manifest :: "ext \<Rightarrow> job \<Rightarrow> string list \<Rightarrow> argo_workflow \<Rightarrow> argo_workflow" where
  "named_manifest E job tags argoWf =
     (let named = argoWf\<lparr>awf_name := UUIDString E (md_uid (job_metadata job))\<rparr>
      in if tags \<noteq> [] then named\<lparr>awf_annotations := [(''flowify.io/tags'', str_join '';'' tags)]\<rparr> else named)"

definition startJob ::
  "ext \<Rightarrow> rest_ext \<Rightarrow> 'a argo \<Rightarrow> job \<Rightarrow> string list \<Rightarrow> argo_workflow \<Rightarrow> rw \<Rightarrow> ('d, 'a) jobs_state
     \<Rightarrow> rw \<times> ('d, 'a) jobs_state" where
  "startJob E R A job tags argoWf w s =
     (let workspace = wf_workspace (job_workflow job); uid = md_uid (job_metadata job)
      in case WfCreate A workspace (named_manifest E job tags argoWf) (js_argo s) of (res, a') \<Rightarrow>
           (let s' = s\<lparr>js_argo := a'\<rparr>
            in on_result res (w, s')
                 (\<lambda>err. (respond_error w (if IsStatusError A err then 503 else 400)
                           ''cannot start the workflow job'' (ErrorText err), s'))
                 (\<lambda>_. (WriteResponse R w 201 [(''Location'', path_join [''/api/v1/jobs/'', UUIDString E uid])]
                         BodyNil ''submitJob'',
                       s'\<lparr>js_savers := js_savers s' @ [(workspace, uid)]\<rparr>))))"

definition JobsSubmitHandler ::
  "ext \<Rightarrow> rest_ext \<Rightarrow> nat \<Rightarrow> 'd component_client \<Rightarrow> 'a argo \<Rightarrow> ('d, 'a) jobs_state handler" where
  "JobsSubmitHandler E R depth client A w r s =
     on_result (ReadBody R ''JobPostRequest'' (UnmarshalJobPost R) r) (w, s)
       (\<lambda>err. (respond_error w 400 ''cannot read request'' (ErrorText err), s))
       (\<lambda>(rjob, tags).
          if \<not> uuid_IsZero (md_uid (job_metadata rjob))
          then (respond_error w 400 ''JobSubmitRequest may not have uid set''
                  (TextArgs ''non zero uid (%s)'' [UUIDString E (md_uid (job_metadata rjob))]), s)
          else
            on_result (InitializeJob E (rq_ctx r) (rq_now r) (rq_newId r) rjob) (w, s)
              (\<lambda>err. (respond_error w 500 ''error saving job info to db'' (ErrorText err), s))
              (\<lambda>job.
                 case StoreJob client (rq_ctx r) job (js_db s) of (res, d') \<Rightarrow>
                   (let s' = s\<lparr>js_db := d'\<rparr>
                    in on_result res (w, s')
                         (\<lambda>err. (respond_error w 500 ''error storing component'' (ErrorText err), s'))
                         (\<lambda>_.
                            on_run (jobManifest E client depth (rq_ctx r) job d') (w, s')
                              (\<lambda>err. (respond_error w 500 ''error generating a Argo workflow manifest''
                                        (ErrorText err), s'))
                              (\<lambda>argoWf. startJob E R A job tags argoWf w s')))))"

section \<open>Events\<close>

text \<open>
  The loop of the event saver over what its watch delivers: it waits when there is nothing more yet,
  finishes with the events, or panics. A closed channel and an event without a workflow are logged,
  and then the nil workflow is dereferenced. Its context has no end.
\<close>

datatype 'e loop_result = LoopWaiting 'e | LoopDone 'e | LoopPanic

fun saverLoop :: "'a argo \<Rightarrow> watch_recv list \<Rightarrow> string list \<Rightarrow> string list loop_result" where
  "saverLoop A [] events = LoopWaiting events"
| "saverLoop A (CtxDone # rs) events = LoopDone events"
| "saverLoop A (ChanClosed # rs) events = LoopPanic"
| "saverLoop A (EvOther e # rs) events = LoopPanic"
| "saverLoop A (EvWorkflow aw # rs) events =
     (let events' = events @ [aw_text aw]
      in if PhaseCompleted A (aw_phase aw) then LoopDone events' else saverLoop A rs events')"

text \<open>
  The goroutine: \<open>None\<close> is a crash of the process. The error of the watch is dropped, and
  stopping the nil watch panics. It changes the storage when it finishes.
\<close>

definition EventSaver ::
  "ext \<Rightarrow> 'd component_client \<Rightarrow> 'a argo \<Rightarrow> ctx \<Rightarrow> string \<times> component_reference \<Rightarrow> 'a \<Rightarrow> 'd \<Rightarrow> 'd loop_result" where
  "EventSaver E client A todo job a d =
     (case job of (workspace, jobid) \<Rightarrow>
        (case WfWatch A workspace (GetFieldnameSelector A (UUIDString E jobid)) a of
           Inl err \<Rightarrow> LoopPanic
         | Inr rs \<Rightarrow>
             (case saverLoop A rs [] of
                LoopPanic \<Rightarrow> LoopPanic
              | LoopWaiting events \<Rightarrow> LoopWaiting d
              | LoopDone events \<Rightarrow>
                  (if events = [] then LoopDone d
                   else (case cc_AddJobEvents client todo jobid events d of (res, d') \<Rightarrow>
                           (case res of
                              Inl e \<Rightarrow> if is_panic e then LoopPanic else LoopDone d'
                            | Inr _ \<Rightarrow> LoopDone d'))))))"

definition WriteEventToSSEStream :: "'a argo \<Rightarrow> rw \<Rightarrow> argo_wf \<Rightarrow> unit res \<times> rw" where
  "WriteEventToSSEStream A w evtObject =
     (case WfJson A evtObject of
        Inl err \<Rightarrow> (Inl (Wrap ''cannot marshal event object'' err), w)
      | Inr json \<Rightarrow>
          (let record = ''data: '' @ json @ [char_of (10 :: nat), char_of (10 :: nat)]
           in case StreamWrite A record of
                Some err \<Rightarrow> (Inl (Wrap ''cannot write sse record'' err), w)
              | None \<Rightarrow> (Inr (), WriteBody (BodyBytes record) w)))"

fun eventLoop :: "'a argo \<Rightarrow> watch_recv list \<Rightarrow> rw \<Rightarrow> unit res loop_result \<times> rw" where
  "eventLoop A [] w = (LoopWaiting (Inr ()), w)"
| "eventLoop A (CtxDone # rs) w = (LoopDone (Inr ()), w)"
| "eventLoop A (ChanClosed # rs) w = (LoopDone (Inl (Errorf ''monitoring job channel closed'' [])), w)"
| "eventLoop A (EvOther e # rs) w = (LoopDone (Inl e), w)"
| "eventLoop A (EvWorkflow aw # rs) w =
     (case WriteEventToSSEStream A w aw of
        (Inl err, w') \<Rightarrow> (LoopDone (Inl (Wrap ''cannot write workflow to SSE stream'' err)), w')
      | (Inr _, w') \<Rightarrow> if PhaseCompleted A (aw_phase aw) then (LoopDone (Inr ()), w') else eventLoop A rs w')"

text \<open>Flushing first sends the header with status 200.\<close>

definition StartEventLoop :: "'a argo \<Rightarrow> watch_recv list \<Rightarrow> rw \<Rightarrow> unit res loop_result \<times> rw" where
  "StartEventLoop A watch w = eventLoop A watch (WriteHeader 200 w)"

definition CreateWorkflowWatch :: "'a argo \<Rightarrow> string \<Rightarrow> string \<Rightarrow> 'a \<Rightarrow> watch_recv list res" where
  "CreateWorkflowWatch A jobid workspace a =
     wrapres ''error monitoring job progression'' (WfWatch A workspace (GetFieldnameSelector A jobid) a)"

definition JobsEventstreamHandler :: "'a argo \<Rightarrow> ('d, 'a) jobs_state handler" where
  "JobsEventstreamHandler A w r s =
     (let jobid = zget (rq_vars r) ''id'' in
      on_result (WfList A '''' (GetFieldnameSelector A jobid) (js_argo s)) (w, s)
        (\<lambda>err. (respond_error w 503 ''error finding job'' (ErrorText err), s))
        (\<lambda>items.
           case items of
             [] \<Rightarrow> (respond_error w 404 ''no such job'' (Text ''''), s)
           | [aw] \<Rightarrow>
               on_result (CreateWorkflowWatch A jobid (aw_namespace aw) (js_argo s)) (w, s)
                 (\<lambda>err. (respond_error w 503 ''error getting a running job watch'' (ErrorText err), s))
                 (\<lambda>watch.
                    case StartEventLoop A watch
                           (SetHeader ''Connection'' ''keep-alive''
                             (SetHeader ''Cache-Control'' ''no-cache, no-store''
                               (SetHeader ''Content-Type'' ''text/event-stream'' w))) of
                      (LoopDone res, w') \<Rightarrow>
                        on_result res (w', s)
                          (\<lambda>err. (respond_error
                                    (DelHeader ''Connection'' (SetHeader ''Content-Type'' ''application/json'' w'))
                                    503 ''error monitoring job events'' (ErrorText err), s))
                          (\<lambda>_. (w', s))
                    | (LoopWaiting _, w') \<Rightarrow> (hang w', s)
                    | (LoopPanic, w') \<Rightarrow> (abort w', s))
           | _ \<Rightarrow> (respond_error w 500 ''more than one job found'' (Text ''''), s)))"

section \<open>Status, termination and deletion\<close>

definition in_workspace ::
  "ext \<Rightarrow> rest_ext \<Rightarrow> 'a argo \<Rightarrow> rw \<Rightarrow> request \<Rightarrow> ('d, 'a) jobs_state
     \<Rightarrow> (component_reference \<Rightarrow> string \<Rightarrow> rw \<times> ('d, 'a) jobs_state) \<Rightarrow> rw \<times> ('d, 'a) jobs_state" where
  "in_workspace E R A w r s act =
     on_result (getIdFromMuxerPath R r) (w, s) (\<lambda>err. (bad_request w err, s))
       (\<lambda>id.
          on_result (getWorkspaceByJobUID E A id (js_argo s)) (w, s)
            (\<lambda>err. (WriteErrorResponse w
                      \<lparr>ae_code = 404, ae_summary = ErrorText err,
                       ae_detail = TextArgs ''workspace for job %s not found'' [UUIDString E id]\<rparr>, s))
            (\<lambda>workspace. act id workspace))"

definition job_not_found :: "ext \<Rightarrow> rw \<Rightarrow> component_reference \<Rightarrow> rw" where
  "job_not_found E w jid =
     WriteErrorResponse w \<lparr>ae_code = 404, ae_summary = TextArgs ''job not found: %s'' [UUIDString E jid],
                           ae_detail = Text ''''\<rparr>"

definition JobStatusHandler :: "ext \<Rightarrow> rest_ext \<Rightarrow> 'a argo \<Rightarrow> ('d, 'a) jobs_state handler" where
  "JobStatusHandler E R A w r s =
     in_workspace E R A w r s
       (\<lambda>id workspace.
          on_result (WfGet A workspace (UUIDString E id) (js_argo s)) (w, s)
            (\<lambda>err. (job_not_found E w id, s))
            (\<lambda>job. (WriteResponse R w 200 [] (BodyStatus id (aw_phase job)) ''statusJob'', s)))"

definition TerminateJob :: "ext \<Rightarrow> 'a argo \<Rightarrow> component_reference \<Rightarrow> string \<Rightarrow> 'a \<Rightarrow> unit res \<times> 'a" where
  "TerminateJob E A uid workspace a =
     (case WfGet A workspace (UUIDString E uid) a of
        Inl err \<Rightarrow> (Inl (Wrap ''cannot stop job %s'' err), a)
      | Inr aw \<Rightarrow>
          if aw_finishedAt aw \<noteq> None then (Inl (Errorf ''job %s already stopped'' [UUIDString E uid]), a)
          else WfTerminate A workspace (UUIDString E uid) a)"

definition JobTerminateHandler :: "ext \<Rightarrow> rest_ext \<Rightarrow> 'a argo \<Rightarrow> ('d, 'a) jobs_state handler" where
  "JobTerminateHandler E R A w r s =
     in_workspace E R A w r s
       (\<lambda>id workspace.
          case TerminateJob E A id workspace (js_argo s) of (res, a') \<Rightarrow>
            (let s' = s\<lparr>js_argo := a'\<rparr>
             in on_result res (w, s')
                  (\<lambda>err. (WriteErrorResponse w \<lparr>ae_code = 500, ae_summary = ErrorText err,
                                                ae_detail = Text ''job termination failed''\<rparr>, s'))
                  (\<lambda>_. (WriteResponse R w 202 [] (BodyUid id) ''terminateJob'', s'))))"

text \<open>A rehearsal in Argo, then the document, then the workflow.\<close>

definition DeleteJob ::
  "ext \<Rightarrow> 'd component_client \<Rightarrow> 'a argo \<Rightarrow> ctx \<Rightarrow> component_reference \<Rightarrow> string \<Rightarrow> ('d, 'a) jobs_state
     \<Rightarrow> component_reference res \<times> ('d, 'a) jobs_state" where
  "DeleteJob E client A cx uid workspace s =
     (let failed = (\<lambda>err. Inl (Wrap ''cannot delete job %s from workspace %s'' err)) in
      case WfDelete A True workspace (UUIDString E uid) (js_argo s) of
        (Inl err, a1) \<Rightarrow> (failed err, s\<lparr>js_argo := a1\<rparr>)
      | (Inr _, a1) \<Rightarrow>
          (case cc_DeleteDocument client cx JobKind \<lparr>crv_version = 0, crv_uid = uid\<rparr> (js_db s) of
             (Inl err, d1) \<Rightarrow> (failed err, s\<lparr>js_argo := a1, js_db := d1\<rparr>)
           | (Inr result, d1) \<Rightarrow>
               (case WfDelete A False workspace (UUIDString E uid) a1 of
                  (Inl err, a2) \<Rightarrow> (failed err, s\<lparr>js_argo := a2, js_db := d1\<rparr>)
                | (Inr _, a2) \<Rightarrow> (Inr (crv_uid result), s\<lparr>js_argo := a2, js_db := d1\<rparr>))))"

definition JobDeleteHandler ::
  "ext \<Rightarrow> rest_ext \<Rightarrow> 'd component_client \<Rightarrow> 'a argo \<Rightarrow> ('d, 'a) jobs_state handler" where
  "JobDeleteHandler E R client A w r s =
     in_workspace E R A w r s
       (\<lambda>id workspace.
          on_result (WfGet A workspace (UUIDString E id) (js_argo s)) (w, s)
            (\<lambda>err. (job_not_found E w id, s))
            (\<lambda>job.
               if aw_finishedAt job = None
               then (respond_error w 423 ''job in progress''
                       (TextArgs ''cannot delete unfinished job %s from workspace %s'' [UUIDString E id, workspace]), s)
               else
                 (case DeleteJob E client A (rq_ctx r) id workspace s of (res, s') \<Rightarrow>
                    on_result res (w, s')
                      (\<lambda>err. (WriteErrorResponse w \<lparr>ae_code = 500, ae_summary = ErrorText err,
                                                    ae_detail = Text ''''\<rparr>, s'))
                      (\<lambda>result. (WriteResponse R w 200 [] (BodyUid result) ''deleteJob'', s')))))"

end
