(* ===== verification/Secrets.thy ===== *)
theory Secrets
  imports Argo_Types
begin

text \<open>
  \<^verbatim>\<open>pkg/secret/secret.go\<close>: the keys of the one secret object a workspace has in the cluster.
  The cluster is a parameter, a record of the calls on its state, and so is the backoff helper of
  the Kubernetes libraries.
\<close>

section \<open>The cluster\<close>

record secret_obj =
  sec_name :: string
  sec_type :: string
  sec_data :: "string gomap option"

text \<open>The role of a workspace and its binding to the service account.\<close>

record policy_rule =
  pr_verbs :: "string list"
  pr_apiGroups :: "string list"
  pr_resources :: "string list"
  pr_resourceNames :: "string list"

record rbac_role =
  rr_name :: string
  rr_rules :: "policy_rule list"

record rbac_binding =
  rb_name :: string
  rb_subjects :: "(string \<times> string \<times> string) list"
  rb_roleRef :: "string \<times> string \<times> string"

text \<open>
  \<open>SecReason\<close> is the reason of an error that is a \<^verbatim>\<open>StatusError\<close>, \<open>None\<close> for any other
  error; \<open>SecIsNotFound\<close> is the library's test on any error.
\<close>

record 'k secret_kube =
  SecGet :: "string \<Rightarrow> string \<Rightarrow> 'k \<Rightarrow> secret_obj res"
  SecCreate :: "string \<Rightarrow> secret_obj \<Rightarrow> 'k \<Rightarrow> unit res \<times> 'k"
  SecUpdate :: "string \<Rightarrow> secret_obj \<Rightarrow> 'k \<Rightarrow> unit res \<times> 'k"
  SecPatch :: "string \<Rightarrow> string \<Rightarrow> string \<Rightarrow> 'k \<Rightarrow> unit res \<times> 'k"
  RoleCreate :: "string \<Rightarrow> rbac_role \<Rightarrow> 'k \<Rightarrow> unit res \<times> 'k"
  RoleBindingCreate :: "string \<Rightarrow> rbac_binding \<Rightarrow> 'k \<Rightarrow> unit res \<times> 'k"
  ServiceAccountCreate :: "string \<Rightarrow> string \<Rightarrow> 'k \<Rightarrow> unit res \<times> 'k"
  SecReason :: "goerr \<Rightarrow> string option"
  SecIsNotFound :: "goerr \<Rightarrow> bool"
  ExponentialBackoff :: "nat \<Rightarrow> ('k \<Rightarrow> bool res \<times> 'k) \<Rightarrow> 'k \<Rightarrow> unit res \<times> 'k"

definition DefaultObjectName :: string where "DefaultObjectName = ''flowify-default''"

definition backoffSteps :: nat where "backoffSteps = 5"

section \<open>The client\<close>

definition k8sSecretExists :: "'k secret_kube \<Rightarrow> string \<Rightarrow> 'k \<Rightarrow> bool res" where
  "k8sSecretExists K workspace k =
     (case SecGet K workspace DefaultObjectName k of
        Inr _ \<Rightarrow> Inr True
      | Inl err \<Rightarrow>
          (case SecReason K err of
             None \<Rightarrow> Inl (GoPanic ''interface conversion: error is not StatusError'')
           | Some reason \<Rightarrow>
               if reason = ''NotFound'' then Inr False else Inl (Wrap ''cannot get secret'' err)))"

definition ListAvailableKeys :: "ext \<Rightarrow> 'k secret_kube \<Rightarrow> string \<Rightarrow> 'k \<Rightarrow> string list res" where
  "ListAvailableKeys E K workspace k =
     (case SecGet K workspace DefaultObjectName k of
        Inl err \<Rightarrow> if SecIsNotFound K err then Inr [] else Inl (Wrap ''cannot get secret list'' err)
      | Inr secret \<Rightarrow>
          Inr (RangeKeys E ''secret.Data'' (case sec_data secret of None \<Rightarrow> [] | Some m \<Rightarrow> map fst m)))"

text \<open>The name is put into the patch document as it is.\<close>

definition removePatch :: "string \<Rightarrow> string" where
  "removePatch name =
     ''['' @ [char_of (10 :: nat)] @ ''        { \"op\": \"remove\", \"path\": \"/data/'' @ name @ ''\" }''
       @ [char_of (10 :: nat)] @ ''    ]''"

definition DeleteSecretKey :: "'k secret_kube \<Rightarrow> string \<Rightarrow> string \<Rightarrow> 'k \<Rightarrow> unit res \<times> 'k" where
  "DeleteSecretKey K workspace name k = SecPatch K workspace DefaultObjectName (removePatch name) k"

definition addFieldCondition :: "'k secret_kube \<Rightarrow> string \<Rightarrow> string \<Rightarrow> string \<Rightarrow> 'k \<Rightarrow> bool res \<times> 'k" where
  "addFieldCondition K workspace key value k =
     (case SecGet K workspace DefaultObjectName k of
        Inl err \<Rightarrow> (Inl (Wrap ''cannot fetch secrets from %s'' err), k)
      | Inr secret \<Rightarrow>
          (case SecUpdate K workspace
                  (secret\<lparr>sec_data := Some (AList.update key value
                     (case sec_data secret of None \<Rightarrow> [] | Some m \<Rightarrow> m))\<rparr>) k of
             (Inl err, k') \<Rightarrow> (Inl (Wrap ''failed to update secret %s with key %s'' err), k')
           | (Inr _, k') \<Rightarrow> (Inr True, k')))"

definition addFieldToSecret :: "'k secret_kube \<Rightarrow> string \<Rightarrow> string \<Rightarrow> string \<Rightarrow> 'k \<Rightarrow> unit res \<times> 'k" where
  "addFieldToSecret K workspace key value k =
     ExponentialBackoff K backoffSteps (addFieldCondition K workspace key value) k"

definition new_secret :: secret_obj where
  "new_secret = \<lparr>sec_name = DefaultObjectName, sec_type = ''Opaque'', sec_data = None\<rparr>"

definition new_role :: rbac_role where
  "new_role =
     \<lparr>rr_name = DefaultObjectName,
      rr_rules =
        [\<lparr>pr_verbs = [''get''], pr_apiGroups = [''''], pr_resources = [''secret''], pr_resourceNames = [DefaultObjectName]\<rparr>,
         \<lparr>pr_verbs = [''create''], pr_apiGroups = [''''], pr_resources = [''pods''], pr_resourceNames = []\<rparr>,
         \<lparr>pr_verbs = [''create''], pr_apiGroups = [''argoproj.io''], pr_resources = [''workflows''],
          pr_resourceNames = []\<rparr>]\<rparr>"

definition new_binding :: "string \<Rightarrow> rbac_binding" where
  "new_binding namespace =
     \<lparr>rb_name = DefaultObjectName, rb_subjects = [(''ServiceAccount'', DefaultObjectName, namespace)],
      rb_roleRef = (''rbac.authorization.k8s.io'', ''Role'', DefaultObjectName)\<rparr>"

definition createNewGroup :: "'k secret_kube \<Rightarrow> string \<Rightarrow> 'k \<Rightarrow> unit res \<times> 'k" where
  "createNewGroup K workspaceName k =
     (case RoleCreate K workspaceName new_role k of
        (Inl err, k1) \<Rightarrow> (Inl (Wrap ''cannot add rbac.authorization.k8s.io/v1/Role'' err), k1)
      | (Inr _, k1) \<Rightarrow>
          (case RoleBindingCreate K workspaceName (new_binding workspaceName) k1 of
             (Inl err, k2) \<Rightarrow> (Inl (Wrap ''cannot add new rbac.authorization.k8s.io/v1/Rolebinding'' err), k2)
           | (Inr _, k2) \<Rightarrow>
               (case SecCreate K workspaceName new_secret k2 of
                  (Inl err, k3) \<Rightarrow> (Inl (Wrap ''cannot add new core/v1/Secret'' err), k3)
                | (Inr _, k3) \<Rightarrow>
                    (case ServiceAccountCreate K workspaceName DefaultObjectName k3 of
                       (Inl err, k4) \<Rightarrow> (Inl (Wrap ''cannot add new core/v1/ServiceAccount'' err), k4)
                     | (Inr _, k4) \<Rightarrow> (Inr (), k4)))))"

definition AddSecretKey :: "'k secret_kube \<Rightarrow> string \<Rightarrow> string \<Rightarrow> string \<Rightarrow> 'k \<Rightarrow> unit res \<times> 'k" where
  "AddSecretKey K workspace key value k =
     (case k8sSecretExists K workspace k of
        Inl err \<Rightarrow> (Inl err, k)
      | Inr secret_exists \<Rightarrow>
          if secret_exists then addFieldToSecret K workspace key value k
          else
            (case createNewGroup K workspace k of
               (Inl err, k1) \<Rightarrow> (Inl (Wrap ''cannot create new secret group'' err), k1)
             | (Inr _, k1) \<Rightarrow> addFieldToSecret K workspace key value k1))"

section \<open>Laws of the cluster\<close>

text \<open>
  Over the data \<open>sec\<close> of the secret objects by namespace: reading gives the stored object, creating
  and updating store the given object and nothing else. Of a write that failed it is not known whether
  it was applied: a request that timed out may have been. The other creations do not touch secrets. The backoff helper calls its condition; it stops at once when the
  condition is true or has an error, and returns that error.
\<close>

type_synonym secrets = "string \<Rightarrow> secret_obj option"

definition written :: "'r res \<Rightarrow> 's \<Rightarrow> 's \<Rightarrow> 's \<Rightarrow> bool" where
  "written r old new now \<longleftrightarrow> now = new \<or> isl r \<and> now = old"

definition secret_laws :: "'k secret_kube \<Rightarrow> ('k \<Rightarrow> secrets) \<Rightarrow> bool" where
  "secret_laws K sec \<longleftrightarrow>
     (\<forall>ns k s. SecGet K ns DefaultObjectName k = Inr s \<longrightarrow> sec k ns = Some s)
     \<and> (\<forall>ns k e. SecGet K ns DefaultObjectName k = Inl e \<and> SecReason K e = Some ''NotFound'' \<longrightarrow> sec k ns = None)
     \<and> (\<forall>e. SecIsNotFound K e \<longleftrightarrow> SecReason K e = Some ''NotFound'')
     \<and> (\<forall>ns s k r k'. SecCreate K ns s k = (r, k') \<longrightarrow> written r (sec k) ((sec k)(ns \<mapsto> s)) (sec k'))
     \<and> (\<forall>ns s k r k'. SecUpdate K ns s k = (r, k') \<longrightarrow> written r (sec k) ((sec k)(ns \<mapsto> s)) (sec k'))
     \<and> (\<forall>ns n k r k'. RoleCreate K ns n k = (r, k') \<longrightarrow> sec k' = sec k)
     \<and> (\<forall>ns n k r k'. RoleBindingCreate K ns n k = (r, k') \<longrightarrow> sec k' = sec k)
     \<and> (\<forall>ns n k r k'. ServiceAccountCreate K ns n k = (r, k') \<longrightarrow> sec k' = sec k)
     \<and> (\<forall>n c k k'. 0 < n \<longrightarrow> c k = (Inr True, k') \<longrightarrow> ExponentialBackoff K n c k = (Inr (), k'))
     \<and> (\<forall>n c k k' e. 0 < n \<longrightarrow> c k = (Inl e, k') \<longrightarrow> ExponentialBackoff K n c k = (Inl e, k'))"

definition data_of :: "secrets \<Rightarrow> string \<Rightarrow> string \<rightharpoonup> string" where
  "data_of S ns = (case S ns of Some s \<Rightarrow> (case sec_data s of Some m \<Rightarrow> map_of m | None \<Rightarrow> Map.empty) | None \<Rightarrow> Map.empty)"

section \<open>Adding and listing keys\<close>

definition add_key :: "string \<Rightarrow> string \<Rightarrow> string \<Rightarrow> (string \<Rightarrow> string \<rightharpoonup> string) \<Rightarrow> (string \<Rightarrow> string \<rightharpoonup> string)" where
  "add_key ns key value D = D(ns := (D ns)(key \<mapsto> value))"

lemma addField_spec:
  assumes laws: "secret_laws K sec" and run: "addFieldToSecret K ws key value k = (r, k')"
  shows "written r (data_of (sec k)) (add_key ws key value (data_of (sec k))) (data_of (sec k'))"
proof -
  obtain c k1 where c: "addFieldCondition K ws key value k = (c, k1)" by fastforce
  have get: "\<And>s. SecGet K ws DefaultObjectName k = Inr s \<Longrightarrow> sec k ws = Some s"
    and upd: "\<And>s r k'. SecUpdate K ws s k = (r, k') \<Longrightarrow> written r (sec k) ((sec k)(ws \<mapsto> s)) (sec k')"
    using laws by (simp_all add: secret_laws_def)
  have run': "case c of Inr b \<Rightarrow> b \<and> r = Inr () \<and> k' = k1 | Inl e \<Rightarrow> r = Inl e \<and> k' = k1"
    using run c laws unfolding addFieldToSecret_def secret_laws_def
    by (auto simp: backoffSteps_def addFieldCondition_def split: sum.splits prod.splits)
  show ?thesis
  proof (cases "SecGet K ws DefaultObjectName k")
    case (Inl e)
    then show ?thesis using c run' by (auto simp: addFieldCondition_def written_def)
  next
    case (Inr s)
    let ?s = "s\<lparr>sec_data := Some (AList.update key value (case sec_data s of None \<Rightarrow> [] | Some m \<Rightarrow> m))\<rparr>"
    obtain ru ku where u: "SecUpdate K ws ?s k = (ru, ku)" by fastforce
    have "(data_of (sec k))(ws := (data_of (sec k) ws)(key \<mapsto> value)) = data_of ((sec k)(ws \<mapsto> ?s))"
      using get[OF Inr] by (auto simp: data_of_def fun_eq_iff split: option.splits)
    then show ?thesis
      using c run' Inr u upd[OF u] by (cases ru) (auto simp: addFieldCondition_def add_key_def written_def)
  qed
qed

lemma createNewGroup_spec:
  assumes laws: "secret_laws K sec" and run: "createNewGroup K ws k = (r, k')" and none: "sec k ws = None"
  shows "data_of (sec k') = data_of (sec k)"
proof -
  have same: "data_of ((sec k)(ws \<mapsto> new_secret)) = data_of (sec k)"
    using none by (auto simp: data_of_def new_secret_def fun_eq_iff)
  have role: "\<And>n k r k'. RoleCreate K ws n k = (r, k') \<Longrightarrow> sec k' = sec k"
    and bind: "\<And>n k r k'. RoleBindingCreate K ws n k = (r, k') \<Longrightarrow> sec k' = sec k"
    and acc: "\<And>n k r k'. ServiceAccountCreate K ws n k = (r, k') \<Longrightarrow> sec k' = sec k"
    and cre: "\<And>s k r k'. SecCreate K ws s k = (r, k') \<Longrightarrow> written r (sec k) ((sec k)(ws \<mapsto> s)) (sec k')"
    using laws by (simp_all add: secret_laws_def)
  show ?thesis
    using run same unfolding createNewGroup_def
    by (auto simp: written_def split: prod.splits sum.splits dest!: role bind acc cre)
qed

lemma add_key_effect:
  assumes laws: "secret_laws K sec" and run: "AddSecretKey K ws key value k = (r, k')"
  shows "written r (data_of (sec k)) (add_key ws key value (data_of (sec k))) (data_of (sec k'))"
proof (cases "k8sSecretExists K ws k")
  case (Inl e)
  then show ?thesis using run by (auto simp: AddSecretKey_def written_def)
next
  case (Inr ex)
  show ?thesis
  proof (cases ex)
    case True
    then show ?thesis using Inr run addField_spec[OF laws] by (auto simp: AddSecretKey_def)
  next
    case False
    have none: "sec k ws = None"
      using Inr False laws by (auto simp: k8sSecretExists_def secret_laws_def split: sum.splits option.splits if_splits)
    obtain rg kg where g: "createNewGroup K ws k = (rg, kg)" by fastforce
    have "data_of (sec kg) = data_of (sec k)" by (rule createNewGroup_spec[OF laws g none])
    then show ?thesis
      using Inr False run g addField_spec[OF laws, of ws key "value" kg r k']
      by (cases rg) (auto simp: AddSecretKey_def written_def)
  qed
qed

lemma ListAvailableKeys_set:
  assumes laws: "secret_laws K sec" "range_ok E" and ks: "ListAvailableKeys E K ws k = Inr ks"
  shows "set ks = dom (data_of (sec k) ws)"
proof (cases "SecGet K ws DefaultObjectName k")
  case (Inl e)
  then have "ks = [] \<and> sec k ws = None"
    using laws(1) ks by (auto simp: ListAvailableKeys_def secret_laws_def split: if_splits)
  then show ?thesis by (simp add: data_of_def)
next
  case (Inr s)
  then have "sec k ws = Some s" using laws(1) by (simp add: secret_laws_def)
  moreover have "set ks = fst ` set (case sec_data s of None \<Rightarrow> [] | Some m \<Rightarrow> m)"
  proof -
    have "ks = RangeKeys E ''secret.Data'' (map fst (case sec_data s of None \<Rightarrow> [] | Some m \<Rightarrow> m))"
      using Inr ks by (cases "sec_data s") (auto simp: ListAvailableKeys_def)
    then show ?thesis by (simp add: range_ok_set[OF laws(2)])
  qed
  ultimately show ?thesis
    by (auto simp: data_of_def dom_map_of_conv_image_fst split: option.splits)
qed

text \<open>
  Adding a secret key does exactly that to the keys of all workspaces: on success the workspace
  has the key with the given value and everything else is as before, also when its secret object
  did not exist and was made first; on failure either no key of any workspace has changed or the one
  write was applied all the same. Listing the keys afterwards gives exactly the keys of the workspace.
\<close>

theorem add_secret_key_spec:
  assumes laws: "secret_laws K sec" "range_ok E" and run: "AddSecretKey K ws key value k = (r, k')"
  shows "written r (data_of (sec k)) (add_key ws key value (data_of (sec k))) (data_of (sec k'))
    \<and> (\<forall>ks. ListAvailableKeys E K ws k' = Inr ks \<longrightarrow> set ks = dom (data_of (sec k') ws))"
  using add_key_effect[OF laws(1) run] ListAvailableKeys_set[OF laws] by blast

text \<open>A cluster with one secret object per namespace at most.\<close>

type_synonym mem_secrets = "(string \<times> secret_obj) list"

definition mem_secret_kube :: "mem_secrets secret_kube" where
  "mem_secret_kube =
     \<lparr>SecGet = (\<lambda>ns n k. case map_of k ns of None \<Rightarrow> Inl (ExtErr ''NotFound'') | Some s \<Rightarrow> Inr s),
      SecCreate = (\<lambda>ns s k. if map_of k ns = None then (Inr (), AList.update ns s k)
                             else (Inl (ExtErr ''AlreadyExists''), k)),
      SecUpdate = (\<lambda>ns s k. (Inr (), AList.update ns s k)),
      SecPatch = (\<lambda>ns n p k. (Inl (ExtErr ''Invalid''), k)),
      RoleCreate = (\<lambda>ns n k. (Inr (), k)),
      RoleBindingCreate = (\<lambda>ns n k. (Inr (), k)),
      ServiceAccountCreate = (\<lambda>ns n k. (Inr (), k)),
      SecReason = (\<lambda>e. case e of ExtErr r \<Rightarrow> Some r | _ \<Rightarrow> None),
      SecIsNotFound = (\<lambda>e. e = ExtErr ''NotFound''),
      ExponentialBackoff = (\<lambda>n c k. case c k of (Inl e, k') \<Rightarrow> (Inl e, k')
        | (Inr b, k') \<Rightarrow> (if b then Inr () else Inl (ExtErr ''timed out waiting for the condition''), k'))\<rparr>"

lemma mem_secret_laws: "secret_laws mem_secret_kube map_of"
  by (auto simp: secret_laws_def written_def mem_secret_kube_def split: option.splits goerr.splits if_splits)

lemma add_secret_key_spec_witness:
  "\<exists>k'. AddSecretKey mem_secret_kube ''ns'' ''key'' ''v'' [] = (Inr (), k')
     \<and> data_of (map_of k') = add_key ''ns'' ''key'' ''v'' (data_of (map_of []))"
proof -
  let ?run = "AddSecretKey mem_secret_kube ''ns'' ''key'' ''v'' []"
  have "fst ?run = Inr ()" by code_simp
  then have run: "?run = (Inr (), snd ?run)" by (metis prod.collapse)
  show ?thesis
    using add_secret_key_spec[OF mem_secret_laws ext_example_ok(5) run] run by (auto simp: written_def)
qed

end
