(* ===== verification/Rest_Admin.thy ===== *)
theory Rest_Admin
  imports Rest_Documents Secrets
begin

text \<open>
  \<^verbatim>\<open>rest/secrets.go\<close>, \<^verbatim>\<open>rest/workspaces.go\<close> and \<^verbatim>\<open>rest/userinfo.go\<close>: the
  handlers that act on the cluster. Those of workspaces write a response after every error and go on.
\<close>

section \<open>Secrets\<close>

definition SecretListHandler :: "ext \<Rightarrow> rest_ext \<Rightarrow> 'k secret_kube \<Rightarrow> 'k handler" where
  "SecretListHandler E R K w r k =
     on_result (ListAvailableKeys E K (zget (rq_vars r) ''workspace'') k) (w, k)
       (\<lambda>err. (respond_error w 500 ''error listing secrets'' (ErrorText err), k))
       (\<lambda>keys. (WriteResponse R w 200 [] (BodyKeys keys) ''secrets'', k))"

definition SecretDeleteHandler :: "rest_ext \<Rightarrow> 'k secret_kube \<Rightarrow> 'k handler" where
  "SecretDeleteHandler R K w r k =
     (case DeleteSecretKey K (zget (rq_vars r) ''workspace'') (zget (rq_vars r) ''key'') k of (res, k') \<Rightarrow>
        on_result res (w, k')
          (\<lambda>err. (respond_error w (if SecIsNotFound K err then 404 else 500) ''could not delete secret''
                    (ErrorText err), k'))
          (\<lambda>_. (WriteResponse R w 204 [] BodyNil ''deleteSecret'', k')))"

text \<open>An error of reading the body is dropped: what was read is decoded.\<close>

definition SecretPutHandler :: "ext \<Rightarrow> rest_ext \<Rightarrow> 'k secret_kube \<Rightarrow> 'k handler" where
  "SecretPutHandler E R K w r k =
     (let workspace = zget (rq_vars r) ''workspace''; key = zget (rq_vars r) ''key''; buf = fst (rq_body r) in
      on_result (UnmarshalSecret R buf) (w, k)
        (\<lambda>err. (respond_error w 400 ''could not unmarshal secret'' (ErrorText err), k))
        (\<lambda>(secretKey, secretValue).
           if secretKey \<noteq> key
           then (respond_error w 400 ''secret key URL mismatch'' (TextArgs ''%s vs %s'' [key, secretKey]), k)
           else
             on_result (ListAvailableKeys E K workspace k) (w, k)
               (\<lambda>err. (respond_error w 500 ''could not list secrets'' (ErrorText err), k))
               (\<lambda>keys.
                  case AddSecretKey K workspace secretKey secretValue k of (res, k') \<Rightarrow>
                    on_result res (w, k')
                      (\<lambda>err. (respond_error w 500 ''could not put secret'' (ErrorText err), k'))
                      (\<lambda>_. if secretKey \<notin> set keys
                            then (WriteResponse R (AddHeader ''Location'' (rq_uri r) w) 201
                                    [(''Location'', rq_uri r)] (BodyBytes buf) ''putSecret'', k')
                            else (WriteResponse R w 204 [] BodyNil ''putSecret'', k')))))"

definition SecretsPathAuthorization :: "string \<Rightarrow> authz_client \<Rightarrow> 'd handler \<Rightarrow> 'd handler" where
  "SecretsPathAuthorization action authz next = PathAuthorization SecretsSubject action ''workspace'' authz next"

section \<open>Workspaces\<close>

text \<open>Without a user in the context the role checks call a method of a nil interface.\<close>

definition CreationPathAuthorization :: "'d handler \<Rightarrow> 'd handler" where
  "CreationPathAuthorization next w r d =
     (case cx_user (rq_ctx r) of
        None \<Rightarrow> (abort w, d)
      | Some u \<Rightarrow>
          if \<not> CanCreateWorkspaces u then (AuthorizationDenied w (Errorf ''not authorized'' []), d)
          else next w r d)"

definition workspaceItem :: "user \<Rightarrow> workspace \<Rightarrow> workspace_item" where
  "workspaceItem usr ws =
     \<lparr>wg_name = ws_name ws, wg_description = ws_description ws,
      wg_roles = (if UserHasAccess ws usr then [''ws-collaborator''] else [])
               @ (if UserHasAdminAccess ws usr then [''ws-owner''] else [])
               @ (case UserCanSeeCustomRoles ws usr of (customRoles, ok) \<Rightarrow> if ok then customRoles else [])\<rparr>"

definition WorkspacesListHandler :: "rest_ext \<Rightarrow> 'd handler" where
  "WorkspacesListHandler R w r d =
     (let wss = getWorkspacesFromContext (rq_ctx r) in
      case cx_user (rq_ctx r) of
        None \<Rightarrow> if wss = [] then (WriteResponse R w 200 [] (BodyWorkspaces []) ''workspace'', d) else (abort w, d)
      | Some usr \<Rightarrow> (WriteResponse R w 200 [] (BodyWorkspaces (map (workspaceItem usr) wss)) ''workspace'', d))"

definition WorkspacesInputToCreateData :: "input_data \<Rightarrow> string \<Rightarrow> ws_data" where
  "WorkspacesInputToCreateData input namespace =
     \<lparr>wd_name = in_name input, wd_roles = in_roles input,
      wd_hideForUnauthorized = in_hideForUnauthorized input, wd_labels = [], wd_namespace = namespace\<rparr>"

fun inputLabels :: "string list list \<Rightarrow> string gomap \<Rightarrow> string gomap res" where
  "inputLabels [] l = Inr l"
| "inputLabels ([] # ls) l = Inl (GoPanic ''index out of range'')"
| "inputLabels (lbl # ls) l = inputLabels ls (AList.update (hd lbl) (last lbl) l)"

definition WorkspacesInputToUpdateData :: "input_data \<Rightarrow> string \<Rightarrow> ws_data res" where
  "WorkspacesInputToUpdateData input namespace =
     rbind (inputLabels (in_labels input) []) (\<lambda>l.
     Inr \<lparr>wd_name = in_name input, wd_roles = in_roles input,
          wd_hideForUnauthorized = in_hideForUnauthorized input, wd_labels = l, wd_namespace = namespace\<rparr>)"

text \<open>The answer to an error, which does not end the handler, and the final answer.\<close>

definition workspace_error :: "rest_ext \<Rightarrow> string \<Rightarrow> rw \<Rightarrow> goerr option \<Rightarrow> rw" where
  "workspace_error R what w err =
     (case err of
        None \<Rightarrow> w
      | Some e \<Rightarrow> WriteResponse R w 500 [] (BodyMessage (ErrorText (Wrap what e))) ''workspace'')"

definition workspace_answer :: "rest_ext \<Rightarrow> int \<Rightarrow> string \<Rightarrow> rw \<Rightarrow> string res \<times> 'k \<Rightarrow> rw \<times> 'k" where
  "workspace_answer R status what w outcome =
     (case outcome of (res, k) \<Rightarrow>
        let finish = (\<lambda>w msg. (WriteResponse R w status [] (BodyMessage (TextArgs ''Success: %s'' [msg])) ''workspace'', k))
        in on_result res (w, k) (\<lambda>err. finish (workspace_error R what w (Some err)) '''') (finish w))"

definition WorkspacesCreateHandler :: "rest_ext \<Rightarrow> 'k kube \<Rightarrow> string \<Rightarrow> 'k handler" where
  "WorkspacesCreateHandler R K namespace w r k =
     (case DecodeInput R (rq_body r) of (creationData, err) \<Rightarrow>
        workspace_answer R 201 ''error creating workspace: %v'' (workspace_error R ''error decoding the input data: %v'' w err)
          (ws_Create K (WorkspacesInputToCreateData creationData namespace) k))"

definition WorkspacesUpdateHandler :: "rest_ext \<Rightarrow> 'k kube \<Rightarrow> string \<Rightarrow> 'k handler" where
  "WorkspacesUpdateHandler R K namespace w r k =
     (case DecodeInput R (rq_body r) of (updateData, err) \<Rightarrow>
        let w1 = workspace_error R ''error decoding the input data: %v'' w err
        in on_result (WorkspacesInputToUpdateData updateData namespace) (w1, k) (\<lambda>e. (w1, k))
             (\<lambda>wsUpdate. workspace_answer R 200 ''error updating workspace: %v'' w1 (ws_Update K wsUpdate k)))"

definition WorkspacesDeleteHandler :: "rest_ext \<Rightarrow> 'k kube \<Rightarrow> string \<Rightarrow> 'k handler" where
  "WorkspacesDeleteHandler R K namespace w r k =
     (case DecodeInput R (rq_body r) of (deleteData, err) \<Rightarrow>
        workspace_answer R 200 ''error deleteing: %v'' (workspace_error R ''error decoding the input data: %v'' w err)
          (ws_Delete K namespace (in_name deleteData) k))"

section \<open>The user\<close>

definition userinfoHandler :: "rest_ext \<Rightarrow> 'd handler" where
  "userinfoHandler R w r d = (WriteResponse R w 200 [] (BodyUser (cx_user (rq_ctx r))) ''userinfo'', d)"

end
