(* ===== verification/Rest_Server.thy ===== *)
theory Rest_Server
  imports Rest_Jobs Rest_Admin
begin

text \<open>
  The server as a whole: the routes that \<^verbatim>\<open>rest/rest.go\<close> and its siblings register, with the
  middleware of their subrouters, and the router of \<^verbatim>\<open>apiserver/apiserver.go\<close>. The router
  library is a parameter: \<open>dispatch\<close> is the route a request matches, if any, with its path
  variables.
\<close>

section \<open>State and clients\<close>

record ('d, 'a, 'k) server_state =
  ss_jobs :: "('d, 'a) jobs_state"
  ss_kube :: 'k

record ('d, 'a, 'k) flowifyServer =
  fs_nodeStorage :: "'d component_client"
  fs_volumeStorage :: "'d volume_client"
  fs_wfClient :: "'a argo"
  fs_k8Client :: "'k kube"
  fs_secrets :: "'k secret_kube"
  fs_namespace :: string
  fs_workspace :: workspaceImpl
  fs_auth :: "request \<Rightarrow> user res"
  fs_ext :: ext
  fs_rest :: rest_ext
  fs_depth :: nat

definition fs_authz :: "('d, 'a, 'k) flowifyServer \<Rightarrow> authz_client" where
  "fs_authz fs = role_authorizer (fs_workspace fs)"

type_synonym ('d, 'a, 'k) server_handler = "('d, 'a, 'k) server_state handler"

definition on_jobs :: "('d, 'a) jobs_state handler \<Rightarrow> ('d, 'a, 'k) server_handler" where
  "on_jobs h w r s = (case h w r (ss_jobs s) of (w', j) \<Rightarrow> (w', s\<lparr>ss_jobs := j\<rparr>))"

definition on_db :: "'d handler \<Rightarrow> ('d, 'a, 'k) server_handler" where
  "on_db h = on_jobs (\<lambda>w r j. case h w r (js_db j) of (w', d) \<Rightarrow> (w', j\<lparr>js_db := d\<rparr>))"

definition on_kube :: "'k handler \<Rightarrow> ('d, 'a, 'k) server_handler" where
  "on_kube h w r s = (case h w r (ss_kube s) of (w', k) \<Rightarrow> (w', s\<lparr>ss_kube := k\<rparr>))"

section \<open>Routes\<close>

type_synonym ('d, 'a, 'k) route = "string \<times> string \<times> ('d, 'a, 'k) server_handler"

definition ComponentRoutes :: "('d, 'a, 'k) flowifyServer \<Rightarrow> ('d, 'a, 'k) route list" where
  "ComponentRoutes fs =
     (let E = fs_ext fs; R = fs_rest fs; client = fs_nodeStorage fs;
          route = (\<lambda>m p h. (m, p, json_stack (on_db h)))
      in [route ''GET'' ''/components/'' (ComponentListHandler R client),
          route ''POST'' ''/components/'' (ComponentCreateHandler E R client),
          route ''GET'' ''/components/{id}'' (ComponentGetHandler R client),
          route ''GET'' ''/components/{id}/{version}'' (ComponentGetHandler R client),
          route ''PUT'' ''/components/{id}'' (ComponentPutHandler R client),
          route ''PATCH'' ''/components/{id}'' (ComponentPatchHandler R client),
          route ''GET'' ''/components/{id}/versions/'' (ComponentVersionListHandler R client),
          route ''DELETE'' ''/components/{id}/{version}'' (ComponentDeleteHandler E R client)])"

definition WorkspaceRoutes :: "('d, 'a, 'k) flowifyServer \<Rightarrow> ('d, 'a, 'k) route list" where
  "WorkspaceRoutes fs =
     (let R = fs_rest fs; K = fs_k8Client fs; ns = fs_namespace fs;
          route = (\<lambda>m h. (m, ''/workspaces/'', json_stack (on_kube h)))
      in [route ''GET'' (WorkspacesListHandler R),
          route ''POST'' (CreationPathAuthorization (WorkspacesCreateHandler R K ns)),
          route ''PUT'' (WorkspacesUpdateHandler R K ns),
          route ''DELETE'' (WorkspacesDeleteHandler R K ns)])"

definition WorkflowRoutes :: "('d, 'a, 'k) flowifyServer \<Rightarrow> ('d, 'a, 'k) route list" where
  "WorkflowRoutes fs =
     (let E = fs_ext fs; R = fs_rest fs; client = fs_nodeStorage fs;
          route = (\<lambda>m p h. (m, p, json_stack (on_db h)))
      in [route ''POST'' ''/workflows/'' (WorkflowPostHandler E R client),
          route ''GET'' ''/workflows/'' (WorkflowListHandler R client),
          route ''GET'' ''/workflows/{id}'' (WorkflowGetHandler R client),
          route ''GET'' ''/workflows/{id}/{version}'' (WorkflowGetHandler R client),
          route ''PUT'' ''/workflows/{id}'' (WorkflowPutHandler R client),
          route ''PATCH'' ''/workflows/{id}'' (WorkflowPatchHandler R client),
          route ''GET'' ''/workflows/{id}/versions/'' (WorkflowVersionListHandler R client),
          route ''DELETE'' ''/workflows/{id}/{version}'' (WorkflowDeleteHandler E R client)])"

text \<open>The content type is set before the check of the accepted type here.\<close>

definition job_stack :: "string \<Rightarrow> 'd handler \<Rightarrow> 'd handler" where
  "job_stack accept h =
     CheckContentHeaderMiddleware ''application/json''
       (SetContentTypeMiddleware ''application/json''
         (CheckAcceptRequestHeaderMiddleware accept h))"

definition JobRoutes :: "('d, 'a, 'k) flowifyServer \<Rightarrow> ('d, 'a, 'k) route list" where
  "JobRoutes fs =
     (let E = fs_ext fs; R = fs_rest fs; client = fs_nodeStorage fs; A = fs_wfClient fs;
          route = (\<lambda>m p h. (m, p, job_stack ''application/json'' h))
      in [route ''POST'' ''/jobs/'' (on_jobs (JobsSubmitHandler E R (fs_depth fs) client A)),
          route ''GET'' ''/jobs/'' (on_db (JobsListHandler R client)),
          route ''GET'' ''/jobs/{id}'' (on_db (JobGetHandler R client)),
          route ''DELETE'' ''/jobs/{id}'' (on_jobs (JobDeleteHandler E R client A)),
          route ''POST'' ''/jobs/{id}/terminate'' (on_jobs (JobTerminateHandler E R A)),
          route ''GET'' ''/jobs/{id}/status'' (on_jobs (JobStatusHandler E R A)),
          (''GET'', ''/jobs/{id}/events/'', job_stack ''text/event-stream'' (on_jobs (JobsEventstreamHandler A)))])"

definition SecretRoutes :: "('d, 'a, 'k) flowifyServer \<Rightarrow> ('d, 'a, 'k) route list" where
  "SecretRoutes fs =
     (let E = fs_ext fs; R = fs_rest fs; K = fs_secrets fs; authz = fs_authz fs;
          route = (\<lambda>m p action h. (m, p, json_stack (SecretsPathAuthorization action authz (on_kube h))))
      in [route ''GET'' ''/secrets/{workspace}/'' ListAction (SecretListHandler E R K),
          route ''PUT'' ''/secrets/{workspace}/{key}'' WriteAction (SecretPutHandler E R K),
          route ''DELETE'' ''/secrets/{workspace}/{key}'' DeleteAction (SecretDeleteHandler R K)])"

definition VolumeRoutes :: "('d, 'a, 'k) flowifyServer \<Rightarrow> ('d, 'a, 'k) route list" where
  "VolumeRoutes fs =
     (let E = fs_ext fs; R = fs_rest fs; client = fs_volumeStorage fs; authz = fs_authz fs;
          route = (\<lambda>m p action h. (m, p, json_stack (VolumesPathAuthorization action authz (on_db h))))
      in [route ''GET'' ''/volumes/{workspace}/'' ListAction (VolumesListHandler R client),
          route ''POST'' ''/volumes/{workspace}/'' WriteAction (VolumePostHandler E R client),
          route ''GET'' ''/volumes/{workspace}/{id}'' ReadAction (VolumeGetHandler R client),
          route ''PUT'' ''/volumes/{workspace}/{id}'' WriteAction (VolumePutHandler R client),
          route ''DELETE'' ''/volumes/{workspace}/{id}'' DeleteAction (VolumeDeleteHandler R client)])"

definition UserInfoRoutes :: "('d, 'a, 'k) flowifyServer \<Rightarrow> ('d, 'a, 'k) route list" where
  "UserInfoRoutes fs = [(''GET'', ''/userinfo/'', json_stack (userinfoHandler (fs_rest fs)))]"

text \<open>All routes below the authentication, without the static files of the specification.\<close>

definition RegisterRoutes :: "('d, 'a, 'k) flowifyServer \<Rightarrow> ('d, 'a, 'k) route list" where
  "RegisterRoutes fs =
     map (\<lambda>(m, p, h). (m, p, authenticated (fs_auth fs) (fs_workspace fs) h))
       (UserInfoRoutes fs @ ComponentRoutes fs @ WorkspaceRoutes fs @ WorkflowRoutes fs @ JobRoutes fs
        @ SecretRoutes fs @ VolumeRoutes fs)"

section \<open>The server\<close>

definition CommitSHA :: string where "CommitSHA = ''unknown''"
definition BuildTime :: string where "BuildTime = ''unknown''"
definition ApiV1Path :: string where "ApiV1Path = ''/api/v1''"

definition SetCustomHeaders :: "'d handler \<Rightarrow> 'd handler" where
  "SetCustomHeaders next w r d =
     next (SetHeader ''X-Flowify-Buildtime'' BuildTime (SetHeader ''X-Flowify-Version'' CommitSHA w)) r d"

definition probe :: "string \<Rightarrow> 'd handler" where
  "probe text w r d = (WriteBody (BodyBytes text) w, d)"

definition registerApplicationRoutes :: "('d, 'a, 'k) flowifyServer \<Rightarrow> ('d, 'a, 'k) route list" where
  "registerApplicationRoutes fs =
     map (\<lambda>(m, p, h). (m, ApiV1Path @ p, h)) (RegisterRoutes fs)
     @ [(''GET'', ''/livez'', probe ''alive''), (''GET'', ''/readyz'', probe ''ready''),
        (''GET'', ''/versionz'', probe CommitSHA)]"

type_synonym dispatcher = "(string \<times> string) list \<Rightarrow> request \<Rightarrow> (nat \<times> string gomap) option"

text \<open>
  A route is found by its method and its path; a request that matches none is answered by the router
  library, before any middleware.
\<close>

definition dispatch_ok :: "dispatcher \<Rightarrow> bool" where
  "dispatch_ok dispatch \<longleftrightarrow>
     (\<forall>routes r i vars. dispatch routes r = Some (i, vars) \<longrightarrow> i < length routes \<and> fst (routes ! i) = rq_method r)"

definition serve ::
  "dispatcher \<Rightarrow> (rw \<Rightarrow> rw) \<Rightarrow> ('d, 'a, 'k) flowifyServer \<Rightarrow> request \<Rightarrow> ('d, 'a, 'k) server_state
     \<Rightarrow> rw \<times> ('d, 'a, 'k) server_state" where
  "serve dispatch notFound fs r s =
     (let routes = registerApplicationRoutes fs
      in case dispatch (map (\<lambda>(m, p, h). (m, p)) routes) r of
           None \<Rightarrow> (notFound new_rw, s)
         | Some (i, vars) \<Rightarrow>
             (case routes ! i of (m, p, h) \<Rightarrow> SetCustomHeaders h new_rw (r\<lparr>rq_vars := vars\<rparr>) s))"

end
