(* ===== verification/Pipeline.thy ===== *)
theory Pipeline
  imports Bson
begin

text \<open>
  The documented meaning of the aggregation stages the storage code uses, as a relation between the
  documents that enter a pipeline and those that leave it. The relation is what the hypotheses on
  the database say of an aggregation; \<open>exec\<close> is an interpreter that stays within it, so that the
  hypotheses have an instance.
\<close>

section \<open>Documents in and out of a stage\<close>

text \<open>An inclusion projection keeps the named fields, and \<^verbatim>\<open>_id\<close> unless it is set to 0.\<close>

definition keeps :: "bsonD \<Rightarrow> string \<Rightarrow> bool" where
  "keeps ps k = (case map_of ps k of Some v \<Rightarrow> v = BInt 1 | None \<Rightarrow> k = ''_id'')"

definition project :: "bsonD \<Rightarrow> bsonD \<Rightarrow> bsonD" where
  "project ps s = (if ps = [] then s else filter (\<lambda>(k, v). keeps ps k) s)"

text \<open>A string that starts with a dollar sign is the path of a field; a missing field adds nothing.\<close>

definition add_field :: "bsonD \<Rightarrow> string \<times> bson \<Rightarrow> bsonD" where
  "add_field s kv =
     (case kv of
        (k, BStr (c # p)) \<Rightarrow>
          if c = CHR ''$'' then (case field s p of Some v \<Rightarrow> AList.update k v s | None \<Rightarrow> s)
          else AList.update k (BStr (c # p)) s
      | (k, v) \<Rightarrow> AList.update k v s)"

definition add_fields :: "bsonD \<Rightarrow> bsonD \<Rightarrow> bsonD" where
  "add_fields kvs s = foldl add_field s kvs"

text \<open>
  One document is strictly before another in the order of a sort specification if the first key on
  which they differ puts it there; only values of one scalar type are compared.
\<close>

fun before :: "bsonD \<Rightarrow> bsonD \<Rightarrow> bsonD \<Rightarrow> bool" where
  "before [] a b = False"
| "before ((k, dir) # ks) a b =
     (case (field a k, field b k) of
        (Some x, Some y) \<Rightarrow>
          (if dir = BInt (- 1) then bson_less y x else bson_less x y) \<or> x = y \<and> before ks a b
      | _ \<Rightarrow> False)"

section \<open>Pipelines\<close>

definition described_stages :: "string set" where
  "described_stages =
     {''$match'', ''$project'', ''$sort'', ''$skip'', ''$limit'', ''$count'', ''$addFields'', ''$facet''}"

inductive stage :: "(string \<Rightarrow> string \<Rightarrow> bool) \<Rightarrow> bsonD \<Rightarrow> bsonD list \<Rightarrow> bsonD list \<Rightarrow> bool"
  and runs :: "(string \<Rightarrow> string \<Rightarrow> bool) \<Rightarrow> bsonD list \<Rightarrow> bsonD list \<Rightarrow> bsonD list \<Rightarrow> bool"
  and facets :: "(string \<Rightarrow> string \<Rightarrow> bool) \<Rightarrow> bsonD \<Rightarrow> bsonD list \<Rightarrow> bsonD \<Rightarrow> bool"
  for rx where
  stage_match: "accepted f \<Longrightarrow> stage rx [(''$match'', BDoc f)] xs (filter (\<lambda>s. matches rx s f) xs)"
| stage_project: "stage rx [(''$project'', BDoc ps)] xs (map (project ps) xs)"
| stage_sort: "mset ys = mset xs \<Longrightarrow> sorted_wrt (\<lambda>a b. \<not> before ks b a) ys \<Longrightarrow>
    stage rx [(''$sort'', BDoc ks)] xs ys"
| stage_skip: "0 \<le> n \<Longrightarrow> stage rx [(''$skip'', BInt n)] xs (drop (nat n) xs)"
| stage_limit: "0 < n \<Longrightarrow> stage rx [(''$limit'', BInt n)] xs (take (nat n) xs)"
| stage_count_none: "stage rx [(''$count'', BStr k)] [] []"
| stage_count: "xs \<noteq> [] \<Longrightarrow> stage rx [(''$count'', BStr k)] xs [[(k, BInt (int (length xs)))]]"
| stage_addFields: "stage rx [(''$addFields'', BDoc kvs)] xs (map (add_fields kvs) xs)"
| stage_facet: "facets rx fs xs r \<Longrightarrow> stage rx [(''$facet'', BDoc fs)] xs [r]"
| stage_other: "op \<notin> described_stages \<Longrightarrow> stage rx [(op, v)] xs ys"
| runs_Nil: "runs rx [] xs xs"
| runs_Cons: "stage rx st xs zs \<Longrightarrow> runs rx sts zs ys \<Longrightarrow> runs rx (st # sts) xs ys"
| facets_Nil: "facets rx [] xs []"
| facets_Cons: "runs rx sts xs ys \<Longrightarrow> facets rx fs xs r \<Longrightarrow>
    facets rx ((k, BArr (map BDoc sts)) # fs) xs ((k, BArr (map BDoc ys)) # r)"

inductive_simps runs_Nil_iff: "runs rx [] xs ys"
inductive_simps runs_Cons_iff: "runs rx (st # sts) xs ys"
inductive_simps facets_Nil_iff: "facets rx [] xs r"
inductive_simps facets_Cons_iff: "facets rx ((k, v) # fs) xs r"
inductive_simps stage_iff: "stage rx [(op, v)] xs ys"

lemmas runs_iffs = runs_Nil_iff runs_Cons_iff facets_Nil_iff facets_Cons_iff

lemma stage_iffs:
  "stage rx [(''$match'', BDoc f)] xs ys \<longleftrightarrow> accepted f \<and> ys = filter (\<lambda>s. matches rx s f) xs"
  "stage rx [(''$project'', BDoc f)] xs ys \<longleftrightarrow> ys = map (project f) xs"
  "stage rx [(''$addFields'', BDoc f)] xs ys \<longleftrightarrow> ys = map (add_fields f) xs"
  "stage rx [(''$sort'', BDoc f)] xs ys \<longleftrightarrow> mset ys = mset xs \<and> sorted_wrt (\<lambda>a b. \<not> before f b a) ys"
  "stage rx [(''$skip'', BInt n)] xs ys \<longleftrightarrow> 0 \<le> n \<and> ys = drop (nat n) xs"
  "stage rx [(''$limit'', BInt n)] xs ys \<longleftrightarrow> 0 < n \<and> ys = take (nat n) xs"
  "stage rx [(''$facet'', BDoc f)] xs ys \<longleftrightarrow> (\<exists>r. facets rx f xs r \<and> ys = [r])"
  by (auto simp: stage_iff described_stages_def)

section \<open>An interpreter\<close>

text \<open>Insertion by the first sort key; stages it does not know fail.\<close>

fun insert_by :: "bsonD \<Rightarrow> bsonD \<Rightarrow> bsonD list \<Rightarrow> bsonD list" where
  "insert_by ks x [] = [x]"
| "insert_by ks x (y # ys) = (if before ks y x then y # insert_by ks x ys else x # y # ys)"

definition sort_by :: "bsonD \<Rightarrow> bsonD list \<Rightarrow> bsonD list" where
  "sort_by ks xs = foldr (insert_by ks) xs []"

text \<open>The stages without sub-pipelines; \<open>None\<close> is an error of the server.\<close>

definition exec_stage :: "(string \<Rightarrow> string \<Rightarrow> bool) \<Rightarrow> string \<Rightarrow> bson \<Rightarrow> bsonD list \<Rightarrow> bsonD list option" where
  "exec_stage rx op v xs =
     (case v of
        BDoc ps \<Rightarrow>
          if op = ''$match'' then (if accepted ps then Some (filter (\<lambda>s. matches rx s ps) xs) else None)
          else if op = ''$project'' then Some (map (project ps) xs)
          else if op = ''$addFields'' then Some (map (add_fields ps) xs)
          else if op = ''$sort'' then
            (let ys = sort_by ps xs in if sorted_wrt (\<lambda>a b. \<not> before ps b a) ys then Some ys else None)
          else None
      | BInt n \<Rightarrow>
          if op = ''$skip'' \<and> 0 \<le> n then Some (drop (nat n) xs)
          else if op = ''$limit'' \<and> 0 < n then Some (take (nat n) xs)
          else None
      | BStr k \<Rightarrow>
          if op = ''$count'' then Some (if xs = [] then [] else [[(k, BInt (int (length xs)))]]) else None
      | _ \<Rightarrow> None)"

fun exec :: "(string \<Rightarrow> string \<Rightarrow> bool) \<Rightarrow> bson list \<Rightarrow> bsonD list \<Rightarrow> bsonD list option"
  and exec_facets :: "(string \<Rightarrow> string \<Rightarrow> bool) \<Rightarrow> bsonD \<Rightarrow> bsonD list \<Rightarrow> bsonD option" where
  "exec rx [] xs = Some xs"
| "exec rx (BDoc [(op, BDoc fs)] # sts) xs =
     (if op = ''$facet''
      then (case exec_facets rx fs xs of None \<Rightarrow> None | Some r \<Rightarrow> exec rx sts [r])
      else (case exec_stage rx op (BDoc fs) xs of None \<Rightarrow> None | Some ys \<Rightarrow> exec rx sts ys))"
| "exec rx (BDoc [(op, v)] # sts) xs =
     (case exec_stage rx op v xs of None \<Rightarrow> None | Some ys \<Rightarrow> exec rx sts ys)"
| "exec rx (st # sts) xs = None"
| "exec_facets rx [] xs = Some []"
| "exec_facets rx ((k, BArr sts) # fs) xs =
     (case (exec rx sts xs, exec_facets rx fs xs) of
        (Some ys, Some r) \<Rightarrow> Some ((k, BArr (map BDoc ys)) # r)
      | _ \<Rightarrow> None)"
| "exec_facets rx (f # fs) xs = None"

lemma mset_insert_by [simp]: "mset (insert_by ks x ys) = add_mset x (mset ys)"
  by (induction ys) auto

lemma mset_sort_by [simp]: "mset (sort_by ks xs) = mset xs"
  by (induction xs) (auto simp: sort_by_def)

lemma exec_stage_sound: "exec_stage rx op v xs = Some ys \<Longrightarrow> stage rx [(op, v)] xs ys"
  by (cases v) (auto simp: exec_stage_def Let_def split: if_splits intro: stage_runs_facets.intros)

lemma runs_step:
  assumes "stage rx [(op, v)] xs zs" and "\<exists>ds. sts = map BDoc ds \<and> runs rx ds zs ys"
  shows "\<exists>ds. BDoc [(op, v)] # sts = map BDoc ds \<and> runs rx ds xs ys"
proof -
  obtain ds where "sts = map BDoc ds" "runs rx ds zs ys" using assms(2) by blast
  then show ?thesis using assms(1) by (intro exI[of _ "[(op, v)] # ds"]) (auto intro: runs_Cons)
qed

text \<open>What the interpreter computes is a result the relation allows.\<close>

lemma exec_sound:
  "exec rx sts xs = Some ys \<Longrightarrow> \<exists>ds. sts = map BDoc ds \<and> runs rx ds xs ys"
  "exec_facets rx fs xs = Some r \<Longrightarrow> facets rx fs xs r"
proof (induction rx sts xs and rx fs xs arbitrary: ys and r rule: exec_exec_facets.induct)
  case (2 rx op fs sts xs)
  have "\<exists>zs. stage rx [(op, BDoc fs)] xs zs \<and> (\<exists>ds. sts = map BDoc ds \<and> runs rx ds zs ys)"
  proof (cases "op = ''$facet''")
    case True
    then obtain r where r: "exec_facets rx fs xs = Some r" "exec rx sts [r] = Some ys"
      using "2.prems" by (auto split: option.splits)
    show ?thesis
      using "2.IH"(1)[OF True r(1)] "2.IH"(2)[OF True r] True by (blast intro: stage_facet)
  next
    case False
    then obtain zs where z: "exec_stage rx op (BDoc fs) xs = Some zs" "exec rx sts zs = Some ys"
      using "2.prems" by (auto split: option.splits)
    show ?thesis using "2.IH"(3)[OF False z] exec_stage_sound[OF z(1)] by blast
  qed
  then show ?case by (blast intro: runs_step)
qed (auto simp del: map_eq_Cons_conv Cons_eq_map_conv split: option.splits
      intro: runs_Nil facets_Nil facets_Cons intro!: runs_step dest!: exec_stage_sound)

end
