(* ===== verification/Mongo_Driver.thy ===== *)
theory Mongo_Driver
  imports Mongo_Lists Pipeline
begin

text \<open>
  What the storage code relies on in the database driver, as named hypotheses over an abstraction
  \<open>docs\<close> of the database state: the documents of each collection, as a multiset. \<open>rx\<close> is the
  server's regular-expression matcher. Each law says what a call that succeeds does, and that a
  single call that fails changes nothing. \<open>mem_mongo\<close> is an in-memory instance that satisfies
  them all.
\<close>

type_synonym store = "string \<Rightarrow> bsonD multiset"

section \<open>Laws of the driver\<close>

text \<open>The driver adds a fresh \<^verbatim>\<open>_id\<close> to a document it inserts.\<close>

definition insert_law :: "'d mongo \<Rightarrow> ('d \<Rightarrow> store) \<Rightarrow> bool" where
  "insert_law M docs \<longleftrightarrow>
     (\<forall>coll b d r d'. InsertOne M coll b d = (r, d') \<longrightarrow>
        (if isl r then docs d' = docs d
         else \<exists>i. docs d' = (docs d)(coll := add_mset ((''_id'', i) # b) (docs d coll))))"

definition find_law :: "'d mongo \<Rightarrow> ('d \<Rightarrow> store) \<Rightarrow> (string \<Rightarrow> string \<Rightarrow> bool) \<Rightarrow> bool" where
  "find_law M docs rx \<longleftrightarrow>
     (\<forall>coll f ps d r. FindOne M coll f ps d = Inr r \<longrightarrow>
        (case r of
           Some b \<Rightarrow> \<exists>s \<in># docs d coll. matches rx s f \<and> b = project ps s
         | None \<Rightarrow> \<forall>s \<in># docs d coll. \<not> matches rx s f))"

definition update_law :: "'d mongo \<Rightarrow> ('d \<Rightarrow> store) \<Rightarrow> (string \<Rightarrow> string \<Rightarrow> bool) \<Rightarrow> bool" where
  "update_law M docs rx \<longleftrightarrow>
     (\<forall>coll f u d r d'. UpdateMany M coll f u d = (r, d') \<longrightarrow>
        docs d' = (if isl r then docs d
                   else (docs d)(coll :=
                     image_mset (\<lambda>s. if matches rx s f then apply_update u s else s) (docs d coll))))"

text \<open>The calls that act on one matching document.\<close>

definition replaced :: "string \<Rightarrow> bsonD \<Rightarrow> bsonD \<Rightarrow> store \<Rightarrow> store" where
  "replaced coll s s' D = D(coll := add_mset s' (D coll - {#s#}))"

definition modify_law :: "'d mongo \<Rightarrow> ('d \<Rightarrow> store) \<Rightarrow> (string \<Rightarrow> string \<Rightarrow> bool) \<Rightarrow> bool" where
  "modify_law M docs rx \<longleftrightarrow>
     (\<forall>coll f u d r d'. FindOneAndUpdate M coll f u d = (r, d') \<longrightarrow>
        (case r of
           Inr (Some b) \<Rightarrow> \<exists>s \<in># docs d coll. matches rx s f \<and> b = apply_update u s
             \<and> docs d' = replaced coll s (apply_update u s) (docs d)
         | Inr None \<Rightarrow> (\<forall>s \<in># docs d coll. \<not> matches rx s f) \<and> docs d' = docs d
         | Inl _ \<Rightarrow> docs d' = docs d))"

definition replace_law :: "'d mongo \<Rightarrow> ('d \<Rightarrow> store) \<Rightarrow> (string \<Rightarrow> string \<Rightarrow> bool) \<Rightarrow> bool" where
  "replace_law M docs rx \<longleftrightarrow>
     (\<forall>coll f b d r d'. ReplaceOne M coll f b d = (r, d') \<longrightarrow>
        (if isl r then docs d' = docs d
         else (\<forall>s \<in># docs d coll. \<not> matches rx s f) \<and> docs d' = docs d
           \<or> (\<exists>s \<in># docs d coll. matches rx s f
                \<and> (\<exists>i. docs d' = replaced coll s ((''_id'', i) # b) (docs d)))))"

definition delete_law :: "'d mongo \<Rightarrow> ('d \<Rightarrow> store) \<Rightarrow> (string \<Rightarrow> string \<Rightarrow> bool) \<Rightarrow> bool" where
  "delete_law M docs rx \<longleftrightarrow>
     (\<forall>coll f d r d'. DeleteOne M coll f d = (r, d') \<longrightarrow>
        (case r of
           Inr n \<Rightarrow>
             n = 0 \<and> (\<forall>s \<in># docs d coll. \<not> matches rx s f) \<and> docs d' = docs d
             \<or> n = 1 \<and> (\<exists>s \<in># docs d coll. matches rx s f \<and> docs d' = (docs d)(coll := docs d coll - {#s#}))
         | Inl _ \<Rightarrow> docs d' = docs d))"

text \<open>An aggregation runs its pipeline on the documents of the collection in some order.\<close>

definition aggregate_law :: "'d mongo \<Rightarrow> ('d \<Rightarrow> store) \<Rightarrow> (string \<Rightarrow> string \<Rightarrow> bool) \<Rightarrow> bool" where
  "aggregate_law M docs rx \<longleftrightarrow>
     (\<forall>coll sts d bs. Aggregate M coll sts d = Inr bs \<longrightarrow>
        (\<exists>xs. mset xs = docs d coll \<and> runs rx sts xs bs))"

text \<open>
  A transaction runs the callback on the documents as they are (a retry starts from them again).
  If the callback fails, nothing changes and the error is returned. Otherwise the commit succeeds,
  or it fails and its outcome may be unknown: then all of the callback's changes are there, or none.
\<close>

definition transaction_law :: "'d mongo \<Rightarrow> ('d \<Rightarrow> store) \<Rightarrow> bool" where
  "transaction_law M docs \<longleftrightarrow>
     (\<forall>cb d r d'. WithTransaction M cb d = (r, d') \<longrightarrow>
        (\<exists>d0 r0 d1. docs d0 = docs d \<and> cb d0 = (r0, d1) \<and>
           (case r0 of
              Inl e0 \<Rightarrow> isl r \<and> docs d' = docs d
            | Inr x \<Rightarrow> r = Inr x \<and> docs d' = docs d1
                       \<or> isl r \<and> (docs d' = docs d \<or> docs d' = docs d1))))"

definition driver_laws :: "'d mongo \<Rightarrow> ('d \<Rightarrow> store) \<Rightarrow> (string \<Rightarrow> string \<Rightarrow> bool) \<Rightarrow> bool" where
  "driver_laws M docs rx \<longleftrightarrow>
     insert_law M docs \<and> find_law M docs rx \<and> update_law M docs rx \<and> modify_law M docs rx
     \<and> replace_law M docs rx \<and> delete_law M docs rx \<and> aggregate_law M docs rx \<and> transaction_law M docs"

section \<open>Laws of the encoding\<close>

text \<open>
  The fields of the metadata the storage code filters on, under the names of the struct tags. An
  empty tag list is left out.
\<close>

definition encodes_metadata :: "ext \<Rightarrow> metadata \<Rightarrow> bsonD \<Rightarrow> bool" where
  "encodes_metadata E md b \<longleftrightarrow>
     map_of b ''_id'' = None
     \<and> field b ''uid'' = Some (bson_uid E (md_uid md))
     \<and> field b ''version.current'' = Some (BInt (ver_current (md_version md)))
     \<and> (ver_tags (md_version md) \<noteq> [] \<longrightarrow>
          field b ''version.tags'' = Some (BArr (map BStr (ver_tags (md_version md)))))"

definition encode_law :: "ext \<Rightarrow> 'd mongo \<Rightarrow> bool" where
  "encode_law E M \<longleftrightarrow>
     (\<forall>c b. Marshal M (DComponent c) = Inr b \<longrightarrow> \<not> uuid_IsZero (cmp_uid c) \<longrightarrow>
        encodes_metadata E (cmp_metadata c) b)
     \<and> (\<forall>w b. Marshal M (DWorkflow w) = Inr b \<longrightarrow> \<not> uuid_IsZero (md_uid (wf_metadata w)) \<longrightarrow>
          encodes_metadata E (wf_metadata w) b \<and> field b ''workspace'' = Some (BStr (wf_workspace w)))
     \<and> (\<forall>v b. Marshal M (DVolume v) = Inr b \<longrightarrow>
          field b ''uid'' = Some (bson_uid E (fv_uid v)) \<and> field b ''workspace'' = Some (BStr (fv_workspace v)))"

text \<open>
  Decoding reads those fields back; an absent string field is the empty string, and an array is
  not decoded into a string.
\<close>

definition reads_string :: "bson option \<Rightarrow> string \<Rightarrow> bool" where
  "reads_string v s = (case v of Some (BStr t) \<Rightarrow> s = t | None \<Rightarrow> s = '''' | Some (BArr xs) \<Rightarrow> False | _ \<Rightarrow> True)"

definition decode_law :: "'d mongo \<Rightarrow> bool" where
  "decode_law M \<longleftrightarrow>
     (\<forall>b v n. DecodeVersion M b = Inr v \<longrightarrow> field b ''version.current'' = Some (BInt n) \<longrightarrow> ver_current v = n)
     \<and> (\<forall>b w. DecodeWorkflow M b = Inr w \<longrightarrow> reads_string (field b ''workspace'') (wf_workspace w))
     \<and> (\<forall>b j. DecodeJob M b = Inr j \<longrightarrow> reads_string (field b ''workflow.workspace'') (wf_workspace (job_workflow j)))
     \<and> (\<forall>b v. DecodeVolume M b = Inr v \<longrightarrow> reads_string (field b ''workspace'') (fv_workspace v))
     \<and> (\<forall>b ps items. DecodeFacetsWs M b = Inr (ps, items) \<longrightarrow>
          (\<exists>bs. field b ''items'' = Some (BArr (map BDoc bs))
             \<and> list_all2 (\<lambda>it s. reads_string (field s ''workspace'') (snd it)) items bs))
     \<and> (\<forall>b ps items. DecodeFacetsVol M b = Inr (ps, items) \<longrightarrow>
          (\<exists>bs. field b ''items'' = Some (BArr (map BDoc bs))
             \<and> list_all2 (\<lambda>v s. reads_string (field s ''workspace'') (fv_workspace v)) items bs))"

text \<open>The timestamp is read from the field of that name and from nothing else.\<close>

definition timestamp_law :: "'d mongo \<Rightarrow> bool" where
  "timestamp_law M \<longleftrightarrow>
     (\<forall>b b'. field b ''timestamp'' = field b' ''timestamp'' \<longrightarrow> DecodeTimestamp M b = DecodeTimestamp M b')"

section \<open>An in-memory instance\<close>

type_synonym mem = "string \<Rightarrow> bsonD list"

definition mem_docs :: "mem \<Rightarrow> store" where
  "mem_docs d coll = mset (d coll)"

definition no_regex :: "string \<Rightarrow> string \<Rightarrow> bool" where
  "no_regex r s \<longleftrightarrow> r = s"

text \<open>The encoded form keeps what the laws mention; a component's body is dropped.\<close>

definition mem_metadata :: "ext \<Rightarrow> metadata \<Rightarrow> bsonD" where
  "mem_metadata E md =
     [(''uid'', bson_uid E (md_uid md)),
      (''version'', BDoc [(''current'', BInt (ver_current (md_version md))),
                          (''tags'', BArr (map BStr (ver_tags (md_version md))))]),
      (''timestamp'', BTime (tm_nanos (md_timestamp md)))]"

fun mem_marshal :: "ext \<Rightarrow> document \<Rightarrow> bsonD" where
  "mem_marshal E (DComponent c) = mem_metadata E (cmp_metadata c)"
| "mem_marshal E (DWorkflow w) = mem_metadata E (wf_metadata w) @ [(''workspace'', BStr (wf_workspace w))]"
| "mem_marshal E (DJob j) = mem_metadata E (job_metadata j)
     @ [(''workflow'', BDoc [(''workspace'', BStr (wf_workspace (job_workflow j)))])]"
| "mem_marshal E (DVolume v) = [(''uid'', bson_uid E (fv_uid v)), (''workspace'', BStr (fv_workspace v))]"

definition get_string :: "bsonD \<Rightarrow> string \<Rightarrow> string" where
  "get_string b p = (case field b p of Some (BStr s) \<Rightarrow> s | _ \<Rightarrow> '''')"

definition get_int :: "bsonD \<Rightarrow> string \<Rightarrow> int" where
  "get_int b p = (case field b p of Some (BInt n) \<Rightarrow> n | _ \<Rightarrow> 0)"

definition get_time :: "bsonD \<Rightarrow> string \<Rightarrow> gotime" where
  "get_time b p = \<lparr>tm_nanos = (case field b p of Some (BTime n) \<Rightarrow> n | _ \<Rightarrow> 0), tm_loc = ''UTC''\<rparr>"

fun get_docs :: "bson list \<Rightarrow> bsonD list option" where
  "get_docs [] = Some []"
| "get_docs (BDoc d # ds) = map_option (Cons d) (get_docs ds)"
| "get_docs (x # ds) = None"

definition no_array :: "bsonD \<Rightarrow> string \<Rightarrow> bool" where
  "no_array b p = (case field b p of Some (BArr xs) \<Rightarrow> False | _ \<Rightarrow> True)"

definition guarded :: "string \<Rightarrow> (bsonD \<Rightarrow> 'a) \<Rightarrow> bsonD \<Rightarrow> 'a res" where
  "guarded p dec b = (if no_array b p then Inr (dec b) else Inl (ExtErr ''cannot decode''))"

definition mem_version :: "bsonD \<Rightarrow> version" where
  "mem_version b = \<lparr>ver_current = get_int b ''version.current'', ver_tags = [], ver_previous = zero_cref\<rparr>"

definition get_metadata :: "bsonD \<Rightarrow> metadata" where
  "get_metadata b =
     \<lparr>md_name = '''', md_description = '''', md_modifiedBy = \<lparr>mb_oid = '''', mb_email = ''''\<rparr>,
      md_uid = of_nat (length (get_string b ''uid'')), md_version = mem_version b,
      md_timestamp = get_time b ''timestamp''\<rparr>"

definition get_component :: "bsonD \<Rightarrow> component" where
  "get_component b = Component (get_metadata b) [] [] ''component'' ImplNil"

definition get_workflow :: "string \<Rightarrow> bsonD \<Rightarrow> workflow" where
  "get_workflow p b =
     \<lparr>wf_metadata = get_metadata b, wf_component = get_component [], wf_type = ''workflow'',
      wf_workspace = get_string b p\<rparr>"

definition get_facets :: "(bsonD \<Rightarrow> 'a) \<Rightarrow> bsonD \<Rightarrow> (page_info list \<times> 'a list) res" where
  "get_facets dec b =
     (case (field b ''pageInfo'', field b ''items'') of
        (Some (BArr ps), Some (BArr bs)) \<Rightarrow>
          (case (get_docs ps, get_docs bs) of
             (Some ps, Some bs) \<Rightarrow>
               if list_all (\<lambda>s. no_array s ''workspace'') bs then
               Inr (map (\<lambda>p. \<lparr>pg_totalNumber = get_int p ''totalNumber'', pg_limit = get_int p ''limit'',
                              pg_skip = get_int p ''skip''\<rparr>) ps, map dec bs)
               else Inl (ExtErr ''cannot decode'')
           | _ \<Rightarrow> Inl (ExtErr ''cannot decode''))
      | _ \<Rightarrow> Inl (ExtErr ''cannot decode''))"

definition get_volume :: "bsonD \<Rightarrow> flowify_volume" where
  "get_volume s = \<lparr>fv_uid = of_nat (length (get_string s ''uid'')), fv_workspace = get_string s ''workspace'',
                   fv_volume = \<lparr>vol_name = '''', vol_rest = ''''\<rparr>\<rparr>"

definition mem_id :: "bsonD \<Rightarrow> bsonD" where
  "mem_id b = (''_id'', BInt 0) # b"

definition mem_mongo :: "ext \<Rightarrow> mem mongo" where
  "mem_mongo E =
     \<lparr>InsertOne = (\<lambda>coll b d. (Inr (), d(coll := mem_id b # d coll))),
      FindOne = (\<lambda>coll f ps d. Inr (map_option (project ps) (find (\<lambda>s. matches no_regex s f) (d coll)))),
      UpdateMany = (\<lambda>coll f u d.
        (Inr (), d(coll := map (\<lambda>s. if matches no_regex s f then apply_update u s else s) (d coll)))),
      UpdateOne = (\<lambda>coll f u d.
        (Inr (), d(coll := update_first (\<lambda>s. matches no_regex s f) (apply_update u) (d coll)))),
      ReplaceOne = (\<lambda>coll f b d.
        (Inr (), d(coll := update_first (\<lambda>s. matches no_regex s f) (\<lambda>_. mem_id b) (d coll)))),
      FindOneAndUpdate = (\<lambda>coll f u d.
        (Inr (map_option (apply_update u) (find (\<lambda>s. matches no_regex s f) (d coll))),
         d(coll := update_first (\<lambda>s. matches no_regex s f) (apply_update u) (d coll)))),
      DeleteOne = (\<lambda>coll f d.
        case find (\<lambda>s. matches no_regex s f) (d coll) of
          None \<Rightarrow> (Inr 0, d)
        | Some s \<Rightarrow> (Inr 1, d(coll := remove1 s (d coll)))),
      Aggregate = (\<lambda>coll sts d.
        case exec no_regex (map BDoc sts) (d coll) of
          None \<Rightarrow> Inl (ExtErr ''aggregation failed'') | Some bs \<Rightarrow> Inr bs),
      StartSession = (\<lambda>d. Inr ()),
      WithTransaction = (\<lambda>cb d. case cb d of (Inl e, d') \<Rightarrow> (Inl e, d) | (Inr x, d') \<Rightarrow> (Inr x, d')),
      Marshal = (\<lambda>doc. Inr (mem_marshal E doc)),
      DecodeComponent = (\<lambda>b. Inr (get_component b)),
      DecodeWorkflow = guarded ''workspace'' (get_workflow ''workspace''),
      DecodeJob = guarded ''workflow.workspace'' (\<lambda>b. \<lparr>job_metadata = get_metadata b, job_type = ''job'', job_inputValues = [],
                           job_workflow = get_workflow ''workflow.workspace'' b, job_events = []\<rparr>),
      DecodeVolume = guarded ''workspace'' get_volume,
      DecodeVersion = (\<lambda>b. Inr (mem_version b)),
      DecodeVersions = (\<lambda>b. Inl (ExtErr ''cannot decode'')),
      DecodeTimestamp = (\<lambda>b. Inr (get_time b ''timestamp'')),
      DecodeFacets = get_facets get_metadata,
      DecodeFacetsWs = get_facets (\<lambda>s. (get_metadata s, get_string s ''workspace'')),
      DecodeFacetsVol = get_facets get_volume\<rparr>"

lemma find_mset:
  "find P xs = Some s \<Longrightarrow> mset (update_first P f xs) = add_mset (f s) (mset xs - {#s#})"
proof (induction xs)
  case (Cons x xs)
  show ?case
  proof (cases "P x")
    case False
    then have s: "find P xs = Some s" using Cons.prems by simp
    then have "s \<in> set xs" by (auto dest: find_SomeD)
    then show ?thesis using Cons.IH[OF s] False by (simp add: add_mset_commute insert_DiffM)
  qed (use Cons.prems in auto)
qed simp

lemma update_first_none: "find P xs = None \<Longrightarrow> update_first P f xs = xs"
  by (induction xs) (auto split: if_splits)

lemma mem_docs_upd: "mem_docs (d(coll := xs)) = (mem_docs d)(coll := mset xs)"
  by (auto simp: mem_docs_def)

lemma mem_find_none: "find P (d coll) = None \<Longrightarrow> \<forall>s \<in># mem_docs d coll. \<not> P s"
  by (auto simp: mem_docs_def find_None_iff)

lemma mem_find_some: "find P (d coll) = Some s \<Longrightarrow> s \<in># mem_docs d coll \<and> P s"
  by (auto simp: mem_docs_def dest: find_SomeD)

lemma mem_replaced:
  "find P (d coll) = Some s \<Longrightarrow>
   mem_docs (d(coll := update_first P f (d coll))) = replaced coll s (f s) (mem_docs d)"
  by (simp add: mem_docs_upd find_mset replaced_def) (simp add: mem_docs_def)

lemma get_docs_eq: "get_docs xs = Some ds \<Longrightarrow> xs = map BDoc ds"
  by (induction xs arbitrary: ds rule: get_docs.induct) auto

lemma get_facets_items:
  assumes "get_facets dec b = Inr (ps, items)"
  shows "\<exists>bs. field b ''items'' = Some (BArr (map BDoc bs)) \<and> items = map dec bs
    \<and> (\<forall>s \<in> set bs. no_array s ''workspace'')"
  using assms
  by (auto simp: get_facets_def list_all_iff split: option.splits bson.splits if_splits dest!: get_docs_eq)

lemma field_paths [simp]:
  "field b ''uid'' = map_of b ''uid''" "field b ''workspace'' = map_of b ''workspace''"
  "field b ''items'' = map_of b ''items''" "field b ''timestamp'' = map_of b ''timestamp''"
  "field b ''version.current'' = at_path b [''version'', ''current'']"
  "field b ''version.tags'' = at_path b [''version'', ''tags'']"
  "field b ''workflow.workspace'' = at_path b [''workflow'', ''workspace'']"
  by (simp_all add: field_def)

lemma get_string_reads: "no_array b p \<Longrightarrow> reads_string (field b p) (get_string b p)"
  by (auto simp: reads_string_def get_string_def no_array_def split: option.splits bson.splits)

lemma exec_runs: "exec rx (map BDoc sts) xs = Some ys \<Longrightarrow> \<exists>zs. mset zs = mset xs \<and> runs rx sts zs ys"
  by (drule exec_sound(1)) (metis (mono_tags) bson.inject(5) injI list.inj_map_strong)

lemma mem_driver_laws: "driver_laws (mem_mongo E) mem_docs no_regex"
proof -
  let ?M = "mem_mongo E"
  have "insert_law ?M mem_docs"
    by (auto simp: insert_law_def mem_mongo_def mem_docs_upd mem_id_def mem_docs_def)
  moreover have "find_law ?M mem_docs no_regex"
    by (auto simp: find_law_def mem_mongo_def split: option.splits dest: mem_find_none mem_find_some)
  moreover have "update_law ?M mem_docs no_regex"
    by (auto simp: update_law_def mem_mongo_def mem_docs_upd) (simp add: mem_docs_def)
  moreover have "modify_law ?M mem_docs no_regex"
    unfolding modify_law_def
    by (auto simp: mem_mongo_def update_first_none mem_replaced split: option.splits
        dest: mem_find_none mem_find_some)
  moreover have "replace_law ?M mem_docs no_regex"
    unfolding replace_law_def
  proof (intro allI impI)
    fix coll f b r and d d' :: mem
    assume "ReplaceOne ?M coll f b d = (r, d')"
    show "if isl r then mem_docs d' = mem_docs d
      else (\<forall>s \<in># mem_docs d coll. \<not> matches no_regex s f) \<and> mem_docs d' = mem_docs d
        \<or> (\<exists>s \<in># mem_docs d coll. matches no_regex s f
             \<and> (\<exists>i. mem_docs d' = replaced coll s ((''_id'', i) # b) (mem_docs d)))"
    proof (cases "find (\<lambda>s. matches no_regex s f) (d coll)")
      case None
      then show ?thesis using \<open>ReplaceOne ?M coll f b d = (r, d')\<close> mem_find_none[of _ d coll, OF None]
        by (simp add: mem_mongo_def update_first_none)
    next
      case (Some s)
      have "mem_docs d' = replaced coll s ((''_id'', BInt 0) # b) (mem_docs d)"
        using \<open>ReplaceOne ?M coll f b d = (r, d')\<close> mem_replaced[of _ d coll, OF Some, of "\<lambda>_. mem_id b"]
        by (auto simp: mem_mongo_def mem_id_def)
      then show ?thesis using \<open>ReplaceOne ?M coll f b d = (r, d')\<close> mem_find_some[of _ d coll, OF Some]
        by (auto simp: mem_mongo_def)
    qed
  qed
  moreover have "delete_law ?M mem_docs no_regex"
    unfolding delete_law_def
    by (auto simp: mem_mongo_def mem_docs_upd mem_docs_def find_None_iff split: option.splits
        dest: find_SomeD)
  moreover have "aggregate_law ?M mem_docs no_regex"
    unfolding aggregate_law_def
    by (auto simp: mem_mongo_def mem_docs_def split: option.splits dest!: exec_runs)
  moreover have "transaction_law ?M mem_docs"
    unfolding transaction_law_def
  proof (intro allI impI)
    fix cb r and d d' :: mem
    assume "WithTransaction ?M cb d = (r, d')"
    then show "\<exists>d0 r0 d1. mem_docs d0 = mem_docs d \<and> cb d0 = (r0, d1) \<and>
        (case r0 of
           Inl e0 \<Rightarrow> isl r \<and> mem_docs d' = mem_docs d
         | Inr x \<Rightarrow> r = Inr x \<and> mem_docs d' = mem_docs d1
                    \<or> isl r \<and> (mem_docs d' = mem_docs d \<or> mem_docs d' = mem_docs d1))"
      by (intro exI[of _ d] exI[of _ "fst (cb d)"] exI[of _ "snd (cb d)"])
        (auto simp: mem_mongo_def split: prod.splits sum.splits)
  qed
  ultimately show ?thesis by (simp add: driver_laws_def)
qed

lemma mem_encode_law: "encode_law E (mem_mongo E)"
  by (simp add: encode_law_def mem_mongo_def encodes_metadata_def mem_metadata_def)

lemma mem_decode_law: "decode_law (mem_mongo E)"
proof -
  have items: "get_facets dec b = Inr (ps, items) \<Longrightarrow> (\<And>s. no_array s ''workspace'' \<Longrightarrow> P (dec s) s) \<Longrightarrow>
      \<exists>bs. field b ''items'' = Some (BArr (map BDoc bs)) \<and> list_all2 P items bs"
    for dec :: "bsonD \<Rightarrow> 'b" and b ps items P
    by (drule get_facets_items) (auto simp: list_all2_conv_all_nth simp del: field_paths)
  show ?thesis
    unfolding decode_law_def
    by (intro conjI allI impI)
      (auto simp: mem_mongo_def mem_version_def get_int_def get_workflow_def get_volume_def guarded_def
        simp del: field_paths split: if_splits intro: get_string_reads intro!: items)
qed

lemma mem_timestamp_law: "timestamp_law (mem_mongo E)"
  by (simp add: timestamp_law_def mem_mongo_def get_time_def)

lemmas mem_laws = mem_driver_laws mem_encode_law mem_decode_law mem_timestamp_law

section \<open>The laws as rules\<close>

lemma insert_ok:
  assumes "driver_laws M docs rx" and "InsertOne M coll b d = (r, d')"
  shows "isl r \<and> docs d' = docs d
    \<or> \<not> isl r \<and> (\<exists>i. docs d' = (docs d)(coll := add_mset ((''_id'', i) # b) (docs d coll)))"
  using assms unfolding driver_laws_def insert_law_def by meson

lemma find_ok:
  assumes "driver_laws M docs rx" and "FindOne M coll f ps d = Inr (Some b)"
  shows "\<exists>s \<in># docs d coll. matches rx s f \<and> b = project ps s"
proof -
  have "find_law M docs rx" using assms(1) by (simp add: driver_laws_def)
  then have "case Some b of None \<Rightarrow> \<forall>s \<in># docs d coll. \<not> matches rx s f
      | Some b \<Rightarrow> \<exists>s \<in># docs d coll. matches rx s f \<and> b = project ps s"
    using assms(2) unfolding find_law_def by blast
  then show ?thesis by simp
qed

lemma update_ok:
  assumes "driver_laws M docs rx" and "UpdateMany M coll f u d = (Inr x, d')"
  shows "docs d' = (docs d)(coll :=
    image_mset (\<lambda>s. if matches rx s f then apply_update u s else s) (docs d coll))"
proof -
  have "update_law M docs rx" using assms(1) by (simp add: driver_laws_def)
  then have "docs d' = (if isl (Inr x :: unit res) then docs d else (docs d)(coll :=
      image_mset (\<lambda>s. if matches rx s f then apply_update u s else s) (docs d coll)))"
    using assms(2) unfolding update_law_def by blast
  then show ?thesis by simp
qed

lemma transaction_cases:
  assumes "driver_laws M docs rx" and "WithTransaction M cb d = (r, d')"
  obtains (aborted) "isl r" "docs d' = docs d"
  | (committed) d0 x d1 where "docs d0 = docs d" "cb d0 = (Inr x, d1)" "docs d' = docs d1"
      "r = Inr x \<or> isl r"
proof -
  have "transaction_law M docs" using assms(1) by (simp add: driver_laws_def)
  then obtain d0 r0 d1 where "docs d0 = docs d" "cb d0 = (r0, d1)"
    and "case r0 of
           Inl e0 \<Rightarrow> isl r \<and> docs d' = docs d
         | Inr x \<Rightarrow> r = Inr x \<and> docs d' = docs d1
                    \<or> isl r \<and> (docs d' = docs d \<or> docs d' = docs d1)"
    using assms(2) unfolding transaction_law_def by meson
  then show ?thesis using that by (auto split: sum.splits)
qed

lemma modify_ok:
  assumes "driver_laws M docs rx" and "FindOneAndUpdate M coll f u d = (Inr (Some b), d')"
  shows "\<exists>s \<in># docs d coll. matches rx s f \<and> b = apply_update u s
    \<and> docs d' = replaced coll s (apply_update u s) (docs d)"
proof -
  have "modify_law M docs rx" using assms(1) by (simp add: driver_laws_def)
  from this[unfolded modify_law_def, rule_format, OF assms(2)] show ?thesis by simp
qed

lemma delete_ok:
  assumes "driver_laws M docs rx" and "DeleteOne M coll f d = (Inr n, d')"
  shows "n = 0 \<and> docs d' = docs d
    \<or> n = 1 \<and> (\<exists>s \<in># docs d coll. matches rx s f \<and> docs d' = (docs d)(coll := docs d coll - {#s#}))"
proof -
  have "delete_law M docs rx" using assms(1) by (simp add: driver_laws_def)
  from this[unfolded delete_law_def, rule_format, OF assms(2)] show ?thesis by auto
qed

lemma replace_ok:
  assumes "driver_laws M docs rx" and "ReplaceOne M coll f b d = (Inr x, d')"
  shows "(\<forall>s \<in># docs d coll. \<not> matches rx s f) \<and> docs d' = docs d
    \<or> (\<exists>s \<in># docs d coll. matches rx s f \<and> (\<exists>i. docs d' = replaced coll s ((''_id'', i) # b) (docs d)))"
proof -
  have "replace_law M docs rx" using assms(1) by (simp add: driver_laws_def)
  from this[unfolded replace_law_def, rule_format, OF assms(2)] show ?thesis by auto
qed

end
