(* ===== verification/Mongo_Versions.thy ===== *)
theory Mongo_Versions
  imports Mongo_Driver
begin

text \<open>
  The version numbers and the \<^verbatim>\<open>latest\<close> tag of stored components and workflows: what
  \<^verbatim>\<open>GetLatestVersion\<close> finds, what a put adds and untags, and when a patch is accepted.
\<close>

section \<open>Stored versions\<close>

definition of_uid :: "ext \<Rightarrow> component_reference \<Rightarrow> bsonD \<Rightarrow> bool" where
  "of_uid E u s \<longleftrightarrow> bson_uid E u \<in> set (elements (field s ''uid''))"

definition current_of :: "bsonD \<Rightarrow> int" where
  "current_of s = get_int s ''version.current''"

definition latest_tagged :: "bsonD \<Rightarrow> bool" where
  "latest_tagged s \<longleftrightarrow> BStr VersionTagLatest \<in> set (elements (field s ''version.tags''))"

text \<open>A stored document with a positive 64-bit version number below the largest, and a tag array.\<close>

definition versioned :: "bsonD \<Rightarrow> bool" where
  "versioned s \<longleftrightarrow>
     (case field s ''version.current'' of Some (BInt n) \<Rightarrow> 1 \<le> n \<and> n < 2 ^ 63 - 1 | _ \<Rightarrow> False)
     \<and> (case field s ''version.tags'' of None \<Rightarrow> True | Some (BArr ts) \<Rightarrow> True | _ \<Rightarrow> False)"

definition well_versioned :: "ext \<Rightarrow> component_reference \<Rightarrow> bsonD multiset \<Rightarrow> bool" where
  "well_versioned E u C \<longleftrightarrow> (\<forall>s \<in># C. of_uid E u s \<longrightarrow> versioned s)"

definition versions_of :: "ext \<Rightarrow> component_reference \<Rightarrow> bsonD multiset \<Rightarrow> int multiset" where
  "versions_of E u C = image_mset current_of (filter_mset (of_uid E u) C)"

definition latest_of :: "ext \<Rightarrow> component_reference \<Rightarrow> bsonD multiset \<Rightarrow> int multiset" where
  "latest_of E u C = image_mset current_of (filter_mset (\<lambda>s. of_uid E u s \<and> latest_tagged s) C)"

definition newest :: "ext \<Rightarrow> component_reference \<Rightarrow> bsonD multiset \<Rightarrow> int" where
  "newest E u C = Max (insert 0 (set_mset (versions_of E u C)))"

lemma filter_mset_none: "filter_mset P C = {#} \<longleftrightarrow> (\<forall>s \<in># C. \<not> P s)"
  by (induction C) auto

lemma matches_uid: "matches rx s (uid_filter E u) \<longleftrightarrow> of_uid E u s"
  by (simp add: uid_filter_def bson_uid_def is_condition_def of_uid_def)

lemma versionedE:
  assumes "versioned s"
  obtains n where "field s ''version.current'' = Some (BInt n)" "current_of s = n" "1 \<le> n" "n < 2 ^ 63 - 1"
  using assms that by (auto simp: versioned_def current_of_def get_int_def split: option.splits bson.splits)

lemma versioned_field:
  "versioned s \<Longrightarrow> field s ''version.current'' = Some (BInt (current_of s))"
  by (erule versionedE) simp

lemma newest_ge: "s \<in># C \<Longrightarrow> of_uid E u s \<Longrightarrow> current_of s \<le> newest E u C"
  by (auto simp: newest_def versions_of_def intro!: Max_ge)

lemma version_le_newest: "n \<in># versions_of E u C \<Longrightarrow> n \<le> newest E u C"
  by (auto simp: newest_def intro!: Max_ge)

lemma newest_bounds: "well_versioned E u C \<Longrightarrow> 0 \<le> newest E u C \<and> newest E u C < 2 ^ 63 - 1"
  by (auto simp: newest_def versions_of_def well_versioned_def elim!: versionedE)

section \<open>The latest version\<close>

lemma project_version:
  assumes "keeps ps ''version'' " and "ps \<noteq> []"
  shows "field (project ps s) ''version.current'' = field s ''version.current''"
proof -
  have "map_of (filter (\<lambda>(k, v). keeps ps k) s) ''version'' = map_of s ''version''"
    using assms(1) by (induction s) auto
  then show ?thesis using assms(2) by (simp add: project_def)
qed

lemma latest_runs:
  assumes "runs rx (latestStages E u) xs bs"
  obtains ys where
    "mset ys = image_mset (project [(''_id'', BInt 0), (''version'', BInt 1)]) (filter_mset (of_uid E u) (mset xs))"
    "sorted_wrt (\<lambda>a b. \<not> before [(''version.current'', BInt (- 1))] b a) ys"
    "bs = take 1 ys"
  using assms that
  by (auto simp: latestStages_def runs_iffs stage_iffs matches_uid simp del: before.simps)

lemma max_first:
  assumes sorted: "sorted_wrt (\<lambda>a b. \<not> before [(k, BInt (- 1))] b a) (y # ys)"
    and ints: "\<And>z. z \<in> set (y # ys) \<Longrightarrow> field z k = Some (BInt (g z))"
    and z: "z \<in> set (y # ys)"
  shows "g z \<le> g y"
  using assms by (cases "z = y") (auto simp: not_less)

lemma GetLatestVersion_newest:
  assumes laws: "aggregate_law M docs rx" "decode_law M" "wrapf_ok E"
    and wv: "well_versioned E u (docs d coll)"
    and ok: "GetLatestVersion E M u coll d = Inr v"
  shows "ver_current v = newest E u (docs d coll)"
proof -
  let ?C = "filter_mset (of_uid E u) (docs d coll)"
  let ?ps = "[(''_id'', BInt 0), (''version'', BInt 1)]"
  obtain bs where agg: "Aggregate M coll (latestStages E u) d = Inr bs"
    using ok by (auto simp: GetLatestVersion_def split: sum.splits)
  then obtain ys where ys: "mset ys = image_mset (project ?ps) ?C" and bs: "bs = take 1 ys"
    and sorted: "sorted_wrt (\<lambda>a b. \<not> before [(''version.current'', BInt (- 1))] b a) ys"
    using laws(1) unfolding aggregate_law_def by (metis latest_runs)
  have proj: "field (project ?ps s) ''version.current'' = field s ''version.current''" for s
    by (rule project_version) (simp_all add: keeps_def)
  then have cproj: "current_of (project ?ps s) = current_of s" for s
    unfolding current_of_def get_int_def by metis
  have cur: "field z ''version.current'' = Some (BInt (current_of z))" if z: "z \<in> set ys" for z
  proof -
    obtain s where "s \<in># docs d coll" "of_uid E u s" "z = project ?ps s"
      using z arg_cong[OF ys, of set_mset] by auto
    moreover from this have "field s ''version.current'' = Some (BInt (current_of s))"
      using wv by (simp add: well_versioned_def versioned_field del: field_paths)
    ultimately show ?thesis using proj[of s] by (simp add: current_of_def get_int_def del: field_paths)
  qed
  have vs: "versions_of E u (docs d coll) = image_mset current_of (mset ys)"
    unfolding ys versions_of_def
    by (simp add: multiset.map_comp comp_def cproj)
  show ?thesis
  proof (cases ys)
    case Nil
    then have "versions_of E u (docs d coll) = {#}" using vs by simp
    moreover have "ver_current v = 0"
      using ok agg bs Nil laws(3) by (auto simp: GetLatestVersion_def wrapf_ok_def zero_version_def)
    ultimately show ?thesis by (simp add: newest_def)
  next
    case (Cons y zs)
    have v: "ver_current v = current_of y"
      using ok agg bs Cons cur[of y] laws(2)
      by (auto simp: GetLatestVersion_def decode_law_def simp del: field_paths)
    have "current_of z \<le> current_of y" if "z \<in> set ys" for z
      using max_first[of "''version.current''" y zs current_of z] sorted cur that unfolding Cons by blast
    moreover have "1 \<le> current_of y"
    proof -
      have "y \<in># mset ys" using Cons by simp
      then obtain s where s: "s \<in># docs d coll" "of_uid E u s" "y = project ?ps s" unfolding ys by auto
      then have "current_of y = current_of s" by (simp add: cproj)
      then show ?thesis using wv s by (auto simp: well_versioned_def elim!: versionedE)
    qed
    ultimately have "Max (insert 0 (current_of ` set ys)) = current_of y"
      using Cons by (intro Max_eqI) auto
    then show ?thesis by (simp add: newest_def vs v)
  qed
qed

section \<open>Moving the latest tag\<close>

lemma at_path_update:
  "at_path (update_path f [k, j] s) [k', j'] =
     (if k' = k \<and> j' = j then map_option f (at_path s [k', j']) else at_path s [k', j'])"
  by (auto simp: map_of_update_key split: option.splits bson.splits)

lemma map_of_update_path: "k' \<noteq> k \<Longrightarrow> map_of (update_path f [k, j] s) k' = map_of s k'"
  by (simp add: map_of_update_key)

definition untag :: "bsonD \<Rightarrow> bsonD" where
  "untag s = update_path (pull_value [BStr VersionTagLatest]) [''version'', ''tags''] s"

lemma apply_pull: "apply_update latestTagPull s = untag s"
  by (simp add: apply_update_def latestTagPull_def untag_def)

lemma untag_fields:
  "field (untag s) ''uid'' = field s ''uid''"
  "field (untag s) ''version.current'' = field s ''version.current''"
  "field (untag s) ''version.tags'' = map_option (pull_value [BStr VersionTagLatest]) (field s ''version.tags'')"
  unfolding untag_def field_paths by (simp_all add: at_path_update map_of_update_path del: update_path.simps at_path.simps)

text \<open>What clearing the tag on all versions but \<open>n\<close> does to one stored document.\<close>

definition retag :: "(string \<Rightarrow> string \<Rightarrow> bool) \<Rightarrow> ext \<Rightarrow> component_reference \<Rightarrow> int \<Rightarrow> bsonD \<Rightarrow> bsonD" where
  "retag rx E u n s =
     (if matches rx s (latestTagFilter E u n) then apply_update latestTagPull s else s)"

lemma matches_latestTag:
  "matches rx s (latestTagFilter E u n) \<longleftrightarrow>
     of_uid E u s \<and> latest_tagged s \<and> BInt n \<notin> set (elements (field s ''version.current''))"
  by (auto simp: latestTagFilter_def is_condition_def op_matches_def bson_uid_def of_uid_def
      latest_tagged_def list_ex_iff simp del: field_paths)

lemma retag_frame:
  "of_uid E v (retag rx E u n s) = of_uid E v s"
  "current_of (retag rx E u n s) = current_of s"
  "\<not> of_uid E u s \<Longrightarrow> retag rx E u n s = s"
  by (simp_all add: retag_def matches_latestTag apply_pull of_uid_def current_of_def get_int_def
      untag_fields del: field_paths)

lemma retag_latest:
  assumes "of_uid E u s" and "versioned s"
  shows "latest_tagged (retag rx E u n s) \<longleftrightarrow> latest_tagged s \<and> current_of s = n"
  using assms
  by (auto simp: retag_def matches_latestTag apply_pull latest_tagged_def untag_fields pull_value_def
      versioned_def current_of_def get_int_def simp del: field_paths split: option.splits bson.splits)

section \<open>Putting a version\<close>

text \<open>
  The effect of a put on the stored documents: one version more than the newest, which alone is
  tagged \<^verbatim>\<open>latest\<close>; nothing happens to the other documents and collections.
\<close>

definition new_version :: "ext \<Rightarrow> component_reference \<Rightarrow> string \<Rightarrow> bsonD \<Rightarrow> store \<Rightarrow> store \<Rightarrow> bool" where
  "new_version E u coll s D D' \<longleftrightarrow>
     (let n = newest E u (D coll) + 1 in
        s \<in># D' coll \<and> of_uid E u s \<and> current_of s = n
        \<and> versions_of E u (D' coll) = add_mset n (versions_of E u (D coll))
        \<and> latest_of E u (D' coll) = {#n#}
        \<and> filter_mset (\<lambda>s. \<not> of_uid E u s) (D' coll) = filter_mset (\<lambda>s. \<not> of_uid E u s) (D coll)
        \<and> (\<forall>c. c \<noteq> coll \<longrightarrow> D' c = D c)
        \<and> (n < 2 ^ 63 - 1 \<longrightarrow> well_versioned E u (D' coll)))"

text \<open>A document as it is stored: its encoding, with the identifier the driver gave it.\<close>

definition stored :: "'d mongo \<Rightarrow> document \<Rightarrow> bsonD \<Rightarrow> bool" where
  "stored M doc s \<longleftrightarrow> (\<exists>b i. Marshal M doc = Inr b \<and> s = (''_id'', i) # b)"

text \<open>A put stores the given document under the next version number.\<close>

definition put_effect ::
  "ext \<Rightarrow> 'd mongo \<Rightarrow> (metadata \<Rightarrow> document) \<Rightarrow> metadata \<Rightarrow> string \<Rightarrow> store \<Rightarrow> store \<Rightarrow> bool" where
  "put_effect E M mk md coll D D' \<longleftrightarrow>
     (\<exists>s v. new_version E (md_uid md) coll s D D' \<and> ver_current v = newest E (md_uid md) (D coll)
        \<and> stored M (mk (nextVersion v md)) s)"

lemma retag_versioned: "versioned s \<Longrightarrow> versioned (retag rx E u n s)"
  by (auto simp: retag_def versioned_def apply_pull untag_fields pull_value_def
      simp del: field_paths split: option.splits bson.splits)

lemma retag_others: "filter_mset (\<lambda>s. \<not> of_uid E u s) (image_mset (retag rx E u n) C)
    = filter_mset (\<lambda>s. \<not> of_uid E u s) C"
  by (induction C) (auto simp: retag_frame)

lemma retag_versions: "versions_of E u (image_mset (retag rx E u n) C) = versions_of E u C"
  by (induction C) (auto simp: retag_frame versions_of_def)

lemma retag_clears:
  "well_versioned E u C \<Longrightarrow> (\<And>s. s \<in># C \<Longrightarrow> of_uid E u s \<Longrightarrow> current_of s < n) \<Longrightarrow>
   latest_of E u (image_mset (retag rx E u n) C) = {#}"
  by (induction C) (auto simp: retag_frame retag_latest latest_of_def well_versioned_def)

lemma retag_new_version:
  assumes wv: "well_versioned E u C" and n: "n = newest E u C + 1"
    and s: "of_uid E u s" "current_of s = n" "latest_tagged s"
      "field s ''version.current'' = Some (BInt n)" "\<exists>ts. field s ''version.tags'' = Some (BArr ts)"
    and D: "D coll = C" "D' = D(coll := image_mset (retag rx E u n) (add_mset s C))"
  shows "new_version E u coll s D D'"
proof -
  have keep: "retag rx E u n s = s"
    using s by (simp add: retag_def matches_latestTag del: field_paths)
  have "latest_of E u (image_mset (retag rx E u n) C) = {#}"
    using newest_ge[of _ C E u] by (intro retag_clears wv) (simp add: n zle_add1_eq_le)
  then have "latest_of E u (D' coll) = {#n#}" using s by (simp add: D keep latest_of_def)
  moreover have "versions_of E u (D' coll) = add_mset n (versions_of E u C)"
    using s by (simp add: D retag_versions[unfolded versions_of_def] versions_of_def keep)
  moreover have "filter_mset (\<lambda>s. \<not> of_uid E u s) (D' coll) = filter_mset (\<lambda>s. \<not> of_uid E u s) C"
    using s by (simp add: D keep retag_others)
  moreover have "well_versioned E u (D' coll)" if "n < 2 ^ 63 - 1"
  proof -
    have "versioned s"
      using s(4,5) that newest_bounds[OF wv] by (auto simp: versioned_def n simp del: field_paths)
    then show ?thesis using wv
      by (auto simp: D well_versioned_def keep retag_frame intro: retag_versioned)
  qed
  moreover have "s \<in># D' coll" by (simp add: D keep)
  ultimately show ?thesis
    unfolding new_version_def Let_def n[symmetric] D(1) using s by (auto simp: D(2) simp del: field_paths)
qed

text \<open>The effect of a patch: the stored version with the number and timestamp given is overwritten.\<close>

definition patched ::
  "ext \<Rightarrow> 'd mongo \<Rightarrow> document \<Rightarrow> metadata \<Rightarrow> string \<Rightarrow> gotime \<Rightarrow> store \<Rightarrow> store \<Rightarrow> bsonD \<Rightarrow> bool" where
  "patched E M doc md coll t D D' b \<longleftrightarrow>
     ver_current (md_version md) = newest E (md_uid md) (D coll)
     \<and> (\<exists>s \<in># D coll. of_uid E (md_uid md) s \<and> current_of s = newest E (md_uid md) (D coll)
          \<and> DecodeTimestamp M s = Inr t)
     \<and> (\<exists>s \<in># D coll. \<exists>bz. of_uid E (md_uid md) s \<and> current_of s = newest E (md_uid md) (D coll)
          \<and> Marshal M doc = Inr bz \<and> b = set_fields bz s \<and> D' = replaced coll s b D)"

lemma matches_uid_current:
  assumes "of_uid E u s \<Longrightarrow> versioned s"
  shows "matches rx s (version_filter E u n) \<longleftrightarrow> of_uid E u s \<and> current_of s = n"
  using assms
  by (auto simp: version_filter_def bson_uid_def is_condition_def of_uid_def versioned_field
      simp del: field_paths)

lemma project_timestamp:
  "field (project timestampProjection s) ''timestamp'' = field s ''timestamp''"
  by (simp add: project_def timestampProjection_def keeps_def) (induction s; auto)

text \<open>
  Components and workflows are stored as versions in the same way: a type with metadata, its
  collection, and its branches of the two callbacks.
\<close>

locale versioned_document =
  fixes E :: ext and M :: "'d mongo"
    and meta :: "'a \<Rightarrow> metadata" and set_meta :: "metadata \<Rightarrow> 'a \<Rightarrow> 'a"
    and mk :: "'a \<Rightarrow> document" and coll :: string
  assumes meta_set: "meta (set_meta md x) = md"
    and update_branch: "updateCallback E M (mk x) d =
      (case GetLatestVersion E M (md_uid (meta x)) coll d of
         Inl e \<Rightarrow> (Inl (Wrap ''cannot get previous document version'' e), d)
       | Inr latest \<Rightarrow>
           (let md = nextVersion latest (meta x)
            in insertVersion E M (mk (set_meta md x)) (md_uid (meta x)) (ver_current (md_version md)) coll d))"
    and patch_branch: "patchCallback E M (mk x) t d =
      patchVersion E M (mk x) (md_uid (meta x)) (ver_current (md_version (meta x))) coll t d"
    and encodes: "encode_law E M \<Longrightarrow> Marshal M (mk x) = Inr b \<Longrightarrow> \<not> uuid_IsZero (md_uid (meta x)) \<Longrightarrow>
      encodes_metadata E (meta x) b"
begin

lemma insertVersion_store:
  assumes laws: "driver_laws M docs rx"
    and ok: "insertVersion E M doc u n coll d = (Inr r, d')"
  shows "\<exists>b i. Marshal M doc = Inr b
    \<and> docs d' = (docs d)(coll := image_mset (retag rx E u n) (add_mset ((''_id'', i) # b) (docs d coll)))"
proof -
  obtain b d1 where b: "Marshal M doc = Inr b" and ins: "InsertOne M coll b d = (Inr (), d1)"
    and upd: "UpdateMany M coll (latestTagFilter E u n) latestTagPull d1 = (Inr (), d')"
    using ok by (auto simp: insertVersion_def replaceLatestTag_def split: sum.splits prod.splits)
  obtain i where i: "docs d1 = (docs d)(coll := add_mset ((''_id'', i) # b) (docs d coll))"
    using insert_ok[OF laws ins] by auto
  have "docs d' = (docs d1)(coll := image_mset (retag rx E u n) (docs d1 coll))"
    using update_ok[OF laws upd] by (simp add: retag_def [abs_def])
  then show ?thesis using b i by auto
qed

lemma stored_version:
  assumes "encodes_metadata E md b" and "VersionTagLatest \<in> set (ver_tags (md_version md))"
  shows "of_uid E (md_uid md) ((''_id'', i) # b) \<and> latest_tagged ((''_id'', i) # b)
    \<and> field ((''_id'', i) # b) ''version.current'' = Some (BInt (ver_current (md_version md)))
    \<and> (\<exists>ts. field ((''_id'', i) # b) ''version.tags'' = Some (BArr ts))
    \<and> current_of ((''_id'', i) # b) = ver_current (md_version md)"
  using assms
  by (auto simp: encodes_metadata_def of_uid_def latest_tagged_def current_of_def get_int_def bson_uid_def)

lemma update_new_version:
  assumes laws: "driver_laws M docs rx" "encode_law E M" "decode_law M" "wrapf_ok E"
    and uid: "\<not> uuid_IsZero (md_uid (meta x))"
    and wv: "well_versioned E (md_uid (meta x)) (docs d coll)"
    and ok: "updateCallback E M (mk x) d = (Inr r, d')"
  shows "\<exists>s v. new_version E (md_uid (meta x)) coll s (docs d) (docs d')
    \<and> ver_current v = newest E (md_uid (meta x)) (docs d coll)
    \<and> stored M (mk (set_meta (nextVersion v (meta x)) x)) s"
proof -
  let ?u = "md_uid (meta x)"
  obtain v where v: "GetLatestVersion E M ?u coll d = Inr v"
    and ins: "insertVersion E M (mk (set_meta (nextVersion v (meta x)) x)) ?u
                (ver_current (md_version (nextVersion v (meta x)))) coll d = (Inr r, d')"
    using ok by (auto simp: update_branch Let_def split: sum.splits)
  let ?md = "nextVersion v (meta x)"
  let ?n = "newest E ?u (docs d coll) + 1"
  have new: "ver_current v = newest E ?u (docs d coll)"
    using laws wv v by (intro GetLatestVersion_newest) (auto simp: driver_laws_def)
  then have n: "ver_current (md_version ?md) = ?n" and u: "md_uid ?md = ?u"
    and tag: "VersionTagLatest \<in> set (ver_tags (md_version ?md))"
    using newest_bounds[OF wv] by (simp_all add: nextVersion_def wrap64_id)
  obtain b i where b: "Marshal M (mk (set_meta ?md x)) = Inr b"
    and D': "docs d' = (docs d)(coll := image_mset (retag rx E ?u ?n) (add_mset ((''_id'', i) # b) (docs d coll)))"
    using insertVersion_store[OF laws(1) ins[unfolded n]] by blast
  have "encodes_metadata E ?md b"
    using encodes[OF laws(2) b] uid u by (simp add: meta_set)
  from stored_version[OF this tag, of i]
  have "new_version E ?u coll ((''_id'', i) # b) (docs d) (docs d')"
    unfolding n u by (intro retag_new_version[OF wv refl _ _ _ _ _ refl D']) auto
  then show ?thesis using b new by (auto simp: stored_def)
qed

text \<open>A put in a transaction: it adds the version, or fails and adds all of it or nothing.\<close>

lemma session_update:
  assumes laws: "driver_laws M docs rx" "encode_law E M" "decode_law M" "wrapf_ok E"
    and uid: "\<not> uuid_IsZero (md_uid (meta x))"
    and wv: "well_versioned E (md_uid (meta x)) (docs d coll)"
    and run: "in_session M a c (updateCallback E M (mk x)) d = (r, d')"
  shows "put_effect E M (\<lambda>md. mk (set_meta md x)) (meta x) coll (docs d) (docs d') \<or> isl r \<and> docs d' = docs d"
proof (cases "StartSession M d")
  case (Inr _)
  let ?cb = "updateCallback E M (mk x)"
  obtain r1 where tx: "WithTransaction M ?cb d = (r1, d')" "r = wrapres c r1"
    using run Inr by (auto simp: in_session_def split: prod.splits)
  from laws(1) tx(1) show ?thesis
  proof (cases rule: transaction_cases)
    case (committed d0 y d1)
    then show ?thesis using update_new_version[OF laws uid, of d0 y d1] wv by (auto simp: put_effect_def)
  qed (use tx in \<open>auto simp: wrapres_def split: sum.splits\<close>)
qed (use run in \<open>auto simp: in_session_def\<close>)

text \<open>
  A patch that succeeds has found the stored newest version, with the timestamp the caller gave,
  and has overwritten that document's fields.
\<close>

lemma patch_newest:
  assumes laws: "driver_laws M docs rx" "decode_law M" "wrapf_ok E" "timestamp_law M"
    and wv: "well_versioned E (md_uid (meta x)) (docs d coll)"
    and ok: "patchCallback E M (mk x) t d = (Inr (TxSingle (Inr (Some b))), d')"
  shows "patched E M (mk x) (meta x) coll t (docs d) (docs d') b"
proof -
  let ?u = "md_uid (meta x)" and ?n = "ver_current (md_version (meta x))"
  obtain v s0 bz where v: "GetLatestVersion E M ?u coll d = Inr v" "?n = ver_current v"
    and s0: "FindOne M coll (version_filter E ?u ?n) timestampProjection d = Inr (Some s0)"
      "DecodeTimestamp M s0 = Inr t"
    and bz: "Marshal M (mk x) = Inr bz"
    and upd: "FindOneAndUpdate M coll (version_filter E ?u ?n) [(''$set'', BDoc bz)] d = (Inr (Some b), d')"
    using ok unfolding patch_branch patchVersion_def
    by (auto split: sum.splits if_splits option.splits prod.splits)
  have n: "?n = newest E ?u (docs d coll)"
    using GetLatestVersion_newest[where docs = docs and d = d and rx = rx and coll = coll, OF _ laws(2,3) wv v(1)]
      laws(1) v(2) by (auto simp: driver_laws_def)
  obtain s1 where s1: "s1 \<in># docs d coll" "of_uid E ?u s1" "current_of s1 = ?n" "DecodeTimestamp M s1 = Inr t"
  proof -
    obtain s1 where "s1 \<in># docs d coll" "matches rx s1 (version_filter E ?u ?n)"
      and p: "s0 = project timestampProjection s1"
      using find_ok[OF laws(1) s0(1)] by blast
    moreover have "DecodeTimestamp M s1 = Inr t"
      using s0(2) laws(4) project_timestamp[of s1] unfolding p timestamp_law_def by metis
    ultimately show ?thesis using that wv
      by (auto simp: well_versioned_def matches_uid_current)
  qed
  obtain s2 where "s2 \<in># docs d coll" "matches rx s2 (version_filter E ?u ?n)"
    "b = set_fields bz s2" "docs d' = replaced coll s2 (set_fields bz s2) (docs d)"
    using modify_ok[OF laws(1) upd] by (auto simp: apply_update_def)
  then show ?thesis
    using s1 bz n wv by (auto simp: patched_def well_versioned_def matches_uid_current)
qed

end

lemma cmp_set_metadata_meta [simp]: "cmp_metadata (cmp_set_metadata md c) = md"
  by (simp add: cmp_set_metadata_def)

interpretation components: versioned_document E M cmp_metadata cmp_set_metadata DComponent componentCollection
  for E and M :: "'d mongo"
  by unfold_locales (auto simp: updateCallback_def patchCallback_def encode_law_def)

interpretation workflows: versioned_document E M wf_metadata wf_set_metadata DWorkflow workflowCollection
  for E and M :: "'d mongo"
  by unfold_locales (auto simp: updateCallback_def patchCallback_def encode_law_def wf_set_metadata_def)

section \<open>Reading the newest version\<close>

lemma lookup_newest:
  assumes laws: "driver_laws M docs rx" "decode_law M" "wrapf_ok E"
    and wv: "well_versioned E u (docs d coll)"
    and r: "getCRefVersion E M (NVReference u) coll d = Inr r"
    and x: "findDecode M dec coll (ref_filter E r) msg d = Inr x"
  shows "\<exists>s \<in># docs d coll. of_uid E u s \<and> current_of s = newest E u (docs d coll) \<and> dec s = Inr x"
proof -
  have agg: "aggregate_law M docs rx" using laws(1) by (simp add: driver_laws_def)
  obtain v where v: "GetLatestVersion E M u coll d = Inr v" "r = \<lparr>crv_version = ver_current v, crv_uid = u\<rparr>"
    using r by (auto simp: getCRefVersion_def split: sum.splits)
  have n: "ver_current v = newest E u (docs d coll)"
    by (rule GetLatestVersion_newest[OF agg laws(2,3) wv v(1)])
  obtain b where b: "FindOne M coll (ref_filter E r) [] d = Inr (Some b)" "dec b = Inr x"
    using x by (auto simp: findDecode_def split: sum.splits option.splits)
  then obtain s where s: "s \<in># docs d coll" "matches rx s (ref_filter E r)" "dec s = Inr x"
    using find_ok[OF laws(1) b(1)] by (auto simp: project_def)
  have u: "of_uid E u s"
    using s v(2) by (auto simp: ref_filter_def version_filter_def uid_filter_def of_uid_def
        bson_uid_def is_condition_def split: if_splits)
  then have vs: "versioned s" using s wv by (simp add: well_versioned_def)
  then have "ver_current v \<noteq> 0" using newest_ge[OF s(1) u] n by (auto elim!: versionedE)
  then have "current_of s = ver_current v"
    using s(2) v(2) u vs by (simp add: ref_filter_def matches_uid_current)
  then show ?thesis using s u n by auto
qed

lemma new_version_newest:
  assumes "new_version E u coll s D D'"
  shows "newest E u (D' coll) = newest E u (D coll) + 1"
proof -
  have vs: "set_mset (versions_of E u (D' coll)) =
      insert (newest E u (D coll) + 1) (set_mset (versions_of E u (D coll)))"
    using assms by (simp add: new_version_def Let_def)
  have "Max (insert 0 (set_mset (versions_of E u (D' coll)))) = newest E u (D coll) + 1"
    unfolding vs
  proof (rule Max_eqI)
    fix y assume "y \<in> insert 0 (insert (newest E u (D coll) + 1) (set_mset (versions_of E u (D coll))))"
    then have "y \<le> newest E u (D coll) \<or> y = newest E u (D coll) + 1" by (auto simp: newest_def)
    then show "y \<le> newest E u (D coll) + 1" by auto
  qed simp_all
  then show ?thesis by (simp add: newest_def)
qed

lemma new_version_unique:
  assumes nv: "new_version E u coll s D D'"
    and t: "t \<in># D' coll" "of_uid E u t" "current_of t = newest E u (D coll) + 1"
  shows "t = s"
proof (rule ccontr)
  assume "t \<noteq> s"
  let ?n = "newest E u (D coll) + 1" and ?F = "filter_mset (of_uid E u) (D' coll)"
  have s: "s \<in># ?F" "current_of s = ?n" and v: "versions_of E u (D' coll) = add_mset ?n (versions_of E u (D coll))"
    using nv by (auto simp: new_version_def Let_def)
  obtain R where R: "?F = add_mset s R" using s(1) by (metis multi_member_split)
  moreover have "t \<in># ?F" using t by simp
  then have "t \<in># R" using \<open>t \<noteq> s\<close> unfolding R by simp
  then obtain R' where "R = add_mset t R'" by (metis multi_member_split)
  ultimately have "add_mset ?n (image_mset current_of R') = versions_of E u (D coll)"
    using v s(2) t(3) by (simp add: versions_of_def)
  then have "?n \<in># versions_of E u (D coll)" by (metis union_single_eq_member)
  then show False using version_le_newest by force
qed

section \<open>Example data\<close>

definition ex_meta :: "component_reference \<Rightarrow> int \<Rightarrow> metadata" where
  "ex_meta u n =
     \<lparr>md_name = ''n'', md_description = '''', md_modifiedBy = \<lparr>mb_oid = '''', mb_email = ''''\<rparr>, md_uid = u,
      md_version = \<lparr>ver_current = n, ver_tags = [''latest''], ver_previous = zero_cref\<rparr>,
      md_timestamp = \<lparr>tm_nanos = 7, tm_loc = ''UTC''\<rparr>\<rparr>"

definition ex_cmp :: "component_reference \<Rightarrow> int \<Rightarrow> component" where
  "ex_cmp u n = Component (ex_meta u n) [] [] ''component'' ImplNil"

definition ex_wf :: "component_reference \<Rightarrow> int \<Rightarrow> string \<Rightarrow> workflow" where
  "ex_wf u n ws = \<lparr>wf_metadata = ex_meta u n, wf_component = ex_cmp 0 0, wf_type = ''workflow'', wf_workspace = ws\<rparr>"

text \<open>A database with version 1 of a component and of a workflow in workspace \<open>ns\<close>.\<close>

definition ex_db :: mem where
  "ex_db = (\<lambda>_. [])
     (componentCollection := [mem_id (mem_marshal ext_example (DComponent (ex_cmp 2 1)))],
      workflowCollection := [mem_id (mem_marshal ext_example (DWorkflow (ex_wf 3 1 ''ns'')))])"

lemmas ex_simps = ex_meta_def ex_cmp_def ex_wf_def ex_db_def mem_id_def mem_metadata_def mem_docs_def collections

section \<open>Properties\<close>

lemma PutComponent_effect:
  assumes "driver_laws M docs rx" "encode_law E M" "decode_law M" "wrapf_ok E"
    and "well_versioned E (cmp_uid node) (docs d componentCollection)"
  shows "case PutComponent E M node d of
      (Inr _, d') \<Rightarrow> put_effect E M (\<lambda>md. DComponent (cmp_set_metadata md node)) (cmp_metadata node)
                         componentCollection (docs d) (docs d')
    | (Inl _, d') \<Rightarrow> docs d' = docs d
        \<or> put_effect E M (\<lambda>md. DComponent (cmp_set_metadata md node)) (cmp_metadata node)
             componentCollection (docs d) (docs d')"
proof (cases "uuid_IsZero (cmp_uid node)")
  case False
  obtain r d' where "in_session M ''cannot start DB session for update document transaction''
      ''update document transaction fail'' (updateCallback E M (DComponent node)) d = (r, d')"
    by fastforce
  with components.session_update[OF assms(1-4) False assms(5) this] False show ?thesis
    by (auto simp: PutComponent_def split: sum.splits)
qed (simp add: PutComponent_def)

text \<open>
  C7: Putting a component adds exactly one stored version, numbered one above the newest version of
  its UUID (so 1 for a UUID that is not stored yet), which is the only version tagged latest; the
  documents of other UUIDs and collections are not changed. A put that fails has either done nothing
  or all of this.
\<close>

theorem put_component_adds_version:
  assumes "driver_laws M docs rx" "encode_law E M" "decode_law M" "wrapf_ok E"
    and "well_versioned E (cmp_uid node) (docs d componentCollection)"
  shows "case PutComponent E M node d of
      (Inr _, d') \<Rightarrow> put_effect E M (\<lambda>md. DComponent (cmp_set_metadata md node)) (cmp_metadata node)
                         componentCollection (docs d) (docs d')
    | (Inl _, d') \<Rightarrow> docs d' = docs d
        \<or> put_effect E M (\<lambda>md. DComponent (cmp_set_metadata md node)) (cmp_metadata node)
             componentCollection (docs d) (docs d')"
  using assms by (rule PutComponent_effect)

lemma put_component_adds_version_witness:
  "fst (PutComponent ext_example (mem_mongo ext_example) (ex_cmp 2 9) ex_db) = Inr ()
   \<and> put_effect ext_example (mem_mongo ext_example) (\<lambda>md. DComponent (cmp_set_metadata md (ex_cmp 2 9)))
       (ex_meta 2 9) componentCollection (mem_docs ex_db)
       (mem_docs (snd (PutComponent ext_example (mem_mongo ext_example) (ex_cmp 2 9) ex_db)))"
proof -
  have ok: "fst (PutComponent ext_example (mem_mongo ext_example) (ex_cmp 2 9) ex_db) = Inr ()"
    by code_simp
  have "well_versioned ext_example (cmp_uid (ex_cmp 2 9)) (mem_docs ex_db componentCollection)"
    by (simp add: well_versioned_def ex_simps versioned_def)
  from put_component_adds_version[where docs = mem_docs and d = ex_db, OF mem_laws(1-3) ext_example_ok(4) this]
  show ?thesis using ok
    by (auto simp: ex_cmp_def split: prod.splits sum.splits)
qed

text \<open>
  C20: A patch that returns a component was given the newest stored version number and the timestamp
  stored with that version, and it overwrote the fields of that version's document; no other
  document changed.
\<close>

theorem patch_component_newest:
  assumes "driver_laws M docs rx" "decode_law M" "wrapf_ok E" "timestamp_law M"
    and "well_versioned E (cmp_uid node) (docs d componentCollection)"
    and ok: "PatchComponent E M node t d = (Inr c, d')"
  shows "\<exists>b. DecodeComponent M b = Inr c
    \<and> patched E M (DComponent node) (cmp_metadata node) componentCollection t (docs d) (docs d') b"
proof -
  obtain b where run: "in_session M ''cannot start DB session for update document transaction''
      ''patch document transaction fail'' (patchCallback E M (DComponent node) t) d
      = (Inr (TxSingle (Inr (Some b))), d')" and c: "DecodeComponent M b = Inr c"
    using ok by (auto simp: PatchComponent_def decodeSingle_def split: prod.splits sum.splits tx_result.splits option.splits)
  then have tx: "WithTransaction M (patchCallback E M (DComponent node) t) d = (Inr (TxSingle (Inr (Some b))), d')"
    by (auto simp: in_session_def split: sum.splits prod.splits)
  obtain d0 d1 where "docs d0 = docs d" "docs d' = docs d1"
    "patchCallback E M (DComponent node) t d0 = (Inr (TxSingle (Inr (Some b))), d1)"
    using assms(1) tx by (cases rule: transaction_cases) auto
  then show ?thesis
    using components.patch_newest[OF assms(1-4), of node d0 t b d1] assms(5) c by auto
qed

lemma patch_component_newest_witness:
  "\<exists>c d' b. PatchComponent ext_example (mem_mongo ext_example) (ex_cmp 2 1) \<lparr>tm_nanos = 7, tm_loc = ''UTC''\<rparr> ex_db
      = (Inr c, d')
    \<and> patched ext_example (mem_mongo ext_example) (DComponent (ex_cmp 2 1)) (ex_meta 2 1) componentCollection
        \<lparr>tm_nanos = 7, tm_loc = ''UTC''\<rparr> (mem_docs ex_db) (mem_docs d') b"
proof -
  let ?r = "PatchComponent ext_example (mem_mongo ext_example) (ex_cmp 2 1) \<lparr>tm_nanos = 7, tm_loc = ''UTC''\<rparr> ex_db"
  have "\<exists>c. fst ?r = Inr c" by (rule exI, code_simp)
  then obtain c where c: "?r = (Inr c, snd ?r)" by (metis prod.collapse)
  have "well_versioned ext_example (cmp_uid (ex_cmp 2 1)) (mem_docs ex_db componentCollection)"
    by (simp add: well_versioned_def ex_simps versioned_def)
  from patch_component_newest[where docs = mem_docs and d = ex_db, OF mem_laws(1,3) ext_example_ok(4) mem_laws(4) this c]
  show ?thesis using c by (auto simp: ex_cmp_def)
qed

text \<open>
  C21: Reading a component by its reference after a successful put gives the put component back as the
  encoding and decoding leave it: with the next version number, the number of the version before it
  and the latest tag.
\<close>

theorem get_after_put_component:
  assumes laws: "driver_laws M docs rx" "encode_law E M" "decode_law M" "wrapf_ok E"
    and wv: "well_versioned E (cmp_uid node) (docs d componentCollection)"
    and max: "newest E (cmp_uid node) (docs d componentCollection) + 1 < 2 ^ 63 - 1"
    and put: "PutComponent E M node d = (Inr (), d')"
    and got: "GetComponent E M (NVReference (cmp_uid node)) d' = Inr c"
  shows "\<exists>v s. ver_current v = newest E (cmp_uid node) (docs d componentCollection)
    \<and> stored M (DComponent (cmp_set_metadata (nextVersion v (cmp_metadata node)) node)) s
    \<and> DecodeComponent M s = Inr c"
proof -
  have uid: "\<not> uuid_IsZero (cmp_uid node)" using put by (auto simp: PutComponent_def split: if_splits)
  obtain r where "in_session M ''cannot start DB session for update document transaction''
      ''update document transaction fail'' (updateCallback E M (DComponent node)) d = (Inr r, d')"
    using put uid by (auto simp: PutComponent_def split: sum.splits prod.splits)
  from components.session_update[OF laws uid wv this]
  obtain s v where nv: "new_version E (cmp_uid node) componentCollection s (docs d) (docs d')"
    and v: "ver_current v = newest E (cmp_uid node) (docs d componentCollection)"
    and st: "stored M (DComponent (cmp_set_metadata (nextVersion v (cmp_metadata node)) node)) s"
    by (auto simp: put_effect_def)
  have wv': "well_versioned E (cmp_uid node) (docs d' componentCollection)"
    using nv max by (simp add: new_version_def Let_def)
  obtain r where r: "getCRefVersion E M (NVReference (cmp_uid node)) componentCollection d' = Inr r"
    and f: "findDecode M (DecodeComponent M) componentCollection (ref_filter E r)
          ''Error getting component {uid: %s, version: %s} from storage'' d' = Inr c"
    using got by (auto simp: GetComponent_def split: sum.splits)
  obtain t where t: "t \<in># docs d' componentCollection" "of_uid E (cmp_uid node) t"
    "current_of t = newest E (cmp_uid node) (docs d componentCollection) + 1" "DecodeComponent M t = Inr c"
    using lookup_newest[OF laws(1,3,4) wv' r f] new_version_newest[OF nv] by auto
  then have "t = s" using new_version_unique[OF nv] by blast
  then show ?thesis using t v st by blast
qed

lemma get_after_put_component_witness:
  "\<exists>d' c v s. PutComponent ext_example (mem_mongo ext_example) (ex_cmp 2 9) ex_db = (Inr (), d')
    \<and> GetComponent ext_example (mem_mongo ext_example) (NVReference 2) d' = Inr c
    \<and> ver_current v = newest ext_example 2 (mem_docs ex_db componentCollection)
    \<and> stored (mem_mongo ext_example) (DComponent (cmp_set_metadata (nextVersion v (ex_meta 2 9)) (ex_cmp 2 9))) s
    \<and> DecodeComponent (mem_mongo ext_example) s = Inr c"
proof -
  let ?E = ext_example and ?M = "mem_mongo ext_example"
  let ?d' = "snd (PutComponent ?E ?M (ex_cmp 2 9) ex_db)"
  have "fst (PutComponent ?E ?M (ex_cmp 2 9) ex_db) = Inr ()" by code_simp
  then have put: "PutComponent ?E ?M (ex_cmp 2 9) ex_db = (Inr (), ?d')" by (metis prod.collapse)
  have "\<exists>c. GetComponent ?E ?M (NVReference 2) ?d' = Inr c" by (rule exI, code_simp)
  then obtain c where got: "GetComponent ?E ?M (NVReference 2) ?d' = Inr c" by blast
  have wv: "well_versioned ?E (cmp_uid (ex_cmp 2 9)) (mem_docs ex_db componentCollection)"
    by (simp add: well_versioned_def ex_simps versioned_def)
  have max: "newest ?E (cmp_uid (ex_cmp 2 9)) (mem_docs ex_db componentCollection) + 1 < 2 ^ 63 - 1"
    by code_simp
  have u: "cmp_metadata (ex_cmp 2 9) = ex_meta 2 9" "md_uid (ex_meta 2 9) = 2"
    by (simp_all add: ex_cmp_def ex_meta_def)
  have got': "GetComponent ?E ?M (NVReference (cmp_uid (ex_cmp 2 9))) ?d' = Inr c"
    using got by (simp only: u)
  from get_after_put_component[where docs = mem_docs and d = ex_db,
      OF mem_laws(1-3) ext_example_ok(4) wv max put got']
  show ?thesis using put got unfolding u by blast
qed

section \<open>Histories of one component\<close>

text \<open>
  The states a client reaches by creating a component that is not stored yet and then putting it
  again and again; \<open>k\<close> counts the successful saves.
\<close>

inductive saved :: "ext \<Rightarrow> 'd mongo \<Rightarrow> ('d \<Rightarrow> store) \<Rightarrow> component_reference \<Rightarrow> 'd \<Rightarrow> nat \<Rightarrow> bool"
  for E M docs u where
  fresh: "versions_of E u (docs d componentCollection) = {#} \<Longrightarrow> saved E M docs u d 0"
| created: "saved E M docs u d 0 \<Longrightarrow> cmp_uid node = u \<Longrightarrow> CreateComponent M node d = (Inr (), d') \<Longrightarrow>
    saved E M docs u d' 1"
| put: "saved E M docs u d k \<Longrightarrow> cmp_uid node = u \<Longrightarrow> PutComponent E M node d = (Inr (), d') \<Longrightarrow>
    saved E M docs u d' (Suc k)"

lemma newest_of_list: "versions_of E u C = mset (map int [1..<Suc k]) \<Longrightarrow> newest E u C = int k"
  unfolding newest_def by (intro Max_eqI) auto

lemma create_stores:
  assumes laws: "driver_laws M docs rx" "encode_law E M"
    and ok: "CreateComponent M node d = (Inr (), d')"
    and none: "versions_of E (cmp_uid node) (docs d componentCollection) = {#}"
  shows "versions_of E (cmp_uid node) (docs d' componentCollection) = {#1#}
    \<and> latest_of E (cmp_uid node) (docs d' componentCollection) = {#1#}
    \<and> well_versioned E (cmp_uid node) (docs d' componentCollection)"
proof -
  let ?u = "cmp_uid node"
  obtain v b where uid: "\<not> uuid_IsZero ?u" and v: "InitializeNew (md_version (cmp_metadata node)) = Inr v"
    and b: "Marshal M (DComponent (cmp_set_metadata ((cmp_metadata node)\<lparr>md_version := v\<rparr>) node)) = Inr b"
    and ins: "InsertOne M componentCollection b d = (Inr (), d')"
    using ok by (auto simp: CreateComponent_def insertDocument_def split: if_splits sum.splits prod.splits)
  obtain i where d': "docs d' componentCollection = add_mset ((''_id'', i) # b) (docs d componentCollection)"
    using insert_ok[OF laws(1) ins] by auto
  let ?md = "(cmp_metadata node)\<lparr>md_version := v\<rparr>"
  have "encodes_metadata E ?md b"
    using components.encodes[OF laws(2) b] uid by simp
  moreover have "VersionTagLatest \<in> set (ver_tags (md_version ?md))" "ver_current (md_version ?md) = 1"
    using InitializeNew_Inr[OF v] by (simp_all add: VersionInit_def)
  ultimately have s: "of_uid E ?u ((''_id'', i) # b)" "latest_tagged ((''_id'', i) # b)"
    "current_of ((''_id'', i) # b) = 1" "versioned ((''_id'', i) # b)"
    using components.stored_version[of E ?md b i] by (auto simp: versioned_def simp del: field_paths)
  have no: "\<not> of_uid E ?u s" if "s \<in># docs d componentCollection" for s
    using none that by (auto simp: versions_of_def filter_mset_none)
  then have "filter_mset (of_uid E ?u) (docs d componentCollection) = {#}"
    "filter_mset (\<lambda>s. of_uid E ?u s \<and> latest_tagged s) (docs d componentCollection) = {#}"
    by (auto simp: filter_mset_none)
  then show ?thesis using s no by (auto simp: versions_of_def latest_of_def well_versioned_def d')
qed

text \<open>
  C22: The stored versions of a component that is created once and then put are numbered without gap
  or repetition from 1, one for every successful save, and exactly the last of them is tagged
  latest (as long as the number fits the range of positive 64-bit integers).
\<close>

theorem saved_versions:
  assumes laws: "driver_laws M docs rx" "encode_law E M" "decode_law M" "wrapf_ok E"
    and run: "saved E M docs u d k" and "int k < 2 ^ 63 - 1"
  shows "versions_of E u (docs d componentCollection) = mset (map int [1..<Suc k])
    \<and> latest_of E u (docs d componentCollection) = (if k = 0 then {#} else {#int k#})
    \<and> well_versioned E u (docs d componentCollection)"
  using run assms(6)
proof (induction rule: saved.induct)
  case (fresh d)
  then have none: "\<not> of_uid E u s" if "s \<in># docs d componentCollection" for s
    using that by (auto simp: versions_of_def filter_mset_none)
  then have "filter_mset (\<lambda>s. of_uid E u s \<and> latest_tagged s) (docs d componentCollection) = {#}"
    by (auto simp: filter_mset_none)
  then show ?case using fresh none by (auto simp: latest_of_def well_versioned_def)
next
  case (created d node d')
  then show ?case using create_stores[OF laws(1,2), of node d d'] by auto
next
  case (put d k node d')
  have wv: "well_versioned E (cmp_uid node) (docs d componentCollection)"
    and n: "newest E u (docs d componentCollection) = int k"
    and vs: "versions_of E u (docs d componentCollection) = mset (map int [1..<Suc k])"
    using put newest_of_list[of E u "docs d componentCollection" k] by auto
  have uid: "\<not> uuid_IsZero (cmp_uid node)"
    using put.hyps by (auto simp: PutComponent_def split: if_splits)
  obtain r where "in_session M ''cannot start DB session for update document transaction''
      ''update document transaction fail'' (updateCallback E M (DComponent node)) d = (Inr r, d')"
    using put.hyps uid by (auto simp: PutComponent_def split: sum.splits prod.splits)
  from components.session_update[OF laws uid wv this]
  obtain s where "new_version E u componentCollection s (docs d) (docs d')"
    using put.hyps by (auto simp: put_effect_def)
  then show ?case using put.prems n vs by (auto simp: new_version_def Let_def add.commute)
qed

lemma saved_versions_witness:
  "\<exists>d. saved ext_example (mem_mongo ext_example) mem_docs 5 d 2
     \<and> versions_of ext_example 5 (mem_docs d componentCollection) = {#1, 2#}
     \<and> latest_of ext_example 5 (mem_docs d componentCollection) = {#2#}"
proof -
  let ?E = ext_example and ?M = "mem_mongo ext_example"
  let ?d1 = "snd (CreateComponent ?M (ex_cmp 5 1) ex_db)"
  let ?d2 = "snd (PutComponent ?E ?M (ex_cmp 5 1) ?d1)"
  have u: "cmp_uid (ex_cmp 5 1) = 5" by (simp add: ex_cmp_def ex_meta_def)
  have "saved ?E ?M mem_docs 5 ex_db 0"
    by (rule fresh) code_simp
  moreover have "CreateComponent ?M (ex_cmp 5 1) ex_db = (Inr (), ?d1)"
  proof -
    have "fst (CreateComponent ?M (ex_cmp 5 1) ex_db) = Inr ()" by code_simp
    then show ?thesis by (metis prod.collapse)
  qed
  ultimately have one: "saved ?E ?M mem_docs 5 ?d1 1" using u by (blast intro: created)
  have "PutComponent ?E ?M (ex_cmp 5 1) ?d1 = (Inr (), ?d2)"
  proof -
    have "fst (PutComponent ?E ?M (ex_cmp 5 1) ?d1) = Inr ()" by code_simp
    then show ?thesis by (metis prod.collapse)
  qed
  from put[OF one u this] have two: "saved ?E ?M mem_docs 5 ?d2 2" by (simp only: Suc_1)
  from saved_versions[OF mem_laws(1-3) ext_example_ok(4) this] show ?thesis
    using two by (intro exI[of _ ?d2]) (simp add: upt_rec)
qed

end
