(* ===== verification/Mongo_Access.thy ===== *)
theory Mongo_Access
  imports Mongo_Versions
begin

text \<open>
  Who may see and change what is stored: the operations on workflows, jobs and volumes check the
  access of the user in the context to the workspace of the document, and the listings restrict
  their pipelines to the workspaces the user has access to. The operations that do not are shown too.
\<close>

section \<open>The access check\<close>

definition has_access :: "ctx \<Rightarrow> string \<Rightarrow> bool" where
  "has_access cx ns =
     (case (find (\<lambda>w. ws_name w = ns) (getWorkspacesFromContext cx), cx_user cx) of
        (Some w, Some u) \<Rightarrow> UserHasAccess w u
      | _ \<Rightarrow> False)"

lemma accessIn_iff:
  "accessIn wss ns u = Inr True \<longleftrightarrow>
     (case (find (\<lambda>w. ws_name w = ns) wss, u) of (Some w, Some usr) \<Rightarrow> UserHasAccess w usr | _ \<Rightarrow> False)"
  by (induction wss) (auto simp: UserHasAccess_of_def split: option.splits)

lemma CheckWorkspaceAccess_iff: "CheckWorkspaceAccess cx ns = Inr True \<longleftrightarrow> has_access cx ns"
  by (simp add: CheckWorkspaceAccess_def has_access_def accessIn_iff)

lemma accessible_sound:
  "accessible wss u = Inr ys \<Longrightarrow> w \<in> set ys \<Longrightarrow> w \<in> set wss \<and> UserHasAccess_of w u = Inr True"
  by (induction wss arbitrary: ys) (auto simp: go_simps split: if_splits)

text \<open>
  The lookups of documents that belong to a workspace share one contract: a document is only
  returned to a user with access to its workspace. What is built on a lookup inherits it.
\<close>

locale secured_lookup =
  fixes lookup :: "ctx \<Rightarrow> 'k \<Rightarrow> 'd \<Rightarrow> 'a res" and ws_of :: "'a \<Rightarrow> string"
  assumes secured: "lookup cx k d = Inr x \<Longrightarrow> has_access cx (ws_of x)"
begin

text \<open>Work that starts with the lookup and returns its error does nothing without access.\<close>

lemma guarded_update:
  assumes "\<And>e. lookup cx k d = Inl e \<Longrightarrow> f = (Inl (g e), d)"
    and "snd f \<noteq> d \<or> fst f = Inr y"
  shows "\<exists>x. lookup cx k d = Inr x \<and> has_access cx (ws_of x)"
  using assms secured by (cases "lookup cx k d") auto

end

interpretation workflow_lookup: secured_lookup "GetWorkflow E M" wf_workspace for E and M :: "'d mongo"
  by unfold_locales
    (auto simp: GetWorkflow_def go_simps CheckWorkspaceAccess_iff split: sum.splits if_splits)

interpretation job_lookup: secured_lookup "GetJob E M" "\<lambda>j. wf_workspace (job_workflow j)" for E and M :: "'d mongo"
  by unfold_locales
    (auto simp: GetJob_def go_simps CheckWorkspaceAccess_iff split: sum.splits if_splits)

interpretation volume_lookup: secured_lookup "GetVolume E M" fv_workspace for E and M :: "'d mongo"
  by unfold_locales
    (auto simp: GetVolume_def go_simps CheckWorkspaceAccess_iff split: sum.splits if_splits)

text \<open>An operation on a document given by the caller that checks the access first.\<close>

lemma check_first:
  assumes "\<not> has_access cx ns"
  obtains (panics) e where "CheckWorkspaceAccess cx ns = Inl e" | (denied) "CheckWorkspaceAccess cx ns = Inr False"
proof (cases "CheckWorkspaceAccess cx ns")
  case (Inr b)
  then show ?thesis using assms CheckWorkspaceAccess_iff[of cx ns] denied by (cases b) auto
qed (use panics in auto)

section \<open>Listings\<close>

lemma runs_append: "runs rx (a @ b) xs ys \<longleftrightarrow> (\<exists>zs. runs rx a xs zs \<and> runs rx b zs ys)"
  by (induction a arbitrary: xs) (auto simp: runs_iffs)

lemma runs_matchStage:
  assumes "runs rx (matchStage f) xs ys"
  shows "ys = filter (\<lambda>s. matches rx s f) xs \<and> accepted f"
  using assms by (cases "f = []") (auto simp: matchStage_def runs_iffs stage_iffs)

lemma runs_sortStage: "runs rx (sortStage q) xs ys \<Longrightarrow> set ys = set xs"
  by (auto simp: sortStage_def runs_iffs stage_iffs split: if_splits dest: mset_eq_setD)

lemma map_BDoc_inj: "map BDoc xs = map BDoc ys \<longleftrightarrow> xs = ys"
  by (metis (mono_tags) bson.inject(5) injI list.inj_map_strong)

lemma runs_facetStage:
  assumes "runs rx [facetStage p] xs bs"
  shows "\<exists>r. bs = [r] \<and>
    map_of r ''items'' = Some (BArr (map BDoc (take (nat (pn_limit p)) (drop (nat (pn_skip p)) xs))))"
  using assms unfolding facetStage_def runs_iffs stage_iffs by (auto simp: runs_iffs stage_iffs)

text \<open>
  The items of a listing come from stored documents that the filter matches, through the stages in
  between; there are at most as many as the page allows.
\<close>

lemma listing_items:
  assumes laws: "driver_laws M docs rx"
    and dec: "\<And>b ps items. dec b = Inr (ps, items) \<Longrightarrow>
        \<exists>bs. map_of b ''items'' = Some (BArr (map BDoc bs)) \<and> list_all2 Q items bs"
    and mids: "\<And>xs ys. runs rx mids xs ys \<Longrightarrow> ys = map h xs"
    and none: "\<And>items pg. nores = Inr (items, pg) \<Longrightarrow> items = []"
    and run: "readFacets E bg bd dec nores
        (Aggregate M coll (matchStage f @ sortStage q @ mids @ [facetStage p]) d) = Inr (items, pg)"
  shows "length items \<le> nat (pn_limit p)
    \<and> (\<forall>it \<in> set items. \<exists>s \<in># docs d coll. matches rx s f \<and> Q it (h s))"
proof (cases "items = []")
  case False
  then obtain b bs ps where agg: "Aggregate M coll (matchStage f @ sortStage q @ mids @ [facetStage p]) d
      = Inr (b # bs)" and b: "dec b = Inr (ps, items)"
    using run none
    by (auto simp: readFacets_def split: sum.splits list.splits option.splits)
  obtain xs where xs: "mset xs = docs d coll"
    and runs: "runs rx (matchStage f @ sortStage q @ mids @ [facetStage p]) xs (b # bs)"
    using laws agg unfolding driver_laws_def aggregate_law_def by blast
  obtain zs us where zs: "set zs = set (filter (\<lambda>s. matches rx s f) xs)" and us: "us = map h zs"
    and facet: "runs rx [facetStage p] us (b # bs)"
  proof -
    obtain ys zs us where y: "runs rx (matchStage f) xs ys" and z: "runs rx (sortStage q) ys zs"
      and u: "runs rx mids zs us" and "runs rx [facetStage p] us (b # bs)"
      using runs unfolding runs_append by blast
    then show ?thesis using that runs_matchStage[OF y] runs_sortStage[OF z] mids[OF u] by simp
  qed
  obtain its where its: "map_of b ''items'' = Some (BArr (map BDoc its))" "list_all2 Q items its"
    using dec[OF b] by blast
  moreover have "map_of b ''items'' = Some (BArr (map BDoc (take (nat (pn_limit p)) (drop (nat (pn_skip p)) us))))"
    using runs_facetStage[OF facet] by auto
  ultimately have i: "its = take (nat (pn_limit p)) (drop (nat (pn_skip p)) us)"
    by (simp add: map_BDoc_inj)
  then have "set its \<subseteq> h ` set zs"
    using set_take_subset set_drop_subset unfolding us by (metis list.set_map order_trans)
  moreover have "length items \<le> nat (pn_limit p)" using i its(2) by (simp add: list_all2_lengthD)
  ultimately show ?thesis using its(2) zs xs
    by (fastforce simp: list_all2_conv_all_nth in_set_conv_nth simp flip: xs)
qed simp

text \<open>The workspace of an item of a listing is one of those its filter names.\<close>

lemma matches_workspaces:
  assumes "matches rx s (createWorkspaceFilter wss p)" and "field s p = v" and "reads_string v ws"
  shows "\<exists>w \<in> set wss. ws_name w = ws"
  using assms
  by (cases v rule: elements.cases)
    (auto simp: createWorkspaceFilter_def is_condition_def op_matches_def list_ex_iff reads_string_def)

lemma securedFilter_matches: "matches rx s (securedFilter f fs) \<Longrightarrow> matches rx s f"
  by (auto simp: securedFilter_def join_queries_AND split: if_splits)

definition md_ws_projection :: bsonD where
  "md_ws_projection = ProjectionFromBsonTags (flattenedFields metadata_workspace_struct)"

lemma project_workspace: "map_of (project md_ws_projection s) ''workspace'' = map_of s ''workspace''"
proof -
  have k: "keeps md_ws_projection ''workspace''" "md_ws_projection \<noteq> []" by code_simp+
  have "map_of (filter (\<lambda>(k, v). keeps md_ws_projection k) s) ''workspace'' = map_of s ''workspace''"
    using k(1) by (induction s) auto
  then show ?thesis using k(2) by (simp add: project_def)
qed

lemma projectStage_runs: "runs rx [projectStage metadata_workspace_struct] xs ys \<Longrightarrow> ys = map (project md_ws_projection) xs"
  by (simp add: projectStage_def runs_iffs stage_iffs md_ws_projection_def)

definition lift_workspace :: "bsonD \<Rightarrow> bsonD" where
  "lift_workspace s = add_fields [(''workspace'', BStr ''$workflow.workspace'')] s"

lemma addWorkspace_runs:
  "runs rx [addWorkspaceStage, projectStage metadata_workspace_struct] xs ys \<Longrightarrow>
   ys = map (project md_ws_projection \<circ> lift_workspace) xs"
  by (simp add: projectStage_def addWorkspaceStage_def runs_iffs stage_iffs md_ws_projection_def
      lift_workspace_def comp_def)

lemma lift_workspace_field:
  "field s ''workflow.workspace'' = Some v \<Longrightarrow> field (lift_workspace s) ''workspace'' = Some v"
  by (simp add: lift_workspace_def add_fields_def add_field_def)

lemma decode_items:
  assumes "decode_law M" "DecodeFacetsWs M b = Inr (ps, items)"
  shows "\<exists>bs. map_of b ''items'' = Some (BArr (map BDoc bs))
    \<and> list_all2 (\<lambda>it s. reads_string (map_of s ''workspace'') (snd it)) items bs"
  using assms by (simp add: decode_law_def)

section \<open>Example data\<close>

text \<open>A user with access to the first of two workspaces, and a volume of the second one.\<close>

definition ex_cx :: ctx where
  "ex_cx =
     \<lparr>cx_user = Some \<lparr>usr_uid = ''u'', usr_name = ''u'', usr_email = ''u@x'', usr_roles = [''r'']\<rparr>,
      cx_workspaces = Some
        [\<lparr>ws_name = ''ns'', ws_description = '''', ws_hideForUnauthorized = False, ws_roles = [[''r'']]\<rparr>,
         \<lparr>ws_name = ''other'', ws_description = '''', ws_hideForUnauthorized = False, ws_roles = [[''x'']]\<rparr>]\<rparr>"

definition ex_volume :: "string \<Rightarrow> flowify_volume" where
  "ex_volume ws = \<lparr>fv_uid = 4, fv_workspace = ws, fv_volume = \<lparr>vol_name = ''v'', vol_rest = ''''\<rparr>\<rparr>"

definition ex_vdb :: mem where
  "ex_vdb = ex_db(volumeCollection := [mem_id (mem_marshal ext_example (DVolume (ex_volume ''other'')))])"

lemmas ex_access = ex_cx_def ex_volume_def ex_vdb_def

section \<open>Properties\<close>

text \<open>
  A workflow, a job or a volume is returned only to a user who has access to the workspace it is
  stored with, whatever the database does; a document of another workspace gives an error.
\<close>

theorem reads_need_access:
  "(\<forall>w. GetWorkflow E M cx vid d = Inr w \<longrightarrow> has_access cx (wf_workspace w))
   \<and> (\<forall>j. GetJob E M cx u d = Inr j \<longrightarrow> has_access cx (wf_workspace (job_workflow j)))
   \<and> (\<forall>v. GetVolume E M cx u d = Inr v \<longrightarrow> has_access cx (fv_workspace v))"
  by (auto intro: workflow_lookup.secured job_lookup.secured volume_lookup.secured)

lemma reads_need_access_witness:
  "\<exists>w. GetWorkflow ext_example (mem_mongo ext_example) ex_cx (NVReference 3) ex_db = Inr w
     \<and> has_access ex_cx (wf_workspace w)"
proof -
  have "\<exists>w. GetWorkflow ext_example (mem_mongo ext_example) ex_cx (NVReference 3) ex_db = Inr w"
    by (rule exI, code_simp)
  then show ?thesis
    using reads_need_access[of ext_example "mem_mongo ext_example" ex_cx "NVReference 3" ex_db] by blast
qed

text \<open>
  C27: Without access to the workspace of the document, creating or putting a workflow, creating a job
  and putting a volume return an error and leave the database as it was.
\<close>

theorem writes_need_access:
  "(\<not> has_access cx (wf_workspace w) \<longrightarrow>
      (\<exists>e. CreateWorkflow M cx w d = (Inl e, d)) \<and> (\<exists>e. PutWorkflow E M cx w d = (Inl e, d)))
   \<and> (\<not> has_access cx (wf_workspace (job_workflow j)) \<longrightarrow> (\<exists>e. CreateJob M cx j d = (Inl e, d)))
   \<and> (\<not> has_access cx (fv_workspace v) \<longrightarrow> (\<exists>e. PutVolume E M cx v d = (Inl e, d)))"
proof (intro conjI impI)
  assume w: "\<not> has_access cx (wf_workspace w)"
  show "\<exists>e. CreateWorkflow M cx w d = (Inl e, d)"
    using w by (rule check_first) (auto simp: CreateWorkflow_def)
  show "\<exists>e. PutWorkflow E M cx w d = (Inl e, d)"
    using w workflow_lookup.secured[of E M cx "NVReference (md_uid (wf_metadata w))" d]
    by (auto simp: PutWorkflow_def split: sum.splits)
next
  assume "\<not> has_access cx (wf_workspace (job_workflow j))"
  then show "\<exists>e. CreateJob M cx j d = (Inl e, d)"
    by (rule check_first) (auto simp: CreateJob_def)
next
  assume "\<not> has_access cx (fv_workspace v)"
  then show "\<exists>e. PutVolume E M cx v d = (Inl e, d)"
    by (rule check_first) (auto simp: PutVolume_def)
qed

lemma writes_need_access_witness:
  "\<not> has_access ex_cx ''other''
   \<and> (\<exists>e. CreateWorkflow (mem_mongo ext_example) ex_cx (ex_wf 9 1 ''other'') ex_db = (Inl e, ex_db))"
proof -
  have "\<not> has_access ex_cx ''other''" by code_simp
  moreover have "wf_workspace (ex_wf 9 1 ''other'') = ''other''" by (simp add: ex_wf_def)
  ultimately show ?thesis
    using writes_need_access[of ex_cx "ex_wf 9 1 ''other''" "mem_mongo ext_example" ex_db] by simp
qed

text \<open>What a delete transaction does to the stored documents.\<close>

lemma session_delete:
  assumes laws: "driver_laws M docs rx"
    and coll: "selectGetter kind = Some coll"
    and f: "f = (if kind = JobKind then uid_filter E (crv_uid r) else version_filter E (crv_uid r) (crv_version r))"
    and run: "in_session M a c (deleteCallback E M kind r) d = (res, d')"
  shows "docs d' = docs d
    \<or> (\<exists>s \<in># docs d coll. matches rx s f \<and> docs d' = (docs d)(coll := docs d coll - {#s#}))"
proof (cases "StartSession M d")
  case (Inr _)
  obtain r1 where tx: "WithTransaction M (deleteCallback E M kind r) d = (r1, d')"
    using run Inr by (auto simp: in_session_def split: prod.splits)
  from laws tx show ?thesis
  proof (cases rule: transaction_cases)
    case (committed d0 x d1)
    then obtain n where "DeleteOne M coll f d0 = (Inr n, d1)"
      by (auto simp: deleteCallback_def coll f[symmetric] split: prod.splits sum.splits)
    then show ?thesis using delete_ok[OF laws, of coll f d0 n d1] committed by auto
  qed simp
qed (use run in \<open>auto simp: in_session_def\<close>)

text \<open>
  C28: Deleting a workflow removes at most one document, the version the reference names, and it
  removes it only if the user has access to the workspace of that document; no other document of
  any collection changes.
\<close>

theorem deletes_need_access:
  assumes laws: "driver_laws M docs rx"
    and unique: "\<And>s t. s \<in># docs d workflowCollection \<Longrightarrow> t \<in># docs d workflowCollection \<Longrightarrow>
        matches rx s (version_filter E (crv_uid r) (crv_version r)) \<Longrightarrow>
        matches rx t (version_filter E (crv_uid r) (crv_version r)) \<Longrightarrow> s = t"
    and wv: "well_versioned E (crv_uid r) (docs d workflowCollection)"
    and run: "DeleteDocument E M cx WorkflowKind r d = (res, d')"
  shows "docs d' = docs d
    \<or> (\<exists>s w. s \<in># docs d workflowCollection \<and> of_uid E (crv_uid r) s \<and> current_of s = crv_version r
         \<and> docs d' = (docs d)(workflowCollection := docs d workflowCollection - {#s#})
         \<and> DecodeWorkflow M s = Inr w \<and> has_access cx (wf_workspace w))"
proof (cases "docs d' = docs d")
  case False
  let ?f = "version_filter E (crv_uid r) (crv_version r)"
  obtain w where get: "GetWorkflow E M cx (NVCRefVersion r) d = Inr w"
    using run False by (auto simp: DeleteDocument_def deleteAccess_def go_simps split: sum.splits)
  obtain res' where "in_session M ''cannot start DB session for delete document transaction''
      ''delete document transaction fail'' (deleteCallback E M WorkflowKind r) d = (res', d')"
    using run False
    by (auto simp: DeleteDocument_def split: sum.splits prod.splits tx_result.splits if_splits)
  with session_delete[OF laws _ refl this] False
  obtain s where s: "s \<in># docs d workflowCollection" "matches rx s ?f"
    "docs d' = (docs d)(workflowCollection := docs d workflowCollection - {#s#})"
    by auto
  then have v: "of_uid E (crv_uid r) s" "current_of s = crv_version r" "versioned s"
    using wv matches_uid_current[of E "crv_uid r" s rx "crv_version r"]
    by (auto simp: well_versioned_def)
  then have "crv_version r \<noteq> 0" by (auto elim!: versionedE)
  then have "findDecode M (DecodeWorkflow M) workflowCollection ?f
      ''Error getting workflow {uid: %s, version: %s} from storage'' d = Inr w"
    using get by (auto simp: GetWorkflow_def getCRefVersion_def ref_filter_def go_simps split: sum.splits if_splits)
  then obtain b where b: "FindOne M workflowCollection ?f [] d = Inr (Some b)" "DecodeWorkflow M b = Inr w"
    by (auto simp: findDecode_def split: sum.splits option.splits)
  then have "DecodeWorkflow M s = Inr w"
    using find_ok[OF laws b(1)] unique[OF s(1) _ s(2)] by (auto simp: project_def)
  then show ?thesis using s v workflow_lookup.secured[OF get] by blast
qed simp

lemma deletes_need_access_witness:
  "\<exists>d' s w. fst (DeleteDocument ext_example (mem_mongo ext_example) ex_cx WorkflowKind
                  \<lparr>crv_version = 1, crv_uid = 3\<rparr> ex_db) = Inr \<lparr>crv_version = 1, crv_uid = 3\<rparr>
     \<and> d' = snd (DeleteDocument ext_example (mem_mongo ext_example) ex_cx WorkflowKind
                  \<lparr>crv_version = 1, crv_uid = 3\<rparr> ex_db)
     \<and> s \<in># mem_docs ex_db workflowCollection
     \<and> mem_docs d' workflowCollection = mem_docs ex_db workflowCollection - {#s#}
     \<and> DecodeWorkflow (mem_mongo ext_example) s = Inr w \<and> has_access ex_cx (wf_workspace w)"
proof -
  let ?E = ext_example and ?M = "mem_mongo ext_example" and ?r = "\<lparr>crv_version = 1, crv_uid = 3\<rparr> :: cref_version"
  let ?run = "DeleteDocument ?E ?M ex_cx WorkflowKind ?r ex_db"
  have ok: "fst ?run = Inr ?r" by code_simp
  have diff: "mem_docs (snd ?run) workflowCollection \<noteq> mem_docs ex_db workflowCollection" by code_simp
  have unique: "s = t" if "s \<in># mem_docs ex_db workflowCollection" "t \<in># mem_docs ex_db workflowCollection" for s t
    using that by (simp add: ex_simps)
  have wv: "well_versioned ?E (crv_uid ?r) (mem_docs ex_db workflowCollection)"
    by (simp add: well_versioned_def ex_simps versioned_def)
  have "mem_docs (snd ?run) = mem_docs ex_db \<or> (\<exists>s w. s \<in># mem_docs ex_db workflowCollection
      \<and> of_uid ?E (crv_uid ?r) s \<and> current_of s = crv_version ?r
      \<and> mem_docs (snd ?run) = (mem_docs ex_db)(workflowCollection := mem_docs ex_db workflowCollection - {#s#})
      \<and> DecodeWorkflow ?M s = Inr w \<and> has_access ex_cx (wf_workspace w))"
    by (rule deletes_need_access[where d = ex_db and res = "fst ?run", OF mem_laws(1) unique wv]) auto
  then obtain s w where s: "s \<in># mem_docs ex_db workflowCollection"
    "mem_docs (snd ?run) = (mem_docs ex_db)(workflowCollection := mem_docs ex_db workflowCollection - {#s#})"
    "DecodeWorkflow ?M s = Inr w" "has_access ex_cx (wf_workspace w)"
    using diff by auto
  then show ?thesis using ok by (intro exI[of _ "snd ?run"] exI[of _ s] exI[of _ w]) simp
qed

text \<open>A listing restricted to the accessible workspaces, for any stages between sort and facet.\<close>

lemma secured_listing:
  assumes laws: "driver_laws M docs rx" "decode_law M"
    and acc: "accessible (getWorkspacesFromContext cx) (cx_user cx) = Inr wss"
    and mids: "\<And>xs ys. runs rx mids xs ys \<Longrightarrow> ys = map h xs"
    and h: "\<And>s ws. matches rx s (createWorkspaceFilter wss path) \<Longrightarrow>
        reads_string (map_of (h s) ''workspace'') ws \<Longrightarrow> \<exists>w \<in> set wss. ws_name w = ws"
    and run: "readFacets E bg bd (DecodeFacetsWs M) errorResult
        (Aggregate M coll (matchStage (securedFilter (createWorkspaceFilter wss path) f)
          @ sortStage q @ mids @ [facetStage p]) d) = Inr (items, pg)"
  shows "length items \<le> nat (pn_limit p)
    \<and> (\<forall>it \<in> set items. \<exists>w \<in> set (getWorkspacesFromContext cx).
         ws_name w = snd it \<and> UserHasAccess_of w (cx_user cx) = Inr True)"
proof -
  have "\<And>items pg. errorResult = Inr (items, pg) \<Longrightarrow> items = []"
    by (simp add: errorResult_def)
  from listing_items[OF laws(1) decode_items[OF laws(2)] mids this run]
  have len: "length items \<le> nat (pn_limit p)"
    and its: "\<forall>it \<in> set items. \<exists>s \<in># docs d coll.
      matches rx s (securedFilter (createWorkspaceFilter wss path) f)
      \<and> reads_string (map_of (h s) ''workspace'') (snd it)"
    by auto
  have "\<forall>it \<in> set items. \<exists>w \<in> set wss. ws_name w = snd it"
    using its h securedFilter_matches by blast
  then show ?thesis using len accessible_sound[OF acc] by blast
qed

lemma workflow_workspace:
  "matches rx s (createWorkspaceFilter wss ''workspace'') \<Longrightarrow>
   reads_string (map_of (project md_ws_projection s) ''workspace'') ws \<Longrightarrow> \<exists>w \<in> set wss. ws_name w = ws"
  using matches_workspaces[of rx s wss "''workspace''" _ ws] by (simp add: project_workspace)

lemma job_workspace:
  assumes "matches rx s (createWorkspaceFilter wss ''workflow.workspace'')"
    and "reads_string (map_of ((project md_ws_projection \<circ> lift_workspace) s) ''workspace'') ws"
  shows "\<exists>w \<in> set wss. ws_name w = ws"
proof -
  obtain v where v: "field s ''workflow.workspace'' = Some v"
    using assms(1) by (cases "field s ''workflow.workspace''")
      (auto simp: createWorkspaceFilter_def is_condition_def op_matches_def simp del: field_paths)
  then show ?thesis
    using lift_workspace_field[OF v] assms(2) matches_workspaces[OF assms(1) v, of ws]
    by (simp add: project_workspace)
qed

text \<open>
  C29: Every item of a listing of workflows or jobs comes from a stored document of a workspace the
  user has access to, and there are at most as many items as the page limit; the filters of the
  request cannot widen this.
\<close>

theorem listings_need_access:
  assumes laws: "driver_laws M docs rx" "decode_law M"
  shows "(\<forall>items pg. ListWorkflowsMetadata E M cx p fs ss d = Inr (items, pg) \<longrightarrow>
      length items \<le> nat (pn_limit p) \<and> (\<forall>it \<in> set items. \<exists>w \<in> set (getWorkspacesFromContext cx).
         ws_name w = snd it \<and> UserHasAccess_of w (cx_user cx) = Inr True))
    \<and> (\<forall>items pg. ListJobsMetadata E M cx p fs ss d = Inr (items, pg) \<longrightarrow>
      length items \<le> nat (pn_limit p) \<and> (\<forall>it \<in> set items. \<exists>w \<in> set (getWorkspacesFromContext cx).
         ws_name w = snd it \<and> UserHasAccess_of w (cx_user cx) = Inr True))"
proof (rule conjI; intro allI impI)
  fix items pg
  assume "ListWorkflowsMetadata E M cx p fs ss d = Inr (items, pg)"
  then obtain wss f q where acc: "accessible (getWorkspacesFromContext cx) (cx_user cx) = Inr wss"
    and "wss \<noteq> [] \<Longrightarrow> readFacets E ''Error getting components from storage''
      ''Error decoding component from storage'' (DecodeFacetsWs M) errorResult
      (Aggregate M workflowCollection (matchStage (securedFilter (createWorkspaceFilter wss ''workspace'') f)
        @ sortStage q @ [projectStage metadata_workspace_struct] @ [facetStage p]) d) = Inr (items, pg)"
    and "wss = [] \<Longrightarrow> items = []"
    by (auto simp: ListWorkflowsMetadata_def go_simps split: if_splits)
  then show "length items \<le> nat (pn_limit p) \<and> (\<forall>it \<in> set items. \<exists>w \<in> set (getWorkspacesFromContext cx).
      ws_name w = snd it \<and> UserHasAccess_of w (cx_user cx) = Inr True)"
    using secured_listing[OF laws acc projectStage_runs workflow_workspace]
    by (cases "wss = []") auto
next
  fix items pg
  assume "ListJobsMetadata E M cx p fs ss d = Inr (items, pg)"
  then obtain wss f q where acc: "accessible (getWorkspacesFromContext cx) (cx_user cx) = Inr wss"
    and run: "wss \<noteq> [] \<Longrightarrow> readFacets E ''Error getting components from storage''
      ''Error decoding component from storage'' (DecodeFacetsWs M) errorResult
      (Aggregate M jobCollection (matchStage (securedFilter (createWorkspaceFilter wss ''workflow.workspace'') f)
        @ sortStage q @ [addWorkspaceStage, projectStage metadata_workspace_struct] @ [facetStage p]) d)
      = Inr (items, pg)"
    and "wss = [] \<Longrightarrow> items = []"
    by (auto simp: ListJobsMetadata_def go_simps split: if_splits)
  then show "length items \<le> nat (pn_limit p) \<and> (\<forall>it \<in> set items. \<exists>w \<in> set (getWorkspacesFromContext cx).
      ws_name w = snd it \<and> UserHasAccess_of w (cx_user cx) = Inr True)"
    using secured_listing[OF laws acc addWorkspace_runs job_workspace]
    by (cases "wss = []") auto
qed

lemma listings_need_access_witness:
  "\<exists>it pg. ListWorkflowsMetadata ext_example (mem_mongo ext_example) ex_cx \<lparr>pn_limit = 10, pn_skip = 0\<rparr> [] [] ex_db
       = Inr ([it], pg)
     \<and> (\<exists>w \<in> set (getWorkspacesFromContext ex_cx). ws_name w = snd it \<and> UserHasAccess_of w (cx_user ex_cx) = Inr True)"
proof -
  let ?r = "ListWorkflowsMetadata ext_example (mem_mongo ext_example) ex_cx \<lparr>pn_limit = 10, pn_skip = 0\<rparr> [] [] ex_db"
  have "\<exists>it pg. ?r = Inr ([it], pg)" by (rule exI, rule exI, code_simp)
  then obtain it pg where "?r = Inr ([it], pg)" by blast
  then show ?thesis
    using listings_need_access[OF mem_laws(1,3), of ext_example ext_example ex_cx
        "\<lparr>pn_limit = 10, pn_skip = 0\<rparr>" "[]" "[]" ex_db] by auto
qed

text \<open>
  Putting a volume whose UUID is that of a stored volume of a workspace the user cannot access
  replaces the stored volume: the put checks only the workspace of the new volume, and takes the
  denied lookup of the old one for a volume that may be overwritten.
\<close>

theorem put_volume_overwrites:
  assumes laws: "driver_laws M docs rx"
    and denied: "GetVolume E M cx (fv_uid vol) d = Inl ErrNoAccess"
    and put: "PutVolume E M cx vol d = (Inr (), d')"
  shows "has_access cx (fv_workspace vol)
    \<and> (\<exists>old \<in># docs d volumeCollection. \<exists>v new. of_uid E (fv_uid vol) old \<and> DecodeVolume M old = Inr v
         \<and> \<not> has_access cx (fv_workspace v)
         \<and> stored M (DVolume vol) new
         \<and> (\<exists>t \<in># docs d volumeCollection. of_uid E (fv_uid vol) t
              \<and> docs d' = replaced volumeCollection t new (docs d)))"
proof -
  obtain b where ok: "CheckWorkspaceAccess cx (fv_workspace vol) = Inr True" and b: "Marshal M (DVolume vol) = Inr b"
    and rep: "ReplaceOne M volumeCollection (uid_filter E (fv_uid vol)) b d = (Inr (), d')"
    using put denied by (auto simp: PutVolume_def split: if_splits sum.splits prod.splits)
  obtain s v where s: "FindOne M volumeCollection (uid_filter E (fv_uid vol)) [] d = Inr (Some s)"
    and v: "DecodeVolume M s = Inr v" "\<not> has_access cx (fv_workspace v)"
    using denied
    by (auto simp: GetVolume_def findDecode_def rbind_def wrapres_def simp flip: CheckWorkspaceAccess_iff
        split: sum.splits option.splits if_splits)
  obtain old where old: "old \<in># docs d volumeCollection" "of_uid E (fv_uid vol) old" "s = old"
    using find_ok[OF laws s] by (auto simp: matches_uid project_def)
  then obtain t i where "t \<in># docs d volumeCollection" "of_uid E (fv_uid vol) t"
    "docs d' = replaced volumeCollection t ((''_id'', i) # b) (docs d)"
    using replace_ok[OF laws rep] by (auto simp: matches_uid)
  then show ?thesis using old v b ok CheckWorkspaceAccess_iff unfolding stored_def by blast
qed

lemma put_volume_overwrites_witness:
  "\<exists>d'. PutVolume ext_example (mem_mongo ext_example) ex_cx (ex_volume ''ns'') ex_vdb = (Inr (), d')
     \<and> (\<exists>t new. stored (mem_mongo ext_example) (DVolume (ex_volume ''ns'')) new
          \<and> mem_docs d' = replaced volumeCollection t new (mem_docs ex_vdb))"
proof -
  let ?run = "PutVolume ext_example (mem_mongo ext_example) ex_cx (ex_volume ''ns'') ex_vdb"
  have "fst ?run = Inr ()" by code_simp
  then have ok: "?run = (Inr (), snd ?run)" by (metis prod.collapse)
  have "GetVolume ext_example (mem_mongo ext_example) ex_cx (fv_uid (ex_volume ''ns'')) ex_vdb = Inl ErrNoAccess"
    by code_simp
  from put_volume_overwrites[where docs = mem_docs, OF mem_laws(1) this ok] show ?thesis using ok by blast
qed

text \<open>
  Patching a workflow does not look at the user: a user without access to the workspace of a
  workflow, who cannot read it, can still overwrite it, and move it to another workspace.
\<close>

theorem patch_workflow_unchecked:
  "\<not> has_access (ex_cx\<lparr>cx_workspaces := None\<rparr>) ''ns''
   \<and> (\<exists>e. GetWorkflow ext_example (mem_mongo ext_example) (ex_cx\<lparr>cx_workspaces := None\<rparr>) (NVReference 3) ex_db = Inl e)
   \<and> (\<exists>w. fst (PatchWorkflow ext_example (mem_mongo ext_example) (ex_cx\<lparr>cx_workspaces := None\<rparr>)
                 (ex_wf 3 1 ''elsewhere'') \<lparr>tm_nanos = 7, tm_loc = ''UTC''\<rparr> ex_db) = Inr w
        \<and> wf_workspace w = ''elsewhere'')"
proof (intro conjI)
  show "\<not> has_access (ex_cx\<lparr>cx_workspaces := None\<rparr>) ''ns''" by code_simp
  show "\<exists>e. GetWorkflow ext_example (mem_mongo ext_example) (ex_cx\<lparr>cx_workspaces := None\<rparr>) (NVReference 3) ex_db = Inl e"
    by (rule exI, code_simp)
  show "\<exists>w. fst (PatchWorkflow ext_example (mem_mongo ext_example) (ex_cx\<lparr>cx_workspaces := None\<rparr>)
                 (ex_wf 3 1 ''elsewhere'') \<lparr>tm_nanos = 7, tm_loc = ''UTC''\<rparr> ex_db) = Inr w
        \<and> wf_workspace w = ''elsewhere''"
    by (rule exI, rule conjI, code_simp, code_simp)
qed

end
