(* ===== verification/Rest_Proofs.thy ===== *)
theory Rest_Proofs
  imports Rest_Server Mongo_Access
begin

text \<open>
  What the handlers promise, proved from rules for the ways a handler ends (an error response, a
  response, a panic) and for its calls: reading routes change nothing, the guarded routes act only for
  admins, every other route answers exactly once with the status its body names, and the effects of
  single handlers.
\<close>

section \<open>Rules\<close>

named_theorems snd_rules "the state a handler leaves behind"
named_theorems answer_rules "a fresh response writer is answered once"

lemma on_result_simps [simp]:
  "on_result (Inr x) p failed ok = ok x"
  "on_result (Inl e) p failed ok = (if is_panic e then (abort (fst p), snd p) else failed e)"
  by (simp_all add: on_result_def)

lemma on_run_simps [simp]:
  "on_run None p failed ok = (hang (fst p), snd p)"
  "on_run (Some r) p failed ok = on_result r p failed ok"
  by (simp_all add: on_run_def)

lemma snd_on_result [snd_rules]:
  "snd p = d \<Longrightarrow> (\<And>e. r = Inl e \<Longrightarrow> snd (failed e) = d) \<Longrightarrow> (\<And>x. r = Inr x \<Longrightarrow> snd (ok x) = d) \<Longrightarrow>
   snd (on_result r p failed ok) = d"
  by (cases r) auto

definition fresh_rw :: "rw \<Rightarrow> bool" where
  "fresh_rw w \<longleftrightarrow> rw_sent w = None \<and> rw_bodies w = [] \<and> \<not> rw_panic w \<and> \<not> rw_hung w"

text \<open>
  Answered once: one status was sent, with no body or with one, and an error body names that status. A
  handler that panics or does not return has sent neither a status nor a body.
\<close>

definition answered :: "rw \<Rightarrow> bool" where
  "answered w \<longleftrightarrow>
     (if rw_panic w \<or> rw_hung w then rw_sent w = None \<and> rw_bodies w = []
      else (\<exists>st h. rw_sent w = Some (st, h)
          \<and> (rw_bodies w = [] \<or> (\<exists>b. rw_bodies w = [b] \<and> (\<forall>e. b = BodyError e \<longrightarrow> ae_code e = st)))))"

lemma AddHeader_frame [simp]:
  "rw_sent (AddHeader k v w) = rw_sent w" "rw_bodies (AddHeader k v w) = rw_bodies w"
  "rw_panic (AddHeader k v w) = rw_panic w" "rw_hung (AddHeader k v w) = rw_hung w"
  by (simp_all add: AddHeader_def)

lemma SetHeader_frame [simp]:
  "rw_sent (SetHeader k v w) = rw_sent w" "rw_bodies (SetHeader k v w) = rw_bodies w"
  "rw_panic (SetHeader k v w) = rw_panic w" "rw_hung (SetHeader k v w) = rw_hung w"
  by (simp_all add: SetHeader_def)

lemma add_headers_frame [simp]:
  "rw_sent (foldl (\<lambda>w (k, v). AddHeader k v w) w hs) = rw_sent w"
  "rw_bodies (foldl (\<lambda>w (k, v). AddHeader k v w) w hs) = rw_bodies w"
  "rw_panic (foldl (\<lambda>w (k, v). AddHeader k v w) w hs) = rw_panic w"
  "rw_hung (foldl (\<lambda>w (k, v). AddHeader k v w) w hs) = rw_hung w"
  by (induction hs arbitrary: w) (auto split: prod.splits)

lemma fresh_headers [simp]:
  "fresh_rw (AddHeader k v w) = fresh_rw w" "fresh_rw (SetHeader k v w) = fresh_rw w" "fresh_rw new_rw"
  by (simp_all add: fresh_rw_def new_rw_def)

lemma writeBytes_fresh:
  assumes "fresh_rw w"
  shows "rw_sent (writeBytes w st hs b) = Some (st, rw_header (foldl (\<lambda>w (k, v). AddHeader k v w) w hs))
    \<and> rw_bodies (writeBytes w st hs b) = (if bodyAllowed st then [b] else [])
    \<and> \<not> rw_panic (writeBytes w st hs b) \<and> \<not> rw_hung (writeBytes w st hs b)"
  using assms by (simp add: writeBytes_def WriteBody_def WriteHeader_def Let_def fresh_rw_def)

lemma writeBytes_answered:
  "fresh_rw w \<Longrightarrow> (\<And>e. b = BodyError e \<Longrightarrow> ae_code e = st) \<Longrightarrow> answered (writeBytes w st hs b)"
  unfolding answered_def using writeBytes_fresh [of w st hs b] by (auto split: if_splits)

lemma answered_error [answer_rules]: "fresh_rw w \<Longrightarrow> answered (WriteErrorResponse w e)"
  unfolding WriteErrorResponse_def by (rule writeBytes_answered) auto

lemma answered_respond [answer_rules]: "fresh_rw w \<Longrightarrow> answered (respond_error w c t d)"
  unfolding respond_error_def by (rule answered_error)

lemma answered_ends [answer_rules]: "fresh_rw w \<Longrightarrow> answered (abort w)" "fresh_rw w \<Longrightarrow> answered (hang w)"
  by (simp_all add: answered_def abort_def hang_def fresh_rw_def)

lemma answered_response [answer_rules]:
  "fresh_rw w \<Longrightarrow> (\<forall>e. b \<noteq> BodyError e) \<Longrightarrow> answered (WriteResponse R w st hs b tag)"
  unfolding WriteResponse_def by (auto split: option.splits intro: answered_error writeBytes_answered)

lemma answered_on_result [answer_rules]:
  "fresh_rw (fst p) \<Longrightarrow> (\<And>e. r = Inl e \<Longrightarrow> answered (fst (failed e))) \<Longrightarrow> (\<And>x. r = Inr x \<Longrightarrow> answered (fst (ok x))) \<Longrightarrow>
   answered (fst (on_result r p failed ok))"
  by (cases r) (auto intro: answered_ends)

lemma answered_on_run [answer_rules]:
  "fresh_rw (fst p) \<Longrightarrow> (\<And>e. r = Some (Inl e) \<Longrightarrow> answered (fst (failed e))) \<Longrightarrow> (\<And>x. r = Some (Inr x) \<Longrightarrow> answered (fst (ok x))) \<Longrightarrow>
   answered (fst (on_run r p failed ok))"
  by (cases r) (auto intro: answered_ends answered_on_result)

lemma answered_more [answer_rules]:
  "fresh_rw w \<Longrightarrow> answered (bad_request w err)" "fresh_rw w \<Longrightarrow> answered (bad_version w ve)"
  "fresh_rw w \<Longrightarrow> answered (AuthorizationDenied w err)" "fresh_rw w \<Longrightarrow> answered (job_not_found E w jid)"
  by (auto simp: bad_request_def bad_version_def AuthorizationDenied_def job_not_found_def
      split: option.splits intro: answer_rules)

lemma answered_if [answer_rules]:
  "(c \<Longrightarrow> answered (fst a)) \<Longrightarrow> (\<not> c \<Longrightarrow> answered (fst b)) \<Longrightarrow> answered (fst (if c then a else b))"
  by auto

lemma answered_pair [answer_rules]: "answered w \<Longrightarrow> answered (fst (w, d))"
  by simp

lemma answered_case_prod [answer_rules]:
  "(\<And>a b. p = (a, b) \<Longrightarrow> answered (fst (f a b))) \<Longrightarrow> answered (fst (case p of (a, b) \<Rightarrow> f a b))"
  by (cases p) auto

section \<open>Statuses\<close>

definition status_of :: "rw \<Rightarrow> int option" where
  "status_of w = map_option fst (rw_sent w)"

lemma response_status:
  "fresh_rw w \<Longrightarrow> MarshalError R b = None \<Longrightarrow> status_of (WriteResponse R w st hs b tag) = Some st"
  by (simp add: status_of_def WriteResponse_def writeBytes_fresh)

lemma error_status: "fresh_rw w \<Longrightarrow> status_of (respond_error w st t d) = Some st"
  by (simp add: status_of_def respond_error_def WriteErrorResponse_def writeBytes_fresh)

lemma fresh_abort: "fresh_rw w \<Longrightarrow> status_of (abort w) = None \<and> rw_panic (abort w)"
  by (simp add: status_of_def abort_def fresh_rw_def)

section \<open>Handlers and middleware\<close>

definition answers :: "'d handler \<Rightarrow> bool" where
  "answers h \<longleftrightarrow> (\<forall>w r d. fresh_rw w \<longrightarrow> answered (fst (h w r d)))"

definition reads :: "'d handler \<Rightarrow> bool" where
  "reads h \<longleftrightarrow> (\<forall>w r d. snd (h w r d) = d)"

lemma answersI: "(\<And>w r d. fresh_rw w \<Longrightarrow> answered (fst (h w r d))) \<Longrightarrow> answers h"
  by (simp add: answers_def)

lemma readsI: "(\<And>w r d. snd (h w r d) = d) \<Longrightarrow> reads h"
  by (simp add: reads_def)

lemmas middleware_defs = CheckContentHeaderMiddleware_def CheckAcceptRequestHeaderMiddleware_def
  SetContentTypeMiddleware_def

lemma answers_stack:
  "answers h \<Longrightarrow> answers (json_stack h)" "answers h \<Longrightarrow> answers (job_stack t h)"
  by (auto simp: answers_def json_stack_def job_stack_def middleware_defs Let_def intro!: answer_rules)

lemma reads_stack:
  "reads h \<Longrightarrow> reads (json_stack h)" "reads h \<Longrightarrow> reads (job_stack t h)"
  by (auto simp: reads_def json_stack_def job_stack_def middleware_defs Let_def)

lemma answers_auth:
  assumes "answers h"
  shows "answers (authenticated sec wc h)" "answers (PathAuthorization subj act v authz h)"
    "answers (CreationPathAuthorization h)"
  using assms
  by (auto simp: answers_def authenticated_def NewAuthenticationMiddleware_def NewAuthorizationContext_def
      PathAuthorization_def CreationPathAuthorization_def split: option.splits intro!: answer_rules)

lemma reads_auth:
  assumes "reads h"
  shows "reads (authenticated sec wc h)" "reads (PathAuthorization subj act v authz h)"
  using assms
  by (auto simp: reads_def authenticated_def NewAuthenticationMiddleware_def NewAuthorizationContext_def
      PathAuthorization_def split: option.splits intro!: snd_rules)

lemma lift_simps [simp]:
  "fst (on_jobs h1 w r s) = fst (h1 w r (ss_jobs s))"
  "snd (on_jobs h1 w r s) = s\<lparr>ss_jobs := snd (h1 w r (ss_jobs s))\<rparr>"
  "fst (on_kube h3 w r s) = fst (h3 w r (ss_kube s))"
  "snd (on_kube h3 w r s) = s\<lparr>ss_kube := snd (h3 w r (ss_kube s))\<rparr>"
  "fst (on_db h2 w r s) = fst (h2 w r (js_db (ss_jobs s)))"
  "snd (on_db h2 w r s) = s\<lparr>ss_jobs := (ss_jobs s)\<lparr>js_db := snd (h2 w r (js_db (ss_jobs s)))\<rparr>\<rparr>"
  by (simp_all add: on_jobs_def on_kube_def on_db_def split: prod.splits)

lemma answers_lift:
  "answers h1 \<Longrightarrow> answers (on_jobs h1)" "answers h2 \<Longrightarrow> answers (on_db h2)" "answers h3 \<Longrightarrow> answers (on_kube h3)"
  by (simp_all add: answers_def)

lemma reads_lift:
  "reads h1 \<Longrightarrow> reads (on_jobs h1)" "reads h2 \<Longrightarrow> reads (on_db h2)" "reads h3 \<Longrightarrow> reads (on_kube h3)"
  by (simp_all add: reads_def)

section \<open>Reading handlers\<close>

lemma reads_listings:
  "reads (ComponentVersionLikeListHandler R client kind)" "reads (ComponentLikeListHandler R client kind)"
  "reads (VolumesListHandler R vclient)" "reads (WorkspacesListHandler R)" "reads (SecretListHandler E R K)"
  by (auto intro!: readsI snd_rules simp: ComponentVersionLikeListHandler_def ComponentLikeListHandler_def
      VolumesListHandler_def WorkspacesListHandler_def SecretListHandler_def Let_def split: option.splits)

lemma reads_documents:
  "reads (ComponentGetHandler R client)" "reads (WorkflowGetHandler R client)" "reads (JobGetHandler R client)"
  "reads (VolumeGetHandler R vclient)" "reads (userinfoHandler R)"
  by (auto intro!: readsI snd_rules simp: ComponentGetHandler_def WorkflowGetHandler_def JobGetHandler_def
      VolumeGetHandler_def userinfoHandler_def Let_def split: option.splits prod.splits)

lemma reads_jobs: "reads (JobStatusHandler E R A)" "reads (JobsEventstreamHandler A)"
  by (auto intro!: readsI snd_rules simp: JobStatusHandler_def JobsEventstreamHandler_def in_workspace_def Let_def
      split: list.splits prod.splits loop_result.splits)

lemmas reads_handlers = reads_listings reads_documents reads_jobs

section \<open>Answering handlers\<close>

lemma answers_listings:
  "answers (ComponentLikeListHandler R client kind)"
  "answers (VolumesListHandler R vclient)" "answers (WorkspacesListHandler R)" "answers (SecretListHandler E R K)"
  by (auto intro!: answersI answer_rules simp: ComponentLikeListHandler_def
      VolumesListHandler_def WorkspacesListHandler_def SecretListHandler_def Let_def split: option.splits)

lemma answers_version_listings:
  "kind \<in> {''component'', ''workflow''} \<Longrightarrow> answers (ComponentVersionLikeListHandler R client kind)"
  by (auto intro!: answersI answer_rules simp: ComponentVersionLikeListHandler_def Let_def)

lemma answers_reads:
  "answers (ComponentGetHandler R client)" "answers (WorkflowGetHandler R client)" "answers (JobGetHandler R client)"
  "answers (VolumeGetHandler R vclient)" "answers (userinfoHandler R)"
  by (auto intro!: answersI answer_rules simp: ComponentGetHandler_def WorkflowGetHandler_def JobGetHandler_def
      VolumeGetHandler_def userinfoHandler_def Let_def split: option.splits)

lemma answers_writes:
  "answers (ComponentCreateHandler E R client)" "answers (ComponentPutHandler R client)"
  "answers (ComponentPatchHandler R client)" "answers (WorkflowPutHandler R client)"
  by (auto intro!: answersI answer_rules simp: ComponentCreateHandler_def ComponentPutHandler_def
      ComponentPatchHandler_def WorkflowPutHandler_def Let_def)

lemma answers_volumes:
  "answers (VolumePutHandler R vclient)" "answers (VolumePostHandler E R vclient)"
  "answers (VolumeDeleteHandler R vclient)"
  by (auto intro!: answersI answer_rules simp: VolumePutHandler_def VolumePostHandler_def VolumeDeleteHandler_def)

lemma answers_secrets: "answers (SecretPutHandler E R K)" "answers (SecretDeleteHandler R K)"
  by (auto intro!: answersI answer_rules simp: SecretPutHandler_def SecretDeleteHandler_def Let_def)

lemma answers_in_workspace:
  "fresh_rw w \<Longrightarrow> (\<And>id ws. answered (fst (act id ws))) \<Longrightarrow> answered (fst (in_workspace E R A w r s act))"
  by (auto intro!: answer_rules simp: in_workspace_def)

lemma answers_startJob: "fresh_rw w \<Longrightarrow> answered (fst (startJob E R A job tags aw w s))"
  by (auto intro!: answer_rules simp: startJob_def Let_def)

lemma answers_jobs:
  "answers (JobsSubmitHandler E R depth client A)" "answers (JobDeleteHandler E R client A)"
  "answers (JobTerminateHandler E R A)" "answers (JobStatusHandler E R A)"
  by (auto intro!: answersI answer_rules answers_in_workspace answers_startJob simp: JobsSubmitHandler_def
      JobDeleteHandler_def JobTerminateHandler_def JobStatusHandler_def Let_def)

lemmas answers_handlers = answers_listings answers_version_listings answers_reads answers_writes
  answers_volumes answers_secrets answers_jobs

section \<open>Routes\<close>

lemmas route_defs = UserInfoRoutes_def ComponentRoutes_def WorkspaceRoutes_def WorkflowRoutes_def JobRoutes_def
  SecretRoutes_def VolumeRoutes_def Let_def

lemmas handler_names = ComponentListHandler_def ComponentVersionListHandler_def WorkflowListHandler_def
  WorkflowVersionListHandler_def JobsListHandler_def VolumesPathAuthorization_def SecretsPathAuthorization_def

lemmas reads_intros = reads_stack reads_auth reads_lift reads_handlers

lemmas answers_intros = answers_stack answers_auth answers_lift answers_handlers

lemma get_routes_read: "(''GET'', p, h) \<in> set (RegisterRoutes fs) \<Longrightarrow> reads h"
  unfolding RegisterRoutes_def by (auto simp: route_defs handler_names intro!: reads_intros)

text \<open>The routes whose handlers may write after they have answered, or write a stream.\<close>

definition repeating_routes :: "(string \<times> string) list" where
  "repeating_routes =
     [(''DELETE'', ''/components/{id}/{version}''), (''DELETE'', ''/workflows/{id}/{version}''),
      (''POST'', ''/workflows/''), (''PATCH'', ''/workflows/{id}''), (''POST'', ''/workspaces/''),
      (''PUT'', ''/workspaces/''), (''DELETE'', ''/workspaces/''), (''GET'', ''/jobs/{id}/events/'')]"

lemma other_routes_answer:
  "(m, p, h) \<in> set (RegisterRoutes fs) \<Longrightarrow> (m, p) \<notin> set repeating_routes \<Longrightarrow> answers h"
  unfolding RegisterRoutes_def
  by (auto simp: route_defs handler_names repeating_routes_def intro!: answers_intros)

text \<open>What a request is served by.\<close>

definition matched ::
  "dispatcher \<Rightarrow> ('d, 'a, 'k) flowifyServer \<Rightarrow> request \<Rightarrow> ((string \<times> string \<times> ('d, 'a, 'k) server_handler) \<times> string gomap) option" where
  "matched dispatch fs r =
     (case dispatch (map (\<lambda>(m, p, h). (m, p)) (registerApplicationRoutes fs)) r of
        None \<Rightarrow> None
      | Some (i, vars) \<Rightarrow> Some (registerApplicationRoutes fs ! i, vars))"

lemma serve_matched:
  "serve dispatch notFound fs r s =
     (case matched dispatch fs r of
        None \<Rightarrow> (notFound new_rw, s)
      | Some ((m, p, h), vars) \<Rightarrow> SetCustomHeaders h new_rw (r\<lparr>rq_vars := vars\<rparr>) s)"
  by (auto simp: serve_def matched_def Let_def split: option.splits prod.splits)

lemma matched_route:
  assumes "dispatch_ok dispatch" "matched dispatch fs r = Some ((m, p, h), vars)"
  shows "(m, p, h) \<in> set (registerApplicationRoutes fs) \<and> m = rq_method r"
proof -
  let ?rs = "registerApplicationRoutes fs"
  obtain i where i: "dispatch (map (\<lambda>(m, p, h). (m, p)) ?rs) r = Some (i, vars)" "?rs ! i = (m, p, h)"
    using assms(2) by (auto simp: matched_def split: option.splits)
  then have "i < length ?rs" "fst (map (\<lambda>(m, p, h). (m, p)) ?rs ! i) = rq_method r"
    using assms(1) unfolding dispatch_ok_def by (metis length_map, metis)
  then show ?thesis using i(2) by (metis (no_types, lifting) fst_conv nth_map nth_mem old.prod.case)
qed

lemma application_routes:
  "(m, p, h) \<in> set (registerApplicationRoutes fs) \<Longrightarrow>
     (\<exists>q. p = ApiV1Path @ q \<and> (m, q, h) \<in> set (RegisterRoutes fs)) \<or> (m = ''GET'' \<and> (\<exists>t. h = probe t))"
  by (auto simp: registerApplicationRoutes_def)

lemma probe_facts: "reads (probe t)" "answers (probe t)"
  by (auto intro!: readsI answersI
      simp: probe_def answered_def WriteBody_def WriteHeader_def fresh_rw_def bodyAllowed_def Let_def)

section \<open>Access through the server\<close>

lemma visibleWorkspaces_user:
  "visibleWorkspaces wss (Some u) = Inr (filter (\<lambda>ws. UserHasAccess ws u \<or> \<not> ws_hideForUnauthorized ws) wss)"
  by (induction wss) (auto simp: UserHasAccess_of_def)

definition user_ctx :: "('d, 'a, 'k) flowifyServer \<Rightarrow> user \<Rightarrow> ctx" where
  "user_ctx fs u =
     \<lparr>cx_user = Some u,
      cx_workspaces = Some (filter (\<lambda>ws. UserHasAccess ws u \<or> \<not> ws_hideForUnauthorized ws) (ListWorkspaces (fs_workspace fs)))\<rparr>"

lemma ctx_eq: "(cx\<lparr>cx_user := Some u\<rparr>)\<lparr>cx_workspaces := Some a\<rparr> = \<lparr>cx_user = Some u, cx_workspaces = Some a\<rparr>"
  by (cases cx) simp

lemma authenticated_unfold:
  "authenticated (fs_auth fs) (fs_workspace fs) h w r s =
     on_result (fs_auth fs r) (w, s)
       (\<lambda>err. (respond_error w 400 ''could not authenticate'' (ErrorText err), s))
       (\<lambda>u. h w (r\<lparr>rq_ctx := user_ctx fs u\<rparr>) s)"
  by (cases "fs_auth fs r")
    (simp_all add: authenticated_def NewAuthenticationMiddleware_def NewAuthorizationContext_def
      visibleWorkspaces_user user_ctx_def ctx_eq)

lemma user_ctx_access:
  assumes "has_access (user_ctx fs u) n"
  shows "\<exists>ws \<in> set (ListWorkspaces (fs_workspace fs)). ws_name ws = n \<and> UserHasAccess ws u"
  using assms by (auto simp: has_access_def user_ctx_def getWorkspacesFromContext_def
      split: option.splits dest!: find_SomeD)

lemma stack_changes:
  "snd (json_stack h w r s) \<noteq> s \<Longrightarrow> \<exists>w'. snd (h w' r s) \<noteq> s"
  by (auto simp: json_stack_def middleware_defs Let_def split: if_splits)

lemma PathAuthorization_changes:
  assumes "snd (PathAuthorization subj act v authz h w r s) \<noteq> s"
  shows "\<exists>n. map_of (rq_vars r) v = Some n \<and> authz subj act (cx_user (rq_ctx r)) (ObjString n) = Inr True"
  using assms by (auto simp: PathAuthorization_def on_result_def split: option.splits sum.splits if_splits)

lemma guarded_changes:
  assumes "snd (json_stack (PathAuthorization subj act ''workspace'' (fs_authz fs) h) w (r\<lparr>rq_ctx := user_ctx fs u\<rparr>) s) \<noteq> s"
  shows "\<exists>n. map_of (rq_vars r) ''workspace'' = Some n \<and> Authorize (fs_workspace fs) subj act u (ObjString n) = Inr True"
proof -
  from stack_changes [OF assms] obtain w' where
    "snd (PathAuthorization subj act ''workspace'' (fs_authz fs) h w' (r\<lparr>rq_ctx := user_ctx fs u\<rparr>) s) \<noteq> s" by blast
  from PathAuthorization_changes [OF this] show ?thesis
    by (simp add: fs_authz_def role_authorizer_def user_ctx_def)
qed

lemma Authorize_change_admin:
  assumes "Authorize wc subj act u (ObjString n) = Inr True" "act \<in> {WriteAction, DeleteAction}"
  shows "\<exists>ws. find (\<lambda>ws. ws_name ws = n) (ListWorkspaces wc) = Some ws \<and> UserHasAdminAccess ws u"
  using assms unfolding Authorize_True secrets.granted_iff volumes.granted_iff
  by (auto simp: level_of_def auth_names split: option.splits)

text \<open>The routes that an admin of the workspace in the path is needed for.\<close>

definition guarded_routes :: "(string \<times> string) list" where
  "guarded_routes =
     [(''PUT'', ''/secrets/{workspace}/{key}''), (''DELETE'', ''/secrets/{workspace}/{key}''),
      (''POST'', ''/volumes/{workspace}/''), (''PUT'', ''/volumes/{workspace}/{id}''),
      (''DELETE'', ''/volumes/{workspace}/{id}'')]"

lemma guarded_route_handlers:
  assumes "(m, p, h) \<in> set (RegisterRoutes fs)" "(m, p) \<in> set guarded_routes"
  shows "\<exists>subj act h'. act \<in> {WriteAction, DeleteAction}
    \<and> h = authenticated (fs_auth fs) (fs_workspace fs)
            (json_stack (PathAuthorization subj act ''workspace'' (fs_authz fs) h'))"
  using assms unfolding RegisterRoutes_def guarded_routes_def by (auto simp: route_defs handler_names)

lemma guarded_route_admin:
  assumes "(m, p, h) \<in> set (RegisterRoutes fs)" "(m, p) \<in> set guarded_routes" "snd (h w r s) \<noteq> s"
  shows "\<exists>u n ws. fs_auth fs r = Inr u \<and> map_of (rq_vars r) ''workspace'' = Some n
    \<and> find (\<lambda>ws. ws_name ws = n) (ListWorkspaces (fs_workspace fs)) = Some ws \<and> UserHasAdminAccess ws u"
proof -
  obtain subj act h' where act: "act \<in> {WriteAction, DeleteAction}"
    and h: "h = authenticated (fs_auth fs) (fs_workspace fs)
              (json_stack (PathAuthorization subj act ''workspace'' (fs_authz fs) h'))"
    using guarded_route_handlers [OF assms(1,2)] by blast
  obtain u where u: "fs_auth fs r = Inr u"
    using assms(3) by (cases "fs_auth fs r") (auto simp: h authenticated_unfold)
  with assms(3) have "snd (json_stack (PathAuthorization subj act ''workspace'' (fs_authz fs) h') w
      (r\<lparr>rq_ctx := user_ctx fs u\<rparr>) s) \<noteq> s"
    by (simp add: h authenticated_unfold)
  from guarded_changes [OF this] show ?thesis
    using u Authorize_change_admin [OF _ act] by blast
qed

section \<open>Documents in responses\<close>

definition document_ok :: "ctx \<Rightarrow> resp_body \<Rightarrow> bool" where
  "document_ok cx b =
     (case b of
        BodyWorkflow wkf \<Rightarrow> has_access cx (wf_workspace wkf)
      | BodyJob job \<Rightarrow> has_access cx (wf_workspace (job_workflow job))
      | BodyVolume v \<Rightarrow> has_access cx (fv_workspace v)
      | _ \<Rightarrow> True)"

named_theorems show_rules "the documents in a response are accessible"

definition displays :: "ctx \<Rightarrow> rw \<Rightarrow> bool" where
  "displays cx w \<longleftrightarrow> (\<forall>b \<in> set (rw_bodies w). document_ok cx b)"

lemma bodies_WriteBody: "set (rw_bodies (WriteBody b w)) \<subseteq> insert b (set (rw_bodies w))"
  by (auto simp: WriteBody_def WriteHeader_def Let_def split: option.splits if_splits)

lemma shows_WriteHeader [show_rules]: "displays cx w \<Longrightarrow> displays cx (WriteHeader st w)"
  by (simp add: displays_def WriteHeader_def split: option.splits)

lemma shows_WriteBody [show_rules]: "displays cx w \<Longrightarrow> document_ok cx b \<Longrightarrow> displays cx (WriteBody b w)"
  using bodies_WriteBody [of b w] by (auto simp: displays_def)

lemma shows_headers [simp]:
  "displays cx (AddHeader k v w) = displays cx w" "displays cx (SetHeader k v w) = displays cx w"
  "displays cx (DelHeader k w) = displays cx w" "displays cx (foldl (\<lambda>w (k, v). AddHeader k v w) w hs) = displays cx w"
  by (simp_all add: displays_def DelHeader_def)

lemma shows_error [show_rules]:
  "displays cx w \<Longrightarrow> displays cx (WriteErrorResponse w e)" "displays cx w \<Longrightarrow> displays cx (respond_error w c t d)"
  by (auto simp: WriteErrorResponse_def respond_error_def writeBytes_def document_ok_def intro!: show_rules)

lemma shows_ends [show_rules]: "displays cx w \<Longrightarrow> displays cx (abort w)" "displays cx w \<Longrightarrow> displays cx (hang w)"
  by (simp_all add: displays_def abort_def hang_def)

lemma shows_response [show_rules]: "displays cx w \<Longrightarrow> document_ok cx b \<Longrightarrow> displays cx (WriteResponse R w st hs b tag)"
  by (auto simp: WriteResponse_def writeBytes_def split: option.splits intro!: show_rules)

lemma shows_on_result [show_rules]:
  "displays cx (fst p) \<Longrightarrow> (\<And>e. r = Inl e \<Longrightarrow> displays cx (fst (failed e))) \<Longrightarrow>
   (\<And>x. r = Inr x \<Longrightarrow> displays cx (fst (ok x))) \<Longrightarrow> displays cx (fst (on_result r p failed ok))"
  by (cases r) (auto intro: show_rules)

lemma shows_more [show_rules]:
  "displays cx w \<Longrightarrow> displays cx (bad_request w err)" "displays cx w \<Longrightarrow> displays cx (bad_version w ve)"
  "displays cx w \<Longrightarrow> displays cx (AuthorizationDenied w err)" "displays cx w \<Longrightarrow> displays cx (job_not_found E w jid)"
  by (auto simp: bad_request_def bad_version_def AuthorizationDenied_def job_not_found_def
      split: option.splits intro!: show_rules)

text \<open>A handler that shows only documents the context of its request has access to.\<close>

definition discreet :: "'d handler \<Rightarrow> bool" where
  "discreet h \<longleftrightarrow> (\<forall>w r d. displays (rq_ctx r) w \<longrightarrow> displays (rq_ctx r) (fst (h w r d)))"

lemma discreetI: "(\<And>w r d. displays (rq_ctx r) w \<Longrightarrow> displays (rq_ctx r) (fst (h w r d))) \<Longrightarrow> discreet h"
  by (simp add: discreet_def)

lemma discreetD: "discreet h \<Longrightarrow> rq_ctx r = cx \<Longrightarrow> displays cx w \<Longrightarrow> displays cx (fst (h w r d))"
  by (auto simp: discreet_def)

lemma discreet_stack:
  "discreet h \<Longrightarrow> discreet (json_stack h)" "discreet h \<Longrightarrow> discreet (job_stack t h)"
  "discreet h \<Longrightarrow> discreet (PathAuthorization subj act v authz h)"
  by (auto simp: discreet_def json_stack_def job_stack_def middleware_defs Let_def PathAuthorization_def
      split: option.splits intro!: show_rules)

lemma discreet_lift:
  "discreet h1 \<Longrightarrow> discreet (on_jobs h1)" "discreet h2 \<Longrightarrow> discreet (on_db h2)" "discreet h3 \<Longrightarrow> discreet (on_kube h3)"
  by (simp_all add: discreet_def)

lemma discreet_listings:
  "discreet (ComponentVersionLikeListHandler R client kind)" "discreet (ComponentLikeListHandler R client kind)"
  "discreet (VolumesListHandler R vclient)" "discreet (WorkspacesListHandler R)" "discreet (SecretListHandler E R K)"
  by (auto intro!: discreetI show_rules simp: ComponentVersionLikeListHandler_def ComponentLikeListHandler_def
      VolumesListHandler_def WorkspacesListHandler_def SecretListHandler_def Let_def document_ok_def
      split: option.splits)

lemma discreet_others:
  "discreet (ComponentGetHandler R client)" "discreet (userinfoHandler R)"
  by (auto intro!: discreetI show_rules simp: ComponentGetHandler_def userinfoHandler_def document_ok_def
      split: prod.splits)

lemma shows_SSE:
  "displays cx w \<Longrightarrow> WriteEventToSSEStream A w aw = (res, w') \<Longrightarrow> displays cx w'"
  by (auto simp: WriteEventToSSEStream_def Let_def document_ok_def split: sum.splits option.splits intro!: show_rules)

lemma shows_eventLoop: "displays cx w \<Longrightarrow> displays cx (snd (eventLoop A rs w))"
proof (induction A rs w rule: eventLoop.induct)
  case (5 A aw rs w)
  obtain res w' where ev: "WriteEventToSSEStream A w aw = (res, w')" by fastforce
  from shows_SSE [OF 5(2) ev] show ?case using 5(1) ev by (cases res) auto
qed auto

lemma shows_StartEventLoop: "displays cx w \<Longrightarrow> StartEventLoop A watch w = (res, w') \<Longrightarrow> displays cx w'"
  using shows_eventLoop [of cx "WriteHeader 200 w" A watch] by (simp add: StartEventLoop_def shows_WriteHeader)

lemma shows_stream:
  "StartEventLoop A watch (SetHeader k1 v1 (SetHeader k2 v2 (SetHeader k3 v3 w))) = (res, w') \<Longrightarrow>
   displays cx w \<Longrightarrow> displays cx w'"
  by (rule shows_StartEventLoop) simp_all

lemma discreet_jobs: "discreet (JobStatusHandler E R A)" "discreet (JobsEventstreamHandler A)"
  by (auto intro!: discreetI show_rules simp: JobStatusHandler_def JobsEventstreamHandler_def in_workspace_def
      document_ok_def Let_def split: list.splits prod.splits loop_result.splits)
    (erule shows_stream, assumption)+

lemma discreet_documents:
  "discreet (WorkflowGetHandler R (mongo_client E M))" "discreet (JobGetHandler R (mongo_client E M))"
  "discreet (VolumeGetHandler R (mongo_volumes E M))"
  by (auto intro!: discreetI show_rules simp: WorkflowGetHandler_def JobGetHandler_def VolumeGetHandler_def
      mongo_client_def mongo_volumes_def document_ok_def Let_def split: option.splits prod.splits if_splits)
    (metis workflow_lookup.secured job_lookup.secured volume_lookup.secured)+

lemma get_routes_discreet:
  assumes "(''GET'', p, h) \<in> set (RegisterRoutes fs)"
    and "fs_nodeStorage fs = mongo_client E M" "fs_volumeStorage fs = mongo_volumes E M"
  shows "\<exists>h'. h = authenticated (fs_auth fs) (fs_workspace fs) h' \<and> discreet h'"
  using assms unfolding RegisterRoutes_def
  by (auto simp: route_defs handler_names
      intro!: discreet_stack discreet_lift discreet_listings discreet_others discreet_jobs discreet_documents)

end
