(* ===== verification/Rest_Theorems.thy ===== *)
theory Rest_Theorems
  imports Rest_Proofs
begin

text \<open>
  The properties of the REST interface: of every request through the router, of the job handlers with
  their event loops, of secrets, and of the parameters of a listing. A small server over the
  in-memory database and lists of workflows and secrets serves as the instance of the parameters.
\<close>

section \<open>A server\<close>

definition ex_rest :: rest_ext where
  "ex_rest =
     \<lparr>MarshalError = (\<lambda>b. None), JsonError = (\<lambda>s. None), SchemaError = (\<lambda>t s. None),
      UnmarshalComponentPost = (\<lambda>s. Inr (ex_cmp 0 0)), UnmarshalWorkflowPost = (\<lambda>s. Inr (ex_wf 3 1 ''ns'')),
      UnmarshalJobPost = (\<lambda>s. Inl (ExtErr ''unexpected end of JSON input'')),
      UnmarshalVolume = (\<lambda>s. Inr (ex_volume s)), UnmarshalSecret = (\<lambda>s. Inr (s, ''v'')),
      DecodeInput = (\<lambda>b. (\<lparr>in_name = fst b, in_roles = [], in_hideForUnauthorized = '''', in_labels = []\<rparr>, None)),
      ParseUUID = (\<lambda>s. Inr (of_nat (length s)))\<rparr>"

definition ex_argo :: "argo_wf list argo" where
  "ex_argo =
     \<lparr>WfList = (\<lambda>ns sel a. Inr (filter (\<lambda>aw. (ns = '''' \<or> aw_namespace aw = ns) \<and> aw_name aw = sel) a)),
      WfGet = (\<lambda>ns n a. case find (\<lambda>aw. aw_namespace aw = ns \<and> aw_name aw = n) a of
                 None \<Rightarrow> Inl (ExtErr ''NotFound'') | Some aw \<Rightarrow> Inr aw),
      WfCreate = (\<lambda>ns aw a. (Inr (), a @ [\<lparr>aw_name = awf_name aw, aw_namespace = ns, aw_phase = '''',
                                          aw_finishedAt = None, aw_text = ''''\<rparr>])),
      WfDelete = (\<lambda>dry ns n a. if \<exists>aw \<in> set a. aw_namespace aw = ns \<and> aw_name aw = n
                   then (Inr (), if dry then a else filter (\<lambda>aw. \<not> (aw_namespace aw = ns \<and> aw_name aw = n)) a)
                   else (Inl (ExtErr ''NotFound''), a)),
      WfTerminate = (\<lambda>ns n a. (Inr (), map (\<lambda>aw. if aw_name aw = n then aw\<lparr>aw_phase := ''Failed''\<rparr> else aw) a)),
      WfWatch = (\<lambda>ns sel a. Inr (map EvWorkflow (filter (\<lambda>aw. aw_name aw = sel) a) @ [ChanClosed])),
      PhaseCompleted = (\<lambda>p. p \<in> {''Succeeded'', ''Failed'', ''Error''}),
      IsStatusError = (\<lambda>e. True), EqualSelector = (\<lambda>f v. v), WfJson = (\<lambda>aw. Inr (aw_text aw)),
      StreamWrite = (\<lambda>s. None)\<rparr>"

definition ex_kube :: "mem_secrets kube" where
  "ex_kube =
     (let no = Inl (ExtErr ''forbidden'') in
      \<lparr>NsGet = (\<lambda>n k. Inl (ExtErr ''forbidden'')), NsCreate = (\<lambda>x k. (no, k)), NsUpdate = (\<lambda>x k. (no, k)),
       NsDelete = (\<lambda>n k. (no, k)), CmGet = (\<lambda>ns n k. (ex_cm '''', Some (ExtErr ''forbidden''))),
       CmCreate = (\<lambda>ns c k. (no, k)), CmUpdate = (\<lambda>ns c k. (no, k)), CmDelete = (\<lambda>ns n k. (no, k)),
       CmList = (\<lambda>ns sel k. ([], None)), CmListerGet = (\<lambda>ns n k. (None, None)), IsNotFound = (\<lambda>e. False)\<rparr>)"

definition ex_server :: "(mem, argo_wf list, mem_secrets) flowifyServer" where
  "ex_server =
     \<lparr>fs_nodeStorage = mongo_client ext_example (mem_mongo ext_example),
      fs_volumeStorage = mongo_volumes ext_example (mem_mongo ext_example), fs_wfClient = ex_argo,
      fs_k8Client = ex_kube, fs_secrets = mem_secret_kube, fs_namespace = ''argo'',
      fs_workspace =
        \<lparr>wi_namespace = ''argo'',
         wi_ws = [\<lparr>ws_name = ''ns'', ws_description = '''', ws_hideForUnauthorized = False, ws_roles = [[''r'']]\<rparr>],
         wi_roleDescriptions = []\<rparr>,
      fs_auth = (\<lambda>r. if HeaderGet r ''Authorization'' = '''' then Inl (ExtErr ''no token'')
                     else Inr (ex_user ''u@x'' [HeaderGet r ''Authorization''])),
      fs_ext = ext_example, fs_rest = ex_rest, fs_depth = 2\<rparr>"

text \<open>A router that matches one route only.\<close>

definition ex_dispatch :: "nat \<Rightarrow> dispatcher" where
  "ex_dispatch i routes r =
     (if i < length routes \<and> fst (routes ! i) = rq_method r then Some (i, rq_vars r) else None)"

lemma ex_dispatch_ok: "dispatch_ok (ex_dispatch i)"
  by (auto simp: dispatch_ok_def ex_dispatch_def split: if_splits)

lemma ex_dispatch_matched:
  assumes "i < length (registerApplicationRoutes fs)" "registerApplicationRoutes fs ! i = (m, p, h)" "rq_method r = m"
  shows "matched (ex_dispatch i) fs r = Some ((m, p, h), rq_vars r)"
  using assms by (simp add: matched_def ex_dispatch_def)

definition ex_request :: "string \<Rightarrow> string \<Rightarrow> string gomap \<Rightarrow> string \<Rightarrow> string \<Rightarrow> request" where
  "ex_request m p vars token body =
     \<lparr>rq_method = m, rq_header = [(''Authorization'', token), (''Content-Type'', ''application/json'')],
      rq_vars = vars, rq_query = [], rq_uri = ''/api/v1'' @ p, rq_body = (body, None),
      rq_ctx = \<lparr>cx_user = None, cx_workspaces = None\<rparr>, rq_now = 0, rq_newId = 9\<rparr>"

definition ex_state :: "(mem, argo_wf list, mem_secrets) server_state" where
  "ex_state = \<lparr>ss_jobs = \<lparr>js_db = ex_db, js_argo = [], js_savers = []\<rparr>, ss_kube = []\<rparr>"

definition ex_serve :: "nat \<Rightarrow> request \<Rightarrow> rw \<times> (mem, argo_wf list, mem_secrets) server_state" where
  "ex_serve i r = serve (ex_dispatch i) (WriteHeader 404) ex_server r ex_state"

section \<open>Every request\<close>

lemma SetCustomHeaders_fresh:
  "reads h \<Longrightarrow> snd (SetCustomHeaders h w r s) = s"
  "answers h \<Longrightarrow> answered (fst (SetCustomHeaders h new_rw r s))"
  by (auto simp: reads_def answers_def SetCustomHeaders_def)

text \<open>
  C37: Reading changes nothing. A GET request to any route, whoever sends it and whatever the clients
  return, leaves the database, the Argo workflows, the cluster and the event savers as they were.
\<close>

theorem get_requests_change_nothing:
  assumes "dispatch_ok dispatch" "rq_method r = ''GET''"
  shows "snd (serve dispatch notFound fs r s) = s"
proof (cases "matched dispatch fs r")
  case None
  then show ?thesis by (simp add: serve_matched)
next
  case (Some x)
  obtain m p h vars where x: "x = ((m, p, h), vars)" by (metis prod_cases3 surj_pair)
  from matched_route [OF assms(1) Some [unfolded x]] assms(2)
  have "(''GET'', p, h) \<in> set (registerApplicationRoutes fs)" by auto
  then have "reads h"
    using application_routes get_routes_read probe_facts(1) by metis
  then show ?thesis using Some x by (simp add: serve_matched SetCustomHeaders_fresh(1))
qed

theorem get_requests_change_nothing_witness:
  "snd (ex_serve 15 (ex_request ''GET'' ''/workflows/{id}'' [(''id'', ''uuu'')] ''r'' '''')) = ex_state"
  unfolding ex_serve_def
  by (rule get_requests_change_nothing [OF ex_dispatch_ok]) (simp add: ex_request_def)

text \<open>
  C36: No route answers twice, except the eight that \<open>repeating_routes\<close> lists. A request that matches
  another route is answered with exactly one status and with no body or one body, whose code is that
  status if it is an error object; or its handler panics or does not return, and then nothing was sent
  before, neither a status nor a body.
\<close>

theorem routes_answer_once:
  assumes "dispatch_ok dispatch" "matched dispatch fs r = Some ((m, p, h), vars)"
    and "\<forall>q. p = ApiV1Path @ q \<longrightarrow> (m, q) \<notin> set repeating_routes"
  shows "answered (fst (serve dispatch notFound fs r s))"
proof -
  have "(m, p, h) \<in> set (registerApplicationRoutes fs)" using matched_route [OF assms(1,2)] by blast
  then have "answers h"
    using application_routes other_routes_answer probe_facts(2) assms(3) by metis
  then show ?thesis by (simp add: serve_matched assms(2) SetCustomHeaders_fresh(2))
qed
definition ex_get :: "string \<Rightarrow> request" where
  "ex_get token = ex_request ''GET'' ''/workflows/{id}'' [(''id'', ''uuu'')] token ''''"

definition ex_put :: request where
  "ex_put = ex_request ''PUT'' ''/secrets/{workspace}/{key}'' [(''workspace'', ''ns''), (''key'', ''k'')] ''r-admin'' ''k''"

definition ex_get_handler :: "(mem, argo_wf list, mem_secrets) server_handler" where
  "ex_get_handler =
     authenticated (fs_auth ex_server) (fs_workspace ex_server)
       (json_stack (on_db (WorkflowGetHandler ex_rest (mongo_client ext_example (mem_mongo ext_example)))))"

lemma ex_get_matched:
  "matched (ex_dispatch 15) ex_server (ex_get token) =
     Some ((''GET'', ApiV1Path @ ''/workflows/{id}'', ex_get_handler), [(''id'', ''uuu'')])"
proof -
  have "fs_rest ex_server = ex_rest" "fs_nodeStorage ex_server = mongo_client ext_example (mem_mongo ext_example)"
    by (simp_all add: ex_server_def)
  then have "registerApplicationRoutes ex_server ! 15 = (''GET'', ApiV1Path @ ''/workflows/{id}'', ex_get_handler)"
    and "15 < length (registerApplicationRoutes ex_server)"
    by (simp_all add: registerApplicationRoutes_def RegisterRoutes_def route_defs ex_get_handler_def)
  from ex_dispatch_matched [OF this(2,1), of "ex_get token"] show ?thesis by (simp add: ex_get_def ex_request_def)
qed

lemma ex_get_serve:
  "ex_serve 15 (ex_get token) = SetCustomHeaders ex_get_handler new_rw (ex_get token) ex_state"
  "(ex_get token)\<lparr>rq_vars := [(''id'', ''uuu'')]\<rparr> = ex_get token"
proof -
  show "(ex_get token)\<lparr>rq_vars := [(''id'', ''uuu'')]\<rparr> = ex_get token" by (simp add: ex_get_def ex_request_def)
  then show "ex_serve 15 (ex_get token) = SetCustomHeaders ex_get_handler new_rw (ex_get token) ex_state"
    by (simp add: ex_serve_def serve_matched ex_get_matched)
qed

definition ex_put_handler :: "(mem, argo_wf list, mem_secrets) server_handler" where
  "ex_put_handler =
     authenticated (fs_auth ex_server) (fs_workspace ex_server)
       (json_stack (SecretsPathAuthorization WriteAction (fs_authz ex_server)
          (on_kube (SecretPutHandler ext_example ex_rest mem_secret_kube))))"

lemma ex_put_matched:
  "matched (ex_dispatch 29) ex_server ex_put =
     Some ((''PUT'', ApiV1Path @ ''/secrets/{workspace}/{key}'', ex_put_handler), [(''workspace'', ''ns''), (''key'', ''k'')])"
proof -
  have "fs_ext ex_server = ext_example" "fs_rest ex_server = ex_rest" "fs_secrets ex_server = mem_secret_kube"
    by (simp_all add: ex_server_def)
  then have "registerApplicationRoutes ex_server ! 29 = (''PUT'', ApiV1Path @ ''/secrets/{workspace}/{key}'', ex_put_handler)"
    and "29 < length (registerApplicationRoutes ex_server)"
    by (simp_all add: registerApplicationRoutes_def RegisterRoutes_def route_defs ex_put_handler_def)
  from ex_dispatch_matched [OF this(2,1), of ex_put] show ?thesis by (simp add: ex_put_def ex_request_def)
qed

theorem routes_answer_once_witness: "answered (fst (ex_serve 15 (ex_get ''r'')))"
  unfolding ex_serve_def
    by (rule routes_answer_once [OF ex_dispatch_ok ex_get_matched]) (simp add: repeating_routes_def)

text \<open>
  A request that cannot be authenticated is refused by every route of the API: it is answered with
  status 400 and an error object that carries the reason, and nothing is changed.
\<close>

theorem unauthenticated_refused:
  assumes "dispatch_ok dispatch" "matched dispatch fs r = Some ((m, ApiV1Path @ p, h), vars)"
    and "fs_auth fs (r\<lparr>rq_vars := vars\<rparr>) = Inl err" "\<not> is_panic err"
  shows "let (w, s') = serve dispatch notFound fs r s in s' = s \<and> map_option fst (rw_sent w) = Some 400
    \<and> rw_bodies w = [BodyError \<lparr>ae_code = 400, ae_summary = Text ''could not authenticate'', ae_detail = ErrorText err\<rparr>]"
proof -
  have "(m, ApiV1Path @ p, h) \<in> set (registerApplicationRoutes fs)" using matched_route [OF assms(1,2)] by blast
  then have "(m, p, h) \<in> set (RegisterRoutes fs)"
    by (auto simp: registerApplicationRoutes_def ApiV1Path_def)
  then obtain h' where h: "h = authenticated (fs_auth fs) (fs_workspace fs) h'"
    unfolding RegisterRoutes_def by auto
  show ?thesis
    using assms(3,4)
    by (simp add: serve_matched assms(2) SetCustomHeaders_def h authenticated_unfold Let_def respond_error_def
        WriteErrorResponse_def writeBytes_fresh bodyAllowed_def)
qed

theorem unauthenticated_refused_witness:
  "rw_bodies (fst (ex_serve 15 (ex_get '''')))
     = [BodyError \<lparr>ae_code = 400, ae_summary = Text ''could not authenticate'', ae_detail = ErrorText (ExtErr ''no token'')\<rparr>]"
proof -
  have "fs_auth ex_server ((ex_get '''')\<lparr>rq_vars := [(''id'', ''uuu'')]\<rparr>) = Inl (ExtErr ''no token'')" by code_simp
  from unauthenticated_refused [OF ex_dispatch_ok ex_get_matched this, of "WriteHeader 404" ex_state]
  show ?thesis by (auto simp: ex_serve_def split: prod.splits)
qed

text \<open>
  C4: Secrets and volumes change for admins only. If a request to one of the routes that store or
  delete a secret or a volume changes anything at all, its sender was authenticated as a user who has
  admin access to the first workspace with the name in the path.
\<close>

theorem guarded_routes_need_admin:
  assumes "dispatch_ok dispatch" "matched dispatch fs r = Some ((m, ApiV1Path @ p, h), vars)"
    and "(m, p) \<in> set guarded_routes" "snd (serve dispatch notFound fs r s) \<noteq> s"
  shows "\<exists>u n ws. fs_auth fs (r\<lparr>rq_vars := vars\<rparr>) = Inr u \<and> map_of vars ''workspace'' = Some n
    \<and> find (\<lambda>ws. ws_name ws = n) (ListWorkspaces (fs_workspace fs)) = Some ws \<and> UserHasAdminAccess ws u"
proof -
  have "(m, ApiV1Path @ p, h) \<in> set (registerApplicationRoutes fs)" using matched_route [OF assms(1,2)] by blast
  then have "(m, p, h) \<in> set (RegisterRoutes fs)"
    by (auto simp: registerApplicationRoutes_def ApiV1Path_def)
  from guarded_route_admin [OF this assms(3)] assms(2,4) show ?thesis
    by (fastforce simp: serve_matched SetCustomHeaders_def)
qed

lemma ex_put_changes: "snd (ex_serve 29 ex_put) \<noteq> ex_state"
proof -
  have "ss_kube (snd (SetCustomHeaders ex_put_handler new_rw ex_put ex_state)) \<noteq> []" by code_simp
  moreover have "ex_put\<lparr>rq_vars := [(''workspace'', ''ns''), (''key'', ''k'')]\<rparr> = ex_put"
    by (simp add: ex_put_def ex_request_def)
  ultimately show ?thesis by (auto simp: ex_state_def ex_serve_def serve_matched ex_put_matched)
qed

theorem guarded_routes_need_admin_witness:
  "\<exists>u n ws. fs_auth ex_server ex_put = Inr u \<and> map_of (rq_vars ex_put) ''workspace'' = Some n
     \<and> find (\<lambda>ws. ws_name ws = n) (ListWorkspaces (fs_workspace ex_server)) = Some ws \<and> UserHasAdminAccess ws u"
proof -
  let ?v = "[(''workspace'', ''ns''), (''key'', ''k'')]"
  have vars: "ex_put\<lparr>rq_vars := ?v\<rparr> = ex_put" "rq_vars ex_put = ?v" by (simp_all add: ex_put_def ex_request_def)
  have "(''PUT'', ''/secrets/{workspace}/{key}'') \<in> set guarded_routes" by (simp add: guarded_routes_def)
  from guarded_routes_need_admin [OF ex_dispatch_ok ex_put_matched this ex_put_changes [unfolded ex_serve_def]]
  show ?thesis unfolding vars .
qed

text \<open>
  Documents are shown to members only. With the database clients behind the server, every
  workflow, job and volume in the answer to a GET request belongs to a workspace of the workspace
  client to which the authenticated sender has access.
\<close>

theorem served_documents_need_access:
  assumes "dispatch_ok dispatch" "rq_method r = ''GET''" "matched dispatch fs r = Some ((m, p, h), vars)"
    and "fs_nodeStorage fs = mongo_client E M" "fs_volumeStorage fs = mongo_volumes E M"
    and "b \<in> set (rw_bodies (fst (serve dispatch notFound fs r s)))"
    and "b = BodyWorkflow wkf \<and> n = wf_workspace wkf \<or> b = BodyJob job \<and> n = wf_workspace (job_workflow job)
         \<or> b = BodyVolume v \<and> n = fv_workspace v"
  shows "\<exists>u. fs_auth fs (r\<lparr>rq_vars := vars\<rparr>) = Inr u
    \<and> (\<exists>ws \<in> set (ListWorkspaces (fs_workspace fs)). ws_name ws = n \<and> UserHasAccess ws u)"
proof -
  let ?w = "SetHeader ''X-Flowify-Buildtime'' BuildTime (SetHeader ''X-Flowify-Version'' CommitSHA new_rw)"
  let ?r = "r\<lparr>rq_vars := vars\<rparr>"
  have b: "b \<in> set (rw_bodies (fst (h ?w ?r s)))"
    using assms(6) by (simp add: serve_matched assms(3) SetCustomHeaders_def)
  have route: "(''GET'', p, h) \<in> set (registerApplicationRoutes fs)"
    using matched_route [OF assms(1,3)] assms(2) by auto
  have "\<not> (\<exists>t. h = probe t)"
  proof
    assume "\<exists>t. h = probe t"
    then obtain t where "h = probe t" ..
    then have "b \<in> insert (BodyBytes t) (set (rw_bodies ?w))"
      using b bodies_WriteBody [of "BodyBytes t" ?w] by (auto simp: probe_def)
    then show False using assms(7) by (auto simp: new_rw_def)
  qed
  with application_routes [OF route] obtain q where "(''GET'', q, h) \<in> set (RegisterRoutes fs)" by blast
  then obtain h' where h: "h = authenticated (fs_auth fs) (fs_workspace fs) h'" and h': "discreet h'"
    using get_routes_discreet [OF _ assms(4,5)] by blast
  have fresh: "fresh_rw ?w" "rw_bodies new_rw = []" by (simp, simp add: new_rw_def)
  have start: "displays cx ?w" for cx by (simp add: displays_def new_rw_def)
  show ?thesis
  proof (cases "fs_auth fs ?r")
    case (Inl e)
    have "b = BodyError \<lparr>ae_code = 400, ae_summary = Text ''could not authenticate'', ae_detail = ErrorText e\<rparr>"
      using b by (auto simp: h authenticated_unfold Inl abort_def respond_error_def WriteErrorResponse_def
          writeBytes_fresh fresh split: if_splits)
    then show ?thesis using assms(7) by simp
  next
    case (Inr u)
    have "displays (user_ctx fs u) (fst (h' ?w (?r\<lparr>rq_ctx := user_ctx fs u\<rparr>) s))"
      by (rule discreetD [OF h' _ start]) simp
    then have "document_ok (user_ctx fs u) b"
      using b by (simp add: h authenticated_unfold Inr displays_def)
    then have "has_access (user_ctx fs u) n" using assms(7) by (auto simp: document_ok_def)
    then show ?thesis using Inr user_ctx_access by blast
  qed
qed

theorem served_documents_need_access_witness:
  "\<exists>wkf u. BodyWorkflow wkf \<in> set (rw_bodies (fst (ex_serve 15 (ex_get ''r'')))) \<and> fs_auth ex_server (ex_get ''r'') = Inr u
     \<and> (\<exists>ws \<in> set (ListWorkspaces (fs_workspace ex_server)). ws_name ws = wf_workspace wkf \<and> UserHasAccess ws u)"
proof -
  let ?u = "ex_user ''u@x'' [''r'']"
  have u: "fs_auth ex_server (ex_get ''r'') = Inr ?u"
    by (simp add: ex_server_def ex_get_def ex_request_def HeaderGet_def zget_def)
  have "\<exists>wkf. GetWorkflow ext_example (mem_mongo ext_example) (user_ctx ex_server ?u) (NVReference 3) ex_db = Inr wkf"
    by (rule exI, code_simp)
  then obtain wkf where "GetWorkflow ext_example (mem_mongo ext_example) (user_ctx ex_server ?u) (NVReference 3) ex_db = Inr wkf" ..
  then have b: "BodyWorkflow wkf \<in> set (rw_bodies (fst (ex_serve 15 (ex_get ''r''))))"
    unfolding ex_get_serve SetCustomHeaders_def ex_get_handler_def authenticated_unfold u on_result_simps
    by (simp add: json_stack_def middleware_defs ex_get_def ex_request_def HeaderGet_def zget_def WorkflowGetHandler_def getIdFromMuxerPath_def
        getVersionNoFromMuxerPath_def mongo_client_def ex_rest_def ex_state_def WriteResponse_def writeBytes_fresh bodyAllowed_def)
  have "rq_method (ex_get ''r'') = ''GET''" "fs_nodeStorage ex_server = mongo_client ext_example (mem_mongo ext_example)"
    "fs_volumeStorage ex_server = mongo_volumes ext_example (mem_mongo ext_example)"
    by (simp_all add: ex_get_def ex_request_def ex_server_def)
  from served_documents_need_access [OF ex_dispatch_ok this(1) ex_get_matched this(2,3) b [unfolded ex_serve_def], of wkf "wf_workspace wkf"] b
  show ?thesis unfolding ex_get_serve(2) by blast
qed

end
