(* ===== verification/Rest_Job_Theorems.thy ===== *)
theory Rest_Job_Theorems
  imports Rest_Theorems
begin

text \<open>
  The properties of the job handlers, the event loops, and of the handlers' single effects.
\<close>

section \<open>Submitting\<close>

lemma InitializeMetadata_uid: "InitializeMetadata E cx now newId md = Inr md' \<Longrightarrow> md_uid md' = newId \<and> md_uid md = 0"
  by (auto simp: InitializeMetadata_def TouchMetadata_def uuid_IsZero_def Let_def go_simps split: if_splits option.splits)

lemma InitializeJob_Inr:
  "InitializeJob E cx now newId rjob = Inr job \<Longrightarrow>
     md_uid (job_metadata job) = newId \<and> job_workflow job = job_workflow rjob \<and> job_inputValues job = job_inputValues rjob"
  by (auto simp: InitializeJob_def go_simps dest!: InitializeMetadata_uid)

lemma StoreJob_Inr:
  "StoreJob client cx job d = (Inr u, d') \<Longrightarrow> cc_CreateJob client cx job d = (Inr (), d')"
  by (auto simp: StoreJob_def split: if_splits prod.splits sum.splits)

text \<open>What a request has done when it reached the cluster.\<close>

definition started ::
  "ext \<Rightarrow> rest_ext \<Rightarrow> nat \<Rightarrow> 'd component_client \<Rightarrow> 'a argo \<Rightarrow> request \<Rightarrow> ('d, 'a) jobs_state \<Rightarrow> job \<Rightarrow> string list
     \<Rightarrow> argo_workflow \<Rightarrow> ('d, 'a) jobs_state \<Rightarrow> bool" where
  "started E R depth client A r s job tags aw s' \<longleftrightarrow>
     (\<exists>rjob. ReadBody R ''JobPostRequest'' (UnmarshalJobPost R) r = Inr (rjob, tags)
        \<and> InitializeJob E (rq_ctx r) (rq_now r) (rq_newId r) rjob = Inr job)
     \<and> cc_CreateJob client (rq_ctx r) job (js_db s) = (Inr (), js_db s')
     \<and> jobManifest E client depth (rq_ctx r) job (js_db s') = Some (Inr aw)
     \<and> (let ws = wf_workspace (job_workflow job) in
          WfCreate A ws (named_manifest E job tags aw) (js_argo s)
            = (fst (WfCreate A ws (named_manifest E job tags aw) (js_argo s)), js_argo s')
          \<and> js_savers s' = js_savers s @
              (if isl (fst (WfCreate A ws (named_manifest E job tags aw) (js_argo s))) then []
               else [(ws, md_uid (job_metadata job))]))"

lemma startJob_state:
  "snd (startJob E R A job tags aw w s) =
     (let ws = wf_workspace (job_workflow job); c = WfCreate A ws (named_manifest E job tags aw) (js_argo s)
      in s\<lparr>js_argo := snd c, js_savers := js_savers s @ (if isl (fst c) then [] else [(ws, md_uid (job_metadata job))])\<rparr>)"
  by (auto simp: startJob_def Let_def on_result_def split: prod.splits sum.splits)

lemma submit_started:
  assumes run: "JobsSubmitHandler E R depth client A w r s = (w', s')"
    and reached: "js_argo s' \<noteq> js_argo s \<or> js_savers s' \<noteq> js_savers s"
  shows "\<exists>job tags aw. started E R depth client A r s job tags aw s'"
proof -
  obtain rjob tags where body: "ReadBody R ''JobPostRequest'' (UnmarshalJobPost R) r = Inr (rjob, tags)"
    using run reached by (auto simp: JobsSubmitHandler_def Let_def on_result_def split: sum.splits if_splits)
  obtain job where job: "InitializeJob E (rq_ctx r) (rq_now r) (rq_newId r) rjob = Inr job"
    using run reached body by (auto simp: JobsSubmitHandler_def Let_def on_result_def split: sum.splits if_splits)
  obtain u d' where store: "StoreJob client (rq_ctx r) job (js_db s) = (Inr u, d')"
    using run reached body job
    by (auto simp: JobsSubmitHandler_def Let_def on_result_def split: sum.splits if_splits prod.splits)
  obtain aw where manifest: "jobManifest E client depth (rq_ctx r) job d' = Some (Inr aw)"
    using run reached body job store
    by (auto simp: JobsSubmitHandler_def Let_def on_result_def on_run_def split: sum.splits if_splits option.splits)
  have "s' = snd (startJob E R A job tags aw w (s\<lparr>js_db := d'\<rparr>))"
    using run reached body job store manifest by (auto simp: JobsSubmitHandler_def Let_def split: if_splits)
  then have "started E R depth client A r s job tags aw s'"
    using body job StoreJob_Inr [OF store] manifest by (auto simp: started_def startJob_state Let_def)
  then show ?thesis by blast
qed

text \<open>
  C12: A job is started only after it was stored, by someone who may use its workspace. If a submission
  through the database client changes the Argo cluster or starts an event saver, then the request held
  a job; that job, under the fresh identifier, is stored and its workspace is accessible to the user;
  its components were dereferenced and transpiled to a manifest; and what happened in the cluster is
  the creation of that manifest, named by the identifier, in the workspace of the job, with one event
  saver if the creation succeeded.
\<close>

theorem started_jobs_are_stored_and_allowed:
  assumes run: "JobsSubmitHandler E R depth (mongo_client E M) A w r s = (w', s')"
    and reached: "js_argo s' \<noteq> js_argo s \<or> js_savers s' \<noteq> js_savers s"
  shows "\<exists>job tags aw. started E R depth (mongo_client E M) A r s job tags aw s'
    \<and> md_uid (job_metadata job) = rq_newId r
    \<and> awf_name (named_manifest E job tags aw) = UUIDString E (rq_newId r)
    \<and> has_access (rq_ctx r) (wf_workspace (job_workflow job))"
proof -
  obtain job tags aw where st: "started E R depth (mongo_client E M) A r s job tags aw s'"
    using submit_started [OF run reached] by blast
  then have uid: "md_uid (job_metadata job) = rq_newId r"
    and stored: "CreateJob M (rq_ctx r) job (js_db s) = (Inr (), js_db s')"
    by (auto simp: started_def mongo_client_def dest: InitializeJob_Inr)
  have "has_access (rq_ctx r) (wf_workspace (job_workflow job))"
  proof (rule ccontr)
    assume "\<not> has_access (rq_ctx r) (wf_workspace (job_workflow job))"
    then show False by (rule check_first) (use stored in \<open>auto simp: CreateJob_def\<close>)
  qed
  moreover have "awf_name (named_manifest E job tags aw) = UUIDString E (rq_newId r)"
    using uid by (simp add: named_manifest_def Let_def)
  ultimately show ?thesis using st uid by blast
qed

definition ex_submit_job :: "implementation \<Rightarrow> job" where
  "ex_submit_job impl =
     \<lparr>job_metadata = ex_metadata ''job'' 0, job_type = ''job'', job_inputValues = [],
      job_workflow = \<lparr>wf_metadata = ex_metadata ''wf'' 8,
        wf_component = Component (ex_metadata ''c'' 3) [] [] ''component'' impl, wf_type = ''workflow'',
        wf_workspace = ''ns''\<rparr>, job_events = []\<rparr>"

definition ex_submit :: "implementation \<Rightarrow> rw \<times> (mem, argo_wf list) jobs_state" where
  "ex_submit impl =
     JobsSubmitHandler ext_example (ex_rest\<lparr>UnmarshalJobPost := \<lambda>s. Inr (ex_submit_job impl, [''t''])\<rparr>) 2
       (mongo_client ext_example (mem_mongo ext_example)) ex_argo new_rw
       ((ex_request ''POST'' ''/jobs/'' [] ''r'' '''')\<lparr>rq_ctx := ex_cx\<rparr>) (ss_jobs ex_state)"

theorem started_jobs_are_stored_and_allowed_witness:
  "\<exists>job :: job. md_uid (job_metadata job) = 9 \<and> has_access ex_cx (wf_workspace (job_workflow job))
     \<and> js_savers (snd (ex_submit (ImplBrick (ex_brick [] [])))) \<noteq> []"
proof -
  have new: "js_savers (snd (ex_submit (ImplBrick (ex_brick [] [])))) \<noteq> []" by code_simp
  have "js_savers (ss_jobs ex_state) = []" by (simp add: ex_state_def)
  then have "js_savers (snd (ex_submit (ImplBrick (ex_brick [] [])))) \<noteq> js_savers (ss_jobs ex_state)" using new by simp
  from started_jobs_are_stored_and_allowed [OF prod.collapse [symmetric] disjI2, OF this [unfolded ex_submit_def]]
  have "\<exists>job :: job. md_uid (job_metadata job) = 9 \<and> has_access ex_cx (wf_workspace (job_workflow job))"
    by (simp add: ex_request_def) blast
  then show ?thesis using new by blast
qed

text \<open>
  A job that cannot be made into a manifest stays behind. If the job was stored and then its
  dereferencing or transpiling fails, the answer is an error, the cluster is untouched, and the stored
  job remains; a later request to delete it is answered with "not found" as long as the cluster lists
  no workflow of its name, and again changes nothing.
\<close>

theorem failed_submission_leaves_the_job:
  assumes "fresh_rw w" "ReadBody R ''JobPostRequest'' (UnmarshalJobPost R) r = Inr (rjob, tags)"
    and "InitializeJob E (rq_ctx r) (rq_now r) (rq_newId r) rjob = Inr job" "rq_newId r \<noteq> 0"
    and "cc_CreateJob client (rq_ctx r) job (js_db s) = (Inr (), d')"
    and "jobManifest E client depth (rq_ctx r) job d' = Some (Inl err)" "\<not> is_panic err"
    and "WfList A '''' (GetFieldnameSelector A (UUIDString E (rq_newId r))) (js_argo s) = Inr []"
    and "fresh_rw w2" "getIdFromMuxerPath R r2 = Inr (rq_newId r)"
  shows "let (w', s') = JobsSubmitHandler E R depth client A w r s; (w2', s'') = JobDeleteHandler E R client A w2 r2 s'
    in s' = s\<lparr>js_db := d'\<rparr> \<and> map_option fst (rw_sent w') = Some 500
     \<and> s'' = s' \<and> map_option fst (rw_sent w2') = Some 404"
proof -
  have uid: "md_uid (job_metadata job) = rq_newId r" "md_uid (job_metadata rjob) = 0"
    using InitializeJob_Inr [OF assms(3)] assms(3)
    by (auto simp: InitializeJob_def go_simps dest: InitializeMetadata_uid)
  have submit: "JobsSubmitHandler E R depth client A w r s =
      (respond_error w 500 ''error generating a Argo workflow manifest'' (ErrorText err), s\<lparr>js_db := d'\<rparr>)"
    using assms uid by (simp add: JobsSubmitHandler_def StoreJob_def uuid_IsZero_def)
  have "getWorkspaceByJobUID E A (rq_newId r) (js_argo s) = Inl (Errorf ''no such job %s'' [UUIDString E (rq_newId r)])"
    using assms(8) by (simp add: getWorkspaceByJobUID_def)
  then show ?thesis
    using assms(1,9,10) unfolding submit
    by (simp add: JobDeleteHandler_def in_workspace_def respond_error_def WriteErrorResponse_def writeBytes_fresh)
qed

theorem failed_submission_leaves_the_job_witness:
  "js_db (snd (ex_submit ImplNil)) jobCollection \<noteq> [] \<and> js_argo (snd (ex_submit ImplNil)) = []"
proof -
  let ?R = "ex_rest\<lparr>UnmarshalJobPost := \<lambda>s. Inr (ex_submit_job ImplNil, [''t''])\<rparr>"
  let ?C = "mongo_client ext_example (mem_mongo ext_example)"
  let ?r = "(ex_request ''POST'' ''/jobs/'' [] ''r'' '''')\<lparr>rq_ctx := ex_cx\<rparr>"
  let ?r2 = "ex_request ''DELETE'' ''/jobs/{id}'' [(''id'', ''uuuuuuuuu'')] ''r'' ''''"
  have body: "ReadBody ?R ''JobPostRequest'' (UnmarshalJobPost ?R) ?r = Inr (ex_submit_job ImplNil, [''t''])"
    by (simp add: ReadBody_def ValidateDocument_def RegisteredSchemas_def ex_rest_def ex_request_def)
  have "case InitializeJob ext_example (rq_ctx ?r) (rq_now ?r) (rq_newId ?r) (ex_submit_job ImplNil) of
      Inr job \<Rightarrow> (case cc_CreateJob ?C (rq_ctx ?r) job (js_db (ss_jobs ex_state)) of
                   (res, d') \<Rightarrow> res = Inr () \<and> d' jobCollection \<noteq> []) | _ \<Rightarrow> False"
    by code_simp
  then obtain job d' where job: "InitializeJob ext_example (rq_ctx ?r) (rq_now ?r) (rq_newId ?r) (ex_submit_job ImplNil) = Inr job"
    and store: "cc_CreateJob ?C (rq_ctx ?r) job (js_db (ss_jobs ex_state)) = (Inr (), d')" and d': "d' jobCollection \<noteq> []"
    by (auto split: sum.splits prod.splits)
  have wf: "job_workflow job = job_workflow (ex_submit_job ImplNil)" using InitializeJob_Inr [OF job] by simp
  have man: "jobManifest ext_example ?C 2 (rq_ctx ?r) job d' = Some (Inl (Errorf ''Dereference of type %s is not implemented.'' []))"
    by (simp add: jobManifest_def DereferenceComponent_def drefComponent_def wf ex_submit_job_def numeral_2_eq_2)
  have ids: "getIdFromMuxerPath ?R ?r2 = Inr (rq_newId ?r)"
    by (simp add: getIdFromMuxerPath_def ex_request_def ex_rest_def)
  have list: "WfList ex_argo '''' (GetFieldnameSelector ex_argo (UUIDString ext_example (rq_newId ?r))) (js_argo (ss_jobs ex_state)) = Inr []"
    by (simp add: ex_argo_def ex_state_def)
  have "rq_newId ?r \<noteq> 0" by (simp add: ex_request_def)
  from failed_submission_leaves_the_job [OF fresh_headers(3) body job this store man _ list fresh_headers(3) ids]
  have "snd (ex_submit ImplNil) = (ss_jobs ex_state)\<lparr>js_db := d'\<rparr>"
    by (auto simp: ex_submit_def Let_def split: prod.splits)
  then show ?thesis using d' by (simp add: ex_state_def)
qed

section \<open>Deleting\<close>

text \<open>
  C30: A job is deleted in order and only when it is over. A delete request changes something only if
  the cluster has exactly one workflow of that name, that workflow has finished, and the rehearsal of
  its deletion succeeded; then the stored job is deleted first, and the workflow only if that worked.
\<close>

theorem job_deletion_order:
  assumes dry: "\<forall>ns n a. snd (WfDelete A True ns n a) = a"
    and run: "JobDeleteHandler E R client A w r s = (w', s')" and changed: "s' \<noteq> s"
  shows "\<exists>jid ws aw. getIdFromMuxerPath R r = Inr jid
    \<and> (\<exists>aw1. WfList A '''' (GetFieldnameSelector A (UUIDString E jid)) (js_argo s) = Inr [aw1] \<and> aw_namespace aw1 = ws)
    \<and> WfGet A ws (UUIDString E jid) (js_argo s) = Inr aw \<and> aw_finishedAt aw \<noteq> None
    \<and> \<not> isl (fst (WfDelete A True ws (UUIDString E jid) (js_argo s)))
    \<and> (let del = cc_DeleteDocument client (rq_ctx r) JobKind \<lparr>crv_version = 0, crv_uid = jid\<rparr> (js_db s)
       in s' = s\<lparr>js_db := snd del,
                 js_argo := (if isl (fst del) then js_argo s
                             else snd (WfDelete A False ws (UUIDString E jid) (js_argo s)))\<rparr>)"
proof -
  obtain jid where jid: "getIdFromMuxerPath R r = Inr jid"
    using run changed by (cases "getIdFromMuxerPath R r") (auto simp: JobDeleteHandler_def in_workspace_def split: if_splits)
  obtain ws where ws: "getWorkspaceByJobUID E A jid (js_argo s) = Inr ws"
    using run changed jid
    by (cases "getWorkspaceByJobUID E A jid (js_argo s)") (auto simp: JobDeleteHandler_def in_workspace_def split: if_splits)
  obtain aw where aw: "WfGet A ws (UUIDString E jid) (js_argo s) = Inr aw"
    using run changed jid ws
    by (cases "WfGet A ws (UUIDString E jid) (js_argo s)") (auto simp: JobDeleteHandler_def in_workspace_def split: if_splits)
  have fin: "aw_finishedAt aw \<noteq> None"
    using run changed jid ws aw by (cases "aw_finishedAt aw") (auto simp: JobDeleteHandler_def in_workspace_def)
  have s': "s' = snd (DeleteJob E client A (rq_ctx r) jid ws s)"
    using run jid ws aw fin
    by (auto simp: JobDeleteHandler_def in_workspace_def on_result_def split: prod.splits sum.splits if_splits)
  obtain res a1 where d: "WfDelete A True ws (UUIDString E jid) (js_argo s) = (res, a1)" by fastforce
  with dry have a1: "a1 = js_argo s" by (metis snd_conv)
  have res: "\<not> isl res" using s' changed d a1 by (cases res) (auto simp: DeleteJob_def)
  show ?thesis
    using jid ws aw fin d res s' a1
    by (intro exI [of _ jid] exI [of _ ws] exI [of _ aw])
      (auto simp: getWorkspaceByJobUID_def DeleteJob_def Let_def split: sum.splits list.splits prod.splits if_splits)
qed

definition ex_done :: "string \<Rightarrow> argo_wf" where
  "ex_done phase = \<lparr>aw_name = ''uuuuuuuuu'', aw_namespace = ''ns'', aw_phase = phase,
     aw_finishedAt = Some \<lparr>tm_nanos = 1, tm_loc = ''UTC''\<rparr>, aw_text = ''done''\<rparr>"

definition ex_delete :: request where
  "ex_delete = (ex_request ''DELETE'' ''/jobs/{id}'' [(''id'', ''uuuuuuuuu'')] ''r'' '''')\<lparr>rq_ctx := ex_cx\<rparr>"

definition ex_delete_run :: "rw \<times> (mem, argo_wf list) jobs_state" where
  "ex_delete_run =
     JobDeleteHandler ext_example ex_rest (mongo_client ext_example (mem_mongo ext_example)) ex_argo new_rw ex_delete
       ((snd (ex_submit (ImplBrick (ex_brick [] []))))\<lparr>js_argo := [ex_done ''Succeeded'']\<rparr>)"

theorem job_deletion_order_witness:
  "\<exists>jid ws aw. getIdFromMuxerPath ex_rest ex_delete = Inr jid
     \<and> WfGet ex_argo ws (UUIDString ext_example jid) [ex_done ''Succeeded''] = Inr aw \<and> aw_finishedAt aw \<noteq> None
     \<and> js_argo (snd ex_delete_run) = []"
proof -
  let ?s = "(snd (ex_submit (ImplBrick (ex_brick [] []))))\<lparr>js_argo := [ex_done ''Succeeded'']\<rparr>"
  have gone: "js_argo (snd ex_delete_run) = []" by code_simp
  then have changed: "snd ex_delete_run \<noteq> ?s" by auto
  have dry: "\<forall>ns n a. snd (WfDelete ex_argo True ns n a) = a" by (simp add: ex_argo_def)
  from job_deletion_order [OF dry prod.collapse [symmetric] changed [unfolded ex_delete_run_def]] gone
  show ?thesis by auto
qed

section \<open>Events\<close>

definition completed :: "'a argo \<Rightarrow> argo_wf \<Rightarrow> bool" where
  "completed A aw = PhaseCompleted A (aw_phase aw)"

lemma saverLoop_prefix:
  "list_all (\<lambda>aw. \<not> completed A aw) evs \<Longrightarrow>
   saverLoop A (map EvWorkflow evs @ rs) acc = saverLoop A rs (acc @ map aw_text evs)"
  by (induction evs arbitrary: acc) (auto simp: completed_def Let_def)

text \<open>
  C15: What the event saver does with what its watch delivers. While the workflow is reported without
  being completed it waits. When a completed workflow arrives, the texts of all events up to and
  including that one are stored, in order and at once, and it ends. If the channel is closed or
  delivers another object before that, the process crashes, and nothing is stored; so it does when the
  watch cannot be opened.
\<close>

theorem event_saver_behaviour:
  assumes "WfWatch A ws (GetFieldnameSelector A (UUIDString E jid)) a = Inr (map EvWorkflow evs @ rest)"
    and "list_all (\<lambda>aw. \<not> completed A aw) evs"
    and "rest = [] \<or> (\<exists>aw. hd rest = EvWorkflow aw \<and> completed A aw) \<or> hd rest = ChanClosed \<or> (\<exists>e. hd rest = EvOther e)"
  shows "EventSaver E client A todo (ws, jid) a d =
    (case rest of
       [] \<Rightarrow> LoopWaiting d
     | EvWorkflow aw # _ \<Rightarrow>
         (case cc_AddJobEvents client todo jid (map aw_text (evs @ [aw])) d of
            (Inl e, d') \<Rightarrow> if is_panic e then LoopPanic else LoopDone d'
          | (Inr _, d') \<Rightarrow> LoopDone d')
     | _ \<Rightarrow> LoopPanic)"
proof (cases rest)
  case Nil
  then show ?thesis using assms saverLoop_prefix [OF assms(2), of "[]" "[]"] by (simp add: EventSaver_def)
next
  case (Cons x xs)
  then show ?thesis
    using assms(1,3) saverLoop_prefix [OF assms(2), of "x # xs" "[]"]
    by (cases x) (auto simp: EventSaver_def completed_def Let_def split: prod.splits sum.splits)
qed

theorem event_saver_behaviour_witness:
  "EventSaver ext_example (mongo_client ext_example (mem_mongo ext_example)) ex_argo ex_cx (''ns'', 9) [ex_done ''Running''] ex_db = LoopPanic"
proof -
  have "UUIDString ext_example 9 = ''uuuuuuuuu''" by code_simp
  then have "WfWatch ex_argo ''ns'' (GetFieldnameSelector ex_argo (UUIDString ext_example 9)) [ex_done ''Running'']
      = Inr (map EvWorkflow [ex_done ''Running''] @ [ChanClosed])"
    by (simp add: ex_argo_def GetFieldnameSelector_def ex_done_def)
  from event_saver_behaviour [OF this] show ?thesis by (simp add: completed_def ex_argo_def ex_done_def)
qed

text \<open>The record of one event on the stream.\<close>

definition sse_record :: "string \<Rightarrow> resp_body" where
  "sse_record t = BodyBytes (''data: '' @ t @ [char_of (10 :: nat), char_of (10 :: nat)])"

lemma eventLoop_saved:
  assumes "\<forall>aw. WfJson A aw = Inr (aw_text aw)" "\<forall>t. StreamWrite A t = None"
    and "saverLoop A rs acc = LoopDone evs" "rw_sent w = Some (200, h)" "rw_bodies w = map sse_record acc"
  shows "\<exists>w'. eventLoop A rs w = (LoopDone (Inr ()), w') \<and> rw_sent w' = Some (200, h) \<and> rw_bodies w' = map sse_record evs"
  using assms
proof (induction A rs acc arbitrary: w rule: saverLoop.induct)
  case (5 A aw rs acc)
  let ?b = "BodyBytes (''data: '' @ aw_text aw @ [char_of (10 :: nat), char_of (10 :: nat)])"
  have ev: "WriteEventToSSEStream A w aw = (Inr (), WriteBody ?b w)"
    using 5(2,3) by (simp add: WriteEventToSSEStream_def Let_def)
  have w: "rw_sent (WriteBody ?b w) = Some (200, h)" "rw_bodies (WriteBody ?b w) = map sse_record (acc @ [aw_text aw])"
    using 5(5,6) by (simp_all add: WriteBody_def WriteHeader_def bodyAllowed_def sse_record_def Let_def)
  show ?case
    using 5(1) [OF refl _ 5(2,3) _ w] 5(4) ev w by (cases "PhaseCompleted A (aw_phase aw)") (auto simp: Let_def)
qed auto

text \<open>
  C32: The stream shows what is saved. For the same receives, when the event saver would finish with
  certain events, a client that streams the events of the job (and to whom writing does not fail)
  receives status 200 and exactly those events, in the same order, and the stream ends.
\<close>

theorem stream_shows_the_saved_events:
  assumes "fresh_rw w" "\<forall>aw. WfJson A aw = Inr (aw_text aw)" "\<forall>t. StreamWrite A t = None"
    and "saverLoop A rs [] = LoopDone evs"
  shows "\<exists>w'. StartEventLoop A rs w = (LoopDone (Inr ()), w') \<and> map_option fst (rw_sent w') = Some 200
    \<and> rw_bodies w' = map sse_record evs"
proof -
  have "rw_sent (WriteHeader 200 w) = Some (200, rw_header w)" "rw_bodies (WriteHeader 200 w) = map sse_record []"
    using assms(1) by (simp_all add: fresh_rw_def WriteHeader_def)
  from eventLoop_saved [OF assms(2-4) this] show ?thesis by (auto simp: StartEventLoop_def)
qed

theorem stream_shows_the_saved_events_witness:
  "\<exists>w'. StartEventLoop ex_argo [EvWorkflow (ex_done ''Running''), EvWorkflow (ex_done ''Succeeded''), ChanClosed] new_rw
      = (LoopDone (Inr ()), w') \<and> rw_bodies w' = map sse_record [''done'', ''done'']"
proof -
  have "saverLoop ex_argo [EvWorkflow (ex_done ''Running''), EvWorkflow (ex_done ''Succeeded''), ChanClosed] []
      = LoopDone [''done'', ''done'']"
    by (simp add: ex_argo_def ex_done_def)
  moreover have "\<forall>aw. WfJson ex_argo aw = Inr (aw_text aw)" "\<forall>t. StreamWrite ex_argo t = None"
    by (simp_all add: ex_argo_def)
  ultimately show ?thesis using stream_shows_the_saved_events [OF fresh_headers(3)] by blast
qed

end
