(* ===== verification/Rest_Effects.thy ===== *)
theory Rest_Effects
  imports Rest_Theorems
begin

text \<open>
  The effects of single handlers: storing a secret, the parameters of a listing, and the handlers
  whose outcome does not depend on who asks, or that answer twice or not at all.
\<close>

section \<open>Parameters\<close>

lemma parseNonNegative_range:
  "parseNonNegative name dflt s = Inr i \<Longrightarrow> 0 \<le> dflt \<Longrightarrow> dflt < 2 ^ 63 \<Longrightarrow> 0 \<le> i \<and> i < 2 ^ 63"
  by (auto simp: parseNonNegative_def split: if_splits sum.splits dest: Atoi_range)

lemma parseNonNegative_itoa: "0 \<le> i \<Longrightarrow> i < 2 ^ 63 \<Longrightarrow> parseNonNegative name dflt (itoa i) = Inr i"
  using Atoi_itoa [of i] nat_digits_decimal [of "nat i"] by (auto simp: parseNonNegative_def itoa_def)

text \<open>
  C39: The window of a listing. Whatever the query parameters are, an accepted limit and offset are
  non-negative 64-bit integers; the decimal texts of any such numbers are accepted and give those
  numbers back; absent parameters are 10 and 0; and a negative number in either is refused.
\<close>

theorem pagination_parameters:
  "(parsePaginationsOrDefault ls os = Inr p \<longrightarrow>
      0 \<le> pn_limit p \<and> pn_limit p < 2 ^ 63 \<and> 0 \<le> pn_skip p \<and> pn_skip p < 2 ^ 63)
   \<and> (0 \<le> l \<and> l < 2 ^ 63 \<and> 0 \<le> k \<and> k < 2 ^ 63 \<longrightarrow>
        parsePaginationsOrDefault (itoa l # ls) (itoa k # os) = Inr \<lparr>pn_limit = l, pn_skip = k\<rparr>)
   \<and> parsePaginationsOrDefault [] [] = Inr \<lparr>pn_limit = 10, pn_skip = 0\<rparr>
   \<and> (- (2 ^ 63) \<le> m \<and> m < 0 \<longrightarrow> isl (parsePaginationsOrDefault (itoa m # ls) os) \<and> isl (parsePaginationsOrDefault ls (itoa m # os)))"
proof (intro conjI impI)
  assume "parsePaginationsOrDefault ls os = Inr p"
  then show "0 \<le> pn_limit p" "pn_limit p < 2 ^ 63" "0 \<le> pn_skip p" "pn_skip p < 2 ^ 63"
    using parseNonNegative_range [of "''limit''" 10] parseNonNegative_range [of "''offset''" 0]
    by (fastforce simp: parsePaginationsOrDefault_def parsePaginationOrDefault_def go_simps)+
next
  assume "0 \<le> l \<and> l < 2 ^ 63 \<and> 0 \<le> k \<and> k < 2 ^ 63"
  then show "parsePaginationsOrDefault (itoa l # ls) (itoa k # os) = Inr \<lparr>pn_limit = l, pn_skip = k\<rparr>"
    using parseNonNegative_itoa [of l] parseNonNegative_itoa [of k]
    by (simp add: parsePaginationsOrDefault_def parsePaginationOrDefault_def)
next
  show "parsePaginationsOrDefault [] [] = Inr \<lparr>pn_limit = 10, pn_skip = 0\<rparr>"
    by (simp add: parsePaginationsOrDefault_def parsePaginationOrDefault_def parseNonNegative_def)
next
  assume m: "- (2 ^ 63) \<le> m \<and> m < 0"
  then have neg: "isl (parseNonNegative name dflt (itoa m))" for name dflt
    using Atoi_itoa [of m] by (auto simp: parseNonNegative_def itoa_def)
  show "isl (parsePaginationsOrDefault (itoa m # ls) os)" "isl (parsePaginationsOrDefault ls (itoa m # os))"
    using neg [of "''limit''" 10] neg [of "''offset''" 0]
    by (auto simp: parsePaginationsOrDefault_def parsePaginationOrDefault_def rbind_def isl_def split: sum.splits)
qed

theorem pagination_parameters_witness:
  "parsePaginationsOrDefault [''25''] [''50''] = Inr \<lparr>pn_limit = 25, pn_skip = 50\<rparr>"
proof -
  have "itoa 25 = ''25''" "itoa 50 = ''50''" by code_simp+
  then show ?thesis using pagination_parameters [of "[]" "[]" "\<lparr>pn_limit = 0, pn_skip = 0\<rparr>" 25 50 0] by simp
qed

section \<open>Storing a secret\<close>

text \<open>
  C31: Storing a secret through the API. The request is answered with 201 exactly when the key was new
  in the workspace of the path and with 204 when it replaced one; in both cases the workspace holds the
  key of the path with the value of the body, and every other key of every workspace is as before. A
  request that is answered with 400 has changed no key. The only other answer is 500: then, and after a
  panic, either no key of any workspace has changed, or a write to the cluster that failed was applied all
  the same and has set exactly the key of the path to the value of the body.
\<close>

theorem secret_put_effect:
  assumes laws: "secret_laws K sec" "range_ok E" and w: "fresh_rw w"
    and json: "MarshalError R BodyNil = None" "\<forall>t. MarshalError R (BodyBytes t) = None"
    and run: "SecretPutHandler E R K w r k = (w', k')"
  shows "let ws = zget (rq_vars r) ''workspace''; key = zget (rq_vars r) ''key''; old = data_of (sec k); new = data_of (sec k')
    in (case status_of w' of
          Some st \<Rightarrow>
            if st \<in> {201, 204}
            then (st = 201 \<longleftrightarrow> key \<notin> dom (old ws))
                 \<and> (\<exists>v. UnmarshalSecret R (fst (rq_body r)) = Inr (key, v) \<and> new = add_key ws key v old)
            else if st = 400 then new = old
            else st = 500 \<and> (new = old \<or> (\<exists>v. UnmarshalSecret R (fst (rq_body r)) = Inr (key, v) \<and> new = add_key ws key v old))
        | None \<Rightarrow> rw_panic w' \<and> (new = old \<or> (\<exists>v. UnmarshalSecret R (fst (rq_body r)) = Inr (key, v) \<and> new = add_key ws key v old)))"
proof (cases "UnmarshalSecret R (fst (rq_body r))")
  case (Inl e)
  then show ?thesis using run w fresh_abort [OF w] error_status [OF w]
    by (auto simp: SecretPutHandler_def Let_def split: if_splits)
next
  case (Inr kv)
  obtain key v where kv: "kv = (key, v)" by fastforce
  let ?ws = "zget (rq_vars r) ''workspace''"
  show ?thesis
  proof (cases "key = zget (rq_vars r) ''key''")
    case False
    then show ?thesis using run Inr kv error_status [OF w] by (auto simp: SecretPutHandler_def Let_def)
  next
    case key: True
    show ?thesis
    proof (cases "ListAvailableKeys E K ?ws k")
      case (Inl e)
      then show ?thesis using run Inr kv key fresh_abort [OF w] error_status [OF w]
        by (auto simp: SecretPutHandler_def Let_def split: if_splits)
    next
      case keys: (Inr keys)
      obtain res k1 where add: "AddSecretKey K ?ws key v k = (res, k1)" by fastforce
      note eff = add_key_effect [OF laws(1) add] and dom = ListAvailableKeys_set [OF laws keys]
      show ?thesis
      proof (cases res)
        case (Inl e)
        then show ?thesis using run Inr kv key keys add eff fresh_abort [OF w] error_status [OF w]
          by (auto simp: SecretPutHandler_def Let_def written_def split: if_splits)
      next
        case ok: (Inr u)
        have "\<And>st hs b tag. MarshalError R b = None \<Longrightarrow> fresh_rw w \<Longrightarrow>
            status_of (WriteResponse R (AddHeader ''Location'' (rq_uri r) w) st hs b tag) = Some st"
          by (rule response_status) simp_all
        then show ?thesis
          using run Inr kv key keys add eff ok dom w json response_status [OF w]
          by (cases "key \<in> set keys") (auto simp: SecretPutHandler_def Let_def written_def)
      qed
    qed
  qed
qed

theorem secret_put_effect_witness:
  "data_of (map_of (snd (SecretPutHandler ext_example ex_rest mem_secret_kube new_rw ex_put []))) ''ns'' ''k'' = Some ''v''"
proof -
  let ?run = "SecretPutHandler ext_example ex_rest mem_secret_kube new_rw ex_put []"
  have st: "status_of (fst ?run) = Some 201" by code_simp
  have vars: "zget (rq_vars ex_put) ''workspace'' = ''ns''" "zget (rq_vars ex_put) ''key'' = ''k''"
    "UnmarshalSecret ex_rest (fst (rq_body ex_put)) = Inr (''k'', ''v'')" by code_simp+
  have "MarshalError ex_rest BodyNil = None" "\<forall>t. MarshalError ex_rest (BodyBytes t) = None"
    by (simp_all add: ex_rest_def)
  from secret_put_effect [OF mem_secret_laws ext_example_ok(5) fresh_headers(3) this prod.collapse [symmetric], of ex_put "[]"] st vars
  show ?thesis by (auto simp: Let_def add_key_def)
qed

section \<open>Handlers that do not ask who asks\<close>

text \<open>
  The outcome of updating and of deleting a workspace, and of terminating a job, watching its
  events and asking for its status, is the same whoever the authenticated user is and whatever
  workspaces that user may use: none of these handlers looks at the user.
\<close>

theorem handlers_ignoring_the_user:
  "WorkspacesUpdateHandler R K ns w (r\<lparr>rq_ctx := cx\<rparr>) k = WorkspacesUpdateHandler R K ns w r k
   \<and> WorkspacesDeleteHandler R K ns w (r\<lparr>rq_ctx := cx\<rparr>) k = WorkspacesDeleteHandler R K ns w r k
   \<and> JobTerminateHandler E R A w (r\<lparr>rq_ctx := cx\<rparr>) s = JobTerminateHandler E R A w r s
   \<and> JobStatusHandler E R A w (r\<lparr>rq_ctx := cx\<rparr>) s = JobStatusHandler E R A w r s
   \<and> JobsEventstreamHandler A w (r\<lparr>rq_ctx := cx\<rparr>) s = JobsEventstreamHandler A w r s"
  by (simp add: WorkspacesUpdateHandler_def WorkspacesDeleteHandler_def JobTerminateHandler_def JobStatusHandler_def
      JobsEventstreamHandler_def in_workspace_def getIdFromMuxerPath_def)

section \<open>Handlers that go on after an error\<close>

text \<open>
  Posting a workflow that already has an identifier is answered twice: status 400 is sent with an
  error object, and then a second error object follows in the same response; nothing is stored.
\<close>

theorem workflow_post_answers_twice:
  assumes "fresh_rw w" "ReadBody R ''WorkflowPostRequest'' (UnmarshalWorkflowPost R) r = Inr wkf"
    and "\<not> uuid_IsZero (md_uid (wf_metadata wkf))"
  shows "\<exists>e1 e2. rw_bodies (fst (WorkflowPostHandler E R client w r d)) = [BodyError e1, BodyError e2]
    \<and> status_of (fst (WorkflowPostHandler E R client w r d)) = Some 400
    \<and> ae_code e1 = 400 \<and> ae_code e2 = 500 \<and> snd (WorkflowPostHandler E R client w r d) = d"
  using assms
  by (simp add: WorkflowPostHandler_def InitializeWorkflow_def InitializeMetadata_def StoreWorkflow_def zero_workflow_def
      zero_metadata_def uuid_IsZero_def respond_error_def WriteErrorResponse_def writeBytes_def WriteBody_def
      WriteHeader_def bodyAllowed_def fresh_rw_def status_of_def)

theorem workflow_post_answers_twice_witness:
  "\<exists>e1 e2. rw_bodies (fst (WorkflowPostHandler ext_example ex_rest (mongo_client ext_example (mem_mongo ext_example)) new_rw
     (ex_request ''POST'' ''/workflows/'' [] ''r'' '''') ex_db)) = [BodyError e1, BodyError e2]"
proof -
  have "ReadBody ex_rest ''WorkflowPostRequest'' (UnmarshalWorkflowPost ex_rest) (ex_request ''POST'' ''/workflows/'' [] ''r'' '''')
      = Inr (ex_wf 3 1 ''ns'')"
    by (simp add: ReadBody_def ValidateDocument_def RegisteredSchemas_def ex_rest_def ex_request_def)
  moreover have "\<not> uuid_IsZero (md_uid (wf_metadata (ex_wf 3 1 ''ns'')))" by (simp add: ex_wf_def ex_meta_def uuid_IsZero_def)
  ultimately show ?thesis using workflow_post_answers_twice [OF fresh_headers(3)] by metis
qed

text \<open>
  A version of -2 in the path of a component or workflow crashes its handler: the value that stands
  for "cannot be parsed" comes without an error, and the text of that error is asked for.
\<close>

theorem version_minus_two_panics:
  assumes "map_of (rq_vars r) ''version'' = Some ''-2''" "getIdFromMuxerPath R r = Inr jid"
  shows "rw_panic (fst (ComponentGetHandler R client w r d)) \<and> rw_panic (fst (WorkflowGetHandler R client w r d))
    \<and> rw_panic (fst (ComponentDeleteHandler E R client w r d)) \<and> rw_panic (fst (WorkflowDeleteHandler E R client w r d))"
proof -
  have "itoa (- 2) = ''-2''" by code_simp
  then have "Atoi ''-2'' = Inr (- 2)" using Atoi_itoa [of "- 2"] by simp
  then show ?thesis
    using assms by (simp add: ComponentGetHandler_def WorkflowGetHandler_def ComponentDeleteHandler_def
      WorkflowDeleteHandler_def deleteHandler_def getVersionNoFromMuxerPath_def bad_version_def abort_def)
qed

theorem version_minus_two_panics_witness:
  "rw_panic (fst (ComponentGetHandler ex_rest (mongo_client ext_example (mem_mongo ext_example)) new_rw
     (ex_request ''GET'' ''/components/{id}/{version}'' [(''id'', ''uu''), (''version'', ''-2'')] ''r'' '''') ex_db))"
proof -
  let ?r = "ex_request ''GET'' ''/components/{id}/{version}'' [(''id'', ''uu''), (''version'', ''-2'')] ''r'' ''''"
  have "map_of (rq_vars ?r) ''version'' = Some ''-2''" "getIdFromMuxerPath ex_rest ?r = Inr 2"
    by (simp_all add: ex_request_def getIdFromMuxerPath_def ex_rest_def)
  from version_minus_two_panics [OF this, of "mongo_client ext_example (mem_mongo ext_example)" new_rw ex_db ext_example]
  show ?thesis by blast
qed

end
