(* ===== verification/Local_Storage.thy ===== *)
theory Local_Storage
  imports Mongo
begin

text \<open>
  \<^verbatim>\<open>storage/local.go\<close>: the storage client that keeps its documents in maps. A map that was never
  made is \<open>None\<close>: it reads as empty, and writing to it panics. The order in which a map is
  iterated is a parameter, a function that permutes the keys.
\<close>

section \<open>The client\<close>

type_synonym 'v refmap = "(component_reference \<times> 'v) list option"

record LocalStorageClientImpl =
  c_store :: "component refmap"
  wf_store :: "workflow refmap"
  job_store :: "job refmap"

definition entries :: "'v refmap \<Rightarrow> (component_reference \<times> 'v) list" where
  "entries m = (case m of None \<Rightarrow> [] | Some kvs \<Rightarrow> kvs)"

definition assign :: "component_reference \<Rightarrow> 'v \<Rightarrow> 'v refmap \<Rightarrow> 'v refmap res" where
  "assign k v m =
     (case m of None \<Rightarrow> Inl (GoPanic ''assignment to entry in nil map'') | Some kvs \<Rightarrow> Inr (Some (AList.update k v kvs)))"

definition NewLocalNodeStorageClient :: LocalStorageClientImpl where
  "NewLocalNodeStorageClient = \<lparr>c_store = Some [], wf_store = Some [], job_store = None\<rparr>"

definition local_CreateComponent :: "component \<Rightarrow> LocalStorageClientImpl \<Rightarrow> LocalStorageClientImpl res" where
  "local_CreateComponent nd c =
     rbind (assign (md_uid (cmp_metadata nd)) nd (c_store c)) (\<lambda>m. Inr (c\<lparr>c_store := m\<rparr>))"

definition local_GetComponent :: "ext \<Rightarrow> component_reference \<Rightarrow> LocalStorageClientImpl \<Rightarrow> component res" where
  "local_GetComponent E u c =
     (case map_of (entries (c_store c)) u of
        None \<Rightarrow> Inl (Errorf ''component %s not found'' [UUIDString E u])
      | Some v \<Rightarrow> Inr v)"

text \<open>
  The loop of the listings: counters for the entries passed and the entries taken. The counters stay
  below the number of entries, so they do not wrap.
\<close>

fun pageLoop :: "pagination \<Rightarrow> int \<Rightarrow> int \<Rightarrow> metadata list \<Rightarrow> metadata list \<Rightarrow> metadata list" where
  "pageLoop p pos i [] res = res"
| "pageLoop p pos i (m # ms) res =
     (if pn_skip p \<le> pos \<and> i < pn_limit p then pageLoop p (pos + 1) (i + 1) ms (res @ [m])
      else pageLoop p (pos + 1) i ms res)"

type_synonym ref_order = "component_reference list \<Rightarrow> component_reference list"

definition in_order :: "ref_order \<Rightarrow> 'v refmap \<Rightarrow> 'v list" where
  "in_order ord m = List.map_filter (map_of (entries m)) (ord (map fst (entries m)))"

definition local_ListComponentsMetadata :: "ref_order \<Rightarrow> pagination \<Rightarrow> LocalStorageClientImpl \<Rightarrow> metadata list res" where
  "local_ListComponentsMetadata ord p c = Inr (pageLoop p 0 0 (map cmp_metadata (in_order ord (c_store c))) [])"

definition local_CreateWorkflow :: "workflow \<Rightarrow> LocalStorageClientImpl \<Rightarrow> LocalStorageClientImpl res" where
  "local_CreateWorkflow nd c =
     rbind (assign (md_uid (wf_metadata nd)) nd (wf_store c)) (\<lambda>m. Inr (c\<lparr>wf_store := m\<rparr>))"

definition local_GetWorkflow :: "ext \<Rightarrow> component_reference \<Rightarrow> LocalStorageClientImpl \<Rightarrow> workflow res" where
  "local_GetWorkflow E u c =
     (case map_of (entries (wf_store c)) u of
        None \<Rightarrow> Inl (Errorf ''component %s not found'' [UUIDString E u])
      | Some v \<Rightarrow> Inr v)"

definition local_ListWorkflowsMetadata :: "ref_order \<Rightarrow> pagination \<Rightarrow> LocalStorageClientImpl \<Rightarrow> metadata list res" where
  "local_ListWorkflowsMetadata ord p c = Inr (pageLoop p 0 0 (map wf_metadata (in_order ord (wf_store c))) [])"

definition local_GetJob :: "ext \<Rightarrow> component_reference \<Rightarrow> LocalStorageClientImpl \<Rightarrow> job res" where
  "local_GetJob E u c =
     (case map_of (entries (job_store c)) u of
        None \<Rightarrow> Inl (Errorf ''job %s not found'' [UUIDString E u])
      | Some v \<Rightarrow> Inr v)"

definition local_CreateJob :: "job \<Rightarrow> LocalStorageClientImpl \<Rightarrow> LocalStorageClientImpl res" where
  "local_CreateJob nd c =
     rbind (assign (md_uid (job_metadata nd)) nd (job_store c)) (\<lambda>m. Inr (c\<lparr>job_store := m\<rparr>))"

definition local_ListJobsMetadata :: "ref_order \<Rightarrow> pagination \<Rightarrow> LocalStorageClientImpl \<Rightarrow> metadata list res" where
  "local_ListJobsMetadata ord p c = Inr (pageLoop p 0 0 (map job_metadata (in_order ord (job_store c))) [])"

section \<open>A store by key\<close>

text \<open>
  The contract of one of the stores: what is read after a creation, and that only creations into the
  same store matter (\<open>others\<close> is everything else the client keeps).
\<close>

fun create_all :: "('v \<Rightarrow> 's \<Rightarrow> 's res) \<Rightarrow> 'v list \<Rightarrow> 's \<Rightarrow> 's res" where
  "create_all create [] s = Inr s"
| "create_all create (v # vs) s = rbind (create v s) (create_all create vs)"

lemma find_append: "find P (xs @ ys) = (case find P xs of None \<Rightarrow> find P ys | Some x \<Rightarrow> Some x)"
  by (induction xs) auto

locale keyed_store =
  fixes key :: "'v \<Rightarrow> component_reference"
    and create :: "'v \<Rightarrow> 's \<Rightarrow> 's res"
    and get :: "component_reference \<Rightarrow> 's \<Rightarrow> 'v res"
    and made :: "'s \<Rightarrow> bool"
    and others :: "'s \<Rightarrow> 'o"
  assumes create_made: "made s \<Longrightarrow> \<exists>s'. create v s = Inr s' \<and> made s'"
    and get_create: "create v s = Inr s' \<Longrightarrow> get u s' = (if u = key v then Inr v else get u s)"
    and create_frame: "create v s = Inr s' \<Longrightarrow> others s' = others s"
begin

lemma last_created_wins:
  "made s \<Longrightarrow> \<exists>s'. create_all create vs s = Inr s' \<and> others s' = others s
     \<and> (\<forall>u. get u s' = (case find (\<lambda>v. key v = u) (rev vs) of Some v \<Rightarrow> Inr v | None \<Rightarrow> get u s))"
proof (induction vs arbitrary: s)
  case (Cons v vs)
  from create_made [OF Cons.prems] obtain s1 where s1: "create v s = Inr s1" and m1: "made s1" by blast
  from Cons.IH [OF m1] obtain s' where s': "create_all create vs s1 = Inr s'" "others s' = others s1"
    and g: "\<And>u. get u s' = (case find (\<lambda>v. key v = u) (rev vs) of Some v \<Rightarrow> Inr v | None \<Rightarrow> get u s1)"
    by blast
  have "get u s' = (case find (\<lambda>v. key v = u) (rev (v # vs)) of Some v \<Rightarrow> Inr v | None \<Rightarrow> get u s)" for u
    using g [of u] get_create [OF s1, of u] by (auto simp: find_append split: option.splits)
  then show ?case using s' s1 create_frame [OF s1] by auto
qed simp

end

lemma assign_Inr: "assign k v m = Inr m' \<Longrightarrow> map_of (entries m') = (map_of (entries m))(k \<mapsto> v)"
  by (auto simp: assign_def entries_def update_conv' split: option.splits)

interpretation local_components: keyed_store "\<lambda>v. md_uid (cmp_metadata v)" local_CreateComponent "local_GetComponent E"
    "\<lambda>c. c_store c \<noteq> None" "\<lambda>c. (wf_store c, job_store c)" for E
proof unfold_locales
  fix s :: LocalStorageClientImpl and v
  show "c_store s \<noteq> None \<Longrightarrow> \<exists>s'. local_CreateComponent v s = Inr s' \<and> c_store s' \<noteq> None"
    by (auto simp: local_CreateComponent_def assign_def)
qed (auto simp: local_CreateComponent_def local_GetComponent_def go_simps dest!: assign_Inr)

interpretation local_workflows: keyed_store "\<lambda>v. md_uid (wf_metadata v)" local_CreateWorkflow "local_GetWorkflow E"
    "\<lambda>c. wf_store c \<noteq> None" "\<lambda>c. (c_store c, job_store c)" for E
proof unfold_locales
  fix s :: LocalStorageClientImpl and v
  show "wf_store s \<noteq> None \<Longrightarrow> \<exists>s'. local_CreateWorkflow v s = Inr s' \<and> wf_store s' \<noteq> None"
    by (auto simp: local_CreateWorkflow_def assign_def)
qed (auto simp: local_CreateWorkflow_def local_GetWorkflow_def go_simps dest!: assign_Inr)

interpretation local_jobs: keyed_store "\<lambda>v. md_uid (job_metadata v)" local_CreateJob "local_GetJob E"
    "\<lambda>c. job_store c \<noteq> None" "\<lambda>c. (c_store c, wf_store c)" for E
proof unfold_locales
  fix s :: LocalStorageClientImpl and v
  show "job_store s \<noteq> None \<Longrightarrow> \<exists>s'. local_CreateJob v s = Inr s' \<and> job_store s' \<noteq> None"
    by (auto simp: local_CreateJob_def assign_def)
qed (auto simp: local_CreateJob_def local_GetJob_def go_simps dest!: assign_Inr)

section \<open>Pages\<close>

lemma pageLoop_window:
  "0 \<le> pos \<Longrightarrow> 0 \<le> i \<Longrightarrow>
   pageLoop p pos i ms res = res @ take (nat (pn_limit p - i)) (drop (nat (pn_skip p - pos)) ms)"
proof (induction ms arbitrary: pos i res)
  case (Cons m ms)
  show ?case
  proof (cases "pn_skip p \<le> pos")
    case True
    have "nat (pn_skip p - (pos + 1)) = 0" "nat (pn_skip p - pos) = 0" using True by simp_all
    moreover have "nat (pn_limit p - i) = (if i < pn_limit p then Suc (nat (pn_limit p - (i + 1))) else 0)"
      "\<not> i < pn_limit p \<Longrightarrow> nat (pn_limit p - i) = 0" by auto
    ultimately show ?thesis using True Cons by auto
  next
    case False
    then have "nat (pn_skip p - pos) = Suc (nat (pn_skip p - (pos + 1)))" by simp
    then show ?thesis using False Cons by simp
  qed
qed simp

section \<open>Properties\<close>

text \<open>
  Reading from the local storage gives what was stored last. Any sequence of components and then
  any sequence of workflows can be stored in a new client; afterwards every reference gives the last
  document stored under it, and an error if there is none, and neither store disturbs the other.
\<close>

theorem local_store_lookup:
  "\<exists>c1 c2. create_all local_CreateComponent cs NewLocalNodeStorageClient = Inr c1
     \<and> create_all local_CreateWorkflow ws c1 = Inr c2
     \<and> (\<forall>u. local_GetComponent E u c2 =
          (case find (\<lambda>c. md_uid (cmp_metadata c) = u) (rev cs) of
             Some c \<Rightarrow> Inr c | None \<Rightarrow> Inl (Errorf ''component %s not found'' [UUIDString E u])))
     \<and> (\<forall>u. local_GetWorkflow E u c2 =
          (case find (\<lambda>w. md_uid (wf_metadata w) = u) (rev ws) of
             Some w \<Rightarrow> Inr w | None \<Rightarrow> Inl (Errorf ''component %s not found'' [UUIDString E u])))"
proof -
  let ?new = NewLocalNodeStorageClient
  have "c_store ?new \<noteq> None" by (simp add: NewLocalNodeStorageClient_def)
  from local_components.last_created_wins [OF this, of cs E] obtain c1 where
    c1: "create_all local_CreateComponent cs ?new = Inr c1" "wf_store c1 = wf_store ?new"
    and g1: "\<forall>u. local_GetComponent E u c1 =
      (case find (\<lambda>c. md_uid (cmp_metadata c) = u) (rev cs) of Some c \<Rightarrow> Inr c | None \<Rightarrow> local_GetComponent E u ?new)"
    by auto
  have "wf_store c1 \<noteq> None" by (simp add: c1 NewLocalNodeStorageClient_def)
  from local_workflows.last_created_wins [OF this, of ws E] obtain c2 where
    c2: "create_all local_CreateWorkflow ws c1 = Inr c2" "c_store c2 = c_store c1"
    and g2: "\<forall>u. local_GetWorkflow E u c2 =
      (case find (\<lambda>w. md_uid (wf_metadata w) = u) (rev ws) of Some w \<Rightarrow> Inr w | None \<Rightarrow> local_GetWorkflow E u c1)"
    by auto
  have "local_GetComponent E u c2 = local_GetComponent E u c1"
    "local_GetComponent E u ?new = Inl (Errorf ''component %s not found'' [UUIDString E u])"
    "local_GetWorkflow E u c1 = Inl (Errorf ''component %s not found'' [UUIDString E u])" for u
    by (simp_all add: local_GetComponent_def local_GetWorkflow_def c1(2) c2(2) NewLocalNodeStorageClient_def entries_def)
  note eqs = this
  show ?thesis
    using c1(1) c2(1) g1 g2 unfolding eqs(2,3) eqs(1) [symmetric] by blast
qed

text \<open>
  The listings of the local storage are windows. The loop with its two counters gives what skipping
  and taking give, for every window, also one with negative numbers; so at most the limit is returned.
\<close>

theorem local_listings_are_windows:
  "local_ListComponentsMetadata ord p c =
     Inr (take (nat (pn_limit p)) (drop (nat (pn_skip p)) (map cmp_metadata (in_order ord (c_store c)))))
   \<and> local_ListWorkflowsMetadata ord p c =
     Inr (take (nat (pn_limit p)) (drop (nat (pn_skip p)) (map wf_metadata (in_order ord (wf_store c)))))
   \<and> local_ListJobsMetadata ord p c =
     Inr (take (nat (pn_limit p)) (drop (nat (pn_skip p)) (map job_metadata (in_order ord (job_store c)))))"
  using pageLoop_window [of 0 0 p]
  by (simp add: local_ListComponentsMetadata_def local_ListWorkflowsMetadata_def local_ListJobsMetadata_def)

text \<open>A new client has no map for jobs: storing a job panics, whatever was stored before.\<close>

lemma local_job_panics:
  assumes "create_all local_CreateComponent cs NewLocalNodeStorageClient = Inr c"
  shows "\<exists>m. local_CreateJob j c = Inl (GoPanic m)"
proof -
  have "c_store NewLocalNodeStorageClient \<noteq> None" by (simp add: NewLocalNodeStorageClient_def)
  from local_components.last_created_wins [OF this, of cs] assms have "job_store c = None"
    by (auto simp: NewLocalNodeStorageClient_def)
  then show ?thesis by (simp add: local_CreateJob_def assign_def)
qed

end
