(* ===== verification/Json.thy ===== *)
theory Json
  imports Go_Numbers
begin

text \<open>
  Go's \<^verbatim>\<open>encoding/json\<close>, as far as the codecs of the models use it: JSON values and their
  text, the escapes of string literals, the parser, and the decoding of a value into a Go string,
  integer, slice and struct. Decoding writes into a value that is already there: \<^verbatim>\<open>null\<close>
  leaves it as it is, a key that is absent leaves its field, and the elements of a slice are decoded
  into the elements it has. The codecs of the models rely on all three, not always intentionally.

  A number and a string literal are kept as they are written, so that the text of a value determines
  it and a \<^verbatim>\<open>json.RawMessage\<close> is the text of a value; insignificant white space is dropped.
  Texts are valid UTF-8, as \<^verbatim>\<open>encoding/json\<close> makes them. Which error is reported when several
  parts of a document are bad is not modelled: the first one is. Nor is the limit of 10000 on the
  nesting of a text.
\<close>

section \<open>Values and their text\<close>

datatype json =
    JNull
  | JBool bool
  | JNum string
  | JStr string
  | JArr "json list"
  | JObj "(string \<times> json) list"

fun json_text :: "json \<Rightarrow> string"
  and elements_text :: "json list \<Rightarrow> string"
  and members_text :: "(string \<times> json) list \<Rightarrow> string" where
  "json_text JNull = ''null''"
| "json_text (JBool b) = (if b then ''true'' else ''false'')"
| "json_text (JNum n) = n"
| "json_text (JStr s) = CHR 0x22 # s @ [CHR 0x22]"
| "json_text (JArr vs) = CHR ''['' # elements_text vs @ '']''"
| "json_text (JObj ms) = CHR ''{'' # members_text ms @ ''}''"
| "elements_text [] = ''''"
| "elements_text [v] = json_text v"
| "elements_text (v # vs) = json_text v @ CHR '','' # elements_text vs"
| "members_text [] = ''''"
| "members_text [(k, v)] = CHR 0x22 # k @ CHR 0x22 # CHR '':'' # json_text v"
| "members_text ((k, v) # ms) =
     CHR 0x22 # k @ CHR 0x22 # CHR '':'' # json_text v @ CHR '','' # members_text ms"

text \<open>
  \<^verbatim>\<open>json.MarshalIndent\<close> lays the same text out: every element and member starts a line of its own,
  indented by its depth, and a colon is followed by a space. \<open>nl\<close> is the line break and indentation of a
  depth, \<open>sp\<close> what follows a colon; with neither, the layout is the text above.
\<close>

fun layout_text :: "(nat \<Rightarrow> string) \<Rightarrow> string \<Rightarrow> nat \<Rightarrow> json \<Rightarrow> string"
  and layout_elements :: "(nat \<Rightarrow> string) \<Rightarrow> string \<Rightarrow> nat \<Rightarrow> json list \<Rightarrow> string"
  and layout_members :: "(nat \<Rightarrow> string) \<Rightarrow> string \<Rightarrow> nat \<Rightarrow> (string \<times> json) list \<Rightarrow> string" where
  "layout_text nl sp d JNull = ''null''"
| "layout_text nl sp d (JBool b) = (if b then ''true'' else ''false'')"
| "layout_text nl sp d (JNum n) = n"
| "layout_text nl sp d (JStr s) = CHR 0x22 # s @ [CHR 0x22]"
| "layout_text nl sp d (JArr vs) =
     CHR ''['' # (if vs = [] then [] else layout_elements nl sp (Suc d) vs @ nl d) @ '']''"
| "layout_text nl sp d (JObj ms) =
     CHR ''{'' # (if ms = [] then [] else layout_members nl sp (Suc d) ms @ nl d) @ ''}''"
| "layout_elements nl sp d [] = ''''"
| "layout_elements nl sp d [v] = nl d @ layout_text nl sp d v"
| "layout_elements nl sp d (v # vs) = nl d @ layout_text nl sp d v @ CHR '','' # layout_elements nl sp d vs"
| "layout_members nl sp d [] = ''''"
| "layout_members nl sp d [(k, v)] = nl d @ CHR 0x22 # k @ CHR 0x22 # CHR '':'' # sp @ layout_text nl sp d v"
| "layout_members nl sp d ((k, v) # ms) =
     nl d @ CHR 0x22 # k @ CHR 0x22 # CHR '':'' # sp @ layout_text nl sp d v @ CHR '','' # layout_members nl sp d ms"

definition json_indent :: "json \<Rightarrow> string" where
  "json_indent j = layout_text (\<lambda>d. CHR 0x0A # replicate (2 * d) (CHR '' '')) '' '' 0 j"

section \<open>String literals\<close>

text \<open>
  \<open>quote\<close> is the encoder's escaping, with the HTML characters and the two line separators that
  JavaScript treats as line ends (U+2028 and U+2029, three bytes each) escaped too.
\<close>

definition hex_digit :: "nat \<Rightarrow> char" where
  "hex_digit n = (if n < 10 then char_of (48 + n) else char_of (87 + n))"

definition escape_char :: "char \<Rightarrow> string" where
  "escape_char c =
     (let n = of_char c :: nat in
      if c = CHR 0x22 \<or> c = CHR 0x5C then [CHR 0x5C, c]
      else if n = 10 then [CHR 0x5C, CHR ''n'']
      else if n = 13 then [CHR 0x5C, CHR ''r'']
      else if n = 9 then [CHR 0x5C, CHR ''t'']
      else if n < 32 \<or> c = CHR ''<'' \<or> c = CHR ''>'' \<or> c = CHR ''&''
      then [CHR 0x5C, CHR ''u'', CHR ''0'', CHR ''0'', hex_digit (n div 16), hex_digit (n mod 16)]
      else [c])"

fun quote :: "string \<Rightarrow> string" where
  "quote [] = []"
| "quote (c # cs) =
     (if c = CHR 0xE2 then
        (case cs of
           c1 # c2 # r \<Rightarrow>
             if c1 = CHR 0x80 \<and> c2 = CHR 0xA8 then CHR 0x5C # ''u2028'' @ quote r
             else if c1 = CHR 0x80 \<and> c2 = CHR 0xA9 then CHR 0x5C # ''u2029'' @ quote r
             else c # quote cs
         | _ \<Rightarrow> c # quote cs)
      else escape_char c @ quote cs)"

definition hex_value :: "char \<Rightarrow> nat option" where
  "hex_value c =
     (let n = of_char c :: nat in
      if 48 \<le> n \<and> n \<le> 57 then Some (n - 48)
      else if 97 \<le> n \<and> n \<le> 102 then Some (n - 87)
      else if 65 \<le> n \<and> n \<le> 70 then Some (n - 55)
      else None)"

definition hex4 :: "char \<Rightarrow> char \<Rightarrow> char \<Rightarrow> char \<Rightarrow> nat option" where
  "hex4 a b c d =
     (case (hex_value a, hex_value b, hex_value c, hex_value d) of
        (Some i, Some j, Some k, Some l) \<Rightarrow> Some (4096 * i + 256 * j + 16 * k + l)
      | _ \<Rightarrow> None)"

definition utf8 :: "nat \<Rightarrow> string" where
  "utf8 n =
     (if n < 0x80 then [char_of n]
      else if n < 0x800 then [char_of (0xC0 + n div 64), char_of (0x80 + n mod 64)]
      else if n < 0x10000 then [char_of (0xE0 + n div 4096), char_of (0x80 + n div 64 mod 64), char_of (0x80 + n mod 64)]
      else [char_of (0xF0 + n div 262144), char_of (0x80 + n div 4096 mod 64), char_of (0x80 + n div 64 mod 64),
            char_of (0x80 + n mod 64)])"

definition simple_escape :: "char \<Rightarrow> char option" where
  "simple_escape c =
     (if c = CHR 0x22 \<or> c = CHR 0x5C \<or> c = CHR ''/'' then Some c
      else if c = CHR ''b'' then Some (CHR 0x08)
      else if c = CHR ''f'' then Some (CHR 0x0C)
      else if c = CHR ''n'' then Some (CHR 0x0A)
      else if c = CHR ''r'' then Some (CHR 0x0D)
      else if c = CHR ''t'' then Some (CHR 0x09)
      else None)"

text \<open>
  The value of a literal. Two \<^verbatim>\<open>\u\<close> escapes that form a surrogate pair are one character, a
  surrogate that stands alone is the replacement character.
\<close>

definition low_surrogate :: "string \<Rightarrow> (nat \<times> string) option" where
  "low_surrogate s =
     (case s of
        b # u # h1 # h2 # h3 # h4 # r \<Rightarrow>
          if b = CHR 0x5C \<and> u = CHR ''u'' then
            (case hex4 h1 h2 h3 h4 of
               Some n \<Rightarrow> if 0xDC00 \<le> n \<and> n < 0xE000 then Some (n - 0xDC00, r) else None
             | None \<Rightarrow> None)
          else None
      | _ \<Rightarrow> None)"

lemma low_surrogate_length: "low_surrogate s = Some (n, r) \<Longrightarrow> length r < length s"
  by (auto simp: low_surrogate_def split: list.splits if_splits option.splits)

text \<open>The first escape of a text that starts with a backslash: its bytes, and the text after it.\<close>

definition unescape :: "string \<Rightarrow> (string \<times> string) option" where
  "unescape s =
     (case s of
        e # r \<Rightarrow>
          (case simple_escape e of
             Some c \<Rightarrow> Some ([c], r)
           | None \<Rightarrow>
               if e = CHR ''u'' then
                 (case r of
                    h1 # h2 # h3 # h4 # r' \<Rightarrow>
                      (case hex4 h1 h2 h3 h4 of
                         Some n \<Rightarrow>
                           if 0xD800 \<le> n \<and> n < 0xDC00 then
                             (case low_surrogate r' of
                                Some (l, r'') \<Rightarrow> Some (utf8 (0x10000 + 1024 * (n - 0xD800) + l), r'')
                              | None \<Rightarrow> Some (utf8 0xFFFD, r'))
                           else if 0xDC00 \<le> n \<and> n < 0xE000 then Some (utf8 0xFFFD, r')
                           else Some (utf8 n, r')
                       | None \<Rightarrow> None)
                  | _ \<Rightarrow> None)
               else None)
      | [] \<Rightarrow> None)"

lemma unescape_length: "unescape s = Some (c, r) \<Longrightarrow> length r < length s"
  by (auto simp: unescape_def split: list.splits if_splits option.splits dest: low_surrogate_length)

function unquote :: "string \<Rightarrow> string" where
  "unquote [] = []"
| "unquote (c # cs) =
     (if c = CHR 0x5C then (case unescape cs of Some (e, r) \<Rightarrow> e @ unquote r | None \<Rightarrow> [])
      else c # unquote cs)"
  by pat_completeness auto
termination by (relation "measure length") (auto dest: unescape_length)

section \<open>Parsing\<close>

definition is_space :: "char \<Rightarrow> bool" where
  "is_space c \<longleftrightarrow> of_char c \<in> {32, 9, 10, 13 :: nat}"

definition skip :: "string \<Rightarrow> string" where
  "skip s = dropWhile is_space s"

text \<open>
  The characters of the escape that starts a text, and the text after them; the body of a literal
  after its opening quote, as it is written, and the text after the closing quote.
\<close>

definition escape_text :: "string \<Rightarrow> (string \<times> string) option" where
  "escape_text s =
     (case s of
        [] \<Rightarrow> None
      | e # r \<Rightarrow>
          if simple_escape e \<noteq> None then Some ([e], r)
          else if e = CHR ''u'' then
            (case r of
               h1 # h2 # h3 # h4 # r' \<Rightarrow> if hex4 h1 h2 h3 h4 \<noteq> None then Some ([e, h1, h2, h3, h4], r') else None
             | _ \<Rightarrow> None)
          else None)"

lemma escape_text_length: "escape_text s = Some (e, r) \<Longrightarrow> length r < length s"
  by (auto simp: escape_text_def split: list.splits if_splits)

function scan_string :: "string \<Rightarrow> (string \<times> string) option" where
  "scan_string [] = None"
| "scan_string (c # cs) =
     (if c = CHR 0x22 then Some ([], cs)
      else if c = CHR 0x5C then
        (case escape_text cs of
           None \<Rightarrow> None
         | Some (e, r) \<Rightarrow> map_option (apfst (\<lambda>b. c # e @ b)) (scan_string r))
      else if (of_char c :: nat) < 32 then None
      else map_option (apfst (\<lambda>b. c # b)) (scan_string cs))"
  by pat_completeness auto
termination by (relation "measure length") (auto dest: escape_text_length)

definition drop_sign :: "string \<Rightarrow> string \<Rightarrow> string" where
  "drop_sign signs s = (case s of c # r \<Rightarrow> if c \<in> set signs then r else s | [] \<Rightarrow> s)"

definition exponent_ok :: "string \<Rightarrow> bool" where
  "exponent_ok s =
     (case s of
        [] \<Rightarrow> True
      | e # r \<Rightarrow> e \<in> set ''eE'' \<and> drop_sign ''+-'' r \<noteq> [] \<and> list_all is_digit (drop_sign ''+-'' r))"

definition fraction_ok :: "string \<Rightarrow> bool" where
  "fraction_ok s =
     (case s of
        c # r \<Rightarrow> if c = CHR ''.'' then takeWhile is_digit r \<noteq> [] \<and> exponent_ok (dropWhile is_digit r) else exponent_ok s
      | [] \<Rightarrow> True)"

definition number_ok :: "string \<Rightarrow> bool" where
  "number_ok s =
     (let n = drop_sign ''-'' s; ds = takeWhile is_digit n in
      ds \<noteq> [] \<and> (hd ds = CHR ''0'' \<longrightarrow> length ds = 1) \<and> fraction_ok (dropWhile is_digit n))"

definition number_char :: "char \<Rightarrow> bool" where
  "number_char c \<longleftrightarrow> is_digit c \<or> c \<in> set ''+-.eE''"

text \<open>
  The parser of values, of the elements after an opening bracket and of the members after an opening
  brace. The fuel bounds the nesting; the length of the text is enough, as
  \<open>parse_json_text\<close> shows.
\<close>

fun parse_value :: "nat \<Rightarrow> string \<Rightarrow> (json \<times> string) option"
  and parse_elements :: "nat \<Rightarrow> string \<Rightarrow> (json list \<times> string) option"
  and parse_members :: "nat \<Rightarrow> string \<Rightarrow> ((string \<times> json) list \<times> string) option" where
  "parse_value 0 s = None"
| "parse_value (Suc n) s =
     (case skip s of
        [] \<Rightarrow> None
      | c # r \<Rightarrow>
          if has_prefix ''null'' (c # r) then Some (JNull, drop 3 r)
          else if has_prefix ''true'' (c # r) then Some (JBool True, drop 3 r)
          else if has_prefix ''false'' (c # r) then Some (JBool False, drop 4 r)
          else if c = CHR 0x22 then map_option (apfst JStr) (scan_string r)
          else if c = CHR ''['' then
            (if has_prefix '']'' (skip r) then Some (JArr [], tl (skip r))
             else map_option (apfst JArr) (parse_elements n r))
          else if c = CHR ''{'' then
            (if has_prefix ''}'' (skip r) then Some (JObj [], tl (skip r))
             else map_option (apfst JObj) (parse_members n r))
          else
            (let w = takeWhile number_char (c # r)
             in if number_ok w then Some (JNum w, dropWhile number_char (c # r)) else None))"
| "parse_elements 0 s = None"
| "parse_elements (Suc n) s =
     (case parse_value n s of
        None \<Rightarrow> None
      | Some (v, r) \<Rightarrow>
          (case skip r of
             [] \<Rightarrow> None
           | c # r' \<Rightarrow>
               if c = CHR '','' then map_option (apfst (\<lambda>vs. v # vs)) (parse_elements n r')
               else if c = CHR '']'' then Some ([v], r')
               else None))"
| "parse_members 0 s = None"
| "parse_members (Suc n) s =
     (case skip s of
        [] \<Rightarrow> None
      | q # s1 \<Rightarrow>
          if q \<noteq> CHR 0x22 then None
          else (case scan_string s1 of
             None \<Rightarrow> None
           | Some (k, s2) \<Rightarrow>
               (case skip s2 of
                  [] \<Rightarrow> None
                | d # s3 \<Rightarrow>
                    if d \<noteq> CHR '':'' then None
                    else (case parse_value n s3 of
                       None \<Rightarrow> None
                     | Some (v, r) \<Rightarrow>
                         (case skip r of
                            [] \<Rightarrow> None
                          | c # r' \<Rightarrow>
                              if c = CHR '','' then map_option (apfst (\<lambda>ms. (k, v) # ms)) (parse_members n r')
                              else if c = CHR ''}'' then Some ([(k, v)], r')
                              else None)))))"

definition syntax_error :: goerr where "syntax_error = ExtErr ''invalid character in JSON input''"
definition eof_error :: goerr where "eof_error = ExtErr ''unexpected end of JSON input''"
definition type_error :: goerr where "type_error = ExtErr ''json: cannot unmarshal value''"

definition parse_json :: "string \<Rightarrow> json res" where
  "parse_json s =
     (if skip s = [] then Inl eof_error
      else (case parse_value (Suc (length s)) s of
              Some (j, r) \<Rightarrow> if skip r = [] then Inr j else Inl syntax_error
            | None \<Rightarrow> Inl syntax_error))"

section \<open>Decoding into Go values\<close>

text \<open>
  A decoder takes the value and what the variable holds before. \<open>dec_struct\<close> looks a key up by its
  exact name first, then without regard to case; the two non-ASCII characters that fold to
  \<^verbatim>\<open>s\<close> and \<^verbatim>\<open>k\<close> count as such.
\<close>

type_synonym 'a decoder = "json \<Rightarrow> 'a \<Rightarrow> 'a res"

definition lower :: "char \<Rightarrow> char" where
  "lower c = (let n = of_char c :: nat in if 65 \<le> n \<and> n \<le> 90 then char_of (n + 32) else c)"

fun fold_key :: "string \<Rightarrow> string" where
  "fold_key (c1 # c2 # c3 # cs) =
     (if c1 = CHR 0xC5 \<and> c2 = CHR 0xBF then CHR ''s'' # fold_key (c3 # cs)
      else if c1 = CHR 0xE2 \<and> c2 = CHR 0x84 \<and> c3 = CHR 0xAA then CHR ''k'' # fold_key cs
      else lower c1 # fold_key (c2 # c3 # cs))"
| "fold_key [c1, c2] = (if c1 = CHR 0xC5 \<and> c2 = CHR 0xBF then ''s'' else [lower c1, lower c2])"
| "fold_key [c] = [lower c]"
| "fold_key [] = []"

definition dec_string :: "string decoder" where
  "dec_string j s = (case j of JStr b \<Rightarrow> Inr (unquote b) | JNull \<Rightarrow> Inr s | _ \<Rightarrow> Inl type_error)"

definition dec_int :: "int decoder" where
  "dec_int j i =
     (case j of
        JNum n \<Rightarrow> (case Atoi n of Inr i' \<Rightarrow> Inr i' | Inl e \<Rightarrow> Inl type_error)
      | JNull \<Rightarrow> Inr i
      | _ \<Rightarrow> Inl type_error)"

text \<open>\<^verbatim>\<open>json.RawMessage\<close>, as a value that is decoded later and as a text that is kept.\<close>

definition dec_raw :: "json option decoder" where
  "dec_raw j r = Inr (Some j)"

definition dec_raw_text :: "string decoder" where
  "dec_raw_text j r = Inr (json_text j)"

text \<open>
  A slice: its elements are decoded into the ones it has, further ones into zero values.
  \<open>old\<close> holds the elements from the current index on.
\<close>

fun dec_elements :: "'a decoder \<Rightarrow> 'a \<Rightarrow> json list \<Rightarrow> 'a list \<Rightarrow> 'a list res" where
  "dec_elements dec zero [] old = Inr []"
| "dec_elements dec zero (j # js) old =
     rbind (dec j (case old of [] \<Rightarrow> zero | x # xs \<Rightarrow> x)) (\<lambda>x.
     rbind (dec_elements dec zero js (tl old)) (\<lambda>xs. Inr (x # xs)))"

definition dec_slice :: "'a decoder \<Rightarrow> 'a \<Rightarrow> 'a list decoder" where
  "dec_slice dec zero j old =
     (case j of JArr js \<Rightarrow> dec_elements dec zero js old | JNull \<Rightarrow> Inr [] | _ \<Rightarrow> Inl type_error)"

type_synonym 'a fields = "(string \<times> 'a decoder) list"

definition fld :: "('a \<Rightarrow> 'b) \<Rightarrow> (('b \<Rightarrow> 'b) \<Rightarrow> 'a \<Rightarrow> 'a) \<Rightarrow> 'b decoder \<Rightarrow> 'a decoder" where
  "fld sel upd dec j a = rbind (dec j (sel a)) (\<lambda>x. Inr (upd (\<lambda>_. x) a))"

text \<open>The fields of an embedded struct count as fields of the outer one.\<close>

definition embedded :: "('a \<Rightarrow> 'b) \<Rightarrow> (('b \<Rightarrow> 'b) \<Rightarrow> 'a \<Rightarrow> 'a) \<Rightarrow> 'b fields \<Rightarrow> 'a fields" where
  "embedded sel upd fs = map (\<lambda>(k, dec). (k, fld sel upd dec)) fs"

definition find_field :: "'a fields \<Rightarrow> string \<Rightarrow> 'a decoder option" where
  "find_field fs k =
     (case map_of fs k of
        Some dec \<Rightarrow> Some dec
      | None \<Rightarrow> map_of (map (\<lambda>(n, dec). (fold_key n, dec)) fs) (fold_key k))"

definition dec_member :: "'a fields \<Rightarrow> string \<times> json \<Rightarrow> 'a \<Rightarrow> 'a res" where
  "dec_member fs m a =
     (case find_field fs (unquote (fst m)) of None \<Rightarrow> Inr a | Some dec \<Rightarrow> dec (snd m) a)"

fun dec_members :: "'a fields \<Rightarrow> (string \<times> json) list \<Rightarrow> 'a \<Rightarrow> 'a res" where
  "dec_members fs [] a = Inr a"
| "dec_members fs (m # ms) a = rbind (dec_member fs m a) (dec_members fs ms)"

definition dec_struct :: "'a fields \<Rightarrow> 'a decoder" where
  "dec_struct fs j a = (case j of JObj ms \<Rightarrow> dec_members fs ms a | JNull \<Rightarrow> Inr a | _ \<Rightarrow> Inl type_error)"

text \<open>\<^verbatim>\<open>json.Unmarshal\<close> of a raw message; one that was not assigned holds no bytes.\<close>

definition unmarshal_raw :: "'a decoder \<Rightarrow> json option \<Rightarrow> 'a \<Rightarrow> 'a res" where
  "unmarshal_raw dec r a = (case r of None \<Rightarrow> Inl eof_error | Some j \<Rightarrow> dec j a)"

section \<open>Encoding Go values\<close>

type_synonym 'a encoder = "'a \<Rightarrow> json res"
type_synonym members = "(string \<times> json) list"

definition enc_string :: "string \<Rightarrow> json" where "enc_string s = JStr (quote s)"
definition enc_int :: "int \<Rightarrow> json" where "enc_int i = JNum (itoa i)"

text \<open>
  A raw message must be the text of a value; the encoder drops its white space and escapes the
  characters of its literals that \<open>quote\<close> escapes for the sake of HTML and JavaScript.
\<close>

fun compact_body :: "string \<Rightarrow> string" where
  "compact_body [] = []"
| "compact_body (c # cs) =
     (if c = CHR ''<'' then CHR 0x5C # ''u003c'' @ compact_body cs
      else if c = CHR ''>'' then CHR 0x5C # ''u003e'' @ compact_body cs
      else if c = CHR ''&'' then CHR 0x5C # ''u0026'' @ compact_body cs
      else if c = CHR 0xE2 then
        (case cs of
           c1 # c2 # r \<Rightarrow>
             if c1 = CHR 0x80 \<and> c2 = CHR 0xA8 then CHR 0x5C # ''u2028'' @ compact_body r
             else if c1 = CHR 0x80 \<and> c2 = CHR 0xA9 then CHR 0x5C # ''u2029'' @ compact_body r
             else c # compact_body cs
         | _ \<Rightarrow> c # compact_body cs)
      else c # compact_body cs)"

fun compact :: "json \<Rightarrow> json" where
  "compact (JStr s) = JStr (compact_body s)"
| "compact (JArr vs) = JArr (map compact vs)"
| "compact (JObj ms) = JObj (map (\<lambda>(k, v). (compact_body k, compact v)) ms)"
| "compact v = v"

definition enc_raw_text :: "string encoder" where
  "enc_raw_text s = (if s = '''' then Inr JNull else rbind (parse_json s) (\<lambda>j. Inr (compact j)))"

text \<open>A member without and with \<^verbatim>\<open>omitempty\<close>.\<close>

definition member :: "string \<Rightarrow> json res \<Rightarrow> members res" where
  "member k r = rbind r (\<lambda>j. Inr [(k, j)])"

definition member_unless :: "bool \<Rightarrow> string \<Rightarrow> json res \<Rightarrow> members res" where
  "member_unless absent k r = (if absent then Inr [] else member k r)"

fun enc_members :: "members res list \<Rightarrow> members res" where
  "enc_members [] = Inr []"
| "enc_members (r # rs) = rbind r (\<lambda>ms. rbind (enc_members rs) (\<lambda>ms'. Inr (ms @ ms')))"

definition enc_struct :: "members res list \<Rightarrow> json res" where
  "enc_struct rs = rbind (enc_members rs) (\<lambda>ms. Inr (JObj ms))"

fun enc_elements :: "'a encoder \<Rightarrow> 'a list \<Rightarrow> json list res" where
  "enc_elements enc [] = Inr []"
| "enc_elements enc (x # xs) = rbind (enc x) (\<lambda>j. rbind (enc_elements enc xs) (\<lambda>js. Inr (j # js)))"

definition enc_slice :: "'a encoder \<Rightarrow> 'a list encoder" where
  "enc_slice enc xs = rbind (enc_elements enc xs) (\<lambda>js. Inr (JArr js))"

end
