(* ===== verification/Json_Facts.thy ===== *)
theory Json_Facts
  imports Json
begin

text \<open>
  The round trips of \<open>Json\<close>: a literal reads back as the string it was made from, the text of a
  value parses to the value, and what a struct is encoded to decodes to the struct when each of its
  members does.
\<close>

section \<open>String literals\<close>

lemma hex_value_digit: "n < 16 \<Longrightarrow> hex_value (hex_digit n) = Some n"
  by (auto simp: hex_value_def hex_digit_def Let_def)

lemma hex_value_zero [simp]: "hex_value (CHR ''0'') = Some 0"
  by (simp add: hex_value_def)

lemma hex4_byte: "n < 256 \<Longrightarrow> hex4 (CHR ''0'') (CHR ''0'') (hex_digit (n div 16)) (hex_digit (n mod 16)) = Some n"
  by (simp add: hex4_def hex_value_digit)

lemma simple_escape_special [simp]:
  "simple_escape (CHR 0x22) = Some (CHR 0x22)" "simple_escape (CHR 0x5C) = Some (CHR 0x5C)"
  "simple_escape (CHR ''n'') = Some (CHR 0x0A)" "simple_escape (CHR ''r'') = Some (CHR 0x0D)"
  "simple_escape (CHR ''t'') = Some (CHR 0x09)" "simple_escape (CHR ''u'') = None"
  by (simp_all add: simple_escape_def)

lemma char_of_codes [simp]:
  "char_of (10 :: nat) = CHR 0x0A" "char_of (13 :: nat) = CHR 0x0D" "char_of (9 :: nat) = CHR 0x09"
  "char_of (226 :: nat) = CHR 0xE2" "char_of (128 :: nat) = CHR 0x80" "char_of (168 :: nat) = CHR 0xA8"
  "char_of (169 :: nat) = CHR 0xA9"
  by code_simp+

lemma char_of_code: "(of_char c :: nat) = n \<Longrightarrow> c = char_of n"
  by auto

text \<open>The characters the encoder writes in hexadecimal, all of them ASCII.\<close>

definition hex_escaped :: "char \<Rightarrow> bool" where
  "hex_escaped c \<longleftrightarrow>
     (of_char c :: nat) \<notin> {9, 10, 13} \<and> ((of_char c :: nat) < 32 \<or> c \<in> set ''<>&'')"

lemma hex_escaped_ascii: "hex_escaped c \<Longrightarrow> (of_char c :: nat) < 128"
  by (auto simp: hex_escaped_def)

lemma escape_char_cases:
  obtains (simple) e where "escape_char c = [CHR 0x5C, e]" "simple_escape e = Some c"
  | (hex) "escape_char c = [CHR 0x5C, CHR ''u'', CHR ''0'', CHR ''0'', hex_digit (of_char c div 16), hex_digit (of_char c mod 16)]"
      "hex_escaped c"
  | (plain) "escape_char c = [c]" "c \<noteq> CHR 0x5C" "c \<noteq> CHR 0x22" "32 \<le> (of_char c :: nat)"
proof -
  consider "c = CHR 0x22 \<or> c = CHR 0x5C" | "(of_char c :: nat) = 10" | "(of_char c :: nat) = 13"
    | "(of_char c :: nat) = 9" | "hex_escaped c" "c \<noteq> CHR 0x22 \<and> c \<noteq> CHR 0x5C"
    | "\<not> hex_escaped c \<and> (of_char c :: nat) \<notin> {9, 10, 13} \<and> c \<noteq> CHR 0x22 \<and> c \<noteq> CHR 0x5C"
    by blast
  then show ?thesis
  proof cases
    case 1
    then show ?thesis by (intro simple [of c]) (auto simp: escape_char_def)
  next
    case 2
    then show ?thesis by (intro simple [of "CHR ''n''"]) (simp_all add: escape_char_def char_of_code [OF 2])
  next
    case 3
    then show ?thesis by (intro simple [of "CHR ''r''"]) (simp_all add: escape_char_def char_of_code [OF 3])
  next
    case 4
    then show ?thesis by (intro simple [of "CHR ''t''"]) (simp_all add: escape_char_def char_of_code [OF 4])
  next
    case 5
    then show ?thesis by (intro hex) (auto simp: escape_char_def hex_escaped_def Let_def)
  next
    case 6
    then show ?thesis by (intro plain) (auto simp: escape_char_def hex_escaped_def Let_def)
  qed
qed

lemma utf8_ascii: "(of_char c :: nat) < 128 \<Longrightarrow> utf8 (of_char c) = [c]"
  by (simp add: utf8_def)

lemma unescape_hex:
  assumes "(of_char c :: nat) < 128"
  shows "unescape (CHR ''u'' # CHR ''0'' # CHR ''0'' # hex_digit (of_char c div 16) # hex_digit (of_char c mod 16) # s)
    = Some ([c], s)"
  using assms hex4_byte [of "of_char c"] utf8_ascii [OF assms] by (simp add: unescape_def)

lemma unquote_escape: "unquote (escape_char c @ s) = c # unquote s"
proof (cases c rule: escape_char_cases)
  case (simple e)
  then show ?thesis by (simp add: unescape_def)
next
  case hex
  then show ?thesis using unescape_hex [OF hex_escaped_ascii [OF hex(2)], of s] by simp
qed simp

lemma unescape_separators [simp]:
  "unescape (CHR ''u'' # CHR ''2'' # CHR ''0'' # CHR ''2'' # CHR ''8'' # s) = Some ([CHR 0xE2, CHR 0x80, CHR 0xA8], s)"
  "unescape (CHR ''u'' # CHR ''2'' # CHR ''0'' # CHR ''2'' # CHR ''9'' # s) = Some ([CHR 0xE2, CHR 0x80, CHR 0xA9], s)"
  by (simp_all add: unescape_def hex4_def hex_value_def utf8_def)

lemma unquote_quote [simp]: "unquote (quote s) = s"
  by (induction s rule: quote.induct) (auto simp: unquote_escape split: list.splits if_splits)

text \<open>A literal body as the scanner accepts it.\<close>

definition body_ok :: "string \<Rightarrow> bool" where
  "body_ok s \<longleftrightarrow> scan_string (s @ [CHR 0x22]) = Some (s, [])"

lemma escape_text_split: "escape_text s = Some (e, r) \<Longrightarrow> s = e @ r \<and> escape_text (e @ r') = Some (e, r')"
  by (auto simp: escape_text_def split: list.splits if_splits)

lemma scan_string_extend: "scan_string t = Some (b, r) \<Longrightarrow> scan_string (t @ u) = Some (b, r @ u)"
proof (induction t arbitrary: b r rule: scan_string.induct)
  case (2 c cs)
  show ?case
  proof (cases "escape_text cs")
    case None
    then show ?thesis using 2 by (auto split: if_splits simp: apfst_def map_prod_def)
  next
    case (Some er)
    then obtain e s where er: "escape_text cs = Some (e, s)" by (cases er) auto
    with escape_text_split [OF er, of "s @ u"] 2 show ?thesis
      by (auto split: if_splits)
  qed
qed simp

lemma scan_body: "body_ok b \<Longrightarrow> scan_string (b @ CHR 0x22 # r) = Some (b, r)"
  using scan_string_extend [of "b @ [CHR 0x22]" b "[]" r] by (simp add: body_ok_def)

lemma escape_text_hex:
  "(of_char c :: nat) < 128 \<Longrightarrow>
   escape_text (CHR ''u'' # CHR ''0'' # CHR ''0'' # hex_digit (of_char c div 16) # hex_digit (of_char c mod 16) # s)
     = Some ([CHR ''u'', CHR ''0'', CHR ''0'', hex_digit (of_char c div 16), hex_digit (of_char c mod 16)], s)"
  using hex4_byte [of "of_char c"] by (simp add: escape_text_def)

lemma escape_text_separators [simp]:
  "escape_text (CHR ''u'' # CHR ''2'' # CHR ''0'' # CHR ''2'' # CHR ''8'' # s) = Some (''u2028'', s)"
  "escape_text (CHR ''u'' # CHR ''2'' # CHR ''0'' # CHR ''2'' # CHR ''9'' # s) = Some (''u2029'', s)"
  by (simp_all add: escape_text_def hex4_def hex_value_def)

lemma scan_escape:
  "scan_string (escape_char c @ t) = map_option (apfst (\<lambda>b. escape_char c @ b)) (scan_string t)"
proof (cases c rule: escape_char_cases)
  case (simple e)
  then show ?thesis by (simp add: escape_text_def)
next
  case hex
  then show ?thesis using escape_text_hex [OF hex_escaped_ascii [OF hex(2)], of t] by simp
qed simp

lemma scan_quote: "scan_string (quote s @ CHR 0x22 # r) = Some (quote s, r)"
  by (induction s rule: quote.induct)
    (auto simp: scan_escape split: list.splits if_splits)

lemma body_ok_quote [simp]: "body_ok (quote s)"
  using scan_quote [of s "[]"] by (simp add: body_ok_def)

section \<open>The text of a value parses to the value\<close>

fun json_ok :: "json \<Rightarrow> bool" where
  "json_ok (JNum n) = number_ok n"
| "json_ok (JStr s) = body_ok s"
| "json_ok (JArr vs) = list_all json_ok vs"
| "json_ok (JObj ms) = list_all (\<lambda>m. body_ok (fst m) \<and> json_ok (snd m)) ms"
| "json_ok v = True"

lemma skip_start: "of_char c \<notin> {32, 9, 10, 13 :: nat} \<Longrightarrow> skip (c # s) = c # s"
  by (simp add: skip_def is_space_def)

lemma skip_marks [simp]:
  "skip (CHR '','' # s) = CHR '','' # s" "skip (CHR '']'' # s) = CHR '']'' # s"
  "skip (CHR ''}'' # s) = CHR ''}'' # s" "skip (CHR 0x22 # s) = CHR 0x22 # s"
  "skip (CHR '':'' # s) = CHR '':'' # s" "skip (CHR ''['' # s) = CHR ''['' # s"
  "skip (CHR ''{'' # s) = CHR ''{'' # s" "skip [] = []"
  by (simp_all add: skip_def is_space_def)

lemma skip_spaces: "list_all is_space w \<Longrightarrow> skip (w @ s) = skip s"
  by (induction w) (simp_all add: skip_def)

lemma digit_number_char: "is_digit c \<Longrightarrow> number_char c"
  by (simp add: number_char_def)

lemma exponent_chars: "exponent_ok s \<Longrightarrow> list_all number_char s"
  by (auto simp: exponent_ok_def drop_sign_def number_char_def list_all_iff split: list.splits if_splits)

lemma takeWhile_digits_chars: "list_all number_char (dropWhile is_digit s) \<Longrightarrow> list_all number_char s"
proof -
  assume "list_all number_char (dropWhile is_digit s)"
  moreover have "list_all number_char (takeWhile is_digit s)"
    by (auto simp: list_all_iff dest!: set_takeWhileD digit_number_char)
  ultimately have "list_all number_char (takeWhile is_digit s @ dropWhile is_digit s)"
    by (simp only: list_all_append)
  then show ?thesis unfolding takeWhile_dropWhile_id .
qed

lemma fraction_chars: "fraction_ok s \<Longrightarrow> list_all number_char s"
  by (auto simp: fraction_ok_def number_char_def split: list.splits if_splits dest: exponent_chars
      intro: takeWhile_digits_chars)

lemma number_chars: "number_ok n \<Longrightarrow> list_all number_char n"
  by (auto simp: number_ok_def Let_def drop_sign_def number_char_def split: list.splits if_splits
      dest!: fraction_chars intro: takeWhile_digits_chars)

definition ends_number :: "string \<Rightarrow> bool" where
  "ends_number s \<longleftrightarrow> (case s of [] \<Rightarrow> True | c # r \<Rightarrow> \<not> number_char c)"

lemma span_number:
  assumes "number_ok n" "ends_number r"
  shows "takeWhile number_char (n @ r) = n" "dropWhile number_char (n @ r) = r"
proof -
  have n: "\<forall>c \<in> set n. number_char c" using number_chars [OF assms(1)] by (simp add: list_all_iff)
  then show "takeWhile number_char (n @ r) = n" "dropWhile number_char (n @ r) = r"
    using assms(2) by (simp_all add: takeWhile_append dropWhile_append ends_number_def split: list.splits)
qed

lemma ends_number_marks [simp]:
  "ends_number []" "ends_number (CHR '','' # s)" "ends_number (CHR '']'' # s)" "ends_number (CHR ''}'' # s)"
  by (simp_all add: ends_number_def number_char_def is_digit_def)

lemma number_head:
  assumes "number_ok n"
  obtains c s where "n = c # s" "number_char c" "c = CHR ''-'' \<or> is_digit c"
  using assms number_chars [OF assms]
  by (cases n) (auto simp: number_ok_def Let_def drop_sign_def split: if_splits)

lemma parse_number:
  assumes "number_ok n" "ends_number r"
  shows "parse_value (Suc k) (n @ r) = Some (JNum n, r)"
proof -
  obtain c s where n: "n = c # s" "number_char c" "c = CHR ''-'' \<or> is_digit c"
    using assms(1) by (rule number_head)
  from n(3) have c: "c \<notin> set [CHR ''n'', CHR ''t'', CHR ''f'', CHR 0x22, CHR ''['', CHR ''{'']" "skip (c # s @ r) = c # s @ r"
    by (auto simp: is_digit_def skip_def is_space_def)
  have spans: "takeWhile number_char (c # s @ r) = c # s" "dropWhile number_char (c # s @ r) = r"
    using span_number [OF assms] n(1) by simp_all
  show ?thesis
    using c assms(1) spans by (auto simp: n(1) Let_def simp del: takeWhile.simps dropWhile.simps)
qed

lemma ends_number_spaces: "list_all is_space w \<Longrightarrow> ends_number r \<Longrightarrow> ends_number (w @ r)"
  by (cases w) (auto simp: ends_number_def number_char_def is_digit_def is_space_def)

lemma parse_value_skip: "skip s = skip t \<Longrightarrow> parse_value k s = parse_value k t"
  by (cases k) simp_all

lemma length_layout_text: "json_ok j \<Longrightarrow> 0 < length (layout_text nl sp d j)"
  by (cases j) (auto simp: number_ok_def drop_sign_def split: list.splits)

lemma text_not_close:
  assumes "json_ok j"
  shows "\<not> has_prefix '']'' (skip (layout_text nl sp d j @ s))"
proof (cases j)
  case (JNum n)
  with assms obtain c t where n: "n = c # t" "c = CHR ''-'' \<or> is_digit c" by (auto elim: number_head)
  then have "of_char c \<notin> {32, 9, 10, 13 :: nat}" "c \<noteq> CHR '']''" by (auto simp: is_digit_def)
  with n JNum show ?thesis by (simp add: skip_start)
qed (auto simp: skip_start)

lemma parse_layout_all:
  "json_ok j \<Longrightarrow> length (layout_text nl sp d j) \<le> k \<Longrightarrow> ends_number r \<Longrightarrow>
     (\<And>d. list_all is_space (nl d)) \<Longrightarrow> list_all is_space sp \<Longrightarrow>
     parse_value k (layout_text nl sp d j @ r) = Some (j, r)"
  "list_all json_ok vs \<Longrightarrow> vs \<noteq> [] \<Longrightarrow> length (layout_elements nl sp d vs) < k \<Longrightarrow> list_all is_space w \<Longrightarrow>
     (\<And>d. list_all is_space (nl d)) \<Longrightarrow> list_all is_space sp \<Longrightarrow>
     parse_elements k (layout_elements nl sp d vs @ w @ CHR '']'' # r) = Some (vs, r)"
  "list_all (\<lambda>m. body_ok (fst m) \<and> json_ok (snd m)) ms \<Longrightarrow> ms \<noteq> [] \<Longrightarrow> length (layout_members nl sp d ms) < k \<Longrightarrow>
     list_all is_space w \<Longrightarrow> (\<And>d. list_all is_space (nl d)) \<Longrightarrow> list_all is_space sp \<Longrightarrow>
     parse_members k (layout_members nl sp d ms @ w @ CHR ''}'' # r) = Some (ms, r)"
proof (induction nl sp d j and nl sp d vs and nl sp d ms arbitrary: k r and k r w and k r w
    rule: layout_text_layout_elements_layout_members.induct)
  case 1
  then show ?case by (cases k) (simp_all add: skip_start)
next
  case (2 nl sp d b)
  then show ?case by (cases k; cases b) (simp_all add: skip_start)
next
  case (3 nl sp d n)
  then obtain k' where "k = Suc k'" using length_layout_text [of "JNum n" nl sp d] by (cases k) auto
  then show ?case using 3 parse_number [of n r] by simp
next
  case (4 nl sp d s)
  then show ?case by (cases k) (simp_all add: scan_body)
next
  case (5 nl sp d vs)
  then obtain k' where k: "k = Suc k'" by (cases k) (simp_all split: if_splits)
  show ?case
  proof (cases vs)
    case (Cons v ws)
    have "\<not> has_prefix '']'' (skip (layout_elements nl sp (Suc d) vs @ nl d @ CHR '']'' # r))"
      using 5 Cons text_not_close [of v nl sp "Suc d"] by (cases ws) (auto simp: skip_spaces)
    then show ?thesis using 5 Cons k by simp
  qed (simp add: k)
next
  case (6 nl sp d ms)
  then obtain k' where k: "k = Suc k'" by (cases k) (simp_all split: if_splits)
  show ?case
  proof (cases ms)
    case (Cons m ns)
    then have "\<not> has_prefix ''}'' (skip (layout_members nl sp (Suc d) ms @ nl d @ CHR ''}'' # r))"
      using 6 by (cases m; cases ns) (auto simp: skip_spaces)
    then show ?thesis using 6 Cons k by simp
  qed (simp add: k)
next
  case 7
  then show ?case by simp
next
  case (8 nl sp d v)
  have "parse_value k' (nl d @ layout_text nl sp d v @ s) = parse_value k' (layout_text nl sp d v @ s)" for k' s
    using 8 by (intro parse_value_skip skip_spaces)
  with 8 show ?case by (cases k) (simp_all add: ends_number_spaces skip_spaces)
next
  case (9 nl sp d v u us)
  have "parse_value k' (nl d @ layout_text nl sp d v @ s) = parse_value k' (layout_text nl sp d v @ s)" for k' s
    using 9 by (intro parse_value_skip skip_spaces)
  with 9 show ?case by (cases k) simp_all
next
  case 10
  then show ?case by simp
next
  case (11 nl sp d q v)
  have "parse_value k' (sp @ layout_text nl sp d v @ s) = parse_value k' (layout_text nl sp d v @ s)" for k' s
    using 11 by (intro parse_value_skip skip_spaces)
  with 11 show ?case by (cases k) (simp_all add: scan_body skip_spaces ends_number_spaces)
next
  case (12 nl sp d q v m ms)
  have "parse_value k' (sp @ layout_text nl sp d v @ s) = parse_value k' (layout_text nl sp d v @ s)" for k' s
    using 12 by (intro parse_value_skip skip_spaces)
  with 12 show ?case by (cases k) (simp_all add: scan_body skip_spaces)
qed

lemma parse_json_layout:
  assumes "\<And>d. list_all is_space (nl d)" "list_all is_space sp" "json_ok j"
  shows "parse_json (layout_text nl sp d j) = Inr j"
proof -
  have "parse_value (Suc (length (layout_text nl sp d j))) (layout_text nl sp d j @ []) = Some (j, [])"
    by (rule parse_layout_all(1)) (use assms in simp_all)
  moreover from this have "skip (layout_text nl sp d j) \<noteq> []" by (auto split: list.splits)
  ultimately show ?thesis by (simp add: parse_json_def)
qed

lemma layout_compact:
  "layout_text (\<lambda>d. []) [] d j = json_text j"
  "layout_elements (\<lambda>d. []) [] d vs = elements_text vs"
  "layout_members (\<lambda>d. []) [] d ms = members_text ms"
  by (induction j and vs and ms arbitrary: d and d and d rule: json_text_elements_text_members_text.induct) simp_all

theorem parse_json_text: "json_ok j \<Longrightarrow> parse_json (json_text j) = Inr j"
  using parse_json_layout [of "\<lambda>d. []" "[]" j] by (simp add: layout_compact)

theorem parse_json_indent: "json_ok j \<Longrightarrow> parse_json (json_indent j) = Inr j"
  unfolding json_indent_def by (rule parse_json_layout) (simp_all add: is_space_def list_all_iff)

section \<open>Numbers and strings\<close>

lemma nat_digits_leading: "hd (nat_digits n) = CHR ''0'' \<Longrightarrow> length (nat_digits n) = 1"
proof (induction n rule: nat_digits.induct)
  case (1 n)
  show ?case
  proof (cases "n < 10")
    case False
    have ne: "nat_digits (n div 10) \<noteq> []" using nat_digits_decimal by blast
    with 1 False have "length (nat_digits (n div 10)) = 1" by (simp add: nat_digits.simps [of n])
    with ne 1 False have "nat_digits (n div 10) = ''0''"
      by (cases "nat_digits (n div 10)") (auto simp: nat_digits.simps [of n])
    moreover have "digits_value (nat_digits (n div 10)) = n div 10"
      using nat_digits_decimal [of "n div 10"] by (simp add: decimal_def split: if_splits)
    ultimately have "n div 10 = 0" by (simp add: digits_value_def)
    with False show ?thesis by simp
  qed (simp add: nat_digits.simps [of n])
qed

lemma number_ok_itoa [simp]: "number_ok (itoa i)"
proof -
  have d: "drop_sign ''-'' (itoa i) = nat_digits (nat \<bar>i\<bar>)"
  proof (cases "i < 0")
    case False
    obtain c cs where ds: "nat_digits (nat i) = c # cs"
      using nat_digits_decimal [of "nat i"] by (metis list.exhaust)
    with nat_digits_head [of c "nat i"] False show ?thesis by (simp add: drop_sign_def itoa_def)
  qed (simp add: drop_sign_def itoa_def)
  moreover have "takeWhile is_digit (nat_digits (nat \<bar>i\<bar>)) = nat_digits (nat \<bar>i\<bar>)"
    "dropWhile is_digit (nat_digits (nat \<bar>i\<bar>)) = []" "nat_digits (nat \<bar>i\<bar>) \<noteq> []"
    using nat_digits_decimal [of "nat \<bar>i\<bar>"] by (simp_all add: takeWhile_eq_all_conv list_all_iff)
  ultimately show ?thesis
    using nat_digits_leading [of "nat \<bar>i\<bar>"] by (simp only: number_ok_def Let_def) (simp add: fraction_ok_def)
qed

definition int64 :: "int \<Rightarrow> bool" where
  "int64 i \<longleftrightarrow> - (2 ^ 63) \<le> i \<and> i < 2 ^ 63"

named_theorems json_simps "decoding what was encoded"

lemma dec_enc_string [json_simps]: "dec_string (enc_string s) t = Inr s"
  by (simp add: dec_string_def enc_string_def)

lemma dec_enc_int [json_simps]: "int64 i \<Longrightarrow> dec_int (enc_int i) k = Inr i"
  by (simp add: dec_int_def enc_int_def int64_def Atoi_itoa)

lemma json_ok_leaves [simp]: "json_ok (enc_string s)" "json_ok (enc_int i)"
  by (simp_all add: enc_string_def enc_int_def)

section \<open>Slices\<close>

lemma dec_elements_enc:
  assumes "enc_elements enc xs = Inr js" "\<And>x j. x \<in> set xs \<Longrightarrow> enc x = Inr j \<Longrightarrow> dec j zero = Inr x"
  shows "dec_elements dec zero js [] = Inr xs"
  using assms
proof (induction xs arbitrary: js)
  case (Cons x xs)
  then obtain j ks where j: "enc x = Inr j" and ks: "enc_elements enc xs = Inr ks" "js = j # ks"
    by (auto simp: go_simps)
  have "dec j zero = Inr x" by (rule Cons.prems(2) [OF _ j]) simp
  moreover have "dec_elements dec zero ks [] = Inr xs"
    by (rule Cons.IH [OF ks(1)]) (rule Cons.prems(2), simp_all)
  ultimately show ?case by (simp add: ks)
qed simp

lemma dec_slice_enc:
  assumes "enc_slice enc xs = Inr j" "\<And>x j. x \<in> set xs \<Longrightarrow> enc x = Inr j \<Longrightarrow> dec j zero = Inr x"
  shows "dec_slice dec zero j [] = Inr xs"
  using assms dec_elements_enc [of enc xs] by (auto simp: enc_slice_def dec_slice_def go_simps)

lemma enc_elements_text_ok:
  "enc_elements enc xs = Inr js \<Longrightarrow> (\<And>x j. x \<in> set xs \<Longrightarrow> enc x = Inr j \<Longrightarrow> json_ok j) \<Longrightarrow> list_all json_ok js"
proof (induction xs arbitrary: js)
  case (Cons x xs)
  then obtain j ks where j: "enc x = Inr j" and ks: "enc_elements enc xs = Inr ks" "js = j # ks"
    by (auto simp: go_simps)
  have "json_ok j" by (rule Cons.prems(2) [OF _ j]) simp
  moreover have "list_all json_ok ks"
    by (rule Cons.IH [OF ks(1)]) (rule Cons.prems(2), simp_all)
  ultimately show ?case by (simp add: ks)
qed simp

section \<open>Structs\<close>

text \<open>
  Encoding a struct puts its members one after the other, and decoding works member by member, so
  the two meet one field at a time.
\<close>

lemma dec_members_append: "dec_members fs (ms @ ns) a = rbind (dec_members fs ms a) (dec_members fs ns)"
  by (induction ms arbitrary: a) (auto simp: rbind_def split: sum.splits)

lemma member_iff: "member k r = Inr m \<longleftrightarrow> (\<exists>j. r = Inr j \<and> m = [(k, j)])"
  by (auto simp: member_def go_simps)

lemma member_unless_iff:
  "member_unless b k r = Inr m \<longleftrightarrow> (if b then m = [] else \<exists>j. r = Inr j \<and> m = [(k, j)])"
  by (auto simp: member_unless_def member_iff)

lemma enc_struct_iff: "enc_struct rs = Inr j \<longleftrightarrow> (\<exists>ms. enc_members rs = Inr ms \<and> j = JObj ms)"
  by (auto simp: enc_struct_def go_simps)

lemmas enc_iffs = rbind_Inr_iff member_iff member_unless_iff

lemmas decode_simps = dec_struct_def dec_member_def find_field_def fld_def

lemma lower_other [simp]: "\<not> (65 \<le> (of_char c :: nat) \<and> (of_char c :: nat) \<le> 90) \<Longrightarrow> lower c = c"
  by (auto simp: lower_def Let_def)

lemma lower_capitals [simp]:
  "lower (CHR ''I'') = CHR ''i''" "lower (CHR ''M'') = CHR ''m''" "lower (CHR ''B'') = CHR ''b''"
  "lower (CHR ''T'') = CHR ''t''" "lower (CHR ''F'') = CHR ''f''" "lower (CHR ''O'') = CHR ''o''"
  "lower (CHR ''V'') = CHR ''v''"
  by code_simp+

end
