(* ===== verification/Json_Models.thy ===== *)
theory Json_Models
  imports Json_Facts Argo_Types
begin

text \<open>
  The JSON codecs of \<^verbatim>\<open>models/models.go\<close> and \<^verbatim>\<open>models/job.go\<close> up to components:
  references, versions, metadata, data, edges, expressions, arguments, results and job values. A type
  without methods is encoded and decoded by the tags of its struct; the methods the source gives the
  others are written out.
\<close>

section \<open>Code outside the repository\<close>

text \<open>
  The text of UUIDs and their parsing (\<^verbatim>\<open>github.com/google/uuid\<close>), of times, of Kubernetes
  containers and volumes and of Argo workflows, and the capacity that the run time gives a byte slice
  it allocates for a number of bytes.
\<close>

record codec =
  UUIDText :: "uuid \<Rightarrow> string"
  ParseUUIDBytes :: "string \<Rightarrow> uuid res"
  TimeText :: "gotime \<Rightarrow> string res"
  TimeParse :: "string \<Rightarrow> gotime res"
  ContainerEncode :: "container encoder"
  ContainerDecode :: "container decoder"
  EventEncode :: "string encoder"
  EventDecode :: "string decoder"
  AppendCap :: "nat \<Rightarrow> nat"

section \<open>References and versions\<close>

definition cref_MarshalJSON :: "codec \<Rightarrow> component_reference encoder" where
  "cref_MarshalJSON X r = Inr (JStr (UUIDText X r))"

definition cref_UnmarshalJSON :: "codec \<Rightarrow> component_reference decoder" where
  "cref_UnmarshalJSON X data r =
     wrapres ''cannot unmarshal ComponentReference from %s'' (ParseUUIDBytes X (json_text data))"

definition crefversion_fields :: "codec \<Rightarrow> cref_version fields" where
  "crefversion_fields X =
     [(''version'', fld crv_version crv_version_update dec_int),
      (''uid'', fld crv_uid crv_uid_update (cref_UnmarshalJSON X))]"

definition crefversion_decode :: "codec \<Rightarrow> cref_version decoder" where
  "crefversion_decode X = dec_struct (crefversion_fields X)"

definition crefversion_encode :: "codec \<Rightarrow> cref_version encoder" where
  "crefversion_encode X c = enc_struct
     [member_unless (crv_version c = 0) ''version'' (Inr (enc_int (crv_version c))),
      member ''uid'' (cref_MarshalJSON X (crv_uid c))]"

definition version_fields :: "codec \<Rightarrow> version fields" where
  "version_fields X =
     [(''current'', fld ver_current ver_current_update dec_int),
      (''tags'', fld ver_tags ver_tags_update (dec_slice dec_string '''')),
      (''previous'', fld ver_previous ver_previous_update (crefversion_decode X))]"

definition version_encode :: "codec \<Rightarrow> version encoder" where
  "version_encode X v = enc_struct
     [member ''current'' (Inr (enc_int (ver_current v))),
      member_unless (ver_tags v = []) ''tags'' (enc_slice (\<lambda>t. Inr (enc_string t)) (ver_tags v)),
      member ''previous'' (crefversion_encode X (ver_previous v))]"

section \<open>Metadata\<close>

definition modifiedby_fields :: "modified_by fields" where
  "modifiedby_fields =
     [(''oid'', fld mb_oid mb_oid_update dec_string), (''email'', fld mb_email mb_email_update dec_string)]"

definition modifiedby_encode :: "modified_by encoder" where
  "modifiedby_encode m = enc_struct
     [member ''oid'' (Inr (enc_string (mb_oid m))),
      member_unless (mb_email m = '''') ''email'' (Inr (enc_string (mb_email m)))]"

definition time_decode :: "codec \<Rightarrow> gotime decoder" where
  "time_decode X j t = (if j = JNull then Inr t else TimeParse X (json_text j))"

definition time_encode :: "codec \<Rightarrow> gotime encoder" where
  "time_encode X t = rbind (TimeText X t) (\<lambda>s. Inr (JStr s))"

definition metadata_fields :: "codec \<Rightarrow> metadata fields" where
  "metadata_fields X =
     [(''name'', fld md_name md_name_update dec_string),
      (''description'', fld md_description md_description_update dec_string),
      (''modifiedBy'', fld md_modifiedBy md_modifiedBy_update (dec_struct modifiedby_fields)),
      (''uid'', fld md_uid md_uid_update (cref_UnmarshalJSON X)),
      (''version'', fld md_version md_version_update (dec_struct (version_fields X))),
      (''timestamp'', fld md_timestamp md_timestamp_update (time_decode X))]"

definition metadata_members :: "codec \<Rightarrow> metadata \<Rightarrow> members res list" where
  "metadata_members X m =
     [member_unless (md_name m = '''') ''name'' (Inr (enc_string (md_name m))),
      member_unless (md_description m = '''') ''description'' (Inr (enc_string (md_description m))),
      member ''modifiedBy'' (modifiedby_encode (md_modifiedBy m)),
      member ''uid'' (cref_MarshalJSON X (md_uid m)),
      member ''version'' (version_encode X (md_version m)),
      member ''timestamp'' (time_encode X (md_timestamp m))]"

section \<open>Data, ports and edges\<close>

definition data_fields :: "data fields" where
  "data_fields =
     [(''name'', fld dt_name dt_name_update dec_string),
      (''mediatype'', fld dt_mediatype dt_mediatype_update (dec_slice dec_string '''')),
      (''type'', fld dt_type dt_type_update dec_string),
      (''userdata'', fld dt_userdata dt_userdata_update dec_raw_text)]"

definition data_encode :: "data encoder" where
  "data_encode d = enc_struct
     [member ''name'' (Inr (enc_string (dt_name d))),
      member_unless (dt_mediatype d = []) ''mediatype'' (enc_slice (\<lambda>t. Inr (enc_string t)) (dt_mediatype d)),
      member ''type'' (Inr (enc_string (dt_type d))),
      member_unless (dt_userdata d = '''') ''userdata'' (enc_raw_text (dt_userdata d))]"

definition zero_data :: data where
  "zero_data = \<lparr>dt_name = '''', dt_mediatype = [], dt_type = '''', dt_userdata = ''''\<rparr>"

definition port_fields :: "port_address fields" where
  "port_fields =
     [(''node'', fld pa_node pa_node_update dec_string), (''port'', fld pa_port pa_port_update dec_string)]"

definition port_encode :: "port_address encoder" where
  "port_encode p = enc_struct
     [member_unless (pa_node p = '''') ''node'' (Inr (enc_string (pa_node p))),
      member ''port'' (Inr (enc_string (pa_port p)))]"

definition zero_port :: port_address where "zero_port = \<lparr>pa_node = '''', pa_port = ''''\<rparr>"

definition edge_fields :: "edge fields" where
  "edge_fields =
     [(''source'', fld e_source e_source_update (dec_struct port_fields)),
      (''target'', fld e_target e_target_update (dec_struct port_fields))]"

definition edge_encode :: "edge encoder" where
  "edge_encode e = enc_struct
     [member ''source'' (port_encode (e_source e)), member ''target'' (port_encode (e_target e))]"

definition zero_edge :: edge where "zero_edge = \<lparr>e_source = zero_port, e_target = zero_port\<rparr>"

section \<open>Expressions\<close>

record partial_expression =
  pe_operator :: string
  pe_left :: "json option"
  pe_right :: "json option"

definition partial_expression_fields :: "partial_expression fields" where
  "partial_expression_fields =
     [(''operator'', fld pe_operator pe_operator_update dec_string),
      (''left'', fld pe_left pe_left_update dec_raw),
      (''right'', fld pe_right pe_right_update dec_raw)]"

text \<open>
  The two sides are decoded through the same variables \<^verbatim>\<open>strValue\<close> and \<^verbatim>\<open>dataValue\<close>.
  What the left side leaves in them is what the right side is decoded into, and when both sides are
  data their slices share memory: the elements of the right one overwrite those of the left one, and
  so do the bytes of its user data when they fit into what was allocated for the left one.
  (A right side that repeats a key is taken to write to the shared memory once.)
\<close>

definition overwritten :: "'a list \<Rightarrow> 'a list \<Rightarrow> 'a list" where
  "overwritten old new = take (length old) new @ drop (length new) old"

definition shares_memory :: "codec \<Rightarrow> data \<Rightarrow> data \<Rightarrow> data" where
  "shares_memory X d d' =
     d\<lparr>dt_mediatype := overwritten (dt_mediatype d) (dt_mediatype d'),
       dt_userdata := (if length (dt_userdata d') \<le> AppendCap X (length (dt_userdata d))
                       then overwritten (dt_userdata d) (dt_userdata d') else dt_userdata d)\<rparr>"

definition decode_side :: "string \<Rightarrow> json option \<Rightarrow> string \<times> data \<Rightarrow> (expr_value \<times> string \<times> data) res" where
  "decode_side msg raw vars =
     (case vars of (strValue, dataValue) \<Rightarrow>
        (case unmarshal_raw dec_string raw strValue of
           Inr s \<Rightarrow> Inr (EVString s, s, dataValue)
         | Inl _ \<Rightarrow>
             (case unmarshal_raw (dec_struct data_fields) raw dataValue of
                Inl e \<Rightarrow> Inl (Wrap msg e)
              | Inr d \<Rightarrow> Inr (EVData d, strValue, d))))"

definition expression_UnmarshalJSON :: "codec \<Rightarrow> expression decoder" where
  "expression_UnmarshalJSON X document e =
     rbind (wrapres ''cannot unmarshal partial expression''
              (dec_struct partial_expression_fields document \<lparr>pe_operator = '''', pe_left = None, pe_right = None\<rparr>)) (\<lambda>p.
     rbind (decode_side ''Cannot unmarshal expression (left value)'' (pe_left p) ('''', zero_data)) (\<lambda>(left, vars).
     rbind (decode_side ''Cannot unmarshal expression (right value)'' (pe_right p) vars) (\<lambda>(right, vars').
     Inr \<lparr>ex_left = (case (left, right) of (EVData d, EVData d') \<Rightarrow> EVData (shares_memory X d d') | _ \<Rightarrow> left),
          ex_right = right, ex_operator = pe_operator p\<rparr>)))"

definition side_encode :: "expr_value encoder" where
  "side_encode v = (case v of EVString s \<Rightarrow> Inr (enc_string s) | EVData d \<Rightarrow> data_encode d | EVNil \<Rightarrow> Inr JNull)"

definition expression_encode :: "expression encoder" where
  "expression_encode e = enc_struct
     [member ''left'' (side_encode (ex_left e)), member ''right'' (side_encode (ex_right e)),
      member ''operator'' (Inr (enc_string (ex_operator e)))]"

section \<open>Arguments and results\<close>

definition target_fields :: "argument_target fields" where
  "target_fields =
     [(''type'', fld at_type at_type_update dec_string),
      (''prefix'', fld at_prefix at_prefix_update dec_string),
      (''suffix'', fld at_suffix at_suffix_update dec_string)]"

definition target_encode :: "argument_target encoder" where
  "target_encode t = enc_struct
     [member ''type'' (Inr (enc_string (at_type t))),
      member_unless (at_prefix t = '''') ''prefix'' (Inr (enc_string (at_prefix t))),
      member_unless (at_suffix t = '''') ''suffix'' (Inr (enc_string (at_suffix t)))]"

record partial_argument =
  pg_description :: string
  pg_target :: argument_target
  pg_source :: "json option"

definition partial_argument_fields :: "partial_argument fields" where
  "partial_argument_fields =
     [(''description'', fld pg_description pg_description_update dec_string),
      (''target'', fld pg_target pg_target_update (dec_struct target_fields)),
      (''source'', fld pg_source pg_source_update dec_raw)]"

definition zero_target :: argument_target where
  "zero_target = \<lparr>at_type = '''', at_prefix = '''', at_suffix = ''''\<rparr>"

text \<open>A struct with one field, a pointer to a string, that is nil when the key is absent.\<close>

definition dec_string_ptr :: "string option decoder" where
  "dec_string_ptr j p =
     (if j = JNull then Inr None
      else rbind (dec_string j (case p of None \<Rightarrow> '''' | Some s \<Rightarrow> s)) (\<lambda>s. Inr (Some s)))"

definition argument_source_decode :: "json option \<Rightarrow> arg_source res" where
  "argument_source_decode raw =
     (case unmarshal_raw dec_string raw '''' of
        Inr txt \<Rightarrow> Inr (SrcText txt)
      | Inl _ \<Rightarrow>
          (case unmarshal_raw (dec_struct [(''port'', dec_string_ptr)]) raw None of
             Inr (Some port) \<Rightarrow> Inr (SrcPort port)
           | _ \<Rightarrow>
               (case unmarshal_raw (dec_struct [(''file'', dec_string_ptr)]) raw None of
                  Inr (Some file) \<Rightarrow> Inr (SrcFile file)
                | _ \<Rightarrow> Inl (Errorf ''no type json unmarshaling implemented for argument source %s''
                              [json_text (case raw of None \<Rightarrow> JNull | Some j \<Rightarrow> compact j)]))))"

definition argument_UnmarshalJSON :: "argument decoder" where
  "argument_UnmarshalJSON document a =
     rbind (wrapres ''cannot unmarshal partial argument''
              (dec_struct partial_argument_fields document
                 \<lparr>pg_description = '''', pg_target = zero_target, pg_source = None\<rparr>)) (\<lambda>p.
     rbind (argument_source_decode (pg_source p)) (\<lambda>source.
     Inr \<lparr>arg_description = pg_description p, arg_target = pg_target p, arg_source = source\<rparr>))"

definition argument_source_encode :: "arg_source encoder" where
  "argument_source_encode s =
     (case s of
        SrcText t \<Rightarrow> Inr (enc_string t)
      | SrcPort p \<Rightarrow> enc_struct [member ''port'' (Inr (enc_string p))]
      | SrcFile f \<Rightarrow> enc_struct [member ''file'' (Inr (enc_string f))]
      | SrcNil \<Rightarrow> Inr JNull)"

definition argument_encode :: "argument encoder" where
  "argument_encode a = enc_struct
     [member_unless (arg_description a = '''') ''description'' (Inr (enc_string (arg_description a))),
      member ''target'' (target_encode (arg_target a)),
      member ''source'' (argument_source_encode (arg_source a))]"

record partial_result =
  pr_description :: string
  pr_target :: port_address
  pr_source :: "json option"

definition partial_result_fields :: "partial_result fields" where
  "partial_result_fields =
     [(''description'', fld pr_description pr_description_update dec_string),
      (''target'', fld pr_target pr_target_update (dec_struct port_fields)),
      (''source'', fld pr_source pr_source_update dec_raw)]"

definition result_source_decode :: "json option \<Rightarrow> result_source res" where
  "result_source_decode raw =
     (let file_source =
        (case unmarshal_raw (dec_struct [(''file'', dec_string)]) raw '''' of
           Inr file \<Rightarrow> Inr (ResFile file)
         | Inl _ \<Rightarrow> Inl (Errorf ''could not unmarshal result source'' []))
      in case unmarshal_raw dec_string raw '''' of
           Inr str \<Rightarrow> Inr (ResText str)
         | Inl _ \<Rightarrow>
             (case unmarshal_raw (dec_struct [(''volume'', dec_string)]) raw '''' of
                Inr volume \<Rightarrow> if volume \<noteq> '''' then Inr (ResVolume volume) else file_source
              | Inl _ \<Rightarrow> file_source))"

definition result_UnmarshalJSON :: "brick_result decoder" where
  "result_UnmarshalJSON document res =
     rbind (wrapres ''could not unmarshal partial result''
              (dec_struct partial_result_fields document
                 \<lparr>pr_description = '''', pr_target = zero_port, pr_source = None\<rparr>)) (\<lambda>p.
     rbind (result_source_decode (pr_source p)) (\<lambda>source.
     Inr \<lparr>res_description = pr_description p, res_target = pr_target p, res_source = source\<rparr>))"

definition result_source_encode :: "result_source encoder" where
  "result_source_encode s =
     (case s of
        ResText t \<Rightarrow> Inr (enc_string t)
      | ResVolume v \<Rightarrow> enc_struct [member ''volume'' (Inr (enc_string v))]
      | ResFile f \<Rightarrow> enc_struct [member ''file'' (Inr (enc_string f))]
      | ResNil \<Rightarrow> Inr JNull)"

definition result_encode :: "brick_result encoder" where
  "result_encode r = enc_struct
     [member_unless (res_description r = '''') ''description'' (Inr (enc_string (res_description r))),
      member ''target'' (port_encode (res_target r)),
      member ''source'' (result_source_encode (res_source r))]"

section \<open>Values of jobs\<close>

record partial_value =
  pv_target :: string
  pv_value :: "json option"

definition partial_value_fields :: "partial_value fields" where
  "partial_value_fields =
     [(''target'', fld pv_target pv_target_update dec_string),
      (''value'', fld pv_value pv_value_update dec_raw)]"

definition input_value_decode :: "json option \<Rightarrow> input_value res" where
  "input_value_decode raw =
     (case unmarshal_raw (dec_slice dec_string '''') raw [] of
        Inr arr \<Rightarrow> Inr (IVArray arr)
      | Inl _ \<Rightarrow>
          (case unmarshal_raw dec_string raw '''' of
             Inr str \<Rightarrow> Inr (IVString str)
           | Inl e \<Rightarrow> Inl e))"

definition value_UnmarshalJSON :: "job_value decoder" where
  "value_UnmarshalJSON document v =
     rbind (wrapres ''cannot unmarshal partial value''
              (dec_struct partial_value_fields document \<lparr>pv_target = '''', pv_value = None\<rparr>)) (\<lambda>p.
     rbind (input_value_decode (pv_value p)) (\<lambda>x. Inr \<lparr>jv_value = x, jv_target = pv_target p\<rparr>))"

definition input_value_encode :: "input_value encoder" where
  "input_value_encode v =
     (case v of
        IVString s \<Rightarrow> Inr (enc_string s)
      | IVArray xs \<Rightarrow> enc_slice (\<lambda>t. Inr (enc_string t)) xs
      | IVNil \<Rightarrow> Inr JNull)"

definition value_encode :: "job_value encoder" where
  "value_encode v = enc_struct
     [member ''value'' (input_value_encode (jv_value v)), member ''target'' (Inr (enc_string (jv_target v)))]"

end
