(* ===== verification/Json_Components.thy ===== *)
theory Json_Components
  imports Json_Models
begin

text \<open>
  The JSON codecs of components, \<^verbatim>\<open>models/models.go\<close>: bricks, graphs with their nodes, maps
  and conditionals. Decoding is polymorphic. The implementation of a component is decoded as its
  \<^verbatim>\<open>type\<close> says, and what stands in the place of a sub-component is tried as a reference, as
  a component held inline and as a reference with a version, in this order.
\<close>

section \<open>Bricks\<close>

definition type_fields :: "string fields" where
  "type_fields = [(''type'', dec_string)]"

definition zero_container :: container where
  "zero_container =
     \<lparr>ctr_name = '''', ctr_image = '''', ctr_command = [], ctr_args = [], ctr_workingDir = '''', ctr_envFrom = [],
      ctr_env = [], ctr_volumeMounts = [], ctr_rest = ''''\<rparr>"

definition container_decode :: "codec \<Rightarrow> container option decoder" where
  "container_decode X j c =
     (if j = JNull then Inr None
      else rbind (ContainerDecode X j (case c of None \<Rightarrow> zero_container | Some c' \<Rightarrow> c')) (\<lambda>c'. Inr (Some c')))"

definition zero_argument :: argument where
  "zero_argument = \<lparr>arg_description = '''', arg_target = zero_target, arg_source = SrcNil\<rparr>"

definition zero_result :: brick_result where
  "zero_result = \<lparr>res_description = '''', res_target = zero_port, res_source = ResNil\<rparr>"

definition zero_brick :: brick where
  "zero_brick = \<lparr>br_type = '''', br_container = None, br_args = [], br_results = []\<rparr>"

definition brick_fields :: "codec \<Rightarrow> brick fields" where
  "brick_fields X =
     [(''type'', fld br_type br_type_update dec_string),
      (''container'', fld br_container br_container_update (container_decode X)),
      (''args'', fld br_args br_args_update (dec_slice argument_UnmarshalJSON zero_argument)),
      (''results'', fld br_results br_results_update (dec_slice result_UnmarshalJSON zero_result))]"

definition brick_encode :: "codec \<Rightarrow> brick encoder" where
  "brick_encode X b = enc_struct
     [member ''type'' (Inr (enc_string (br_type b))),
      member ''container'' (case br_container b of None \<Rightarrow> Inr JNull | Some c \<Rightarrow> ContainerEncode X c),
      member_unless (br_args b = []) ''args'' (enc_slice argument_encode (br_args b)),
      member_unless (br_results b = []) ''results'' (enc_slice result_encode (br_results b))]"

section \<open>The parts that are decoded first\<close>

record partial_component =
  pc_metadata :: metadata
  pc_inputs :: "data list"
  pc_outputs :: "data list"
  pc_type :: string
  pc_implementation :: "json option"

definition partial_component_fields :: "codec \<Rightarrow> partial_component fields" where
  "partial_component_fields X =
     embedded pc_metadata pc_metadata_update (metadata_fields X) @
     [(''inputs'', fld pc_inputs pc_inputs_update (dec_slice (dec_struct data_fields) zero_data)),
      (''outputs'', fld pc_outputs pc_outputs_update (dec_slice (dec_struct data_fields) zero_data)),
      (''type'', fld pc_type pc_type_update dec_string),
      (''Implementation'', fld pc_implementation pc_implementation_update dec_raw)]"

definition zero_partial_component :: partial_component where
  "zero_partial_component =
     \<lparr>pc_metadata = zero_metadata, pc_inputs = [], pc_outputs = [], pc_type = '''', pc_implementation = None\<rparr>"

record partial_node =
  pn_id :: string
  pn_node :: "json option"
  pn_userdata :: string

definition partial_node_fields :: "partial_node fields" where
  "partial_node_fields =
     [(''id'', fld pn_id pn_id_update dec_string),
      (''node'', fld pn_node pn_node_update dec_raw),
      (''userdata'', fld pn_userdata pn_userdata_update dec_raw_text)]"

definition zero_partial_node :: partial_node where
  "zero_partial_node = \<lparr>pn_id = '''', pn_node = None, pn_userdata = ''''\<rparr>"

definition dec_edges :: "edge list decoder" where
  "dec_edges = dec_slice (dec_struct edge_fields) zero_edge"

definition enc_edges :: "edge list encoder" where
  "enc_edges = enc_slice edge_encode"

text \<open>The fields of a graph other than its nodes.\<close>

record partial_graph =
  pg_type :: string
  pg_edges :: "edge list"
  pg_inputMappings :: "edge list"
  pg_outputMappings :: "edge list"

definition partial_graph_fields :: "partial_graph fields" where
  "partial_graph_fields =
     [(''type'', fld pg_type pg_type_update dec_string),
      (''edges'', fld pg_edges pg_edges_update dec_edges),
      (''inputMappings'', fld pg_inputMappings pg_inputMappings_update dec_edges),
      (''outputMappings'', fld pg_outputMappings pg_outputMappings_update dec_edges)]"

definition zero_partial_graph :: partial_graph where
  "zero_partial_graph = \<lparr>pg_type = '''', pg_edges = [], pg_inputMappings = [], pg_outputMappings = []\<rparr>"

record partial_map =
  pm_type :: string
  pm_node :: "json option"
  pm_inputMappings :: "edge list"
  pm_outputMappings :: "edge list"

definition partial_map_fields :: "partial_map fields" where
  "partial_map_fields =
     [(''type'', fld pm_type pm_type_update dec_string),
      (''node'', fld pm_node pm_node_update dec_raw),
      (''inputMappings'', fld pm_inputMappings pm_inputMappings_update dec_edges),
      (''outputMappings'', fld pm_outputMappings pm_outputMappings_update dec_edges)]"

definition zero_partial_map :: partial_map where
  "zero_partial_map = \<lparr>pm_type = '''', pm_node = None, pm_inputMappings = [], pm_outputMappings = []\<rparr>"

record partial_conditional =
  pd_type :: string
  pd_expression :: expression
  pd_nodeTrue :: "json option"
  pd_nodeFalse :: "json option"
  pd_inputMappings :: "edge list"
  pd_outputMappings :: "edge list"

definition partial_conditional_fields :: "codec \<Rightarrow> partial_conditional fields" where
  "partial_conditional_fields X =
     [(''type'', fld pd_type pd_type_update dec_string),
      (''expression'', fld pd_expression pd_expression_update (expression_UnmarshalJSON X)),
      (''nodeTrue'', fld pd_nodeTrue pd_nodeTrue_update dec_raw),
      (''nodeFalse'', fld pd_nodeFalse pd_nodeFalse_update dec_raw),
      (''inputMappings'', fld pd_inputMappings pd_inputMappings_update dec_edges),
      (''outputMappings'', fld pd_outputMappings pd_outputMappings_update dec_edges)]"

definition zero_partial_conditional :: partial_conditional where
  "zero_partial_conditional =
     \<lparr>pd_type = '''', pd_expression = \<lparr>ex_left = EVNil, ex_right = EVNil, ex_operator = ''''\<rparr>, pd_nodeTrue = None,
      pd_nodeFalse = None, pd_inputMappings = [], pd_outputMappings = []\<rparr>"

section \<open>Raw messages are parts of the document\<close>

text \<open>
  What the methods decode after their first pass is smaller than the document, which makes the
  recursion below end.
\<close>

lemma size_member: "m \<in> set ms \<Longrightarrow> Suc (size (snd m)) < size (JObj ms)"
  by (induction ms) (auto simp: size_prod_simp split: prod.splits)

lemma dec_members_invariant:
  assumes "dec_members fs ms a = Inr b" "P a" "\<And>m. m \<in> set ms \<Longrightarrow> Q (snd m)"
    and "\<And>k dec j x y. (k, dec) \<in> set fs \<Longrightarrow> Q j \<Longrightarrow> P x \<Longrightarrow> dec j x = Inr y \<Longrightarrow> P y"
  shows "P b"
  using assms(1-3)
proof (induction ms arbitrary: a)
  case (Cons m ms)
  then obtain x where x: "dec_member fs m a = Inr x" "dec_members fs ms x = Inr b"
    by (auto simp: go_simps)
  have "P x"
  proof (cases "find_field fs (unquote (fst m))")
    case None
    then show ?thesis using x Cons.prems(2) by (simp add: dec_member_def)
  next
    case (Some dec)
    then obtain k where "(k, dec) \<in> set fs"
      by (auto simp: find_field_def split: option.splits dest!: map_of_SomeD)
    then show ?thesis
      using assms(4) [of k dec "snd m" a x] x Some Cons.prems by (simp add: dec_member_def)
  qed
  with Cons.IH [OF x(2)] Cons.prems(3) show ?case by simp
qed simp

lemma dec_struct_raw_size:
  assumes "dec_struct fs j a = Inr b" "sel a = None" "sel b = Some i"
    and "\<And>k dec v x y. (k, dec) \<in> set fs \<Longrightarrow> dec v x = Inr y \<Longrightarrow> sel y = sel x \<or> sel y = Some v"
  shows "Suc (size i) < size j"
proof (cases j)
  case (JObj ms)
  let ?P = "\<lambda>x. \<forall>i. sel x = Some i \<longrightarrow> Suc (size i) < size j"
  have "?P b"
  proof (rule dec_members_invariant [where P = ?P and Q = "\<lambda>v. Suc (size v) < size j"])
    show "dec_members fs ms a = Inr b" using assms(1) JObj by (simp add: dec_struct_def)
    show "?P a" using assms(2) by simp
    show "Suc (size (snd m)) < size j" if "m \<in> set ms" for m using size_member [OF that] JObj by simp
    show "?P y" if "(k, dec) \<in> set fs" "Suc (size v) < size j" "?P x" "dec v x = Inr y" for k dec v x y
      using assms(4) [OF that(1,4)] that(2,3) by auto
  qed
  with assms(3) show ?thesis by simp
qed (use assms in \<open>auto simp: dec_struct_def\<close>)

lemma fld_iff: "fld sel upd dec j a = Inr b \<longleftrightarrow> (\<exists>x. dec j (sel a) = Inr x \<and> b = upd (\<lambda>_. x) a)"
  by (auto simp: fld_def go_simps)

lemma partial_component_size:
  assumes "dec_struct (partial_component_fields X) j zero_partial_component = Inr p" "pc_implementation p = Some i"
  shows "Suc (size i) < size j"
  by (rule dec_struct_raw_size [where sel = pc_implementation, OF assms(1) _ assms(2)])
    (auto simp: zero_partial_component_def partial_component_fields_def embedded_def metadata_fields_def fld_iff
      dec_raw_def)

lemma partial_node_size:
  assumes "dec_struct partial_node_fields j zero_partial_node = Inr p" "pn_node p = Some i"
  shows "Suc (size i) < size j"
  by (rule dec_struct_raw_size [where sel = pn_node, OF assms(1) _ assms(2)])
    (auto simp: zero_partial_node_def partial_node_fields_def fld_iff dec_raw_def)

lemma partial_map_size:
  assumes "dec_struct partial_map_fields j zero_partial_map = Inr p" "pm_node p = Some i"
  shows "Suc (size i) < size j"
  by (rule dec_struct_raw_size [where sel = pm_node, OF assms(1) _ assms(2)])
    (auto simp: zero_partial_map_def partial_map_fields_def fld_iff dec_raw_def)

lemma partial_conditional_true_size:
  assumes "dec_struct (partial_conditional_fields X) j zero_partial_conditional = Inr p" "pd_nodeTrue p = Some i"
  shows "Suc (size i) < size j"
  by (rule dec_struct_raw_size [where sel = pd_nodeTrue, OF assms(1) _ assms(2)])
    (auto simp: zero_partial_conditional_def partial_conditional_fields_def fld_iff dec_raw_def)

lemma partial_conditional_false_size:
  assumes "dec_struct (partial_conditional_fields X) j zero_partial_conditional = Inr p" "pd_nodeFalse p = Some i"
  shows "Suc (size i) < size j"
  by (rule dec_struct_raw_size [where sel = pd_nodeFalse, OF assms(1) _ assms(2)])
    (auto simp: zero_partial_conditional_def partial_conditional_fields_def fld_iff dec_raw_def)

lemmas partial_sizes = partial_component_size partial_node_size partial_map_size
  partial_conditional_true_size partial_conditional_false_size

section \<open>Decoding components\<close>

text \<open>
  The slice of nodes and the members of a graph are walked one by one, as the default decoding of a
  struct does; no other field of a graph folds to the key of its nodes. The nodes that a repeated key
  replaces do not matter, as decoding a node assigns all of it. In a conditional the reference with a
  version that the true node was decoded into is also what the false node is decoded into.
\<close>

function component_UnmarshalJSON :: "codec \<Rightarrow> json \<Rightarrow> component res"
  and graph_decode :: "codec \<Rightarrow> json \<Rightarrow> partial_graph \<Rightarrow> node list \<Rightarrow> graph res"
  and nodes_decode :: "codec \<Rightarrow> json \<Rightarrow> node list res"
  and node_UnmarshalJSON :: "codec \<Rightarrow> json \<Rightarrow> node res"
  and node_value_decode :: "codec \<Rightarrow> json option \<Rightarrow> cref_version \<Rightarrow> node_value res"
  and map_UnmarshalJSON :: "codec \<Rightarrow> json \<Rightarrow> map_component res"
  and conditional_UnmarshalJSON :: "codec \<Rightarrow> json \<Rightarrow> conditional res" where
  "component_UnmarshalJSON X document =
     rbind (wrapres ''cannot unmarshal partial component''
              (dec_struct (partial_component_fields X) document zero_partial_component)) (\<lambda>p.
     (case pc_implementation p of
        None \<Rightarrow> Inl eof_error
      | Some i \<Rightarrow>
          rbind (dec_struct type_fields i '''') (\<lambda>t.
          rbind
            (if t = BrickType then rbind (dec_struct (brick_fields X) i zero_brick) (\<lambda>brick. Inr (ImplBrick brick))
             else if t = AnyType then rbind (dec_struct type_fields i '''') (\<lambda>a. Inr (ImplAny a))
             else if t = GraphType then rbind (graph_decode X i zero_partial_graph []) (\<lambda>graph. Inr (ImplGraph graph))
             else if t = MapType then rbind (map_UnmarshalJSON X i) (\<lambda>mapCmp. Inr (ImplMap mapCmp))
             else if t = ConditionalType then
               rbind (conditional_UnmarshalJSON X i) (\<lambda>conditionalCmp. Inr (ImplConditional conditionalCmp))
             else Inl (Errorf ''no type json unmarshaling implemented for %s'' [t])) (\<lambda>impl.
          Inr (Component (pc_metadata p) (pc_inputs p) (pc_outputs p) (pc_type p) impl)))))"
| "graph_decode X (JObj (m # ms)) g ns =
     (if fold_key (unquote (fst m)) = ''nodes'' then
        (case snd m of
           JNull \<Rightarrow> graph_decode X (JObj ms) g []
         | JArr js \<Rightarrow> rbind (nodes_decode X (JArr js)) (\<lambda>ns'. graph_decode X (JObj ms) g ns')
         | _ \<Rightarrow> Inl type_error)
      else rbind (dec_member partial_graph_fields m g) (\<lambda>g'. graph_decode X (JObj ms) g' ns))"
| "graph_decode X (JObj []) g ns =
     Inr (Graph (pg_type g) ns (pg_edges g) (pg_inputMappings g) (pg_outputMappings g))"
| "graph_decode X JNull g ns =
     Inr (Graph (pg_type g) ns (pg_edges g) (pg_inputMappings g) (pg_outputMappings g))"
| "graph_decode X (JBool b) g ns = Inl type_error"
| "graph_decode X (JNum n) g ns = Inl type_error"
| "graph_decode X (JStr s) g ns = Inl type_error"
| "graph_decode X (JArr js) g ns = Inl type_error"
| "nodes_decode X (JArr (j # js)) =
     rbind (node_UnmarshalJSON X j) (\<lambda>n. rbind (nodes_decode X (JArr js)) (\<lambda>ns. Inr (n # ns)))"
| "nodes_decode X (JArr []) = Inr []"
| "nodes_decode X JNull = Inr []"
| "nodes_decode X (JBool b) = Inl type_error"
| "nodes_decode X (JNum n) = Inl type_error"
| "nodes_decode X (JStr s) = Inl type_error"
| "nodes_decode X (JObj ms) = Inl type_error"
| "node_UnmarshalJSON X document =
     rbind (wrapres ''cannot unmarshal partial node'' (dec_struct partial_node_fields document zero_partial_node)) (\<lambda>p.
     (case node_value_decode X (pn_node p) zero_cref of
        Inl e \<Rightarrow> Inl (Errorf ''cannot unmarshal node, unrecognized type of node.Node, node Id: %s'' [pn_id p])
      | Inr v \<Rightarrow> Inr (Node (pn_id p) v (pn_userdata p))))"
| "node_value_decode X None crefver = Inl eof_error"
| "node_value_decode X (Some j) crefver =
     (case cref_UnmarshalJSON X j 0 of
        Inr cref \<Rightarrow> Inr (NVReference cref)
      | Inl _ \<Rightarrow>
          (case component_UnmarshalJSON X j of
             Inr cmpInline \<Rightarrow> Inr (NVComponent cmpInline)
           | Inl _ \<Rightarrow>
               (case crefversion_decode X j crefver of
                  Inr v \<Rightarrow> Inr (NVCRefVersion v)
                | Inl e \<Rightarrow> Inl e)))"
| "map_UnmarshalJSON X document =
     rbind (wrapres ''cannot unmarshal partial map component''
              (dec_struct partial_map_fields document zero_partial_map)) (\<lambda>p.
     rbind (node_value_decode X (pm_node p) zero_cref) (\<lambda>v.
     Inr (MapComponent (pm_type p) v (pm_inputMappings p) (pm_outputMappings p))))"
| "conditional_UnmarshalJSON X document =
     rbind (wrapres ''cannot unmarshal partial conditional component''
              (dec_struct (partial_conditional_fields X) document zero_partial_conditional)) (\<lambda>p.
     rbind (wrapres ''cannot unmarshal true node of conditional component''
              (node_value_decode X (pd_nodeTrue p) zero_cref)) (\<lambda>nt.
     rbind (case pd_nodeFalse p of
              None \<Rightarrow> Inr NVNil
            | Some j \<Rightarrow>
                wrapres ''cannot unmarshal false node of conditional component''
                  (node_value_decode X (Some j) (case nt of NVCRefVersion v \<Rightarrow> v | _ \<Rightarrow> zero_cref))) (\<lambda>nf.
     Inr (Conditional (pd_type p) (pd_expression p) nt nf (pd_inputMappings p) (pd_outputMappings p)))))"
  by pat_completeness auto

termination
proof (relation "measure (case_sum
    (case_sum (\<lambda>(X, j). 2 * size j) (case_sum (\<lambda>(X, j, g, ns). 2 * size j) (\<lambda>(X, j). 2 * size j)))
    (case_sum (case_sum (\<lambda>(X, j). 2 * size j + 1) (\<lambda>(X, r, v). case r of None \<Rightarrow> 0 | Some j \<Rightarrow> 2 * size j + 1))
      (case_sum (\<lambda>(X, j). 2 * size j + 1) (\<lambda>(X, j). 2 * size j + 1))))", goal_cases)
  case (6 X m ms g ns js)
  then show ?case using size_member [of m "m # ms"] by simp
qed (auto split: option.splits dest: partial_sizes)

declare component_UnmarshalJSON.simps [simp del] node_UnmarshalJSON.simps [simp del]
  map_UnmarshalJSON.simps [simp del] conditional_UnmarshalJSON.simps [simp del]

section \<open>Encoding components\<close>

fun component_encode :: "codec \<Rightarrow> component \<Rightarrow> json res"
  and implementation_encode :: "codec \<Rightarrow> implementation \<Rightarrow> json res"
  and graph_encode :: "codec \<Rightarrow> graph \<Rightarrow> json res"
  and nodes_encode :: "codec \<Rightarrow> node list \<Rightarrow> json list res"
  and node_encode :: "codec \<Rightarrow> node \<Rightarrow> json res"
  and node_value_encode :: "codec \<Rightarrow> node_value \<Rightarrow> json res"
  and map_encode :: "codec \<Rightarrow> map_component \<Rightarrow> json res"
  and conditional_encode :: "codec \<Rightarrow> conditional \<Rightarrow> json res" where
  "component_encode X (Component md ins outs t impl) = enc_struct
     (metadata_members X md @
      [member_unless (ins = []) ''inputs'' (enc_slice data_encode ins),
       member_unless (outs = []) ''outputs'' (enc_slice data_encode outs),
       member ''type'' (Inr (enc_string t)),
       member ''implementation'' (implementation_encode X impl)])"
| "implementation_encode X ImplNil = Inr JNull"
| "implementation_encode X (ImplAny t) = enc_struct [member ''type'' (Inr (enc_string t))]"
| "implementation_encode X (ImplBrick b) = brick_encode X b"
| "implementation_encode X (ImplGraph g) = graph_encode X g"
| "implementation_encode X (ImplMap m) = map_encode X m"
| "implementation_encode X (ImplConditional c) = conditional_encode X c"
| "graph_encode X (Graph t ns es im om) = enc_struct
     [member ''type'' (Inr (enc_string t)),
      member_unless (ns = []) ''nodes'' (rbind (nodes_encode X ns) (\<lambda>js. Inr (JArr js))),
      member_unless (es = []) ''edges'' (enc_edges es),
      member_unless (im = []) ''inputMappings'' (enc_edges im),
      member_unless (om = []) ''outputMappings'' (enc_edges om)]"
| "nodes_encode X [] = Inr []"
| "nodes_encode X (n # ns) = rbind (node_encode X n) (\<lambda>j. rbind (nodes_encode X ns) (\<lambda>js. Inr (j # js)))"
| "node_encode X (Node i v u) = enc_struct
     [member ''id'' (Inr (enc_string i)),
      member ''node'' (node_value_encode X v),
      member_unless (u = '''') ''userdata'' (enc_raw_text u)]"
| "node_value_encode X NVNil = Inr JNull"
| "node_value_encode X (NVReference r) = cref_MarshalJSON X r"
| "node_value_encode X (NVCRefVersion v) = crefversion_encode X v"
| "node_value_encode X (NVComponent c) = component_encode X c"
| "map_encode X (MapComponent t v im om) = enc_struct
     [member ''type'' (Inr (enc_string t)),
      member ''node'' (node_value_encode X v),
      member_unless (im = []) ''inputMappings'' (enc_edges im),
      member_unless (om = []) ''outputMappings'' (enc_edges om)]"
| "conditional_encode X (Conditional t e nt nf im om) = enc_struct
     [member ''type'' (Inr (enc_string t)),
      member ''expression'' (expression_encode e),
      member ''nodeTrue'' (node_value_encode X nt),
      member_unless (nf = NVNil) ''nodeFalse'' (node_value_encode X nf),
      member_unless (im = []) ''inputMappings'' (enc_edges im),
      member_unless (om = []) ''outputMappings'' (enc_edges om)]"

section \<open>Workflows and jobs\<close>

definition component_field :: "codec \<Rightarrow> component decoder" where
  "component_field X j c = component_UnmarshalJSON X j"

definition workflow_fields :: "codec \<Rightarrow> workflow fields" where
  "workflow_fields X =
     embedded wf_metadata wf_metadata_update (metadata_fields X) @
     [(''component'', fld wf_component wf_component_update (component_field X)),
      (''type'', fld wf_type wf_type_update dec_string),
      (''workspace'', fld wf_workspace wf_workspace_update dec_string)]"

definition workflow_encode :: "codec \<Rightarrow> workflow encoder" where
  "workflow_encode X w = enc_struct
     (metadata_members X (wf_metadata w) @
      [member ''component'' (component_encode X (wf_component w)),
       member ''type'' (Inr (enc_string (wf_type w))),
       member ''workspace'' (Inr (enc_string (wf_workspace w)))])"

definition zero_value :: job_value where
  "zero_value = \<lparr>jv_value = IVNil, jv_target = ''''\<rparr>"

definition zero_job :: job where
  "zero_job =
     \<lparr>job_metadata = zero_metadata, job_type = '''', job_inputValues = [], job_workflow = zero_workflow, job_events = []\<rparr>"

definition job_fields :: "codec \<Rightarrow> job fields" where
  "job_fields X =
     embedded job_metadata job_metadata_update (metadata_fields X) @
     [(''type'', fld job_type job_type_update dec_string),
      (''inputValues'', fld job_inputValues job_inputValues_update (dec_slice value_UnmarshalJSON zero_value)),
      (''workflow'', fld job_workflow job_workflow_update (dec_struct (workflow_fields X))),
      (''events'', fld job_events job_events_update (dec_slice (EventDecode X) ''''))]"

definition job_encode :: "codec \<Rightarrow> job encoder" where
  "job_encode X jb = enc_struct
     (metadata_members X (job_metadata jb) @
      [member ''type'' (Inr (enc_string (job_type jb))),
       member_unless (job_inputValues jb = []) ''inputValues'' (enc_slice value_encode (job_inputValues jb)),
       member ''workflow'' (workflow_encode X (job_workflow jb)),
       member_unless (job_events jb = []) ''events'' (enc_slice (EventEncode X) (job_events jb))])"

section \<open>Requests and documents\<close>

text \<open>
  The requests hold a component, a workflow or a job, and options: the options of a component have no
  field, of the options of a job the tags are used. A constant is any value.
\<close>

definition options_decode :: "unit decoder" where
  "options_decode = dec_struct []"

record component_post_request =
  cpr_component :: component
  cpr_options :: unit

definition component_post_fields :: "codec \<Rightarrow> component_post_request fields" where
  "component_post_fields X =
     [(''component'', fld cpr_component cpr_component_update (component_field X)),
      (''options'', fld cpr_options cpr_options_update options_decode)]"

record workflow_post_request =
  wpr_workflow :: workflow
  wpr_options :: unit

definition workflow_post_fields :: "codec \<Rightarrow> workflow_post_request fields" where
  "workflow_post_fields X =
     [(''workflow'', fld wpr_workflow wpr_workflow_update (dec_struct (workflow_fields X))),
      (''options'', fld wpr_options wpr_options_update options_decode)]"

record job_post_options =
  jpo_constants :: "json list"
  jpo_tags :: "string list"

definition job_post_options_fields :: "job_post_options fields" where
  "job_post_options_fields =
     [(''constants'', fld jpo_constants jpo_constants_update (dec_slice (\<lambda>j c. Inr j) JNull)),
      (''tags'', fld jpo_tags jpo_tags_update (dec_slice dec_string ''''))]"

record job_post_request =
  jpr_job :: job
  jpr_submitOptions :: job_post_options

definition job_post_fields :: "codec \<Rightarrow> job_post_request fields" where
  "job_post_fields X =
     [(''job'', fld jpr_job jpr_job_update (dec_struct (job_fields X))),
      (''options'', fld jpr_submitOptions jpr_submitOptions_update (dec_struct job_post_options_fields))]"

definition zero_component :: component where
  "zero_component = Component zero_metadata [] [] '''' ImplNil"

text \<open>\<^verbatim>\<open>json.Unmarshal\<close> of a document into a variable of the type.\<close>

definition json_Unmarshal :: "'a decoder \<Rightarrow> string \<Rightarrow> 'a \<Rightarrow> 'a res" where
  "json_Unmarshal dec document a = rbind (parse_json document) (\<lambda>j. dec j a)"

definition json_Marshal :: "'a encoder \<Rightarrow> 'a \<Rightarrow> string res" where
  "json_Marshal enc a = rbind (enc a) (\<lambda>j. Inr (json_text j))"

definition unmarshal_component :: "codec \<Rightarrow> string \<Rightarrow> component res" where
  "unmarshal_component X document = json_Unmarshal (component_field X) document zero_component"

definition unmarshal_workflow :: "codec \<Rightarrow> string \<Rightarrow> workflow res" where
  "unmarshal_workflow X document = json_Unmarshal (dec_struct (workflow_fields X)) document zero_workflow"

definition unmarshal_job :: "codec \<Rightarrow> string \<Rightarrow> job res" where
  "unmarshal_job X document = json_Unmarshal (dec_struct (job_fields X)) document zero_job"

definition unmarshal_component_post :: "codec \<Rightarrow> string \<Rightarrow> component_post_request res" where
  "unmarshal_component_post X document =
     json_Unmarshal (dec_struct (component_post_fields X)) document \<lparr>cpr_component = zero_component, cpr_options = ()\<rparr>"

definition unmarshal_workflow_post :: "codec \<Rightarrow> string \<Rightarrow> workflow_post_request res" where
  "unmarshal_workflow_post X document =
     json_Unmarshal (dec_struct (workflow_post_fields X)) document \<lparr>wpr_workflow = zero_workflow, wpr_options = ()\<rparr>"

definition unmarshal_job_post :: "codec \<Rightarrow> string \<Rightarrow> job_post_request res" where
  "unmarshal_job_post X document =
     json_Unmarshal (dec_struct (job_post_fields X)) document
       \<lparr>jpr_job = zero_job, jpr_submitOptions = \<lparr>jpo_constants = [], jpo_tags = []\<rparr>\<rparr>"

end
