(* ===== verification/Json_Models_Facts.thy ===== *)
theory Json_Models_Facts
  imports Json_Models
begin

text \<open>
  The codecs of \<open>Json_Models\<close> decode what they encode, one lemma per type, under what the type
  needs: numbers of 64 bits, times and user data whose text reads back. Where decoding goes through
  several attempts, the values that do not come back are the ones that the attempts confuse.
\<close>

section \<open>Assumptions on the parameters\<close>

text \<open>
  The text of a UUID is a plain literal that parses to the UUID, and only a literal does: the text of
  an object is not a UUID.
\<close>

definition uuid_codec_ok :: "codec \<Rightarrow> bool" where
  "uuid_codec_ok X \<longleftrightarrow>
     (\<forall>u. body_ok (UUIDText X u) \<and> ParseUUIDBytes X (json_text (JStr (UUIDText X u))) = Inr u)
     \<and> (\<forall>ms u. ParseUUIDBytes X (json_text (JObj ms)) \<noteq> Inr u)"

definition time_reads_back :: "codec \<Rightarrow> gotime \<Rightarrow> bool" where
  "time_reads_back X t \<longleftrightarrow>
     (case TimeText X t of Inl e \<Rightarrow> False | Inr s \<Rightarrow> body_ok s \<and> TimeParse X (json_text (JStr s)) = Inr t)"

definition raw_reads_back :: "string \<Rightarrow> bool" where
  "raw_reads_back s \<longleftrightarrow> s = '''' \<or> (case enc_raw_text s of Inl e \<Rightarrow> False | Inr j \<Rightarrow> json_ok j \<and> json_text j = s)"

section \<open>Zero values\<close>

definition zero_modified_by :: modified_by where
  "zero_modified_by = \<lparr>mb_oid = '''', mb_email = ''''\<rparr>"

named_theorems zero_defs "zero values of the model types"
lemmas [zero_defs] = zero_cref_def zero_version_def zero_modified_by_def zero_data_def zero_port_def zero_edge_def
  zero_target_def

section \<open>Round trips\<close>

lemma cref_roundtrip [json_simps]:
  "uuid_codec_ok X \<Longrightarrow> cref_UnmarshalJSON X (JStr (UUIDText X u)) v = Inr u"
  by (simp add: cref_UnmarshalJSON_def uuid_codec_ok_def)

lemma cref_MarshalJSON_iff: "cref_MarshalJSON X u = Inr j \<longleftrightarrow> j = JStr (UUIDText X u)"
  by (auto simp: cref_MarshalJSON_def)

lemma strings_roundtrip [json_simps]:
  "enc_slice (\<lambda>t. Inr (enc_string t)) ts = Inr j \<Longrightarrow> dec_slice dec_string '''' j [] = Inr ts"
  by (erule dec_slice_enc) (auto simp: json_simps)

lemma crefversion_roundtrip:
  assumes "uuid_codec_ok X" "crefversion_encode X c = Inr j" "int64 (crv_version c)"
  shows "crefversion_decode X j zero_cref = Inr c"
  using assms
  by (cases c) (auto simp: crefversion_encode_def crefversion_decode_def crefversion_fields_def enc_struct_iff
    enc_iffs cref_MarshalJSON_iff decode_simps json_simps zero_defs split: if_splits)

lemma version_roundtrip:
  assumes "uuid_codec_ok X" "version_encode X v = Inr j"
    "int64 (ver_current v)" "int64 (crv_version (ver_previous v))"
  shows "dec_struct (version_fields X) j zero_version = Inr v"
  using assms crefversion_roundtrip [OF assms(1)]
  by (cases v) (auto simp: version_encode_def version_fields_def enc_struct_iff
    enc_iffs decode_simps json_simps zero_version_def split: if_splits)

lemma modifiedby_roundtrip:
  "modifiedby_encode m = Inr j \<Longrightarrow> dec_struct modifiedby_fields j zero_modified_by = Inr m"
  by (cases m) (auto simp: modifiedby_encode_def modifiedby_fields_def enc_struct_iff
    enc_iffs decode_simps json_simps zero_defs split: if_splits)

lemma time_roundtrip:
  "time_encode X t = Inr j \<Longrightarrow> time_reads_back X t \<Longrightarrow> time_decode X j t' = Inr t"
  by (auto simp: time_encode_def time_decode_def time_reads_back_def go_simps)

lemma raw_text_roundtrip:
  "enc_raw_text s = Inr j \<Longrightarrow> raw_reads_back s \<Longrightarrow> s \<noteq> '''' \<Longrightarrow> dec_raw_text j t = Inr s"
  by (auto simp: raw_reads_back_def dec_raw_text_def)

lemma data_roundtrip:
  assumes "data_encode d = Inr j" "raw_reads_back (dt_userdata d)"
  shows "dec_struct data_fields j zero_data = Inr d"
  using assms raw_text_roundtrip
  by (cases d) (auto simp: data_encode_def data_fields_def enc_struct_iff
    enc_iffs decode_simps json_simps zero_defs split: if_splits)

lemma port_roundtrip: "port_encode p = Inr j \<Longrightarrow> dec_struct port_fields j zero_port = Inr p"
  by (cases p) (auto simp: port_encode_def port_fields_def enc_struct_iff
    enc_iffs decode_simps json_simps zero_defs split: if_splits)

lemma edge_roundtrip: "edge_encode e = Inr j \<Longrightarrow> dec_struct edge_fields j zero_edge = Inr e"
  using port_roundtrip
  by (cases e) (auto simp: edge_encode_def edge_fields_def enc_struct_iff
    enc_iffs decode_simps json_simps zero_edge_def split: if_splits)

text \<open>
  An expression comes back unless both of its sides are data, when the second is decoded into the
  memory of the first, or a side is nil.
\<close>

definition side_reads_back :: "expr_value \<Rightarrow> bool" where
  "side_reads_back v \<longleftrightarrow> (case v of EVString s \<Rightarrow> True | EVData d \<Rightarrow> raw_reads_back (dt_userdata d) | EVNil \<Rightarrow> False)"

definition is_data :: "expr_value \<Rightarrow> bool" where
  "is_data v \<longleftrightarrow> (case v of EVData d \<Rightarrow> True | _ \<Rightarrow> False)"

definition expression_reads_back :: "expression \<Rightarrow> bool" where
  "expression_reads_back e \<longleftrightarrow>
     side_reads_back (ex_left e) \<and> side_reads_back (ex_right e) \<and> \<not> (is_data (ex_left e) \<and> is_data (ex_right e))"

lemma data_not_string: "data_encode d = Inr j \<Longrightarrow> dec_string j s = Inl type_error"
  by (auto simp: data_encode_def enc_struct_iff dec_string_def)

lemma side_roundtrip:
  assumes "side_encode v = Inr j" "side_reads_back v" "is_data v \<Longrightarrow> snd vars = zero_data"
  shows "\<exists>vars'. decode_side msg (Some j) vars = Inr (v, vars') \<and> (\<not> is_data v \<longrightarrow> snd vars' = snd vars)"
  using assms data_roundtrip [of _ j]
  by (cases v; cases vars)
    (auto simp: side_encode_def side_reads_back_def is_data_def decode_side_def unmarshal_raw_def json_simps
      data_not_string split: sum.splits)

lemma expression_partial:
  assumes "expression_encode e = Inr j"
  shows "\<exists>l r. side_encode (ex_left e) = Inr l \<and> side_encode (ex_right e) = Inr r
    \<and> dec_struct partial_expression_fields j \<lparr>pe_operator = '''', pe_left = None, pe_right = None\<rparr>
      = Inr \<lparr>pe_operator = ex_operator e, pe_left = Some l, pe_right = Some r\<rparr>"
  using assms
  by (auto simp: expression_encode_def partial_expression_fields_def enc_struct_iff enc_iffs decode_simps
      json_simps dec_raw_def)

lemma expression_roundtrip:
  assumes "expression_encode e = Inr j" "expression_reads_back e"
  shows "expression_UnmarshalJSON X j e' = Inr e"
proof -
  obtain l r where l: "side_encode (ex_left e) = Inr l" and r: "side_encode (ex_right e) = Inr r"
    and p: "dec_struct partial_expression_fields j \<lparr>pe_operator = '''', pe_left = None, pe_right = None\<rparr>
      = Inr \<lparr>pe_operator = ex_operator e, pe_left = Some l, pe_right = Some r\<rparr>"
    using expression_partial [OF assms(1)] by blast
  obtain v1 where v1: "decode_side ''Cannot unmarshal expression (left value)'' (Some l) ('''', zero_data) = Inr (ex_left e, v1)"
    and "\<not> is_data (ex_left e) \<longrightarrow> snd v1 = zero_data"
    using side_roundtrip [OF l, of "('''', zero_data)" "''Cannot unmarshal expression (left value)''"] assms(2)
    by (auto simp: expression_reads_back_def)
  then obtain v2 where v2: "decode_side ''Cannot unmarshal expression (right value)'' (Some r) v1 = Inr (ex_right e, v2)"
    using side_roundtrip [OF r, of v1 "''Cannot unmarshal expression (right value)''"] assms(2)
    by (auto simp: expression_reads_back_def)
  show ?thesis
    using assms(2) by (cases e)
      (auto simp: expression_UnmarshalJSON_def p v1 v2 expression_reads_back_def is_data_def split: expr_value.splits)
qed

definition argument_reads_back :: "argument \<Rightarrow> bool" where
  "argument_reads_back a \<longleftrightarrow> arg_source a \<noteq> SrcNil"

lemma target_roundtrip: "target_encode t = Inr j \<Longrightarrow> dec_struct target_fields j zero_target = Inr t"
  by (cases t) (auto simp: target_encode_def target_fields_def enc_struct_iff
    enc_iffs decode_simps json_simps zero_defs split: if_splits)

lemma argument_source_roundtrip:
  "argument_source_encode s = Inr j \<Longrightarrow> s \<noteq> SrcNil \<Longrightarrow> argument_source_decode (Some j) = Inr s"
  by (cases s)
    (auto simp: argument_source_encode_def argument_source_decode_def unmarshal_raw_def enc_struct_iff enc_iffs
      decode_simps dec_string_ptr_def dec_string_def enc_string_def)

lemma argument_roundtrip:
  assumes "argument_encode a = Inr j" "argument_reads_back a"
  shows "argument_UnmarshalJSON j a' = Inr a"
  using assms target_roundtrip argument_source_roundtrip
  by (cases a) (auto simp: argument_encode_def argument_UnmarshalJSON_def partial_argument_fields_def
      argument_reads_back_def enc_struct_iff enc_iffs decode_simps json_simps dec_raw_def split: if_splits)

text \<open>A volume with an empty name would come back as a file with an empty name.\<close>

definition result_reads_back :: "brick_result \<Rightarrow> bool" where
  "result_reads_back r \<longleftrightarrow> res_source r \<noteq> ResNil \<and> res_source r \<noteq> ResVolume ''''"

lemma result_source_roundtrip:
  "result_source_encode s = Inr j \<Longrightarrow> s \<noteq> ResNil \<Longrightarrow> s \<noteq> ResVolume '''' \<Longrightarrow> result_source_decode (Some j) = Inr s"
  by (cases s)
    (auto simp: result_source_encode_def result_source_decode_def unmarshal_raw_def enc_struct_iff enc_iffs
      decode_simps dec_string_def enc_string_def)

lemma result_roundtrip:
  assumes "result_encode r = Inr j" "result_reads_back r"
  shows "result_UnmarshalJSON j r' = Inr r"
  using assms port_roundtrip result_source_roundtrip
  by (cases r) (auto simp: result_encode_def result_UnmarshalJSON_def partial_result_fields_def
      result_reads_back_def enc_struct_iff enc_iffs decode_simps json_simps dec_raw_def split: if_splits)

lemma input_value_roundtrip:
  assumes "input_value_encode v = Inr j" "v \<noteq> IVNil"
  shows "input_value_decode (Some j) = Inr v"
proof (cases v)
  case (IVString s)
  then show ?thesis using assms
    by (auto simp: input_value_encode_def input_value_decode_def unmarshal_raw_def dec_slice_def
        dec_string_def enc_string_def)
next
  case (IVArray ts)
  then show ?thesis using assms strings_roundtrip [of ts j]
    by (auto simp: input_value_encode_def input_value_decode_def unmarshal_raw_def)
qed (use assms in simp)

lemma value_roundtrip:
  assumes "value_encode v = Inr j" "jv_value v \<noteq> IVNil"
  shows "value_UnmarshalJSON j v' = Inr v"
  using assms input_value_roundtrip
  by (cases v) (auto simp: value_encode_def value_UnmarshalJSON_def partial_value_fields_def
      enc_struct_iff enc_iffs decode_simps json_simps dec_raw_def)

end
