(* ===== verification/Json_Roundtrip.thy ===== *)
theory Json_Roundtrip
  imports Json_Components Json_Models_Facts
begin

text \<open>
  Components, workflows and jobs come back from their JSON: which ones do is a predicate on the
  value, and the documents the codecs read otherwise are shown in \<open>Json_Theorems\<close>.
\<close>

section \<open>Which values come back\<close>

definition metadata_reads_back :: "codec \<Rightarrow> metadata \<Rightarrow> bool" where
  "metadata_reads_back X m \<longleftrightarrow>
     int64 (ver_current (md_version m)) \<and> int64 (crv_version (ver_previous (md_version m)))
     \<and> time_reads_back X (md_timestamp m)"

definition data_reads_back :: "data list \<Rightarrow> bool" where
  "data_reads_back ds \<longleftrightarrow> list_all (\<lambda>d. raw_reads_back (dt_userdata d)) ds"

definition container_reads_back :: "codec \<Rightarrow> container option \<Rightarrow> bool" where
  "container_reads_back X c \<longleftrightarrow>
     (case c of
        None \<Rightarrow> True
      | Some c' \<Rightarrow>
          (case ContainerEncode X c' of
             Inl e \<Rightarrow> False
           | Inr j \<Rightarrow> j \<noteq> JNull \<and> json_ok j \<and> ContainerDecode X j zero_container = Inr c'))"

text \<open>
  A reference with version number zero after one with another number comes back with that number.
\<close>

definition stale_version :: "node_value \<Rightarrow> node_value \<Rightarrow> bool" where
  "stale_version nt nf \<longleftrightarrow>
     (case (nt, nf) of
        (NVCRefVersion v, NVCRefVersion v') \<Rightarrow> crv_version v' = 0 \<and> crv_version v \<noteq> 0
      | _ \<Rightarrow> False)"

fun component_reads_back :: "codec \<Rightarrow> component \<Rightarrow> bool"
  and implementation_reads_back :: "codec \<Rightarrow> implementation \<Rightarrow> bool"
  and nodes_read_back :: "codec \<Rightarrow> node list \<Rightarrow> bool"
  and node_value_reads_back :: "codec \<Rightarrow> node_value \<Rightarrow> bool" where
  "component_reads_back X (Component md ins outs t impl) \<longleftrightarrow>
     metadata_reads_back X md \<and> data_reads_back ins \<and> data_reads_back outs \<and> implementation_reads_back X impl"
| "implementation_reads_back X ImplNil \<longleftrightarrow> False"
| "implementation_reads_back X (ImplAny t) \<longleftrightarrow> t = AnyType"
| "implementation_reads_back X (ImplBrick b) \<longleftrightarrow>
     br_type b = BrickType \<and> container_reads_back X (br_container b)
     \<and> list_all argument_reads_back (br_args b) \<and> list_all result_reads_back (br_results b)"
| "implementation_reads_back X (ImplGraph (Graph t ns es im om)) \<longleftrightarrow> t = GraphType \<and> nodes_read_back X ns"
| "implementation_reads_back X (ImplMap (MapComponent t v im om)) \<longleftrightarrow> t = MapType \<and> node_value_reads_back X v"
| "implementation_reads_back X (ImplConditional (Conditional t e nt nf im om)) \<longleftrightarrow>
     t = ConditionalType \<and> expression_reads_back e \<and> node_value_reads_back X nt
     \<and> (nf = NVNil \<or> node_value_reads_back X nf) \<and> \<not> stale_version nt nf"
| "nodes_read_back X [] \<longleftrightarrow> True"
| "nodes_read_back X (Node i v u # ns) \<longleftrightarrow>
     node_value_reads_back X v \<and> raw_reads_back u \<and> nodes_read_back X ns"
| "node_value_reads_back X NVNil \<longleftrightarrow> False"
| "node_value_reads_back X (NVReference r) \<longleftrightarrow> True"
| "node_value_reads_back X (NVCRefVersion v) \<longleftrightarrow> int64 (crv_version v)"
| "node_value_reads_back X (NVComponent c) \<longleftrightarrow> component_reads_back X c"

definition workflow_reads_back :: "codec \<Rightarrow> workflow \<Rightarrow> bool" where
  "workflow_reads_back X w \<longleftrightarrow> metadata_reads_back X (wf_metadata w) \<and> component_reads_back X (wf_component w)"

definition events_read_back :: "codec \<Rightarrow> string list \<Rightarrow> bool" where
  "events_read_back X es \<longleftrightarrow>
     list_all (\<lambda>e. case EventEncode X e of Inl _ \<Rightarrow> False | Inr j \<Rightarrow> json_ok j \<and> EventDecode X j '''' = Inr e) es"

definition job_reads_back :: "codec \<Rightarrow> job \<Rightarrow> bool" where
  "job_reads_back X jb \<longleftrightarrow>
     metadata_reads_back X (job_metadata jb) \<and> workflow_reads_back X (job_workflow jb)
     \<and> list_all (\<lambda>v. jv_value v \<noteq> IVNil) (job_inputValues jb) \<and> events_read_back X (job_events jb)"

section \<open>Embedded metadata\<close>

definition field_laws :: "('a \<Rightarrow> 'b) \<Rightarrow> (('b \<Rightarrow> 'b) \<Rightarrow> 'a \<Rightarrow> 'a) \<Rightarrow> bool" where
  "field_laws sel upd \<longleftrightarrow>
     (\<forall>x a. sel (upd (\<lambda>_. x) a) = x) \<and> (\<forall>x y a. upd (\<lambda>_. x) (upd (\<lambda>_. y) a) = upd (\<lambda>_. x) a)
     \<and> (\<forall>a. upd (\<lambda>_. sel a) a = a)"

lemma map_of_embedded: "map_of (embedded sel upd fs) k = map_option (fld sel upd) (map_of fs k)"
  by (induction fs) (auto simp: embedded_def)

lemma dec_members_embedded:
  assumes "field_laws sel upd" "\<forall>m \<in> set ms. map_of fs (unquote (fst m)) \<noteq> None"
  shows "dec_members (embedded sel upd fs @ rest) ms a =
    rbind (dec_members fs ms (sel a)) (\<lambda>x. Inr (upd (\<lambda>_. x) a))"
  using assms(2)
proof (induction ms arbitrary: a)
  case Nil
  then show ?case using assms(1) by (simp add: field_laws_def)
next
  case (Cons m ms)
  then obtain dec where dec: "map_of fs (unquote (fst m)) = Some dec" by auto
  then have lookup: "find_field fs (unquote (fst m)) = Some dec"
    "find_field (embedded sel upd fs @ rest) (unquote (fst m)) = Some (fld sel upd dec)"
    by (simp_all add: find_field_def map_of_embedded)
  show ?case
  proof (cases "dec (snd m) (sel a)")
    case (Inl e)
    then show ?thesis by (simp add: dec_member_def lookup fld_def)
  next
    case (Inr x)
    then show ?thesis using Cons assms(1)
      by (cases "dec_members fs ms x") (simp_all add: dec_member_def lookup fld_def field_laws_def)
  qed
qed

lemma metadata_keys:
  "enc_members (metadata_members X m) = Inr ms \<Longrightarrow> \<forall>x \<in> set ms. map_of (metadata_fields X) (unquote (fst x)) \<noteq> None"
  by (auto simp: metadata_members_def metadata_fields_def enc_iffs split: if_splits)

lemma metadata_members_roundtrip:
  assumes "uuid_codec_ok X" "enc_members (metadata_members X m) = Inr ms" "metadata_reads_back X m"
  shows "dec_members (metadata_fields X) ms zero_metadata = Inr m"
  using assms version_roundtrip [OF assms(1)] modifiedby_roundtrip time_roundtrip
  by (cases m) (auto simp: metadata_members_def metadata_fields_def metadata_reads_back_def enc_iffs
    decode_simps json_simps cref_MarshalJSON_iff zero_metadata_def zero_modified_by_def split: if_splits)

lemma embedded_metadata_roundtrip:
  assumes "uuid_codec_ok X" "enc_members (metadata_members X m) = Inr ms" "metadata_reads_back X m"
    and "field_laws sel upd" "sel a = zero_metadata"
  shows "dec_members (embedded sel upd (metadata_fields X) @ rest) (ms @ ms') a =
    dec_members (embedded sel upd (metadata_fields X) @ rest) ms' (upd (\<lambda>_. m) a)"
  using dec_members_embedded [OF assms(4) metadata_keys [OF assms(2)], of rest a]
    metadata_members_roundtrip [OF assms(1-3)] assms(5)
  by (simp add: dec_members_append)

lemma enc_members_append:
  "enc_members (rs @ rs') = rbind (enc_members rs) (\<lambda>m. rbind (enc_members rs') (\<lambda>m'. Inr (m @ m')))"
  by (induction rs) (auto simp: rbind_def split: sum.splits)

section \<open>Slices of leaves\<close>

lemma data_slice_roundtrip:
  "enc_slice data_encode ds = Inr j \<Longrightarrow> data_reads_back ds \<Longrightarrow>
     dec_slice (dec_struct data_fields) zero_data j [] = Inr ds"
  by (erule dec_slice_enc) (auto simp: data_reads_back_def list_all_iff intro: data_roundtrip)

lemma edges_roundtrip: "enc_edges es = Inr j \<Longrightarrow> dec_edges j [] = Inr es"
  unfolding enc_edges_def dec_edges_def by (erule dec_slice_enc) (auto intro: edge_roundtrip)

lemma arguments_roundtrip:
  "enc_slice argument_encode as = Inr j \<Longrightarrow> list_all argument_reads_back as \<Longrightarrow>
     dec_slice argument_UnmarshalJSON zero_argument j [] = Inr as"
  by (erule dec_slice_enc) (auto simp: list_all_iff intro: argument_roundtrip)

lemma results_roundtrip:
  "enc_slice result_encode rs = Inr j \<Longrightarrow> list_all result_reads_back rs \<Longrightarrow>
     dec_slice result_UnmarshalJSON zero_result j [] = Inr rs"
  by (erule dec_slice_enc) (auto simp: list_all_iff intro: result_roundtrip)

lemma values_roundtrip:
  "enc_slice value_encode vs = Inr j \<Longrightarrow> list_all (\<lambda>v. jv_value v \<noteq> IVNil) vs \<Longrightarrow>
     dec_slice value_UnmarshalJSON zero_value j [] = Inr vs"
  by (erule dec_slice_enc) (auto simp: list_all_iff intro: value_roundtrip)

lemma events_roundtrip:
  "enc_slice (EventEncode X) es = Inr j \<Longrightarrow> events_read_back X es \<Longrightarrow>
     dec_slice (EventDecode X) '''' j [] = Inr es"
  by (erule dec_slice_enc) (auto simp: list_all_iff events_read_back_def)

section \<open>Structs around components\<close>

lemma brick_roundtrip:
  assumes "brick_encode X b = Inr j" "implementation_reads_back X (ImplBrick b)"
  shows "dec_struct (brick_fields X) j zero_brick = Inr b \<and> dec_struct type_fields j '''' = Inr BrickType"
  using assms arguments_roundtrip results_roundtrip
  by (cases b)
    (auto simp: brick_encode_def brick_fields_def type_fields_def container_decode_def container_reads_back_def
      enc_struct_iff enc_iffs decode_simps json_simps zero_brick_def split: if_splits option.splits)

lemma partial_component_lookup [simp]:
  "find_field (partial_component_fields X) ''inputs'' =
     Some (fld pc_inputs pc_inputs_update (dec_slice (dec_struct data_fields) zero_data))"
  "find_field (partial_component_fields X) ''outputs'' =
     Some (fld pc_outputs pc_outputs_update (dec_slice (dec_struct data_fields) zero_data))"
  "find_field (partial_component_fields X) ''type'' = Some (fld pc_type pc_type_update dec_string)"
  "find_field (partial_component_fields X) ''implementation'' =
     Some (fld pc_implementation pc_implementation_update dec_raw)"
  by (simp_all add: find_field_def partial_component_fields_def embedded_def metadata_fields_def)

lemma component_partial:
  assumes "uuid_codec_ok X" "component_encode X (Component md ins outs t impl) = Inr j"
    "metadata_reads_back X md" "data_reads_back ins" "data_reads_back outs"
  shows "\<exists>i. implementation_encode X impl = Inr i
    \<and> dec_struct (partial_component_fields X) j zero_partial_component
      = Inr \<lparr>pc_metadata = md, pc_inputs = ins, pc_outputs = outs, pc_type = t, pc_implementation = Some i\<rparr>"
proof -
  let ?rest = "[member_unless (ins = []) ''inputs'' (enc_slice data_encode ins),
       member_unless (outs = []) ''outputs'' (enc_slice data_encode outs),
       member ''type'' (Inr (enc_string t)),
       member ''implementation'' (implementation_encode X impl)]"
  obtain ms ms' where ms: "enc_members (metadata_members X md) = Inr ms" "enc_members ?rest = Inr ms'"
    and j: "j = JObj (ms @ ms')"
    using assms(2) by (auto simp: enc_struct_iff enc_members_append rbind_Inr_iff simp del: enc_members.simps)
  have laws: "field_laws pc_metadata pc_metadata_update"
    by (simp add: field_laws_def)
  have "dec_members (partial_component_fields X) (ms @ ms') zero_partial_component
    = dec_members (partial_component_fields X) ms' (zero_partial_component\<lparr>pc_metadata := md\<rparr>)"
    unfolding partial_component_fields_def
    by (rule embedded_metadata_roundtrip [OF assms(1) ms(1) assms(3) laws]) (simp add: zero_partial_component_def)
  then show ?thesis
    using ms(2) assms(4,5) data_slice_roundtrip
    by (auto simp: j dec_struct_def enc_iffs dec_member_def fld_def dec_raw_def json_simps zero_partial_component_def
        split: if_splits)
qed

lemma node_partial:
  assumes "node_encode X (Node i v u) = Inr j" "raw_reads_back u"
  shows "\<exists>n. node_value_encode X v = Inr n
    \<and> dec_struct partial_node_fields j zero_partial_node = Inr \<lparr>pn_id = i, pn_node = Some n, pn_userdata = u\<rparr>"
  using assms raw_text_roundtrip
  by (auto simp: partial_node_fields_def enc_struct_iff enc_iffs decode_simps json_simps dec_raw_def
      zero_partial_node_def split: if_splits)

lemma map_partial:
  assumes "map_encode X (MapComponent t v im om) = Inr j"
  shows "\<exists>n. node_value_encode X v = Inr n
    \<and> dec_struct partial_map_fields j zero_partial_map
      = Inr \<lparr>pm_type = t, pm_node = Some n, pm_inputMappings = im, pm_outputMappings = om\<rparr>
    \<and> dec_struct type_fields j '''' = Inr t"
  using assms edges_roundtrip
  by (auto simp: partial_map_fields_def type_fields_def enc_struct_iff enc_iffs decode_simps json_simps dec_raw_def
      zero_partial_map_def split: if_splits)

lemma conditional_partial:
  assumes "conditional_encode X (Conditional t e nt nf im om) = Inr j" "expression_reads_back e"
  shows "\<exists>n n'. node_value_encode X nt = Inr n
    \<and> (if nf = NVNil then n' = None else \<exists>f. node_value_encode X nf = Inr f \<and> n' = Some f)
    \<and> dec_struct (partial_conditional_fields X) j zero_partial_conditional
      = Inr \<lparr>pd_type = t, pd_expression = e, pd_nodeTrue = Some n, pd_nodeFalse = n', pd_inputMappings = im,
             pd_outputMappings = om\<rparr>
    \<and> dec_struct type_fields j '''' = Inr t"
  using assms edges_roundtrip expression_roundtrip
  by (auto simp: partial_conditional_fields_def type_fields_def enc_struct_iff enc_iffs decode_simps json_simps
      dec_raw_def zero_partial_conditional_def split: if_splits)

lemma graph_from_nodes:
  assumes "graph_encode X (Graph t ns es im om) = Inr j"
    and "\<And>js. nodes_encode X ns = Inr js \<Longrightarrow> nodes_decode X (JArr js) = Inr ns"
  shows "graph_decode X j zero_partial_graph [] = Inr (Graph t ns es im om)
    \<and> dec_struct type_fields j '''' = Inr t"
  using assms edges_roundtrip
  by (auto simp: partial_graph_fields_def type_fields_def enc_struct_iff enc_iffs decode_simps json_simps dec_raw_def
      zero_partial_graph_def split: if_splits)

section \<open>What stands in the place of a sub-component\<close>

text \<open>The three attempts tell apart what was encoded.\<close>

lemma object_not_reference:
  "uuid_codec_ok X \<Longrightarrow> \<exists>e. cref_UnmarshalJSON X (JObj ms) v = Inl e"
  by (cases "ParseUUIDBytes X (json_text (JObj ms))") (auto simp: cref_UnmarshalJSON_def uuid_codec_ok_def)

lemma partial_component_lookup_version [simp]:
  "find_field (partial_component_fields X) ''version'' =
     Some (fld pc_metadata pc_metadata_update (fld md_version md_version_update (dec_struct (version_fields X))))"
  "find_field (partial_component_fields X) ''uid'' =
     Some (fld pc_metadata pc_metadata_update (fld md_uid md_uid_update (cref_UnmarshalJSON X)))"
  by (simp_all add: find_field_def partial_component_fields_def embedded_def metadata_fields_def)

lemma crefversion_not_component:
  assumes "uuid_codec_ok X" "crefversion_encode X v = Inr j"
  shows "\<exists>e. component_UnmarshalJSON X j = Inl e"
  using assms
  by (auto simp: component_UnmarshalJSON.simps crefversion_encode_def enc_struct_iff enc_iffs cref_MarshalJSON_iff
      dec_struct_def dec_member_def fld_def json_simps zero_partial_component_def enc_int_def split: if_splits)

lemma crefversion_roundtrip_into:
  assumes "uuid_codec_ok X" "crefversion_encode X c = Inr j" "int64 (crv_version c)"
    and "crv_version c = 0 \<Longrightarrow> crv_version c' = 0"
  shows "crefversion_decode X j c' = Inr c"
  using assms
  by (cases c; cases c')
    (auto simp: crefversion_encode_def crefversion_decode_def crefversion_fields_def enc_struct_iff
    enc_iffs cref_MarshalJSON_iff decode_simps json_simps split: if_splits)

lemma crefversion_value_roundtrip:
  assumes "uuid_codec_ok X" "crefversion_encode X c = Inr j" "int64 (crv_version c)"
    and "crv_version c = 0 \<Longrightarrow> crv_version c' = 0"
  shows "node_value_decode X (Some j) c' = Inr (NVCRefVersion c)"
proof -
  obtain ms where j: "j = JObj ms" using assms(2) by (auto simp: crefversion_encode_def enc_struct_iff)
  obtain e where "cref_UnmarshalJSON X j 0 = Inl e" using object_not_reference [OF assms(1)] j by blast
  then show ?thesis
    using crefversion_not_component [OF assms(1,2)] crefversion_roundtrip_into [OF assms] by auto
qed

lemma component_encode_object: "component_encode X c = Inr j \<Longrightarrow> \<exists>ms. j = JObj ms"
  by (cases c) (auto simp: enc_struct_iff)

lemma component_value_roundtrip:
  assumes "uuid_codec_ok X" "component_encode X c = Inr j" "component_UnmarshalJSON X j = Inr c"
  shows "node_value_decode X (Some j) v = Inr (NVComponent c)"
proof -
  obtain ms where j: "j = JObj ms" using component_encode_object [OF assms(2)] by blast
  obtain e where "cref_UnmarshalJSON X j 0 = Inl e" using object_not_reference [OF assms(1)] j by blast
  with assms(3) show ?thesis by simp
qed

section \<open>Components\<close>

definition version_not_stale :: "node_value \<Rightarrow> cref_version \<Rightarrow> bool" where
  "version_not_stale v crefver \<longleftrightarrow>
     (case v of NVCRefVersion r \<Rightarrow> crv_version r = 0 \<longrightarrow> crv_version crefver = 0 | _ \<Rightarrow> True)"

lemma component_type [simp]:
  "BrickType \<noteq> AnyType" "BrickType \<noteq> GraphType" "BrickType \<noteq> MapType" "BrickType \<noteq> ConditionalType"
  "AnyType \<noteq> BrickType" "AnyType \<noteq> GraphType" "AnyType \<noteq> MapType" "AnyType \<noteq> ConditionalType"
  "GraphType \<noteq> BrickType" "GraphType \<noteq> AnyType" "GraphType \<noteq> MapType" "GraphType \<noteq> ConditionalType"
  "MapType \<noteq> BrickType" "MapType \<noteq> AnyType" "MapType \<noteq> GraphType" "MapType \<noteq> ConditionalType"
  "ConditionalType \<noteq> BrickType" "ConditionalType \<noteq> AnyType" "ConditionalType \<noteq> GraphType" "ConditionalType \<noteq> MapType"
  by (simp_all add: component_types)

text \<open>An implementation decodes as its type says.\<close>

definition implementation_decodes :: "codec \<Rightarrow> json \<Rightarrow> implementation \<Rightarrow> bool" where
  "implementation_decodes X i impl \<longleftrightarrow>
     (case impl of
        ImplNil \<Rightarrow> False
      | ImplAny t \<Rightarrow> t = AnyType \<and> dec_struct type_fields i '''' = Inr AnyType
      | ImplBrick b \<Rightarrow> dec_struct type_fields i '''' = Inr BrickType \<and> dec_struct (brick_fields X) i zero_brick = Inr b
      | ImplGraph g \<Rightarrow> dec_struct type_fields i '''' = Inr GraphType \<and> graph_decode X i zero_partial_graph [] = Inr g
      | ImplMap m \<Rightarrow> dec_struct type_fields i '''' = Inr MapType \<and> map_UnmarshalJSON X i = Inr m
      | ImplConditional c \<Rightarrow>
          dec_struct type_fields i '''' = Inr ConditionalType \<and> conditional_UnmarshalJSON X i = Inr c)"

lemma component_from_implementation:
  assumes "dec_struct (partial_component_fields X) j zero_partial_component = Inr p"
    "pc_implementation p = Some i" "implementation_decodes X i impl"
  shows "component_UnmarshalJSON X j
    = Inr (Component (pc_metadata p) (pc_inputs p) (pc_outputs p) (pc_type p) impl)"
  using assms by (cases impl) (auto simp: component_UnmarshalJSON.simps implementation_decodes_def)

lemma component_roundtrip_all:
  assumes X: "uuid_codec_ok X"
  shows "component_encode X c = Inr j \<Longrightarrow> component_reads_back X c \<Longrightarrow> component_UnmarshalJSON X j = Inr c"
    and "implementation_encode X impl = Inr i \<Longrightarrow> implementation_reads_back X impl \<Longrightarrow> implementation_decodes X i impl"
    and "graph_encode X g = Inr jg \<Longrightarrow> implementation_reads_back X (ImplGraph g) \<Longrightarrow>
      implementation_decodes X jg (ImplGraph g)"
    and "nodes_encode X ns = Inr js \<Longrightarrow> nodes_read_back X ns \<Longrightarrow> nodes_decode X (JArr js) = Inr ns"
    and "node_encode X n = Inr jn \<Longrightarrow> nodes_read_back X [n] \<Longrightarrow> node_UnmarshalJSON X jn = Inr n"
    and "\<And>crefver. node_value_encode X v = Inr jv \<Longrightarrow> node_value_reads_back X v \<Longrightarrow> version_not_stale v crefver \<Longrightarrow>
      node_value_decode X (Some jv) crefver = Inr v"
    and "map_encode X m = Inr jm \<Longrightarrow> implementation_reads_back X (ImplMap m) \<Longrightarrow> implementation_decodes X jm (ImplMap m)"
    and "conditional_encode X k = Inr jk \<Longrightarrow> implementation_reads_back X (ImplConditional k) \<Longrightarrow>
      implementation_decodes X jk (ImplConditional k)"
  using X
proof (induction X c and X impl and X g and X ns and X n and X v and X m and X k
    arbitrary: j and i and jg and js and jn and jv and jm and jk
    rule: component_encode_implementation_encode_graph_encode_nodes_encode_node_encode_node_value_encode_map_encode_conditional_encode.induct)
  case (1 X md ins outs t impl)
  have rb: "metadata_reads_back X md" "data_reads_back ins" "data_reads_back outs" "implementation_reads_back X impl"
    using 1(3) by simp_all
  obtain i where "implementation_encode X impl = Inr i"
    and p: "dec_struct (partial_component_fields X) j zero_partial_component
      = Inr \<lparr>pc_metadata = md, pc_inputs = ins, pc_outputs = outs, pc_type = t, pc_implementation = Some i\<rparr>"
    using component_partial [OF 1(4) 1(2) rb(1-3)] by blast
  with 1(1) 1(4) rb(4) have "implementation_decodes X i impl" by blast
  from component_from_implementation [OF p _ this] show ?case by simp
next
  case (3 X t)
  then show ?case
    by (auto simp: implementation_decodes_def enc_struct_iff enc_iffs decode_simps json_simps type_fields_def)
next
  case (4 X b)
  then show ?case using brick_roundtrip [of X b i] by (auto simp: implementation_decodes_def)
next
  case (8 X t ns es im om)
  then show ?case using graph_from_nodes [of X t ns es im om jg] by (auto simp: implementation_decodes_def)
next
  case (10 X n ns)
  then show ?case by (cases n) (auto simp: go_simps)
next
  case (11 X i v u)
  have rb: "raw_reads_back u" "node_value_reads_back X v" using 11(3) by simp_all
  obtain n where n: "node_value_encode X v = Inr n"
    and p: "dec_struct partial_node_fields jn zero_partial_node = Inr \<lparr>pn_id = i, pn_node = Some n, pn_userdata = u\<rparr>"
    using node_partial [OF 11(2) rb(1)] by blast
  have "version_not_stale v zero_cref" by (simp add: version_not_stale_def zero_cref_def split: node_value.splits)
  with 11(1) [OF n rb(2) _ 11(4)] have "node_value_decode X (Some n) zero_cref = Inr v" by blast
  then show ?case by (simp add: node_UnmarshalJSON.simps p)
next
  case (13 X r)
  then show ?case by (auto simp: cref_MarshalJSON_iff json_simps)
next
  case (14 X r)
  then show ?case using crefversion_value_roundtrip by (auto simp: version_not_stale_def)
next
  case (15 X c)
  then show ?case using component_value_roundtrip by auto
next
  case (16 X t v im om)
  obtain n where n: "node_value_encode X v = Inr n"
    and p: "dec_struct partial_map_fields jm zero_partial_map
      = Inr \<lparr>pm_type = t, pm_node = Some n, pm_inputMappings = im, pm_outputMappings = om\<rparr>"
      "dec_struct type_fields jm '''' = Inr t"
    using map_partial [OF 16(2)] by blast
  have "version_not_stale v zero_cref" by (simp add: version_not_stale_def zero_cref_def split: node_value.splits)
  with 16(1) [OF n _ _ 16(4)] 16(3) have "node_value_decode X (Some n) zero_cref = Inr v" by simp
  then show ?case using 16(3) p by (simp add: implementation_decodes_def map_UnmarshalJSON.simps)
next
  case (17 X t e nt nf im om)
  have rb: "t = ConditionalType" "expression_reads_back e" "node_value_reads_back X nt" "\<not> stale_version nt nf"
    "nf \<noteq> NVNil \<Longrightarrow> node_value_reads_back X nf"
    using 17(4) by auto
  obtain n n' where n: "node_value_encode X nt = Inr n"
    and n': "if nf = NVNil then n' = None else \<exists>f. node_value_encode X nf = Inr f \<and> n' = Some f"
    and p: "dec_struct (partial_conditional_fields X) jk zero_partial_conditional
      = Inr \<lparr>pd_type = t, pd_expression = e, pd_nodeTrue = Some n, pd_nodeFalse = n', pd_inputMappings = im,
             pd_outputMappings = om\<rparr>"
      "dec_struct type_fields jk '''' = Inr t"
    using conditional_partial [OF 17(3) rb(2)] by blast
  have "version_not_stale nt zero_cref" by (simp add: version_not_stale_def zero_cref_def split: node_value.splits)
  with 17(1) [OF n rb(3) _ 17(5)] have t: "node_value_decode X (Some n) zero_cref = Inr nt" by blast
  let ?v = "case nt of NVCRefVersion v \<Rightarrow> v | _ \<Rightarrow> zero_cref"
  have "version_not_stale nf ?v"
    using rb(4) by (auto simp: version_not_stale_def stale_version_def zero_cref_def split: node_value.splits)
  then have f: "nf \<noteq> NVNil \<Longrightarrow> \<exists>f. n' = Some f \<and> node_value_decode X (Some f) ?v = Inr nf"
    using n' 17(2) rb(5) 17(5) by auto
  then show ?case using rb(1) p t n'
    by (cases "nf = NVNil") (auto simp: implementation_decodes_def conditional_UnmarshalJSON.simps)
qed simp_all

section \<open>Workflows and jobs\<close>

lemma component_field_roundtrip:
  "uuid_codec_ok X \<Longrightarrow> component_encode X c = Inr j \<Longrightarrow> component_reads_back X c \<Longrightarrow> component_field X j c' = Inr c"
  unfolding component_field_def by (rule component_roundtrip_all(1))

lemma workflow_lookup [simp]:
  "find_field (workflow_fields X) ''component'' = Some (fld wf_component wf_component_update (component_field X))"
  "find_field (workflow_fields X) ''type'' = Some (fld wf_type wf_type_update dec_string)"
  "find_field (workflow_fields X) ''workspace'' = Some (fld wf_workspace wf_workspace_update dec_string)"
  by (simp_all add: find_field_def workflow_fields_def embedded_def metadata_fields_def)

lemma workflow_roundtrip:
  assumes "uuid_codec_ok X" "workflow_encode X w = Inr j" "workflow_reads_back X w"
  shows "dec_struct (workflow_fields X) j zero_workflow = Inr w"
proof -
  let ?rest = "[member ''component'' (component_encode X (wf_component w)),
       member ''type'' (Inr (enc_string (wf_type w))),
       member ''workspace'' (Inr (enc_string (wf_workspace w)))]"
  obtain ms ms' where ms: "enc_members (metadata_members X (wf_metadata w)) = Inr ms" "enc_members ?rest = Inr ms'"
    and j: "j = JObj (ms @ ms')"
    using assms(2) by (auto simp: workflow_encode_def enc_struct_iff enc_members_append rbind_Inr_iff simp del: enc_members.simps)
  have rb: "metadata_reads_back X (wf_metadata w)" "component_reads_back X (wf_component w)"
    using assms(3) by (simp_all add: workflow_reads_back_def)
  have "dec_members (workflow_fields X) (ms @ ms') zero_workflow
    = dec_members (workflow_fields X) ms' (zero_workflow\<lparr>wf_metadata := wf_metadata w\<rparr>)"
    unfolding workflow_fields_def
    by (rule embedded_metadata_roundtrip [OF assms(1) ms(1) rb(1)]) (simp_all add: field_laws_def zero_workflow_def)
  then show ?thesis
    using ms(2) component_field_roundtrip [OF assms(1) _ rb(2)]
    by (cases w) (auto simp: j dec_struct_def enc_iffs dec_member_def fld_def json_simps zero_workflow_def)
qed

lemma job_lookup [simp]:
  "find_field (job_fields X) ''type'' = Some (fld job_type job_type_update dec_string)"
  "find_field (job_fields X) ''inputValues'' =
     Some (fld job_inputValues job_inputValues_update (dec_slice value_UnmarshalJSON zero_value))"
  "find_field (job_fields X) ''workflow'' =
     Some (fld job_workflow job_workflow_update (dec_struct (workflow_fields X)))"
  "find_field (job_fields X) ''events'' = Some (fld job_events job_events_update (dec_slice (EventDecode X) ''''))"
  by (simp_all add: find_field_def job_fields_def embedded_def metadata_fields_def)

lemma job_roundtrip:
  assumes "uuid_codec_ok X" "job_encode X b = Inr j" "job_reads_back X b"
  shows "dec_struct (job_fields X) j zero_job = Inr b"
proof -
  let ?rest = "[member ''type'' (Inr (enc_string (job_type b))),
       member_unless (job_inputValues b = []) ''inputValues'' (enc_slice value_encode (job_inputValues b)),
       member ''workflow'' (workflow_encode X (job_workflow b)),
       member_unless (job_events b = []) ''events'' (enc_slice (EventEncode X) (job_events b))]"
  obtain ms ms' where ms: "enc_members (metadata_members X (job_metadata b)) = Inr ms" "enc_members ?rest = Inr ms'"
    and j: "j = JObj (ms @ ms')"
    using assms(2) by (auto simp: job_encode_def enc_struct_iff enc_members_append rbind_Inr_iff simp del: enc_members.simps)
  have rb: "metadata_reads_back X (job_metadata b)" "workflow_reads_back X (job_workflow b)"
    "list_all (\<lambda>v. jv_value v \<noteq> IVNil) (job_inputValues b)" "events_read_back X (job_events b)"
    using assms(3) by (simp_all add: job_reads_back_def)
  have "dec_members (job_fields X) (ms @ ms') zero_job
    = dec_members (job_fields X) ms' (zero_job\<lparr>job_metadata := job_metadata b\<rparr>)"
    unfolding job_fields_def
    by (rule embedded_metadata_roundtrip [OF assms(1) ms(1) rb(1)]) (simp_all add: field_laws_def zero_job_def)
  then show ?thesis
    using ms(2) workflow_roundtrip [OF assms(1) _ rb(2)] values_roundtrip [OF _ rb(3)] events_roundtrip [OF _ rb(4)]
    by (cases b) (auto simp: j dec_struct_def enc_iffs dec_member_def fld_def json_simps zero_job_def split: if_splits)
qed

end
