(* ===== verification/Json_Text.thy ===== *)
theory Json_Text
  imports Json_Roundtrip
begin

text \<open>
  Values that come back are encoded without an error, and their documents are valid JSON texts, so
  that the round trips hold for the texts as well.
\<close>

section \<open>Encoding succeeds\<close>

definition encodes :: "json res \<Rightarrow> bool" where
  "encodes r \<longleftrightarrow> (\<exists>j. r = Inr j \<and> json_ok j)"

definition encodes_members :: "members res \<Rightarrow> bool" where
  "encodes_members r \<longleftrightarrow> (\<exists>ms. r = Inr ms \<and> list_all (\<lambda>m. body_ok (fst m) \<and> json_ok (snd m)) ms)"

named_theorems encodes_rules "which encoders succeed"

lemma enc_members_encodes: "list_all encodes_members rs \<Longrightarrow> encodes_members (enc_members rs)"
  by (induction rs) (auto simp: encodes_members_def)

lemma enc_struct_encodes [encodes_rules]: "list_all encodes_members rs \<Longrightarrow> encodes (enc_struct rs)"
  using enc_members_encodes [of rs] by (auto simp: encodes_def encodes_members_def enc_struct_def)

lemma member_encodes [encodes_rules]:
  "body_ok k \<Longrightarrow> encodes r \<Longrightarrow> encodes_members (member k r)"
  "body_ok k \<Longrightarrow> (\<not> b \<Longrightarrow> encodes r) \<Longrightarrow> encodes_members (member_unless b k r)"
  by (auto simp: encodes_def encodes_members_def member_def member_unless_def)

lemma leaves_encode [encodes_rules, simp]: "encodes (Inr (enc_string s))" "encodes (Inr (enc_int i))" "encodes (Inr JNull)"
  by (simp_all add: encodes_def)

lemma enc_elements_encodes:
  "(\<And>x. x \<in> set xs \<Longrightarrow> encodes (enc x)) \<Longrightarrow> \<exists>js. enc_elements enc xs = Inr js \<and> list_all json_ok js"
proof (induction xs)
  case (Cons x xs)
  then obtain j js where "enc x = Inr j" "json_ok j" "enc_elements enc xs = Inr js" "list_all json_ok js"
    by (metis encodes_def list.set_intros)
  then show ?case by simp
qed simp

lemma enc_slice_encodes [encodes_rules]: "(\<And>x. x \<in> set xs \<Longrightarrow> encodes (enc x)) \<Longrightarrow> encodes (enc_slice enc xs)"
  using enc_elements_encodes [of xs enc] by (auto simp: enc_slice_def encodes_def)

lemma keys_ok [simp]:
  "body_ok ''version''" "body_ok ''uid''" "body_ok ''current''" "body_ok ''tags''" "body_ok ''previous''" "body_ok ''oid''"
  "body_ok ''email''" "body_ok ''name''" "body_ok ''description''" "body_ok ''modifiedBy''" "body_ok ''timestamp''"
  "body_ok ''mediatype''" "body_ok ''type''" "body_ok ''userdata''" "body_ok ''node''" "body_ok ''port''" "body_ok ''source''"
  "body_ok ''target''" "body_ok ''left''" "body_ok ''right''" "body_ok ''operator''" "body_ok ''prefix''" "body_ok ''suffix''"
  "body_ok ''file''" "body_ok ''volume''" "body_ok ''value''" "body_ok ''container''" "body_ok ''args''" "body_ok ''results''"
  "body_ok ''inputs''" "body_ok ''outputs''" "body_ok ''implementation''" "body_ok ''nodes''" "body_ok ''edges''"
  "body_ok ''inputMappings''" "body_ok ''outputMappings''" "body_ok ''id''" "body_ok ''expression''" "body_ok ''nodeTrue''"
  "body_ok ''nodeFalse''" "body_ok ''component''" "body_ok ''workspace''" "body_ok ''inputValues''" "body_ok ''workflow''"
  "body_ok ''events''"
  by (simp_all add: body_ok_def)

section \<open>Leaves\<close>

lemma cref_encodes [encodes_rules]: "uuid_codec_ok X \<Longrightarrow> encodes (cref_MarshalJSON X u)"
  by (simp add: encodes_def cref_MarshalJSON_def uuid_codec_ok_def)

lemma crefversion_encodes [encodes_rules]: "uuid_codec_ok X \<Longrightarrow> encodes (crefversion_encode X v)"
  unfolding crefversion_encode_def by (rule encodes_rules) (simp add: encodes_rules)

lemma strings_encode [encodes_rules]: "encodes (enc_slice (\<lambda>t. Inr (enc_string t)) ts)"
  by (rule encodes_rules) simp

lemma version_encodes [encodes_rules]: "uuid_codec_ok X \<Longrightarrow> encodes (version_encode X v)"
  unfolding version_encode_def by (rule encodes_rules) (simp add: encodes_rules)

lemma modifiedby_encodes [encodes_rules]: "encodes (modifiedby_encode m)"
  unfolding modifiedby_encode_def by (rule encodes_rules) (simp add: encodes_rules)

lemma time_encodes [encodes_rules]: "time_reads_back X t \<Longrightarrow> encodes (time_encode X t)"
  by (auto simp: encodes_def time_encode_def time_reads_back_def split: sum.splits)

lemma raw_text_encodes [encodes_rules]: "raw_reads_back s \<Longrightarrow> s \<noteq> '''' \<Longrightarrow> encodes (enc_raw_text s)"
  by (auto simp: encodes_def raw_reads_back_def split: sum.splits)

lemma data_encodes [encodes_rules]: "raw_reads_back (dt_userdata d) \<Longrightarrow> encodes (data_encode d)"
  unfolding data_encode_def by (rule encodes_rules) (simp add: encodes_rules)

lemma data_slice_encodes [encodes_rules]: "data_reads_back ds \<Longrightarrow> encodes (enc_slice data_encode ds)"
  by (rule encodes_rules) (simp add: data_reads_back_def list_all_iff encodes_rules)

lemma port_encodes [encodes_rules]: "encodes (port_encode p)"
  unfolding port_encode_def by (rule encodes_rules) (simp add: encodes_rules)

lemma edge_encodes [encodes_rules]: "encodes (edge_encode e)"
  unfolding edge_encode_def by (rule encodes_rules) (simp add: encodes_rules)

lemma edges_encode [encodes_rules]: "encodes (enc_edges es)"
  unfolding enc_edges_def by (rule encodes_rules) (simp add: encodes_rules)

lemma side_encodes [encodes_rules]: "side_reads_back v \<Longrightarrow> encodes (side_encode v)"
  by (cases v) (simp_all add: side_reads_back_def side_encode_def encodes_rules)

lemma expression_encodes [encodes_rules]: "expression_reads_back e \<Longrightarrow> encodes (expression_encode e)"
  unfolding expression_encode_def by (rule encodes_rules) (simp add: expression_reads_back_def encodes_rules)

lemma target_encodes [encodes_rules]: "encodes (target_encode t)"
  unfolding target_encode_def by (rule encodes_rules) (simp add: encodes_rules)

lemma argument_source_encodes [encodes_rules]: "encodes (argument_source_encode s)"
  by (cases s) (simp_all add: argument_source_encode_def encodes_rules)

lemma argument_encodes [encodes_rules]: "encodes (argument_encode a)"
  unfolding argument_encode_def by (rule encodes_rules) (simp add: encodes_rules)

lemma result_source_encodes [encodes_rules]: "encodes (result_source_encode s)"
  by (cases s) (simp_all add: result_source_encode_def encodes_rules)

lemma result_encodes [encodes_rules]: "encodes (result_encode r)"
  unfolding result_encode_def by (rule encodes_rules) (simp add: encodes_rules)

lemma input_value_encodes [encodes_rules]: "encodes (input_value_encode v)"
  by (cases v) (simp_all add: input_value_encode_def encodes_rules)

lemma value_encodes [encodes_rules]: "encodes (value_encode v)"
  unfolding value_encode_def by (rule encodes_rules) (simp add: encodes_rules)

lemma metadata_encodes [encodes_rules]:
  "uuid_codec_ok X \<Longrightarrow> metadata_reads_back X m \<Longrightarrow> list_all encodes_members (metadata_members X m)"
  by (simp add: metadata_members_def metadata_reads_back_def encodes_rules)

lemma container_encodes [encodes_rules]:
  "container_reads_back X c \<Longrightarrow> encodes (case c of None \<Rightarrow> Inr JNull | Some c' \<Rightarrow> ContainerEncode X c')"
  by (auto simp: container_reads_back_def encodes_def split: option.splits sum.splits)

lemma brick_encodes [encodes_rules]:
  "implementation_reads_back X (ImplBrick b) \<Longrightarrow> encodes (brick_encode X b)"
  unfolding brick_encode_def by (rule encodes_rules) (simp add: encodes_rules)

section \<open>Components, workflows and jobs\<close>

lemma component_encodes_all:
  assumes X: "uuid_codec_ok X"
  shows "component_reads_back X c \<Longrightarrow> encodes (component_encode X c)"
    and "implementation_reads_back X impl \<Longrightarrow> encodes (implementation_encode X impl)"
    and "implementation_reads_back X (ImplGraph g) \<Longrightarrow> encodes (graph_encode X g)"
    and "nodes_read_back X ns \<Longrightarrow> \<exists>js. nodes_encode X ns = Inr js \<and> list_all json_ok js"
    and "nodes_read_back X [n] \<Longrightarrow> encodes (node_encode X n)"
    and "v = NVNil \<or> node_value_reads_back X v \<Longrightarrow> encodes (node_value_encode X v)"
    and "implementation_reads_back X (ImplMap m) \<Longrightarrow> encodes (map_encode X m)"
    and "implementation_reads_back X (ImplConditional k) \<Longrightarrow> encodes (conditional_encode X k)"
  using X
proof (induction X c and X impl and X g and X ns and X n and X v and X m and X k
    rule: component_encode_implementation_encode_graph_encode_nodes_encode_node_encode_node_value_encode_map_encode_conditional_encode.induct)
  case (8 X t ns es im om)
  then obtain js where "nodes_encode X ns = Inr js" "list_all json_ok js" by auto
  then have "encodes (rbind (nodes_encode X ns) (\<lambda>js. Inr (JArr js)))" by (simp add: encodes_def)
  then show ?case by (simp add: encodes_rules)
next
  case (10 X n ns)
  have rb: "nodes_read_back X [n]" "nodes_read_back X ns" using 10(3) by (cases n; simp)+
  obtain j where j: "node_encode X n = Inr j" "json_ok j" using 10(1) rb(1) 10(4) by (auto simp: encodes_def)
  with 10(2) [OF j(1) rb(2) 10(4)] show ?case by auto
next
  case (17 X t e nt nf im om)
  then show ?case by (auto simp: encodes_rules)
qed (auto simp: encodes_rules)

lemma workflow_encodes:
  "uuid_codec_ok X \<Longrightarrow> workflow_reads_back X w \<Longrightarrow> encodes (workflow_encode X w)"
  unfolding workflow_encode_def
  by (rule encodes_rules) (simp add: workflow_reads_back_def encodes_rules component_encodes_all(1))

lemma job_encodes:
  assumes "uuid_codec_ok X" "job_reads_back X b"
  shows "encodes (job_encode X b)"
proof -
  have "encodes (EventEncode X e)" if "e \<in> set (job_events b)" for e
    using assms(2) that
    by (cases "EventEncode X e") (auto simp: job_reads_back_def events_read_back_def list_all_iff encodes_def)
  then have "encodes (enc_slice (EventEncode X) (job_events b))" by (rule encodes_rules)
  then show ?thesis
    unfolding job_encode_def using assms
    by (intro encodes_rules) (simp add: job_reads_back_def encodes_rules workflow_encodes)
qed

section \<open>Round trips of documents\<close>

lemma document_roundtrip:
  assumes "encodes (enc a)" "\<And>j. enc a = Inr j \<Longrightarrow> dec j z = Inr a"
  shows "\<exists>doc. json_Marshal enc a = Inr doc \<and> json_Unmarshal dec doc z = Inr a"
proof -
  obtain j where j: "enc a = Inr j" "json_ok j" using assms(1) by (auto simp: encodes_def)
  with assms(2) [OF j(1)] parse_json_text [OF j(2)] show ?thesis
    by (simp add: json_Marshal_def json_Unmarshal_def)
qed

end
