(* ===== verification/Json_Types.thy ===== *)
theory Json_Types
  imports Json_Text
begin

text \<open>
  What a decoded component looks like: its implementation is of the kind its type names, and the
  places that hold an interface value hold one of the types the program knows, at every depth.
\<close>

section \<open>Well-typed components\<close>

definition typed_argument :: "argument \<Rightarrow> bool" where
  "typed_argument a \<longleftrightarrow> arg_source a \<noteq> SrcNil"

definition typed_result :: "brick_result \<Rightarrow> bool" where
  "typed_result r \<longleftrightarrow> res_source r \<noteq> ResNil \<and> res_source r \<noteq> ResVolume ''''"

text \<open>A conditional without an expression has both sides nil.\<close>

definition typed_expression :: "expression \<Rightarrow> bool" where
  "typed_expression e \<longleftrightarrow> (ex_left e = EVNil \<longleftrightarrow> ex_right e = EVNil)"

definition impl_type :: "implementation \<Rightarrow> string" where
  "impl_type i =
     (case i of
        ImplNil \<Rightarrow> ''''
      | ImplAny t \<Rightarrow> t
      | ImplBrick b \<Rightarrow> br_type b
      | ImplGraph g \<Rightarrow> g_type g
      | ImplMap m \<Rightarrow> m_type m
      | ImplConditional c \<Rightarrow> c_type c)"

definition impl_kind :: "implementation \<Rightarrow> string" where
  "impl_kind i =
     (case i of
        ImplNil \<Rightarrow> ''nil''
      | ImplAny t \<Rightarrow> AnyType
      | ImplBrick b \<Rightarrow> BrickType
      | ImplGraph g \<Rightarrow> GraphType
      | ImplMap m \<Rightarrow> MapType
      | ImplConditional c \<Rightarrow> ConditionalType)"

fun typed_component :: "component \<Rightarrow> bool"
  and typed_implementation :: "implementation \<Rightarrow> bool"
  and typed_nodes :: "node list \<Rightarrow> bool"
  and typed_value :: "node_value \<Rightarrow> bool" where
  "typed_component (Component md ins outs t impl) \<longleftrightarrow>
     impl_type impl = impl_kind impl \<and> typed_implementation impl"
| "typed_implementation ImplNil \<longleftrightarrow> False"
| "typed_implementation (ImplAny t) \<longleftrightarrow> True"
| "typed_implementation (ImplBrick b) \<longleftrightarrow> list_all typed_argument (br_args b) \<and> list_all typed_result (br_results b)"
| "typed_implementation (ImplGraph (Graph t ns es im om)) \<longleftrightarrow> typed_nodes ns"
| "typed_implementation (ImplMap (MapComponent t v im om)) \<longleftrightarrow> typed_value v"
| "typed_implementation (ImplConditional (Conditional t e nt nf im om)) \<longleftrightarrow>
     typed_expression e \<and> typed_value nt \<and> (nf = NVNil \<or> typed_value nf)"
| "typed_nodes [] \<longleftrightarrow> True"
| "typed_nodes (Node i v u # ns) \<longleftrightarrow> typed_value v \<and> typed_nodes ns"
| "typed_value NVNil \<longleftrightarrow> False"
| "typed_value (NVReference r) \<longleftrightarrow> True"
| "typed_value (NVCRefVersion v) \<longleftrightarrow> True"
| "typed_value (NVComponent c) \<longleftrightarrow> typed_component c"

section \<open>The type is read twice\<close>

text \<open>
  The implementation is decoded once for its type alone and once as what the type says. Both passes
  look the same key up, so they agree.
\<close>

definition distinct_folds :: "'a fields \<Rightarrow> bool" where
  "distinct_folds fs \<longleftrightarrow> distinct (map (fold_key \<circ> fst) fs)"

lemma map_of_fold:
  assumes "distinct_folds fs" "map_of fs k = Some dec"
  shows "map_of (map (\<lambda>(n, dec). (fold_key n, dec)) fs) (fold_key k) = Some dec"
proof (rule map_of_is_SomeI)
  show "distinct (map fst (map (\<lambda>(n, dec). (fold_key n, dec)) fs))"
    using assms(1) by (simp add: distinct_folds_def comp_def split_def)
  show "(fold_key k, dec) \<in> set (map (\<lambda>(n, dec). (fold_key n, dec)) fs)"
    using map_of_SomeD [OF assms(2)] by force
qed

lemma find_field_fold:
  "distinct_folds fs \<Longrightarrow> find_field fs k = map_of (map (\<lambda>(n, dec). (fold_key n, dec)) fs) (fold_key k)"
  by (auto simp: find_field_def map_of_fold split: option.splits)

text \<open>A field that every other field leaves alone is what decoding for it alone gives.\<close>

lemma field_alone:
  assumes "dec_struct fs j a = Inr b" "dec_struct [(k, dec)] j (sel a) = Inr t" "fold_key k = k"
    and folds: "distinct_folds fs" and key: "map_of fs k = Some (fld sel upd dec)"
    and laws: "field_laws sel upd"
    and others: "\<And>n d v x y. (n, d) \<in> set fs \<Longrightarrow> n \<noteq> k \<Longrightarrow> d v x = Inr y \<Longrightarrow> sel y = sel x"
  shows "sel b = t"
proof (cases j)
  case (JObj ms)
  have "dec_members fs ms a = Inr b \<Longrightarrow> dec_members [(k, dec)] ms (sel a) = Inr t \<Longrightarrow> sel b = t"
  proof (induction ms arbitrary: a)
    case (Cons m ms)
    let ?q = "unquote (fst m)"
    obtain x where x: "dec_member fs m a = Inr x" "dec_members fs ms x = Inr b"
      using Cons.prems(1) by (auto simp: go_simps)
    obtain s where s: "dec_member [(k, dec)] m (sel a) = Inr s" "dec_members [(k, dec)] ms s = Inr t"
      using Cons.prems(2) by (auto simp: go_simps)
    have "sel x = s"
    proof (cases "fold_key ?q = k")
      case True
      then have "find_field fs ?q = Some (fld sel upd dec)"
        using map_of_fold [OF folds key] assms(3) by (simp add: find_field_fold [OF folds])
      moreover have "find_field [(k, dec)] ?q = Some dec" using True assms(3) by (simp add: find_field_def)
      ultimately have "dec_member fs m a = fld sel upd dec (snd m) a" "dec_member [(k, dec)] m (sel a) = dec (snd m) (sel a)"
        by (simp_all add: dec_member_def)
      with x(1) s(1) laws show ?thesis by (auto simp: fld_iff field_laws_def)
    next
      case False
      then have "find_field [(k, dec)] ?q = None" using assms(3) by (auto simp: find_field_def)
      then have "s = sel a" using s(1) by (simp add: dec_member_def)
      moreover have "sel x = sel a"
      proof (cases "find_field fs ?q")
        case None
        then show ?thesis using x(1) by (simp add: dec_member_def)
      next
        case (Some d)
        then obtain n where n: "(n, d) \<in> set fs" "fold_key n = fold_key ?q"
          by (auto simp: find_field_fold [OF folds] dest!: map_of_SomeD)
        with False assms(3) have "n \<noteq> k" by auto
        with others [OF n(1)] x(1) Some show ?thesis by (simp add: dec_member_def)
      qed
      ultimately show ?thesis by simp
    qed
    with Cons.IH [OF x(2)] s(2) show ?case by simp
  qed simp
  with assms(1,2) JObj show ?thesis by (simp add: dec_struct_def)
qed (use assms in \<open>auto simp: dec_struct_def\<close>)

lemma brick_type:
  assumes "dec_struct (brick_fields X) j zero_brick = Inr b" "dec_struct type_fields j '''' = Inr t"
  shows "br_type b = t"
proof (rule field_alone [where sel = br_type and upd = br_type_update and k = "''type''" and dec = dec_string])
  show "dec_struct [(''type'', dec_string)] j (br_type zero_brick) = Inr t"
    using assms(2) by (simp add: type_fields_def zero_brick_def)
qed (use assms(1) in \<open>auto simp: brick_fields_def distinct_folds_def field_laws_def fld_iff\<close>)

lemma map_type:
  assumes "map_UnmarshalJSON X j = Inr m" "dec_struct type_fields j '''' = Inr t"
  shows "m_type m = t"
proof -
  obtain p where p: "dec_struct partial_map_fields j zero_partial_map = Inr p" and "m_type m = pm_type p"
    using assms(1) by (auto simp: map_UnmarshalJSON.simps go_simps)
  moreover have "pm_type p = t"
  proof (rule field_alone [OF p, where sel = pm_type and upd = pm_type_update and k = "''type''" and dec = dec_string])
    show "dec_struct [(''type'', dec_string)] j (pm_type zero_partial_map) = Inr t"
      using assms(2) by (simp add: type_fields_def zero_partial_map_def)
  qed (auto simp: partial_map_fields_def distinct_folds_def field_laws_def fld_iff)
  ultimately show ?thesis by simp
qed

lemma conditional_type:
  assumes "conditional_UnmarshalJSON X j = Inr c" "dec_struct type_fields j '''' = Inr t"
  shows "c_type c = t"
proof -
  obtain p where p: "dec_struct (partial_conditional_fields X) j zero_partial_conditional = Inr p"
    and "c_type c = pd_type p"
    using assms(1) by (auto simp: conditional_UnmarshalJSON.simps go_simps)
  moreover have "pd_type p = t"
  proof (rule field_alone [OF p, where sel = pd_type and upd = pd_type_update and k = "''type''" and dec = dec_string])
    show "dec_struct [(''type'', dec_string)] j (pd_type zero_partial_conditional) = Inr t"
      using assms(2) by (simp add: type_fields_def zero_partial_conditional_def)
  qed (auto simp: partial_conditional_fields_def distinct_folds_def field_laws_def fld_iff)
  ultimately show ?thesis by simp
qed

text \<open>A graph is decoded with its nodes in between; its other fields are those of a struct.\<close>

lemma graph_decode_partial:
  "graph_decode X (JObj ms) g ns = Inr g' \<Longrightarrow>
     \<exists>p. dec_struct (partial_graph_fields @ [(''nodes'', \<lambda>j g. Inr g)]) (JObj ms) g = Inr p \<and> g_type g' = pg_type p"
proof (induction ms arbitrary: g ns)
  case (Cons m ms)
  let ?fs = "partial_graph_fields @ [(''nodes'', \<lambda>j g. Inr g)]"
  have folds: "distinct_folds ?fs" "distinct_folds partial_graph_fields"
    by (simp_all add: distinct_folds_def partial_graph_fields_def)
  show ?case
  proof (cases "fold_key (unquote (fst m)) = ''nodes''")
    case True
    then have "dec_member ?fs m g = Inr g"
      by (simp add: dec_member_def find_field_fold [OF folds(1)]) (simp add: partial_graph_fields_def)
    moreover obtain ns' where "graph_decode X (JObj ms) g ns' = Inr g'"
      using Cons.prems True by (auto simp: go_simps split: json.splits)
    ultimately show ?thesis using Cons.IH by (simp add: dec_struct_def)
  next
    case False
    then obtain h where h: "dec_member partial_graph_fields m g = Inr h" "graph_decode X (JObj ms) h ns = Inr g'"
      using Cons.prems by (auto simp: go_simps)
    have "dec_member ?fs m g = Inr h"
      using h(1) False by (simp add: dec_member_def find_field_fold [OF folds(1)] find_field_fold [OF folds(2)] map_add_def
          split: option.splits)
    with Cons.IH [OF h(2)] show ?thesis by (simp add: dec_struct_def)
  qed
qed (auto simp: dec_struct_def)

lemma graph_type:
  assumes "graph_decode X j zero_partial_graph ns = Inr g" "dec_struct type_fields j '''' = Inr t"
  shows "g_type g = t"
proof (cases j)
  case (JObj ms)
  let ?fs = "partial_graph_fields @ [(''nodes'', \<lambda>j g. Inr g)]"
  obtain p where p: "dec_struct ?fs j zero_partial_graph = Inr p" and "g_type g = pg_type p"
    using graph_decode_partial assms(1) JObj by blast
  moreover have "pg_type p = t"
  proof (rule field_alone [OF p, where sel = pg_type and upd = pg_type_update and k = "''type''" and dec = dec_string])
    show "dec_struct [(''type'', dec_string)] j (pg_type zero_partial_graph) = Inr t"
      using assms(2) by (simp add: type_fields_def zero_partial_graph_def)
  qed (auto simp: partial_graph_fields_def distinct_folds_def field_laws_def fld_iff)
  ultimately show ?thesis by simp
qed (use assms in \<open>auto simp: dec_struct_def zero_partial_graph_def\<close>)

section \<open>Everything decoded is well typed\<close>

lemma dec_elements_all:
  "dec_elements dec zero js old = Inr xs \<Longrightarrow> (\<And>j a x. dec j a = Inr x \<Longrightarrow> P x) \<Longrightarrow> list_all P xs"
  by (induction js arbitrary: old xs) (auto simp: go_simps)

lemma dec_slice_all:
  "dec_slice dec zero j old = Inr xs \<Longrightarrow> (\<And>j a x. dec j a = Inr x \<Longrightarrow> P x) \<Longrightarrow> list_all P xs"
  by (cases j) (simp_all add: dec_slice_def dec_elements_all)

lemma argument_source_typed: "argument_source_decode raw = Inr s \<Longrightarrow> s \<noteq> SrcNil"
  by (auto simp: argument_source_decode_def split: sum.split_asm option.split_asm)

lemma argument_typed: "argument_UnmarshalJSON j a = Inr b \<Longrightarrow> typed_argument b"
  by (auto simp: argument_UnmarshalJSON_def typed_argument_def go_simps dest: argument_source_typed)

lemma result_source_typed: "result_source_decode raw = Inr s \<Longrightarrow> s \<noteq> ResNil \<and> s \<noteq> ResVolume ''''"
  by (auto simp: result_source_decode_def Let_def split: sum.split_asm option.split_asm if_splits)

lemma result_typed: "result_UnmarshalJSON j a = Inr b \<Longrightarrow> typed_result b"
  by (auto simp: result_UnmarshalJSON_def typed_result_def go_simps dest: result_source_typed)

lemma decode_side_not_nil: "decode_side msg r vars = Inr (v, vars') \<Longrightarrow> v \<noteq> EVNil"
  by (auto simp: decode_side_def split: prod.split_asm sum.split_asm)

lemma expression_typed:
  assumes "expression_UnmarshalJSON X j e = Inr e'"
  shows "typed_expression e'"
proof -
  obtain p where p: "dec_struct partial_expression_fields j \<lparr>pe_operator = '''', pe_left = None, pe_right = None\<rparr> = Inr p"
    using assms by (auto simp: expression_UnmarshalJSON_def rbind_Inr_iff)
  have "expression_UnmarshalJSON X j e =
     rbind (decode_side ''Cannot unmarshal expression (left value)'' (pe_left p) ('''', zero_data)) (\<lambda>(left, vars).
     rbind (decode_side ''Cannot unmarshal expression (right value)'' (pe_right p) vars) (\<lambda>(right, vars').
     Inr \<lparr>ex_left = (case (left, right) of (EVData d, EVData d') \<Rightarrow> EVData (shares_memory X d d') | _ \<Rightarrow> left),
          ex_right = right, ex_operator = pe_operator p\<rparr>))" (is "_ = ?rest")
    by (simp add: expression_UnmarshalJSON_def p)
  with assms have "?rest = Inr e'" by simp
  then obtain l v r v' where lr: "l \<noteq> EVNil" "r \<noteq> EVNil"
    and e': "ex_left e' = (case (l, r) of (EVData d, EVData d') \<Rightarrow> EVData (shares_memory X d d') | _ \<Rightarrow> l)" "ex_right e' = r"
    by (auto simp: rbind_Inr_iff dest!: decode_side_not_nil)
  then show ?thesis by (cases l; cases r) (simp_all add: typed_expression_def)
qed

lemma brick_typed:
  assumes "dec_struct (brick_fields X) j zero_brick = Inr b"
  shows "list_all typed_argument (br_args b) \<and> list_all typed_result (br_results b)"
proof (cases j)
  case (JObj ms)
  let ?P = "\<lambda>b. list_all typed_argument (br_args b) \<and> list_all typed_result (br_results b)"
  show ?thesis
  proof (rule dec_members_invariant [where P = ?P and Q = "\<lambda>v. True"])
    show "dec_members (brick_fields X) ms zero_brick = Inr b" using assms JObj by (simp add: dec_struct_def)
    show "?P y" if "(k, dec) \<in> set (brick_fields X)" "?P x" "dec v x = Inr y" for k dec v x y
      using that dec_slice_all [of argument_UnmarshalJSON, OF _ argument_typed]
        dec_slice_all [of result_UnmarshalJSON, OF _ result_typed]
      by (auto simp: brick_fields_def fld_iff)
  qed (simp_all add: zero_brick_def)
qed (use assms in \<open>auto simp: dec_struct_def zero_brick_def\<close>)

lemma conditional_expression_typed:
  assumes "dec_struct (partial_conditional_fields X) j zero_partial_conditional = Inr p"
  shows "typed_expression (pd_expression p)"
proof (cases j)
  case (JObj ms)
  let ?P = "\<lambda>p. typed_expression (pd_expression p)"
  show ?thesis
  proof (rule dec_members_invariant [where P = ?P and Q = "\<lambda>v. True"])
    show "dec_members (partial_conditional_fields X) ms zero_partial_conditional = Inr p"
      using assms JObj by (simp add: dec_struct_def)
    show "?P y" if "(k, dec) \<in> set (partial_conditional_fields X)" "?P x" "dec v x = Inr y" for k dec v x y
      using that expression_typed by (auto simp: partial_conditional_fields_def fld_iff)
  qed (simp_all add: zero_partial_conditional_def typed_expression_def)
qed (use assms in \<open>auto simp: dec_struct_def zero_partial_conditional_def typed_expression_def\<close>)

lemma component_decodeD:
  assumes "component_UnmarshalJSON X j = Inr c"
  shows "\<exists>p i. dec_struct (partial_component_fields X) j zero_partial_component = Inr p
    \<and> pc_implementation p = Some i \<and> implementation_decodes X i (cmp_implementation c)"
  using assms
  by (auto simp: component_UnmarshalJSON.simps [of X j] implementation_decodes_def go_simps
      split: option.split_asm if_splits dest: brick_type)

lemma implementation_decodes_type: "implementation_decodes X i impl \<Longrightarrow> impl_type impl = impl_kind impl"
  by (auto simp: implementation_decodes_def impl_type_def impl_kind_def split: implementation.split_asm
      dest: brick_type graph_type map_type conditional_type)

lemma component_typed_all:
  "component_UnmarshalJSON X j = Inr c \<Longrightarrow> typed_component c"
  "graph_decode X j g ns = Inr g' \<Longrightarrow> typed_nodes ns \<Longrightarrow> typed_nodes (g_nodes g')"
  "nodes_decode X j = Inr ns' \<Longrightarrow> typed_nodes ns'"
  "node_UnmarshalJSON X j = Inr n \<Longrightarrow> typed_value (n_node n)"
  "node_value_decode X r crefver = Inr v \<Longrightarrow> typed_value v"
  "map_UnmarshalJSON X j = Inr m \<Longrightarrow> typed_value (m_node m)"
  "conditional_UnmarshalJSON X j = Inr k \<Longrightarrow>
     typed_expression (c_expression k) \<and> typed_value (c_nodeTrue k) \<and> (c_nodeFalse k = NVNil \<or> typed_value (c_nodeFalse k))"
proof (induction X j and X j g ns and X j and X j and X r crefver and X j and X j
    arbitrary: c and g' and ns' and n and v and m and k
    rule: component_UnmarshalJSON_graph_decode_nodes_decode_node_UnmarshalJSON_node_value_decode_map_UnmarshalJSON_conditional_UnmarshalJSON.induct)
  case (1 X document)
  obtain p i where p: "dec_struct (partial_component_fields X) document zero_partial_component = Inr p"
    "pc_implementation p = Some i" and impl: "implementation_decodes X i (cmp_implementation c)"
    using component_decodeD [OF 1(4)] by blast
  have w: "wrapres ''cannot unmarshal partial component''
      (dec_struct (partial_component_fields X) document zero_partial_component) = Inr p" using p by simp
  have "typed_implementation (cmp_implementation c)"
  proof (cases "cmp_implementation c")
    case (ImplBrick b)
    then show ?thesis using impl brick_typed [of X i b] by (simp add: implementation_decodes_def)
  next
    case (ImplGraph g)
    then show ?thesis using impl 1(1) [OF w p(2), of GraphType g]
      by (cases g) (simp add: implementation_decodes_def)
  next
    case (ImplMap m)
    then show ?thesis using impl 1(2) [OF w p(2), of MapType m]
      by (cases m) (simp add: implementation_decodes_def)
  next
    case (ImplConditional k)
    then show ?thesis using impl 1(3) [OF w p(2), of ConditionalType k]
      by (cases k) (simp add: implementation_decodes_def)
  qed (use impl in \<open>simp_all add: implementation_decodes_def\<close>)
  with implementation_decodes_type [OF impl] show ?case by (cases c) simp
next
  case (2 X m ms g ns)
  show ?case
  proof (cases "fold_key (unquote (fst m)) = ''nodes''")
    case True
    with 2 show ?thesis by (cases "snd m") (auto simp: go_simps)
  next
    case False
    with 2 show ?thesis by (auto simp: go_simps)
  qed
next
  case (9 X j js)
  then obtain n ns where n: "node_UnmarshalJSON X j = Inr n" "nodes_decode X (JArr js) = Inr ns" "ns' = n # ns"
    by (auto simp: go_simps)
  with 9 show ?case by (cases n) auto
next
  case (16 X document)
  then obtain p where p: "wrapres ''cannot unmarshal partial node'' (dec_struct partial_node_fields document zero_partial_node) = Inr p"
    by (auto simp: node_UnmarshalJSON.simps [of X document] go_simps)
  with 16(2) obtain v where "node_value_decode X (pn_node p) zero_cref = Inr v" "n = Node (pn_id p) v (pn_userdata p)"
    by (cases "node_value_decode X (pn_node p) zero_cref") (auto simp: node_UnmarshalJSON.simps [of X document])
  with 16(1) [OF p] show ?case by simp
next
  case (18 X j crefver)
  then show ?case by (auto split: sum.split_asm)
next
  case (19 X document)
  then show ?case by (auto simp: map_UnmarshalJSON.simps [of X document] go_simps)
next
  case (20 X document)
  then show ?case
    using conditional_expression_typed
    by (auto simp: conditional_UnmarshalJSON.simps [of X document] go_simps split: option.split_asm)
qed (auto)

end
