(* ===== verification/Json_Theorems.thy ===== *)
theory Json_Theorems
  imports Json_Types
begin

text \<open>
  The properties of the JSON codecs: what is encoded decodes to the same value, what is decoded is
  well typed, which documents are refused, how the attempts at a sub-component end, and that the REST
  interface reads the documents it writes.
\<close>

section \<open>An instance of the parameters\<close>

text \<open>
  UUIDs in unary, times as their nanoseconds in UTC, containers and events by their fields.
\<close>

definition ex_parse_uuid :: "string \<Rightarrow> uuid res" where
  "ex_parse_uuid s =
     (let u = butlast (tl s) in
      if s = CHR 0x22 # u @ [CHR 0x22] \<and> list_all (\<lambda>c. c = CHR ''u'') u then Inr (of_nat (length u))
      else Inl (ExtErr ''invalid UUID''))"

definition ex_container_fields :: "container fields" where
  "ex_container_fields =
     [(''args'', fld ctr_args ctr_args_update (dec_slice dec_string '''')),
      (''image'', fld ctr_image ctr_image_update dec_string)]"

definition codec_example :: codec where
  "codec_example =
     \<lparr>UUIDText = (\<lambda>u. replicate (unat u) CHR ''u''),
      ParseUUIDBytes = ex_parse_uuid,
      TimeText = (\<lambda>t. if tm_loc t = ''UTC'' then Inr (quote (itoa (tm_nanos t))) else Inl (ExtErr ''year outside of range'')),
      TimeParse = (\<lambda>s. rbind (Atoi (unquote (butlast (tl s)))) (\<lambda>i. Inr \<lparr>tm_nanos = i, tm_loc = ''UTC''\<rparr>)),
      ContainerEncode = (\<lambda>c. enc_struct
        [member ''args'' (enc_slice (\<lambda>t. Inr (enc_string t)) (ctr_args c)), member ''image'' (Inr (enc_string (ctr_image c)))]),
      ContainerDecode = dec_struct ex_container_fields,
      EventEncode = (\<lambda>e. Inr (enc_string e)),
      EventDecode = dec_string,
      AppendCap = (\<lambda>n. n)\<rparr>"

lemma codec_example_simps [simp]:
  "UUIDText codec_example = (\<lambda>u. replicate (unat u) CHR ''u'')"
  "ParseUUIDBytes codec_example = ex_parse_uuid"
  "TimeText codec_example =
     (\<lambda>t. if tm_loc t = ''UTC'' then Inr (quote (itoa (tm_nanos t))) else Inl (ExtErr ''year outside of range''))"
  "TimeParse codec_example = (\<lambda>s. rbind (Atoi (unquote (butlast (tl s)))) (\<lambda>i. Inr \<lparr>tm_nanos = i, tm_loc = ''UTC''\<rparr>))"
  "EventEncode codec_example = (\<lambda>e. Inr (enc_string e))" "EventDecode codec_example = dec_string"
  "ContainerDecode codec_example = dec_struct ex_container_fields"
  "AppendCap codec_example = (\<lambda>n. n)"
  by (simp_all add: codec_example_def)

lemma body_ok_replicate: "body_ok (replicate n CHR ''u'')"
proof -
  have "scan_string (replicate n CHR ''u'' @ [CHR 0x22]) = Some (replicate n CHR ''u'', [])"
    by (induction n) simp_all
  then show ?thesis by (simp add: body_ok_def)
qed

lemma uuid_codec_ok_example [simp]: "uuid_codec_ok codec_example"
  by (simp add: uuid_codec_ok_def body_ok_replicate ex_parse_uuid_def Let_def list_all_iff)

lemma time_example [simp]: "int64 i \<Longrightarrow> time_reads_back codec_example \<lparr>tm_nanos = i, tm_loc = ''UTC''\<rparr>"
  by (simp add: time_reads_back_def int64_def Atoi_itoa)

section \<open>Round trips\<close>

text \<open>
  C9: A component, workflow or job whose values can be told apart in JSON (no nil nodes or sources, no
  expression over two data ports, no conditional whose false node would inherit a version, versions of
  64 bits, times, containers and user data that read back) is marshalled without an error, and
  unmarshalling the text gives the same value, however deep components are nested.
\<close>

theorem documents_roundtrip:
  assumes X: "uuid_codec_ok X"
  shows "(component_reads_back X c \<longrightarrow>
      (\<exists>doc. json_Marshal (component_encode X) c = Inr doc \<and> unmarshal_component X doc = Inr c))
    \<and> (workflow_reads_back X w \<longrightarrow>
      (\<exists>doc. json_Marshal (workflow_encode X) w = Inr doc \<and> unmarshal_workflow X doc = Inr w))
    \<and> (job_reads_back X b \<longrightarrow>
      (\<exists>doc. json_Marshal (job_encode X) b = Inr doc \<and> unmarshal_job X doc = Inr b))"
  unfolding unmarshal_component_def unmarshal_workflow_def unmarshal_job_def
  using X component_encodes_all(1) [OF X] workflow_encodes [OF X] job_encodes [OF X]
  by (blast intro: document_roundtrip component_field_roundtrip workflow_roundtrip job_roundtrip)

definition ex_json_metadata :: "uuid \<Rightarrow> metadata" where
  "ex_json_metadata u =
     \<lparr>md_name = ''cmp'', md_description = '''', md_modifiedBy = \<lparr>mb_oid = ''1'', mb_email = ''a@b''\<rparr>, md_uid = u,
      md_version = \<lparr>ver_current = 2, ver_tags = [''latest''], ver_previous = \<lparr>crv_version = 1, crv_uid = u\<rparr>\<rparr>,
      md_timestamp = \<lparr>tm_nanos = 5, tm_loc = ''UTC''\<rparr>\<rparr>"

definition ex_json_brick :: component where
  "ex_json_brick = Component (ex_json_metadata 1)
     [\<lparr>dt_name = ''in'', dt_mediatype = [''text''], dt_type = ''parameter'', dt_userdata = ''{}''\<rparr>] [] ''component''
     (ImplBrick \<lparr>br_type = ''brick'', br_container = None,
        br_args = [\<lparr>arg_description = '''', arg_target = \<lparr>at_type = ''parameter'', at_prefix = '''', at_suffix = ''''\<rparr>,
                    arg_source = SrcPort ''in''\<rparr>],
        br_results = [\<lparr>res_description = '''', res_target = \<lparr>pa_node = '''', pa_port = ''out''\<rparr>,
                       res_source = ResFile ''/tmp/x''\<rparr>]\<rparr>)"

definition ex_json_component :: component where
  "ex_json_component = Component (ex_json_metadata 3) [] [] ''component''
     (ImplGraph (Graph ''graph'' [Node ''a'' (NVComponent ex_json_brick) '''', Node ''b'' (NVReference 7) ''1'']
        [\<lparr>e_source = \<lparr>pa_node = ''a'', pa_port = ''out''\<rparr>, e_target = \<lparr>pa_node = ''b'', pa_port = ''in''\<rparr>\<rparr>] [] []))"

lemma ex_json_reads_back: "component_reads_back codec_example ex_json_component"
proof -
  have "raw_reads_back ''''" "raw_reads_back ''{}''" "raw_reads_back ''1''" by code_simp+
  then show ?thesis
    by (simp add: ex_json_component_def ex_json_brick_def ex_json_metadata_def metadata_reads_back_def int64_def
        data_reads_back_def container_reads_back_def argument_reads_back_def result_reads_back_def
        component_types)
qed

theorem documents_roundtrip_witness:
  "\<exists>doc. json_Marshal (component_encode codec_example) ex_json_component = Inr doc
     \<and> unmarshal_component codec_example doc = Inr ex_json_component"
  using documents_roundtrip [OF uuid_codec_ok_example] ex_json_reads_back by blast

section \<open>Types\<close>

lemma component_field_typed: "component_field X j c = Inr c' \<Longrightarrow> typed_component c'"
  by (auto simp: component_field_def intro: component_typed_all(1))

definition zero_or_typed :: "component \<Rightarrow> bool" where
  "zero_or_typed c \<longleftrightarrow> c = zero_component \<or> typed_component c"

lemma dec_struct_invariant:
  assumes "dec_struct fs j a = Inr b" "P a"
    and "\<And>k dec v x y. (k, dec) \<in> set fs \<Longrightarrow> P x \<Longrightarrow> dec v x = Inr y \<Longrightarrow> P y"
  shows "P b"
proof (cases j)
  case (JObj ms)
  show ?thesis
  proof (rule dec_members_invariant [where P = P and Q = "\<lambda>v. True"])
    show "dec_members fs ms a = Inr b" using assms(1) JObj by (simp add: dec_struct_def)
  qed (use assms(2,3) in blast)+
qed (use assms(1,2) in \<open>auto simp: dec_struct_def\<close>)

lemma workflow_typed:
  assumes "dec_struct (workflow_fields X) j w = Inr w'" "zero_or_typed (wf_component w)"
  shows "zero_or_typed (wf_component w')"
  by (rule dec_struct_invariant [where P = "\<lambda>w. zero_or_typed (wf_component w)", OF assms])
    (auto simp: workflow_fields_def embedded_def metadata_fields_def fld_iff zero_or_typed_def dest!: component_field_typed)

lemma input_value_typed: "input_value_decode raw = Inr v \<Longrightarrow> v \<noteq> IVNil"
  by (auto simp: input_value_decode_def split: sum.split_asm)

lemma value_typed: "value_UnmarshalJSON j v = Inr v' \<Longrightarrow> jv_value v' \<noteq> IVNil"
  by (auto simp: value_UnmarshalJSON_def go_simps dest!: input_value_typed)

lemma values_typed: "dec_slice value_UnmarshalJSON z j vs = Inr vs' \<Longrightarrow> list_all (\<lambda>v. jv_value v \<noteq> IVNil) vs'"
  by (rule dec_slice_all) (auto dest: value_typed)

definition typed_job :: "job \<Rightarrow> bool" where
  "typed_job b \<longleftrightarrow> zero_or_typed (wf_component (job_workflow b)) \<and> list_all (\<lambda>v. jv_value v \<noteq> IVNil) (job_inputValues b)"

lemma job_typed:
  assumes "dec_struct (job_fields X) j b = Inr b'" "typed_job b"
  shows "typed_job b'"
  by (rule dec_struct_invariant [where P = typed_job, OF assms])
    (auto simp: job_fields_def embedded_def metadata_fields_def fld_iff typed_job_def
      dest!: values_typed, erule (1) workflow_typed)

text \<open>
  C10: What the codecs decode is well typed at every depth: the implementation of a component is of the
  kind its type names and never nil, every node holds a reference, a versioned reference or a component,
  arguments and results have a source, an expression has two sides or none, and the values of a job are
  strings or lists of strings. Only a workflow without a component, or a request without one, holds the
  zero component.
\<close>

theorem decoded_documents_are_typed:
  "(unmarshal_component X doc = Inr c \<longrightarrow> typed_component c)
   \<and> (unmarshal_component_post X doc = Inr r \<longrightarrow> zero_or_typed (cpr_component r))
   \<and> (unmarshal_workflow X doc = Inr w \<longrightarrow> zero_or_typed (wf_component w))
   \<and> (unmarshal_workflow_post X doc = Inr q \<longrightarrow> zero_or_typed (wf_component (wpr_workflow q)))
   \<and> (unmarshal_job X doc = Inr b \<longrightarrow> typed_job b)
   \<and> (unmarshal_job_post X doc = Inr p \<longrightarrow> typed_job (jpr_job p))"
proof -
  have zw: "zero_or_typed (wf_component zero_workflow)"
    by (simp add: zero_or_typed_def zero_workflow_def zero_component_def)
  then have zj: "typed_job zero_job" by (simp add: typed_job_def zero_job_def)
  have "zero_or_typed (cpr_component r)" if "unmarshal_component_post X doc = Inr r"
  proof -
    from that obtain j where "dec_struct (component_post_fields X) j \<lparr>cpr_component = zero_component, cpr_options = ()\<rparr> = Inr r"
      by (auto simp: unmarshal_component_post_def json_Unmarshal_def go_simps)
    then show ?thesis
      by (rule dec_struct_invariant [where P = "\<lambda>r. zero_or_typed (cpr_component r)"])
        (auto simp: component_post_fields_def fld_iff zero_or_typed_def dest!: component_field_typed)
  qed
  moreover have "zero_or_typed (wf_component (wpr_workflow q))" if "unmarshal_workflow_post X doc = Inr q"
  proof -
    from that obtain j where "dec_struct (workflow_post_fields X) j \<lparr>wpr_workflow = zero_workflow, wpr_options = ()\<rparr> = Inr q"
      by (auto simp: unmarshal_workflow_post_def json_Unmarshal_def go_simps)
    then show ?thesis
      by (rule dec_struct_invariant [where P = "\<lambda>q. zero_or_typed (wf_component (wpr_workflow q))"])
        (auto simp: workflow_post_fields_def fld_iff zw, erule (1) workflow_typed)
  qed
  moreover have "typed_job (jpr_job p)" if "unmarshal_job_post X doc = Inr p"
  proof -
    from that obtain j where "dec_struct (job_post_fields X) j
        \<lparr>jpr_job = zero_job, jpr_submitOptions = \<lparr>jpo_constants = [], jpo_tags = []\<rparr>\<rparr> = Inr p"
      by (auto simp: unmarshal_job_post_def json_Unmarshal_def go_simps)
    then show ?thesis
      by (rule dec_struct_invariant [where P = "\<lambda>p. typed_job (jpr_job p)"])
        (auto simp: job_post_fields_def fld_iff zj, erule (1) job_typed)
  qed
  ultimately show ?thesis
    using zw zj
    by (auto simp: unmarshal_component_def unmarshal_workflow_def unmarshal_job_def json_Unmarshal_def go_simps
        intro: component_field_typed workflow_typed job_typed)
qed

theorem decoded_documents_are_typed_witness:
  "\<exists>doc. unmarshal_component codec_example doc = Inr ex_json_component \<and> typed_component ex_json_component"
proof -
  obtain doc where "unmarshal_component codec_example doc = Inr ex_json_component"
    using document_roundtrip [of "component_encode codec_example" ex_json_component "component_field codec_example",
        OF component_encodes_all(1) [OF uuid_codec_ok_example ex_json_reads_back]
          component_field_roundtrip [OF uuid_codec_ok_example _ ex_json_reads_back]]
    unfolding unmarshal_component_def by blast
  with decoded_documents_are_typed [of codec_example doc ex_json_component] show ?thesis by blast
qed

section \<open>Documents that are refused\<close>

definition has_key :: "string \<Rightarrow> members \<Rightarrow> bool" where
  "has_key k ms \<longleftrightarrow> (\<exists>m \<in> set ms. fold_key (unquote (fst m)) = k)"

lemma no_implementation:
  assumes "dec_members (partial_component_fields X) ms zero_partial_component = Inr p" "\<not> has_key ''implementation'' ms"
  shows "pc_implementation p = None"
proof -
  have folds: "distinct_folds (partial_component_fields X)"
    by (simp add: distinct_folds_def partial_component_fields_def embedded_def metadata_fields_def)
  have "pc_implementation q = pc_implementation p"
    if "dec_members (partial_component_fields X) ms q = Inr p" "\<not> has_key ''implementation'' ms" for q
    using that
  proof (induction ms arbitrary: q)
    case (Cons m ms)
    then obtain x where x: "dec_member (partial_component_fields X) m q = Inr x"
      "dec_members (partial_component_fields X) ms x = Inr p" by (auto simp: go_simps)
    have "pc_implementation x = pc_implementation q"
    proof (cases "find_field (partial_component_fields X) (unquote (fst m))")
      case (Some d)
      then obtain n where n: "(n, d) \<in> set (partial_component_fields X)" "fold_key n = fold_key (unquote (fst m))"
        by (auto simp: find_field_fold [OF folds] dest!: map_of_SomeD)
      with Cons.prems(2) have "n \<noteq> ''Implementation''" by (auto simp: has_key_def)
      with n(1) x(1) Some show ?thesis
        by (auto simp: dec_member_def partial_component_fields_def embedded_def metadata_fields_def fld_iff)
    qed (use x(1) in \<open>simp add: dec_member_def\<close>)
    with Cons x(2) show ?case by (simp add: has_key_def)
  qed simp
  from this [OF assms] show ?thesis by (simp add: zero_partial_component_def)
qed

text \<open>
  C40: A document is refused as a component when it is no object, when no key names an implementation, and
  when the implementation's type is none of brick, any, graph, map and conditional; the last error names
  the type.
\<close>

theorem refused_components:
  "((\<forall>ms. j \<noteq> JObj ms) \<longrightarrow> (\<exists>e. component_UnmarshalJSON X j = Inl e))
   \<and> (\<not> has_key ''implementation'' ms \<longrightarrow> (\<exists>e. component_UnmarshalJSON X (JObj ms) = Inl e))
   \<and> (dec_struct (partial_component_fields X) j zero_partial_component = Inr p \<longrightarrow> pc_implementation p = Some i \<longrightarrow>
      dec_struct type_fields i '''' = Inr t \<longrightarrow> t \<notin> {BrickType, AnyType, GraphType, MapType, ConditionalType} \<longrightarrow>
      component_UnmarshalJSON X j = Inl (Errorf ''no type json unmarshaling implemented for %s'' [t]))"
proof -
  have "\<exists>e. component_UnmarshalJSON X j = Inl e" if "\<forall>ms. j \<noteq> JObj ms"
    using that by (cases j) (simp_all add: component_UnmarshalJSON.simps dec_struct_def zero_partial_component_def)
  moreover have "\<exists>e. component_UnmarshalJSON X (JObj ms) = Inl e" if "\<not> has_key ''implementation'' ms"
  proof (cases "dec_members (partial_component_fields X) ms zero_partial_component")
    case (Inr p)
    then show ?thesis using no_implementation [OF Inr that]
      by (simp add: component_UnmarshalJSON.simps dec_struct_def)
  qed (simp add: component_UnmarshalJSON.simps dec_struct_def)
  ultimately show ?thesis by (auto simp: component_UnmarshalJSON.simps [of X j])
qed

theorem refused_components_witness:
  "component_UnmarshalJSON codec_example (JObj [(''implementation'', JObj [(''type'', JStr ''brik'')])])
     = Inl (Errorf ''no type json unmarshaling implemented for %s'' [''brik''])"
proof -
  let ?i = "JObj [(''type'', JStr ''brik'')]"
  have "dec_struct (partial_component_fields codec_example) (JObj [(''implementation'', ?i)]) zero_partial_component
      = Inr (zero_partial_component\<lparr>pc_implementation := Some ?i\<rparr>)"
    by (simp add: dec_struct_def dec_member_def fld_def dec_raw_def)
  moreover have "dec_struct type_fields ?i '''' = Inr ''brik''"
    by (simp add: type_fields_def decode_simps dec_string_def)
  ultimately show ?thesis
    using refused_components [of "JObj [(''implementation'', ?i)]" codec_example "[]"
        "zero_partial_component\<lparr>pc_implementation := Some ?i\<rparr>" ?i "''brik''"]
    by (simp add: component_types)
qed

section \<open>Variables that are used twice\<close>

lemma only_version_reference:
  assumes "uuid_codec_ok X"
  shows "node_value_decode X (Some (JObj [(''uid'', JStr (UUIDText X u))])) v = Inr (NVCRefVersion (v\<lparr>crv_uid := u\<rparr>))"
proof -
  let ?j = "JObj [(''uid'', JStr (UUIDText X u))]"
  obtain e where e: "cref_UnmarshalJSON X ?j 0 = Inl e" using object_not_reference [OF assms] by blast
  have "crefversion_encode X \<lparr>crv_version = 0, crv_uid = u\<rparr> = Inr ?j"
    by (simp add: crefversion_encode_def enc_struct_def member_def member_unless_def cref_MarshalJSON_def)
  from crefversion_not_component [OF assms this] obtain e' where "component_UnmarshalJSON X ?j = Inl e'" by blast
  moreover have "crefversion_decode X ?j v = Inr (v\<lparr>crv_uid := u\<rparr>)"
    using assms by (simp add: crefversion_decode_def crefversion_fields_def decode_simps json_simps)
  ultimately show ?thesis using e by simp
qed

lemma null_value:
  assumes "\<forall>u. ParseUUIDBytes X ''null'' \<noteq> Inr u"
  shows "node_value_decode X (Some JNull) v = Inr (NVCRefVersion v)"
proof -
  obtain e where "cref_UnmarshalJSON X JNull 0 = Inl e"
    using assms by (cases "ParseUUIDBytes X ''null''") (simp_all add: cref_UnmarshalJSON_def)
  moreover have "component_UnmarshalJSON X JNull = Inl eof_error"
    by (simp add: component_UnmarshalJSON.simps dec_struct_def zero_partial_component_def)
  ultimately show ?thesis by (simp add: crefversion_decode_def dec_struct_def)
qed

text \<open>
  In a conditional the false node is decoded into the reference with a version that the true node left
  behind: after a versioned true node, a false node given by its uid alone gets the version of the true
  node, and a false node that is \<^verbatim>\<open>null\<close> becomes the true node once more.
\<close>

theorem false_node_inherits_version:
  assumes "uuid_codec_ok X" "\<forall>u. ParseUUIDBytes X ''null'' \<noteq> Inr u"
    and p: "dec_struct (partial_conditional_fields X) j zero_partial_conditional = Inr p"
    and t: "node_value_decode X (pd_nodeTrue p) zero_cref = Inr (NVCRefVersion v)"
  shows "(pd_nodeFalse p = Some (JObj [(''uid'', JStr (UUIDText X u))]) \<longrightarrow>
      (\<exists>c. conditional_UnmarshalJSON X j = Inr c \<and> c_nodeFalse c = NVCRefVersion \<lparr>crv_version = crv_version v, crv_uid = u\<rparr>))
    \<and> (pd_nodeFalse p = Some JNull \<longrightarrow>
      (\<exists>c. conditional_UnmarshalJSON X j = Inr c \<and> c_nodeFalse c = c_nodeTrue c))"
  using only_version_reference [OF assms(1), of u v] null_value [OF assms(2), of v] t
  by (cases v) (auto simp: conditional_UnmarshalJSON.simps [of X j] p simp del: node_value_decode.simps)

definition ex_conditional_json :: json where
  "ex_conditional_json = JObj
     [(''type'', JStr ''conditional''), (''nodeTrue'', JObj [(''version'', JNum ''2''), (''uid'', JStr ''u'')]),
      (''nodeFalse'', JObj [(''uid'', JStr ''uuu'')])]"

lemma ex_no_null: "\<forall>u. ParseUUIDBytes codec_example ''null'' \<noteq> Inr u"
  by (simp add: ex_parse_uuid_def Let_def)

lemma ex_crefversion: "node_value_decode codec_example (Some (JObj [(''version'', JNum ''2''), (''uid'', JStr ''u'')])) zero_cref
  = Inr (NVCRefVersion \<lparr>crv_version = 2, crv_uid = 1\<rparr>)"
proof -
  have "itoa 2 = ''2''" by code_simp
  then have "crefversion_encode codec_example \<lparr>crv_version = 2, crv_uid = 1\<rparr>
    = Inr (JObj [(''version'', JNum ''2''), (''uid'', JStr ''u'')])"
    by (simp add: crefversion_encode_def enc_struct_def member_def member_unless_def cref_MarshalJSON_def enc_int_def)
  then show ?thesis by (rule crefversion_value_roundtrip [OF uuid_codec_ok_example]) (simp_all add: int64_def)
qed

theorem false_node_inherits_version_witness:
  "\<exists>c. conditional_UnmarshalJSON codec_example ex_conditional_json = Inr c
     \<and> c_nodeFalse c = NVCRefVersion \<lparr>crv_version = 2, crv_uid = 3\<rparr>"
proof -
  let ?p = "zero_partial_conditional\<lparr>pd_type := ''conditional'',
    pd_nodeTrue := Some (JObj [(''version'', JNum ''2''), (''uid'', JStr ''u'')]),
    pd_nodeFalse := Some (JObj [(''uid'', JStr ''uuu'')])\<rparr>"
  have p: "dec_struct (partial_conditional_fields codec_example) ex_conditional_json zero_partial_conditional = Inr ?p"
    by (simp add: ex_conditional_json_def partial_conditional_fields_def decode_simps dec_string_def dec_raw_def)
  have "node_value_decode codec_example (pd_nodeTrue ?p) zero_cref = Inr (NVCRefVersion \<lparr>crv_version = 2, crv_uid = 1\<rparr>)"
    using ex_crefversion by simp
  moreover have "UUIDText codec_example 3 = ''uuu''" by code_simp
  ultimately show ?thesis
    using false_node_inherits_version [OF uuid_codec_ok_example ex_no_null p, of _ 3] by auto
qed

text \<open>The two data of an expression: the second takes over what it does not name, and overwrites the first.\<close>

lemma expression_data_shared:
  "expression_UnmarshalJSON codec_example
     (JObj [(''left'', JObj [(''name'', JStr ''a''), (''mediatype'', JArr [JStr ''x'']), (''type'', JStr ''parameter'')]),
            (''right'', JObj [(''name'', JStr ''b''), (''mediatype'', JArr [JStr ''y'']), (''type'', JStr ''parameter'')])]) e
   = Inr \<lparr>ex_left = EVData \<lparr>dt_name = ''a'', dt_mediatype = [''y''], dt_type = ''parameter'', dt_userdata = ''''\<rparr>,
          ex_right = EVData \<lparr>dt_name = ''b'', dt_mediatype = [''y''], dt_type = ''parameter'', dt_userdata = ''''\<rparr>,
          ex_operator = ''''\<rparr>"
  by (simp add: expression_UnmarshalJSON_def partial_expression_fields_def decode_side_def unmarshal_raw_def decode_simps
      dec_string_def dec_raw_def data_fields_def dec_slice_def zero_data_def shares_memory_def overwritten_def)

text \<open>A component held inline that does not decode, here for its type, is taken for a reference.\<close>

lemma undecodable_component_becomes_reference:
  "node_value_decode codec_example
     (Some (JObj [(''uid'', JStr ''u''), (''implementation'', JObj [(''type'', JStr ''brik'')])])) zero_cref
   = Inr (NVCRefVersion \<lparr>crv_version = 0, crv_uid = 1\<rparr>)"
proof -
  let ?ms = "[(''uid'', JStr ''u''), (''implementation'', JObj [(''type'', JStr ''brik'')])]"
  obtain e where "cref_UnmarshalJSON codec_example (JObj ?ms) 0 = Inl e"
    using object_not_reference [OF uuid_codec_ok_example] by blast
  moreover have "dec_struct type_fields (JObj [(''type'', JStr ''brik'')]) '''' = Inr ''brik''"
    by (simp add: type_fields_def decode_simps dec_string_def)
  then have "\<exists>e. component_UnmarshalJSON codec_example (JObj ?ms) = Inl e"
    by (simp add: component_UnmarshalJSON.simps dec_struct_def [of "partial_component_fields X" for X] dec_member_def fld_def
        dec_raw_def zero_partial_component_def cref_UnmarshalJSON_def ex_parse_uuid_def Let_def component_types)
  moreover have "crefversion_decode codec_example (JObj ?ms) zero_cref = Inr \<lparr>crv_version = 0, crv_uid = 1\<rparr>"
    by (simp add: crefversion_decode_def crefversion_fields_def decode_simps cref_UnmarshalJSON_def ex_parse_uuid_def Let_def
        zero_cref_def)
  ultimately show ?thesis by auto
qed

end
