(* ===== verification/Validation.thy ===== *)
theory Validation
  imports Json Http
begin

text \<open>
  Schema validation: the schemas that \<^verbatim>\<open>models/models.go\<close> compiles when it is loaded,
  and \<^verbatim>\<open>models/validate.go\<close>, which finds a schema by file or by type name. The schema library and
  the file system are parameters.
\<close>

section \<open>JSON documents of any form\<close>

text \<open>
  \<^verbatim>\<open>json.Unmarshal\<close> into an \<^verbatim>\<open>interface{}\<close> reads numbers as 64-bit floating point
  numbers. A number is out of their range from half a unit above the greatest one on, which is
  \<open>2 ^ 1024 - 2 ^ 970\<close>.
\<close>

definition exponent_value :: "string \<Rightarrow> int" where
  "exponent_value s =
     (case s of
        e # c # r \<Rightarrow>
          if c = CHR ''-'' then - int (digits_value r)
          else if c = CHR ''+'' then int (digits_value r) else int (digits_value (c # r))
      | _ \<Rightarrow> 0)"

definition float_fits :: "string \<Rightarrow> bool" where
  "float_fits n =
     (let s = drop_sign ''-'' n; whole = takeWhile is_digit s; r = dropWhile is_digit s;
          frac = (case r of c # r' \<Rightarrow> if c = CHR ''.'' then takeWhile is_digit r' else [] | [] \<Rightarrow> []);
          r' = (case r of c # r' \<Rightarrow> if c = CHR ''.'' then dropWhile is_digit r' else r | [] \<Rightarrow> []);
          m = int (digits_value (whole @ frac)); e = exponent_value r' - int (length frac)
      in if 0 \<le> e then m * 10 ^ nat e < 2 ^ 1024 - 2 ^ 970 else m < (2 ^ 1024 - 2 ^ 970) * 10 ^ nat (- e))"

fun numbers :: "json \<Rightarrow> string list" where
  "numbers (JNum n) = [n]"
| "numbers (JArr vs) = concat (map numbers vs)"
| "numbers (JObj ms) = concat (map (\<lambda>m. numbers (snd m)) ms)"
| "numbers v = []"

definition numbers_fit :: "json \<Rightarrow> bool" where
  "numbers_fit j \<longleftrightarrow> list_all float_fits (numbers j)"

definition unmarshal_any :: "string \<Rightarrow> json res" where
  "unmarshal_any document =
     rbind (parse_json document) (\<lambda>j. if numbers_fit j then Inr j else Inl type_error)"

section \<open>Registered schemas\<close>

record 'schema schema_lib =
  FileMissing :: "string \<Rightarrow> bool"
  CompileFile :: "string \<Rightarrow> 'schema res"
  CompileResource :: "(string \<times> string) list \<Rightarrow> string \<Rightarrow> 'schema res"
  SchemaValidate :: "'schema \<Rightarrow> json \<Rightarrow> goerr option"

definition schemaFiles :: "(string \<times> string) list" where
  "schemaFiles =
     [(''Component'', ''component.schema.json''), (''Workflow'', ''workflow.schema.json''),
      (''Job'', ''job.schema.json''), (''Node'', ''node.schema.json''),
      (''ComponentPostRequest'', ''componentpostrequest.schema.json''),
      (''WorkflowPostRequest'', ''workflowpostrequest.schema.json''),
      (''JobPostRequest'', ''jobpostrequest.schema.json''),
      (''MetadataList'', ''metadatalist.schema.json''),
      (''MetadataWorkspaceList'', ''metadataworkspacelist.schema.json''),
      (''FlowifyVolume'', ''volume.schema.json''), (''FlowifyVolumeList'', ''volumelist.schema.json'')]"

text \<open>
  The embedded files, with their base names: those that are named like a schema are added to the
  compiler. A file that cannot be opened, as a schema that does not compile, ends the program.
\<close>

definition is_suffix :: "string \<Rightarrow> string \<Rightarrow> bool" where
  "is_suffix suf s \<longleftrightarrow> has_prefix (rev suf) (rev s)"

fun addResources :: "(string \<times> string res) list \<Rightarrow> (string \<times> string) list res" where
  "addResources [] = Inr []"
| "addResources ((name, content) # fs) =
     (if is_suffix ''.schema.json'' name then
        (case content of
           Inl e \<Rightarrow> Inl (GoPanic ''unexpected static file content'')
         | Inr text \<Rightarrow> rbind (addResources fs) (\<lambda>rs. Inr ((name, text) # rs)))
      else addResources fs)"

fun registerSchemas :: "(string \<Rightarrow> 'schema res) \<Rightarrow> (string \<times> string) list \<Rightarrow> (string \<times> 'schema) list res" where
  "registerSchemas compile [] = Inr []"
| "registerSchemas compile ((t, file) # fs) =
     (case compile file of
        Inl e \<Rightarrow> Inl (GoPanic ''can't load json schema'')
      | Inr schema \<Rightarrow> rbind (registerSchemas compile fs) (\<lambda>rs. Inr ((t, schema) # rs)))"

definition models_init :: "'schema schema_lib \<Rightarrow> (string \<times> string res) list \<Rightarrow> (string \<times> 'schema) list res" where
  "models_init L spec =
     rbind (addResources spec) (\<lambda>resources. registerSchemas (CompileResource L resources) schemaFiles)"

section \<open>Finding a schema\<close>

definition findFileSchema :: "'schema schema_lib \<Rightarrow> string \<Rightarrow> 'schema option res" where
  "findFileSchema L path =
     (if FileMissing L path then Inl (ExtErr ''no such file'')
      else (case CompileFile L path of Inl e \<Rightarrow> Inl e | Inr schema \<Rightarrow> Inr (Some schema)))"

text \<open>The registered types have distinct names, so the order of the map does not matter.\<close>

fun findPrecompiledSchema :: "(string \<times> 'schema) list \<Rightarrow> string \<Rightarrow> 'schema option res" where
  "findPrecompiledSchema [] name = Inr None"
| "findPrecompiledSchema ((k, v) # rest) name = (if k = name then Inr (Some v) else findPrecompiledSchema rest name)"

definition schema_of :: "'schema option res \<Rightarrow> 'schema option" where
  "schema_of r = (case r of Inl e \<Rightarrow> None | Inr s \<Rightarrow> s)"

definition FindSchema :: "'schema schema_lib \<Rightarrow> (string \<times> 'schema) list \<Rightarrow> string \<Rightarrow> 'schema option" where
  "FindSchema L registered nameOrPath =
     (let fileSchema = schema_of (findFileSchema L nameOrPath);
          precompiledSchema = schema_of (findPrecompiledSchema registered nameOrPath)
      in if fileSchema \<noteq> None then fileSchema
         else if precompiledSchema \<noteq> None then precompiledSchema
         else None)"

definition validate_data ::
  "'schema schema_lib \<Rightarrow> (string \<times> 'schema) list \<Rightarrow> string \<Rightarrow> string \<Rightarrow> goerr option" where
  "validate_data L registered bytes schemaFilePath =
     (case FindSchema L registered schemaFilePath of
        None \<Rightarrow> Some (Errorf ''could not find schema from: %s'' [schemaFilePath])
      | Some schema \<Rightarrow>
          (case unmarshal_any bytes of
             Inl e \<Rightarrow> Some (Wrap ''validate unmarshal'' e)
           | Inr v \<Rightarrow> SchemaValidate L schema v))"

text \<open>
  The parts of \<^typ>\<open>rest_ext\<close> that read and validate a document, filled with the registered schemas.
\<close>

definition schema_rest :: "'schema schema_lib \<Rightarrow> (string \<times> 'schema) list \<Rightarrow> rest_ext \<Rightarrow> rest_ext" where
  "schema_rest L registered R = R\<lparr>
     JsonError := (\<lambda>s. case unmarshal_any s of Inl e \<Rightarrow> Some e | Inr j \<Rightarrow> None),
     SchemaError := (\<lambda>t s. case (map_of registered t, unmarshal_any s) of
                             (Some schema, Inr j) \<Rightarrow> SchemaValidate L schema j | _ \<Rightarrow> None)\<rparr>"

section \<open>Lemmas\<close>

lemma registerSchemas_keys: "registerSchemas compile fs = Inr rs \<Longrightarrow> map fst rs = map fst fs"
  by (induction fs arbitrary: rs) (auto simp: go_simps split: sum.splits)

lemma schemaFiles_keys: "map fst schemaFiles = RegisteredSchemas"
  by (simp add: schemaFiles_def RegisteredSchemas_def)

lemma models_init_keys: "models_init L spec = Inr rs \<Longrightarrow> map fst rs = RegisteredSchemas"
  by (auto simp: models_init_def go_simps schemaFiles_keys dest!: registerSchemas_keys)

lemma registerSchemas_compiled:
  "registerSchemas compile fs = Inr rs \<Longrightarrow> (t, s) \<in> set rs \<Longrightarrow> \<exists>f. (t, f) \<in> set fs \<and> compile f = Inr s"
proof (induction fs arbitrary: rs)
  case (Cons tf fs)
  then show ?case by (cases tf) (fastforce simp: go_simps split: sum.split_asm)
qed simp

lemma findPrecompiledSchema_map_of: "findPrecompiledSchema rs name = Inr (map_of rs name)"
  by (induction rs name rule: findPrecompiledSchema.induct) auto

lemma ValidateDocument_schema_rest:
  assumes "models_init L spec = Inr registered"
  shows "ValidateDocument (schema_rest L registered R) document t =
    (case unmarshal_any document of
       Inl e \<Rightarrow> Some (Wrap ''type validate %s'' e)
     | Inr j \<Rightarrow>
         (case map_of registered t of
            None \<Rightarrow> Some ErrNoSchemaFound
          | Some schema \<Rightarrow>
              (case SchemaValidate L schema j of Some e \<Rightarrow> Some (Wrap ''type validate %s'' e) | None \<Rightarrow> None)))"
proof -
  have "t \<in> set RegisteredSchemas \<longleftrightarrow> map_of registered t \<noteq> None"
    unfolding models_init_keys [OF assms, symmetric] by (simp add: map_of_eq_None_iff)
  then show ?thesis
    by (auto simp: ValidateDocument_def schema_rest_def split: sum.splits option.splits)
qed


lemma float_fits_digit:
  assumes "is_digit c"
  shows "float_fits [c]"
proof -
  have "(of_char c :: nat) \<le> 57" using assms by (simp add: is_digit_def)
  then have "(of_char c :: nat) - 48 \<le> 9" by linarith
  moreover have "(2 :: int) ^ 1024 = 2 ^ 970 * 2 ^ 54" by (simp only: power_add [symmetric], simp)
  then have "(2 :: int) ^ 1024 - 2 ^ 970 = 2 ^ 970 * (2 ^ 54 - 1)" by (simp only: right_diff_distrib mult_1_right)
  moreover have "(1 :: int) * (2 ^ 54 - 1) \<le> 2 ^ 970 * (2 ^ 54 - 1)" by (rule mult_right_mono) (simp_all only: one_le_power, simp_all)
  ultimately have "int (of_char c - 48) < 2 ^ 1024 - 2 ^ 970" by simp
  moreover have "drop_sign ''-'' [c] = [c]" using assms by (auto simp: drop_sign_def is_digit_def)
  ultimately show ?thesis
    using assms by (simp add: float_fits_def Let_def digits_value_def exponent_value_def del: power_numeral)
qed

end
