(* ===== verification/Rest_Json.thy ===== *)
theory Rest_Json
  imports Json_Theorems Validation Rest_Theorems
begin

text \<open>
  The REST interface over the JSON codecs: the fields of \<^typ>\<open>rest_ext\<close> that read and write
  documents, filled with the codecs of \<open>Json_Components\<close>, and what a client may rely on when it
  sends back what it was served.
\<close>

section \<open>Bodies as JSON\<close>

definition response_text :: "codec \<Rightarrow> resp_body \<Rightarrow> string res option" where
  "response_text X b =
     (case b of
        BodyComponent c \<Rightarrow> Some (json_Marshal (component_encode X) c)
      | BodyWorkflow w \<Rightarrow> Some (json_Marshal (workflow_encode X) w)
      | BodyJob j \<Rightarrow> Some (json_Marshal (job_encode X) j)
      | BodyRef r \<Rightarrow> Some (json_Marshal (crefversion_encode X) r)
      | BodyUid u \<Rightarrow> Some (json_Marshal (cref_MarshalJSON X) u)
      | _ \<Rightarrow> None)"

definition codec_rest :: "codec \<Rightarrow> rest_ext \<Rightarrow> rest_ext" where
  "codec_rest X R = R\<lparr>
     MarshalError := (\<lambda>b. case response_text X b of
                            Some (Inl e) \<Rightarrow> Some e | Some (Inr t) \<Rightarrow> None | None \<Rightarrow> MarshalError R b),
     JsonError := (\<lambda>s. case unmarshal_any s of Inl e \<Rightarrow> Some e | Inr j \<Rightarrow> None),
     UnmarshalComponentPost := (\<lambda>s. rbind (unmarshal_component_post X s) (\<lambda>r. Inr (cpr_component r))),
     UnmarshalWorkflowPost := (\<lambda>s. rbind (unmarshal_workflow_post X s) (\<lambda>r. Inr (wpr_workflow r))),
     UnmarshalJobPost := (\<lambda>s. rbind (unmarshal_job_post X s) (\<lambda>r. Inr (jpr_job r, jpo_tags (jpr_submitOptions r))))\<rparr>"

lemma codec_rest_simps [simp]:
  "MarshalError (codec_rest X R) b =
     (case response_text X b of Some (Inl e) \<Rightarrow> Some e | Some (Inr t) \<Rightarrow> None | None \<Rightarrow> MarshalError R b)"
  "JsonError (codec_rest X R) s = (case unmarshal_any s of Inl e \<Rightarrow> Some e | Inr j \<Rightarrow> None)"
  "SchemaError (codec_rest X R) = SchemaError R"
  "UnmarshalComponentPost (codec_rest X R) s = rbind (unmarshal_component_post X s) (\<lambda>r. Inr (cpr_component r))"
  "UnmarshalWorkflowPost (codec_rest X R) s = rbind (unmarshal_workflow_post X s) (\<lambda>r. Inr (wpr_workflow r))"
  "UnmarshalJobPost (codec_rest X R) s =
     rbind (unmarshal_job_post X s) (\<lambda>r. Inr (jpr_job r, jpo_tags (jpr_submitOptions r)))"
  by (simp_all add: codec_rest_def)

text \<open>The text of a request with one field.\<close>

definition request_text :: "string \<Rightarrow> string \<Rightarrow> string" where
  "request_text k t = CHR ''{'' # CHR 0x22 # k @ CHR 0x22 # CHR '':'' # t @ ''}''"

lemma request_text_json: "request_text k (json_text j) = json_text (JObj [(k, j)])"
  by (simp add: request_text_def)

definition post_request :: "request \<Rightarrow> string \<Rightarrow> bool" where
  "post_request r body \<longleftrightarrow> rq_body r = (body, None)"

lemma ReadBody_document:
  assumes "rq_body r = (json_text (JObj [(k, j)]), None)" "body_ok k" "json_ok j"
    and "ValidateDocument (codec_rest X R) (json_text (JObj [(k, j)])) t = None"
  shows "ReadBody (codec_rest X R) t unmarshal r = unmarshal (json_text (JObj [(k, j)]))
    \<and> parse_json (json_text (JObj [(k, j)])) = Inr (JObj [(k, j)])"
proof -
  have "parse_json (json_text (JObj [(k, j)])) = Inr (JObj [(k, j)])"
    by (rule parse_json_text) (use assms(2,3) in simp)
  then show ?thesis using assms by (simp add: ReadBody_def del: json_text.simps)
qed

text \<open>
  A document whose numbers fit into floating point numbers, and that its schema accepts, is valid.
\<close>

lemma ValidateDocument_accepts:
  assumes "parse_json s = Inr j" "numbers_fit j" "t \<in> set RegisteredSchemas" "SchemaError R t s = None"
  shows "ValidateDocument (codec_rest X R) s t = None"
  using assms by (simp add: ValidateDocument_def unmarshal_any_def)

text \<open>
  A component, workflow or job that JSON can tell apart has a JSON text in an answer, and a POST request with
  this text in its field, when its schema accepts it, is read as the same component, workflow or job (a job
  without options has no tags).
\<close>

theorem served_documents_can_be_sent_back:
  assumes X: "uuid_codec_ok X"
  shows "(component_reads_back X c \<longrightarrow>
      (\<exists>t. response_text X (BodyComponent c) = Some (Inr t) \<and> MarshalError (codec_rest X R) (BodyComponent c) = None
        \<and> (\<forall>r. post_request r (request_text ''component'' t) \<longrightarrow>
             ValidateDocument (codec_rest X R) (request_text ''component'' t) ''ComponentPostRequest'' = None \<longrightarrow>
             ReadBody (codec_rest X R) ''ComponentPostRequest'' (UnmarshalComponentPost (codec_rest X R)) r = Inr c)))
    \<and> (workflow_reads_back X w \<longrightarrow>
      (\<exists>t. response_text X (BodyWorkflow w) = Some (Inr t) \<and> MarshalError (codec_rest X R) (BodyWorkflow w) = None
        \<and> (\<forall>r. post_request r (request_text ''workflow'' t) \<longrightarrow>
             ValidateDocument (codec_rest X R) (request_text ''workflow'' t) ''WorkflowPostRequest'' = None \<longrightarrow>
             ReadBody (codec_rest X R) ''WorkflowPostRequest'' (UnmarshalWorkflowPost (codec_rest X R)) r = Inr w)))
    \<and> (job_reads_back X b \<longrightarrow>
      (\<exists>t. response_text X (BodyJob b) = Some (Inr t) \<and> MarshalError (codec_rest X R) (BodyJob b) = None
        \<and> (\<forall>r. post_request r (request_text ''job'' t) \<longrightarrow>
             ValidateDocument (codec_rest X R) (request_text ''job'' t) ''JobPostRequest'' = None \<longrightarrow>
             ReadBody (codec_rest X R) ''JobPostRequest'' (UnmarshalJobPost (codec_rest X R)) r = Inr (b, []))))"
proof (intro conjI impI)
  assume rb: "component_reads_back X c"
  obtain j where j: "component_encode X c = Inr j" "json_ok j"
    using component_encodes_all(1) [OF X rb] by (auto simp: encodes_def)
  have "dec_struct (component_post_fields X) (JObj [(''component'', j)]) \<lparr>cpr_component = zero_component, cpr_options = ()\<rparr>
    = Inr \<lparr>cpr_component = c, cpr_options = ()\<rparr>"
    using component_field_roundtrip [OF X j(1) rb] by (simp add: component_post_fields_def decode_simps)
  then show "\<exists>t. response_text X (BodyComponent c) = Some (Inr t) \<and> MarshalError (codec_rest X R) (BodyComponent c) = None
        \<and> (\<forall>r. post_request r (request_text ''component'' t) \<longrightarrow>
             ValidateDocument (codec_rest X R) (request_text ''component'' t) ''ComponentPostRequest'' = None \<longrightarrow>
             ReadBody (codec_rest X R) ''ComponentPostRequest'' (UnmarshalComponentPost (codec_rest X R)) r = Inr c)"
    using j ReadBody_document [of _ "''component''" j X R "''ComponentPostRequest''"
        "UnmarshalComponentPost (codec_rest X R)"]
    by (intro exI [of _ "json_text j"])
      (simp add: response_text_def json_Marshal_def request_text_json post_request_def RegisteredSchemas_def
        unmarshal_component_post_def json_Unmarshal_def del: json_text.simps)
next
  assume rb: "workflow_reads_back X w"
  obtain j where j: "workflow_encode X w = Inr j" "json_ok j"
    using workflow_encodes [OF X rb] by (auto simp: encodes_def)
  have "dec_struct (workflow_post_fields X) (JObj [(''workflow'', j)]) \<lparr>wpr_workflow = zero_workflow, wpr_options = ()\<rparr>
    = Inr \<lparr>wpr_workflow = w, wpr_options = ()\<rparr>"
    using workflow_roundtrip [OF X j(1) rb]
    by (simp add: workflow_post_fields_def dec_struct_def [of "[(a, b), c]" for a b c] dec_member_def find_field_def fld_def)
  then show "\<exists>t. response_text X (BodyWorkflow w) = Some (Inr t) \<and> MarshalError (codec_rest X R) (BodyWorkflow w) = None
        \<and> (\<forall>r. post_request r (request_text ''workflow'' t) \<longrightarrow>
             ValidateDocument (codec_rest X R) (request_text ''workflow'' t) ''WorkflowPostRequest'' = None \<longrightarrow>
             ReadBody (codec_rest X R) ''WorkflowPostRequest'' (UnmarshalWorkflowPost (codec_rest X R)) r = Inr w)"
    using j ReadBody_document [of _ "''workflow''" j X R "''WorkflowPostRequest''"
        "UnmarshalWorkflowPost (codec_rest X R)"]
    by (intro exI [of _ "json_text j"])
      (simp add: response_text_def json_Marshal_def request_text_json post_request_def RegisteredSchemas_def
        unmarshal_workflow_post_def json_Unmarshal_def del: json_text.simps)
next
  assume rb: "job_reads_back X b"
  let ?z = "\<lparr>jpr_job = zero_job, jpr_submitOptions = \<lparr>jpo_constants = [], jpo_tags = []\<rparr>\<rparr>"
  obtain j where j: "job_encode X b = Inr j" "json_ok j"
    using job_encodes [OF X rb] by (auto simp: encodes_def)
  have "dec_struct (job_post_fields X) (JObj [(''job'', j)]) ?z = Inr (?z\<lparr>jpr_job := b\<rparr>)"
    using job_roundtrip [OF X j(1) rb]
    by (simp add: job_post_fields_def dec_struct_def [of "[(a, b), c]" for a b c] dec_member_def find_field_def fld_def)
  then show "\<exists>t. response_text X (BodyJob b) = Some (Inr t) \<and> MarshalError (codec_rest X R) (BodyJob b) = None
        \<and> (\<forall>r. post_request r (request_text ''job'' t) \<longrightarrow>
             ValidateDocument (codec_rest X R) (request_text ''job'' t) ''JobPostRequest'' = None \<longrightarrow>
             ReadBody (codec_rest X R) ''JobPostRequest'' (UnmarshalJobPost (codec_rest X R)) r = Inr (b, []))"
    using j ReadBody_document [of _ "''job''" j X R "''JobPostRequest''"
        "UnmarshalJobPost (codec_rest X R)"]
    by (intro exI [of _ "json_text j"])
      (simp add: response_text_def json_Marshal_def request_text_json post_request_def RegisteredSchemas_def body_ok_def
        unmarshal_job_post_def json_Unmarshal_def del: json_text.simps)
qed

lemma ex_document_fits:
  "\<exists>j. component_encode codec_example ex_json_component = Inr j \<and> numbers_fit (JObj [(''component'', j)])"
proof -
  have encoded: "\<exists>j. r = Inr j \<and> list_all P (numbers j)"
    if "case r of Inl e \<Rightarrow> False | Inr j \<Rightarrow> list_all P (numbers j)" for r :: "json res" and P
    using that by (cases r) auto
  have "\<exists>j. component_encode codec_example ex_json_component = Inr j \<and> list_all (\<lambda>n. n \<in> set [''1'', ''2'']) (numbers j)"
    by (rule encoded) code_simp
  moreover have "float_fits n" if "n \<in> set [''1'', ''2'']" for n
    using that float_fits_digit [of "CHR ''1''"] float_fits_digit [of "CHR ''2''"] by (auto simp: is_digit_def)
  ultimately show ?thesis
    by (auto simp only: numbers_fit_def numbers.simps list.map concat.simps append_Nil2 snd_conv list_all_iff)
qed

theorem served_documents_can_be_sent_back_witness:
  "\<exists>t. response_text codec_example (BodyComponent ex_json_component) = Some (Inr t)
     \<and> ReadBody (codec_rest codec_example ex_rest) ''ComponentPostRequest''
         (UnmarshalComponentPost (codec_rest codec_example ex_rest))
         (ex_request ''POST'' ''/components/'' [] ''r'' (request_text ''component'' t)) = Inr ex_json_component"
proof -
  obtain j where j: "component_encode codec_example ex_json_component = Inr j" "numbers_fit (JObj [(''component'', j)])"
    using ex_document_fits by blast
  have "json_ok j" using component_encodes_all(1) [OF uuid_codec_ok_example ex_json_reads_back] j(1) by (simp add: encodes_def)
  then have "parse_json (request_text ''component'' (json_text j)) = Inr (JObj [(''component'', j)])"
    unfolding request_text_json by (intro parse_json_text) simp
  moreover have "SchemaError ex_rest s d = None" for s d by (simp add: ex_rest_def)
  ultimately have valid: "ValidateDocument (codec_rest codec_example ex_rest) (request_text ''component'' (json_text j))
      ''ComponentPostRequest'' = None"
    using j(2) by (intro ValidateDocument_accepts [where j = "JObj [(''component'', j)]"]) (simp_all add: RegisteredSchemas_def)
  have answer: "response_text codec_example (BodyComponent ex_json_component) = Some (Inr (json_text j))"
    by (simp add: response_text_def json_Marshal_def j(1))
  have "post_request (ex_request m p v tk body) body" for m p v tk body by (simp add: post_request_def ex_request_def)
  moreover obtain t where t: "response_text codec_example (BodyComponent ex_json_component) = Some (Inr t)"
    "\<forall>r. post_request r (request_text ''component'' t) \<longrightarrow>
       ValidateDocument (codec_rest codec_example ex_rest) (request_text ''component'' t) ''ComponentPostRequest'' = None \<longrightarrow>
       ReadBody (codec_rest codec_example ex_rest) ''ComponentPostRequest''
         (UnmarshalComponentPost (codec_rest codec_example ex_rest)) r = Inr ex_json_component"
    using served_documents_can_be_sent_back [OF uuid_codec_ok_example, of ex_json_component ex_rest,
        THEN conjunct1, THEN mp, OF ex_json_reads_back] by blast
  moreover have "t = json_text j" using t(1) answer by simp
  ultimately show ?thesis using valid by blast
qed

section \<open>From GET to PUT\<close>

lemma component_shown:
  assumes "ComponentGetHandler R client w r d = (w', d')" "fresh_rw w" "BodyComponent c \<in> set (rw_bodies w')"
  shows "status_of w' = Some 200 \<and> d' = d"
proof -
  have "rw_bodies w = []" using assms(2) by (simp add: fresh_rw_def)
  then have no: "BodyComponent c \<notin> set (rw_bodies (respond_error w st a b))" "BodyComponent c \<notin> set (rw_bodies (abort w))"
    "BodyComponent c \<notin> set (rw_bodies (WriteErrorResponse w e))" for st a b e
    by (simp_all add: respond_error_def WriteErrorResponse_def writeBytes_fresh [OF assms(2)] abort_def)
  show ?thesis
    using assms no response_status [OF assms(2)]
    by (auto simp: ComponentGetHandler_def bad_request_def bad_version_def on_result_def WriteResponse_def
        status_of_def writeBytes_fresh [OF assms(2)] split: sum.splits prod.splits if_splits option.splits)
qed

lemma put_component_text:
  assumes X: "uuid_codec_ok X" and rb: "component_reads_back X c"
    and body: "response_text X (BodyComponent c) = Some (Inr t)"
    and r: "post_request r (request_text ''component'' t)"
      "ValidateDocument (codec_rest X R) (request_text ''component'' t) ''ComponentPostRequest'' = None"
  shows "ReadBody (codec_rest X R) ''ComponentPostRequest'' (UnmarshalComponentPost (codec_rest X R)) r = Inr c"
  using served_documents_can_be_sent_back [OF X, THEN conjunct1, THEN mp, OF rb] body r by auto

lemma rest_PutComponent_effect:
  assumes laws: "driver_laws M docs rx" "encode_law E M" "decode_law M" "wrapf_ok E"
    and wv: "well_versioned E (cmp_uid c) (docs d componentCollection)"
    and run: "rest_PutComponent (mongo_client E M) cx now c d = (res, d')"
    and node: "node = cmp_set_metadata (TouchMetadata cx now (cmp_metadata c)) c"
  shows "(isl res \<and> docs d' = docs d)
    \<or> put_effect E M (\<lambda>md. DComponent (cmp_set_metadata md node)) (cmp_metadata node) componentCollection (docs d) (docs d')"
proof -
  have "cmp_uid node = cmp_uid c" by (cases c) (simp add: node TouchMetadata_def split: option.split)
  with wv have "well_versioned E (cmp_uid node) (docs d componentCollection)" by simp
  from PutComponent_effect [OF laws this] run show ?thesis
    by (auto simp: rest_PutComponent_def mongo_client_def node wrapres_def split: if_splits prod.splits sum.splits)
qed

text \<open>
  C16: What a client gets it can put back. When GET answers with a component that JSON can tell apart, and the
  text of that answer is sent in the body of a PUT under the identifier of the component and accepted by the
  schema, then what the server stores is this very component: as a new version of it, numbered above the
  newest one and alone tagged latest, with only the time, the author and the version of its metadata new.
  The answer is 204 when it was stored; with any other answer, which is 500 or none after a panic, it was
  stored just so or nothing was changed.
\<close>

theorem served_component_can_be_put_back:
  assumes X: "uuid_codec_ok X" and rb: "component_reads_back X c"
    and get: "ComponentGetHandler (codec_rest X R) (mongo_client E M) w0 r0 d0 = (w1, d1)" "fresh_rw w0"
      "BodyComponent c \<in> set (rw_bodies w1)"
    and body: "response_text X (BodyComponent c) = Some (Inr t)"
    and r: "post_request r (request_text ''component'' t)"
      "ValidateDocument (codec_rest X R) (request_text ''component'' t) ''ComponentPostRequest'' = None"
      "ParseUUID R (zget (rq_vars r) ''id'') = Inr (cmp_uid c)"
    and put: "ComponentPutHandler (codec_rest X R) (mongo_client E M) w r d = (w', d')" "fresh_rw w"
    and laws: "driver_laws M docs rx" "encode_law E M" "decode_law M" "wrapf_ok E"
    and wv: "well_versioned E (cmp_uid c) (docs d componentCollection)"
  shows "status_of w1 = Some 200 \<and> d1 = d0 \<and>
    (let node = cmp_set_metadata (TouchMetadata (rq_ctx r) (rq_now r) (cmp_metadata c)) c;
         stored_once = put_effect E M (\<lambda>md. DComponent (cmp_set_metadata md node)) (cmp_metadata node)
           componentCollection (docs d) (docs d')
     in if status_of w' = Some 204 then stored_once
        else (status_of w' = Some 500 \<or> rw_panic w') \<and> (docs d' = docs d \<or> stored_once))"
proof -
  let ?R = "codec_rest X R"
  have "status_of w1 = Some 200 \<and> d1 = d0" by (rule component_shown [OF get])
  moreover obtain res d2 where run: "rest_PutComponent (mongo_client E M) (rq_ctx r) (rq_now r) c d = (res, d2)" by fastforce
  have "ParseUUID ?R (zget (rq_vars r) ''id'') = Inr (cmp_uid c)" using r(3) by (simp add: codec_rest_def)
  then have h: "(w', d') = on_result res (w, d2) (\<lambda>err. (respond_error w 500 ''could not handle put request'' (Text ''''), d2))
      (\<lambda>_. (WriteResponse ?R w 204 [(''Location'', path_join [rq_uri r])] BodyNil ''putComponent'', d2))"
    using put(1) put_component_text [OF X rb body r(1,2)] run by (simp add: ComponentPutHandler_def)
  have "status_of (WriteResponse ?R w 204 hs BodyNil tag) \<in> {Some 204, Some 500}" for hs tag
    using response_status [OF put(2)] error_status [OF put(2)]
    by (cases "MarshalError ?R BodyNil") (auto simp: WriteResponse_def status_of_def WriteErrorResponse_def writeBytes_fresh [OF put(2)])
  with h rest_PutComponent_effect [OF laws wv run refl] show ?thesis
    using calculation error_status [OF put(2)] fresh_abort [OF put(2)]
    by (cases res) (fastforce simp: Let_def split: if_splits)+
qed

text \<open>A database whose components hold what any component may stand for.\<close>

definition ex_any :: "metadata \<Rightarrow> component" where
  "ex_any md = Component md [] [] ''component'' (ImplAny ''any'')"

definition ex_any_mongo :: "mem mongo" where
  "ex_any_mongo = (mem_mongo ext_example)\<lparr>DecodeComponent := (\<lambda>b. Inr (ex_any (get_metadata b)))\<rparr>"

definition ex_any_get :: request where
  "ex_any_get = ex_request ''GET'' ''/components/{id}'' [(''id'', ''uu'')] ''r'' []"

definition ex_any_put :: "string \<Rightarrow> request" where
  "ex_any_put t = ex_request ''PUT'' ''/components/{id}'' [(''id'', ''uu'')] ''r'' (request_text ''component'' t)"

definition ex_any_served :: component where
  "ex_any_served = ex_any (get_metadata (mem_id (mem_marshal ext_example (DComponent (ex_cmp 2 1)))))"

lemma ex_any_laws: "driver_laws ex_any_mongo mem_docs no_regex" "encode_law ext_example ex_any_mongo" "decode_law ex_any_mongo"
proof -
  note laws = driver_laws_def insert_law_def find_law_def update_law_def modify_law_def replace_law_def delete_law_def
    aggregate_law_def transaction_law_def
  show "driver_laws ex_any_mongo mem_docs no_regex"
    using mem_laws(1) [of ext_example] unfolding laws ex_any_mongo_def by simp
  show "encode_law ext_example ex_any_mongo" using mem_laws(2) [of ext_example] by (simp add: encode_law_def ex_any_mongo_def)
  show "decode_law ex_any_mongo" using mem_laws(3) [of ext_example] by (simp add: decode_law_def ex_any_mongo_def)
qed

lemma ex_any_reads_back: "component_reads_back codec_example ex_any_served"
  by code_simp

lemma ex_any_text:
  "\<exists>t. response_text codec_example (BodyComponent ex_any_served) = Some (Inr t)
     \<and> ValidateDocument (codec_rest codec_example ex_rest) (request_text ''component'' t) ''ComponentPostRequest'' = None"
proof -
  have encoded: "\<exists>j. r = Inr j \<and> list_all P (numbers j)"
    if "case r of Inl e \<Rightarrow> False | Inr j \<Rightarrow> list_all P (numbers j)" for r :: "json res" and P
    using that by (cases r) auto
  have "\<exists>j. component_encode codec_example ex_any_served = Inr j \<and> list_all (\<lambda>n. n \<in> set [''0'', ''1'', ''2'']) (numbers j)"
    by (rule encoded) code_simp
  then obtain j where j: "component_encode codec_example ex_any_served = Inr j" "list_all (\<lambda>n. n \<in> set [''0'', ''1'', ''2'']) (numbers j)"
    by blast
  moreover have "float_fits n" if "n \<in> set [''0'', ''1'', ''2'']" for n
    using that float_fits_digit [of "CHR ''0''"] float_fits_digit [of "CHR ''1''"] float_fits_digit [of "CHR ''2''"]
    by (auto simp: is_digit_def)
  ultimately have fits: "numbers_fit (JObj [(''component'', j)])"
    by (auto simp only: numbers_fit_def numbers.simps list.map concat.simps append_Nil2 snd_conv list_all_iff)
  have "json_ok j" using component_encodes_all(1) [OF uuid_codec_ok_example ex_any_reads_back] j(1) by (simp add: encodes_def)
  then have "parse_json (request_text ''component'' (json_text j)) = Inr (JObj [(''component'', j)])"
    unfolding request_text_json by (intro parse_json_text) simp
  moreover have "SchemaError ex_rest s d = None" for s d by (simp add: ex_rest_def)
  ultimately have "ValidateDocument (codec_rest codec_example ex_rest) (request_text ''component'' (json_text j))
      ''ComponentPostRequest'' = None"
    using fits by (intro ValidateDocument_accepts [where j = "JObj [(''component'', j)]"]) (simp_all add: RegisteredSchemas_def)
  then show ?thesis by (intro exI [of _ "json_text j"]) (simp add: response_text_def json_Marshal_def j(1))
qed

theorem served_component_can_be_put_back_witness:
  "\<exists>t d'. response_text codec_example (BodyComponent ex_any_served) = Some (Inr t)
     \<and> snd (ComponentPutHandler (codec_rest codec_example ex_rest) (mongo_client ext_example ex_any_mongo) new_rw (ex_any_put t) ex_db) = d'
     \<and> put_effect ext_example ex_any_mongo (\<lambda>md. DComponent (cmp_set_metadata md ex_any_served)) (cmp_metadata ex_any_served)
         componentCollection (mem_docs ex_db) (mem_docs d')"
proof -
  let ?R = "codec_rest codec_example ex_rest" and ?C = "mongo_client ext_example ex_any_mongo"
  obtain t where t: "response_text codec_example (BodyComponent ex_any_served) = Some (Inr t)"
    "ValidateDocument ?R (request_text ''component'' t) ''ComponentPostRequest'' = None"
    using ex_any_text by blast
  have uid: "cmp_uid ex_any_served = 2" by code_simp
  let ?get = "ComponentGetHandler ?R ?C new_rw ex_any_get ex_db" and ?put = "ComponentPutHandler ?R ?C new_rw (ex_any_put t) ex_db"
  have "GetComponent ext_example ex_any_mongo (NVCRefVersion \<lparr>crv_version = 0, crv_uid = 2\<rparr>) ex_db = Inr ex_any_served"
    by code_simp
  then have get: "BodyComponent ex_any_served \<in> set (rw_bodies (fst ?get))"
    using t(1) by (simp add: ComponentGetHandler_def getIdFromMuxerPath_def getVersionNoFromMuxerPath_def ex_any_get_def ex_request_def
      mongo_client_def codec_rest_def ex_rest_def WriteResponse_def writeBytes_fresh bodyAllowed_def)
  have r: "post_request (ex_any_put t) (request_text ''component'' t)"
    "ParseUUID ex_rest (zget (rq_vars (ex_any_put t)) ''id'') = Inr (cmp_uid ex_any_served)"
    by (simp_all add: post_request_def ex_any_put_def ex_request_def ex_rest_def zget_def uid)
  have ctx: "cx_user (rq_ctx (ex_any_put t)) = None" by (simp add: ex_any_put_def ex_request_def)
  have wv: "well_versioned ext_example (cmp_uid ex_any_served) (mem_docs ex_db componentCollection)"
    by (simp add: uid well_versioned_def ex_simps versioned_def)
  have ok: "fst (rest_PutComponent ?C (rq_ctx (ex_any_put t)) 0 ex_any_served ex_db) = Inr ()"
    unfolding ex_any_put_def ex_request_def request.simps by code_simp
  have node: "cmp_set_metadata (TouchMetadata (rq_ctx (ex_any_put t)) (rq_now (ex_any_put t)) (cmp_metadata ex_any_served)) ex_any_served = ex_any_served"
    by (simp add: TouchMetadata_def ctx ex_any_served_def ex_any_def cmp_set_metadata_def)
  obtain d2 where run: "rest_PutComponent ?C (rq_ctx (ex_any_put t)) 0 ex_any_served ex_db = (Inr (), d2)"
    using ok by (metis prod.collapse)
  have "status_of (WriteResponse ?R new_rw 204 hs BodyNil tag) = Some 204" for hs tag
    by (rule response_status) (simp_all add: ex_rest_def response_text_def)
  then have st: "status_of (fst ?put) = Some 204"
    using run r(2) put_component_text [OF uuid_codec_ok_example ex_any_reads_back t(1) r(1) t(2)]
    by (simp add: ComponentPutHandler_def codec_rest_def [of _ ex_rest] uid ex_any_put_def ex_request_def)
  have pairs: "?get = (fst ?get, snd ?get)" "?put = (fst ?put, snd ?put)" by simp_all
  show ?thesis
    using served_component_can_be_put_back [where docs = mem_docs and d = ex_db, OF uuid_codec_ok_example ex_any_reads_back pairs(1) fresh_headers(3) get t(1) r(1) t(2) r(2)
        pairs(2) fresh_headers(3) ex_any_laws ext_example_ok(4) wv] t(1)
    unfolding node Let_def st by auto
qed

end
