(* ===== verification/Base64.thy ===== *)
theory Base64
  imports Flowify_Prelude
begin

text \<open>
  Go's \<^verbatim>\<open>base64.StdEncoding\<close>, with which the connection string of a Cosmos database is
  written in its credentials: the decoder the program calls, and the encoder whose texts it reads.
\<close>

section \<open>Digits\<close>

definition b64_digit :: "nat \<Rightarrow> char" where
  "b64_digit n =
     (if n < 26 then char_of (65 + n)
      else if n < 52 then char_of (71 + n)
      else if n < 62 then char_of (n - 4)
      else if n = 62 then CHR ''+'' else CHR ''/'')"

definition b64_value :: "char \<Rightarrow> nat option" where
  "b64_value c =
     (let n = of_char c :: nat in
      if 65 \<le> n \<and> n \<le> 90 then Some (n - 65)
      else if 97 \<le> n \<and> n \<le> 122 then Some (n - 71)
      else if 48 \<le> n \<and> n \<le> 57 then Some (n + 4)
      else if n = 43 then Some 62
      else if n = 47 then Some 63
      else None)"

section \<open>Decoding\<close>

text \<open>
  A text is read in groups of four digits, with line ends between any two characters skipped. The
  last group may end in one or two padding characters, and nothing follows them; the bits that the
  padding leaves over are not looked at.
\<close>

definition b64_error :: goerr where "b64_error = ExtErr ''illegal base64 data''"

definition b64_last :: "char \<Rightarrow> char \<Rightarrow> char \<Rightarrow> string res" where
  "b64_last a b c =
     (case (b64_value a, b64_value b) of
        (Some i, Some j) \<Rightarrow>
          if c = CHR ''='' then Inr [char_of (4 * i + j div 16)]
          else (case b64_value c of
                  Some k \<Rightarrow> Inr [char_of (4 * i + j div 16), char_of (16 * (j mod 16) + k div 4)]
                | None \<Rightarrow> Inl b64_error)
      | _ \<Rightarrow> Inl b64_error)"

fun b64_groups :: "string \<Rightarrow> string res" where
  "b64_groups [] = Inr []"
| "b64_groups (a # b # c # d # r) =
     (if d = CHR ''='' then (if r = [] then b64_last a b c else Inl b64_error)
      else (case (b64_value a, b64_value b, b64_value c, b64_value d) of
              (Some i, Some j, Some k, Some l) \<Rightarrow>
                rbind (b64_groups r) (\<lambda>bs.
                Inr (char_of (4 * i + j div 16) # char_of (16 * (j mod 16) + k div 4) # char_of (64 * (k mod 4) + l) # bs))
            | _ \<Rightarrow> Inl b64_error))"
| "b64_groups s = Inl b64_error"

definition b64_decode :: "string \<Rightarrow> string res" where
  "b64_decode s = b64_groups (filter (\<lambda>c. c \<noteq> CHR 0x0A \<and> c \<noteq> CHR 0x0D) s)"

section \<open>Encoding\<close>

fun b64_encode :: "string \<Rightarrow> string" where
  "b64_encode [] = []"
| "b64_encode [x] =
     (let a = of_char x :: nat in [b64_digit (a div 4), b64_digit (16 * (a mod 4)), CHR ''='', CHR ''=''])"
| "b64_encode [x, y] =
     (let a = of_char x :: nat; b = of_char y in
      [b64_digit (a div 4), b64_digit (16 * (a mod 4) + b div 16), b64_digit (4 * (b mod 16)), CHR ''=''])"
| "b64_encode (x # y # z # s) =
     (let a = of_char x :: nat; b = of_char y; c = of_char z in
      b64_digit (a div 4) # b64_digit (16 * (a mod 4) + b div 16) # b64_digit (4 * (b mod 16) + c div 64)
      # b64_digit (c mod 64) # b64_encode s)"

section \<open>What is encoded decodes to the same bytes\<close>

definition digit_ok :: "nat \<Rightarrow> bool" where
  "digit_ok n \<longleftrightarrow> b64_value (b64_digit n) = Some n
     \<and> b64_digit n \<noteq> CHR ''='' \<and> b64_digit n \<noteq> CHR 0x0A \<and> b64_digit n \<noteq> CHR 0x0D"

lemma digits_ok: "list_all digit_ok [0..<64]"
  by code_simp

lemma b64_digit [simp]:
  "n < 64 \<Longrightarrow> b64_value (b64_digit n) = Some n"
  "n < 64 \<Longrightarrow> b64_digit n \<noteq> CHR ''=''"
  "n < 64 \<Longrightarrow> b64_digit n \<noteq> CHR 0x0A"
  "n < 64 \<Longrightarrow> b64_digit n \<noteq> CHR 0x0D"
  using digits_ok by (simp_all add: list_all_iff digit_ok_def)

lemma sextets [simp]:
  "(of_char (x :: char) :: nat) div 4 < 64"
  "16 * ((of_char (x :: char) :: nat) mod 4) + of_char (y :: char) div 16 < 64"
  "4 * ((of_char (y :: char) :: nat) mod 16) + of_char (z :: char) div 64 < 64"
  "16 * ((of_char (x :: char) :: nat) mod 4) < 64"
  "4 * ((of_char (y :: char) :: nat) mod 16) < 64"
  using nat_of_char_less_256 [of x] nat_of_char_less_256 [of y] nat_of_char_less_256 [of z] by linarith+

lemma octets:
  fixes a b c :: nat
  assumes "b < 256" "c < 256"
  shows "4 * (a div 4) + (16 * (a mod 4) + b div 16) div 16 = a"
    and "16 * ((16 * (a mod 4) + b div 16) mod 16) + (4 * (b mod 16) + c div 64) div 4 = b"
    and "64 * ((4 * (b mod 16) + c div 64) mod 4) + c mod 64 = c"
proof -
  have "b div 16 < 16" "c div 64 < 4" using assms by simp_all
  then show "4 * (a div 4) + (16 * (a mod 4) + b div 16) div 16 = a"
    and "16 * ((16 * (a mod 4) + b div 16) mod 16) + (4 * (b mod 16) + c div 64) div 4 = b"
    and "64 * ((4 * (b mod 16) + c div 64) mod 4) + c mod 64 = c"
    by simp_all
qed

lemma b64_encode_digits: "c \<in> set (b64_encode s) \<Longrightarrow> c \<noteq> CHR 0x0A \<and> c \<noteq> CHR 0x0D"
  by (induction s rule: b64_encode.induct) (auto simp: Let_def)

lemma b64_groups_encode: "b64_groups (b64_encode s) = Inr s"
proof (induction s rule: b64_encode.induct)
  case (2 x)
  then show ?case using octets(1) [of 0 0 "of_char x"] by (simp add: Let_def b64_last_def)
next
  case (3 x y)
  then show ?case using octets(1) [of "of_char y" 0 "of_char x"] octets(2) [of "of_char y" 0 "of_char x"]
    by (simp add: Let_def b64_last_def)
next
  case (4 x y z s)
  then show ?case
    using octets(1,2) [of "of_char y" "of_char z" "of_char x"] octets(3) [of "of_char y" "of_char z"] by (simp add: Let_def)
qed simp

lemma b64_decode_encode [simp]: "b64_decode (b64_encode s) = Inr s"
proof -
  have "filter (\<lambda>c. c \<noteq> CHR 0x0A \<and> c \<noteq> CHR 0x0D) (b64_encode s) = b64_encode s"
    using b64_encode_digits by (simp add: filter_id_conv)
  then show ?thesis by (simp add: b64_decode_def b64_groups_encode)
qed

end
