(* ===== verification/Config.thy ===== *)
theory Config
  imports Authorization Base64 Json_Facts
begin

text \<open>
  The configuration: \<^verbatim>\<open>apiserver/config.go\<close>, the database clients that
  \<^verbatim>\<open>storage/mongo.go\<close> and \<^verbatim>\<open>storage/mongovolumestorage.go\<close> make from it, and the
  authentication client of \<^verbatim>\<open>auth/config.go\<close>. The configuration library, the decoder of generic
  maps, the database driver and the key set library are parameters.
\<close>

section \<open>Data\<close>

text \<open>A value of type \<^verbatim>\<open>interface{}\<close>, and the kinds of Go types the decode hook tells apart.\<close>

datatype 'v any_value = AnyString string | AnyInt int | AnyOther 'v

datatype go_kind = KindString | KindInterface | KindOther

record 'v DbConfig =
  db_Select :: string
  db_DbName :: string
  db_Config :: "'v any_value gomap"

record 'v AuthConfig =
  ac_Handler :: string
  ac_Config :: "'v any_value gomap"

record AzureConfig =
  azc_Issuer :: string
  azc_Audience :: string
  azc_KeysUrl :: string

record KubernetesKonfig =
  kk_KubeConfigPath :: string
  kk_Namespace :: string

record LogConfig =
  lc_LogLevel :: string

record ServerConfig =
  sc_Port :: int

record 'v Config =
  cfg_Db :: "'v DbConfig"
  cfg_Kubernetes :: KubernetesKonfig
  cfg_Auth :: "'v AuthConfig"
  cfg_Log :: LogConfig
  cfg_Server :: ServerConfig

section \<open>Loading\<close>

text \<open>The settings of the configuration library, and what it does with them.\<close>

record viper =
  vp_paths :: "string list"
  vp_name :: string
  vp_type :: string
  vp_autoEnv :: bool
  vp_envReplace :: "(string \<times> string) list"
  vp_envPrefix :: string

type_synonym 'v decode_hook = "go_kind \<Rightarrow> go_kind \<Rightarrow> 'v any_value \<Rightarrow> 'v any_value res"

record ('v, 's) config_lib =
  ReadConfig :: "viper \<Rightarrow> string \<Rightarrow> 's res"
  ReadInConfig :: "viper \<Rightarrow> 's res"
  UnmarshalConfig :: "viper \<Rightarrow> 's \<Rightarrow> 'v decode_hook \<Rightarrow> 'v Config res"
  UnmarshalDbConfig :: "viper \<Rightarrow> 's \<Rightarrow> 'v DbConfig \<times> goerr option"
  MarshalYaml :: "'v Config \<Rightarrow> string res"

definition viperConfig :: "viper \<Rightarrow> viper" where
  "viperConfig v = v\<lparr>vp_type := ''yaml'', vp_autoEnv := True, vp_envReplace := [(''.'', ''_'')], vp_envPrefix := ''FLOWIFY''\<rparr>"

text \<open>A text that is decoded into an \<^verbatim>\<open>interface{}\<close> becomes an integer if it reads as one.\<close>

definition viperDecodeHook :: "'v decode_hook" where
  "viperDecodeHook f t x =
     (if f \<noteq> KindString then Inr x
      else if t \<noteq> KindInterface then Inr x
      else (case x of
              AnyString s \<Rightarrow> (case Atoi s of Inl e \<Rightarrow> Inr x | Inr i \<Rightarrow> Inr (AnyInt i))
            | _ \<Rightarrow> Inl (GoPanic ''interface conversion'')))"

definition LoadConfigFromReader :: "('v, 's) config_lib \<Rightarrow> viper \<Rightarrow> string \<Rightarrow> 'v Config res" where
  "LoadConfigFromReader C v stream =
     (case ReadConfig C (viperConfig v) stream of
        Inl e \<Rightarrow> Inl (Wrap ''Cannot load config from reader'' e)
      | Inr s \<Rightarrow>
          (case UnmarshalConfig C (viperConfig v) s viperDecodeHook of
             Inl e \<Rightarrow> Inl (Wrap ''Cannot load config from reader'' e)
           | Inr config \<Rightarrow> Inr config))"

definition LoadConfigFromPath :: "('v, 's) config_lib \<Rightarrow> viper \<Rightarrow> string \<Rightarrow> 'v Config res" where
  "LoadConfigFromPath C v path =
     (let v' = viperConfig (v\<lparr>vp_paths := vp_paths v @ [path]\<rparr>)
      in case ReadInConfig C v' of
           Inl e \<Rightarrow> Inl (Wrap ''Cannot not read config from path'' e)
         | Inr s \<Rightarrow>
             (case UnmarshalConfig C v' s viperDecodeHook of
                Inl e \<Rightarrow> Inl (Wrap ''Cannot not read config from path'' e)
              | Inr config \<Rightarrow> Inr config))"

text \<open>
  Printing the configuration. The effects are the texts written to standard output and to files; a
  configuration that has no text is written as the empty text.
\<close>

datatype effect = Printed string | WroteFile string string

definition config_String :: "('v, 's) config_lib \<Rightarrow> 'v Config \<Rightarrow> string" where
  "config_String C cfg = (case MarshalYaml C cfg of Inl e \<Rightarrow> '''' | Inr t \<Rightarrow> t)"

definition Dump :: "('v, 's) config_lib \<Rightarrow> (string \<Rightarrow> goerr option) \<Rightarrow> 'v Config \<Rightarrow> string \<Rightarrow> effect list \<times> unit res" where
  "Dump C writeError cfg path =
     (let str = config_String C cfg
      in if path = ''-'' then ([Printed (str @ [CHR 0x0A])], Inr ())
         else (case writeError path of
                 Some e \<Rightarrow> ([], Inl e)
               | None \<Rightarrow> ([WroteFile path str], Inr ())))"

section \<open>Database clients\<close>

record MongoConfig =
  mc_Address :: string
  mc_Port :: int

record CosmosConfig =
  cc_Credentials :: string

definition mongo_ConnectionString :: "MongoConfig \<Rightarrow> string res" where
  "mongo_ConnectionString c = Inr (''mongodb://'' @ mc_Address c @ '':'' @ itoa (mc_Port c))"

definition creds_fields :: "string fields" where
  "creds_fields = [(''PrimaryMongoDBConnectionString'', dec_string)]"

definition cosmos_ConnectionString :: "CosmosConfig \<Rightarrow> string res" where
  "cosmos_ConnectionString c =
     (case rbind (parse_json (cc_Credentials c)) (\<lambda>j. dec_struct creds_fields j '''') of
        Inl e \<Rightarrow> Inl (Wrap ''could not unmarshal CosmosConfig: %v'' e)
      | Inr primary \<Rightarrow>
          (case b64_decode primary of Inl e \<Rightarrow> Inl e | Inr uri \<Rightarrow> Inr uri))"

text \<open>
  The driver connects with a URI, directly to the named host, and can be asked whether the database
  answers. \<^verbatim>\<open>log.Fatal\<close> ends the program, so a connection that cannot be made is \<open>None\<close>.
\<close>

record ('v, 'c) mongo_lib =
  DecodeMongoConfig :: "'v any_value gomap \<Rightarrow> MongoConfig res"
  DecodeCosmosConfig :: "'v any_value gomap \<Rightarrow> CosmosConfig res"
  MongoConnect :: "string \<Rightarrow> bool \<Rightarrow> 'c res"
  MongoPing :: "'c \<Rightarrow> goerr option"

definition connection_uri :: "('v, 'c) mongo_lib \<Rightarrow> 'v DbConfig \<Rightarrow> string res" where
  "connection_uri M config =
     (if db_Select config = ''mongo'' then
        (case DecodeMongoConfig M (db_Config config) of
           Inl e \<Rightarrow> Inl (Wrap ''could not create new MongoClient'' e)
         | Inr cfg \<Rightarrow> wrapres ''could not decode connection string'' (mongo_ConnectionString cfg))
      else if db_Select config = ''cosmos'' then
        (case DecodeCosmosConfig M (db_Config config) of
           Inl e \<Rightarrow> Inl (Wrap ''could not create new MongoClient'' e)
         | Inr cfg \<Rightarrow> wrapres ''could not decode connection string'' (cosmos_ConnectionString cfg))
      else Inr '''')"

definition NewMongoClientFromConfig :: "('v, 'c) mongo_lib \<Rightarrow> 'v DbConfig \<Rightarrow> 'c run" where
  "NewMongoClientFromConfig M config =
     (case connection_uri M config of
        Inl e \<Rightarrow> Some (Inl e)
      | Inr uri \<Rightarrow>
          (case MongoConnect M uri True of
             Inl e \<Rightarrow> None
           | Inr client \<Rightarrow> Some (Inr client)))"

record 'c MongoStorageClient =
  ms_client :: 'c
  ms_db_name :: string

definition pinged :: "('v, 'c) mongo_lib \<Rightarrow> 'v DbConfig \<Rightarrow> 'c \<Rightarrow> 'c MongoStorageClient res" where
  "pinged M config c =
     (if MongoPing M c \<noteq> None then Inl (Errorf ''Cannot connect to database. Check configuration'' [])
      else Inr \<lparr>ms_client = c, ms_db_name = db_DbName config\<rparr>)"

definition NewMongoStorageClientFromConfig ::
  "('v, 'c) mongo_lib \<Rightarrow> 'v DbConfig \<Rightarrow> 'c option \<Rightarrow> 'c MongoStorageClient run" where
  "NewMongoStorageClientFromConfig M config client =
     (case client of
        None \<Rightarrow>
          (case NewMongoClientFromConfig M config of
             None \<Rightarrow> None
           | Some (Inl e) \<Rightarrow> Some (Inl (Wrap ''Could not create new mongo client'' e))
           | Some (Inr nclient) \<Rightarrow> Some (pinged M config nclient))
      | Some c \<Rightarrow> Some (pinged M config c))"

definition NewMongoVolumeClientFromConfig ::
  "('v, 'c) mongo_lib \<Rightarrow> 'v DbConfig \<Rightarrow> 'c option \<Rightarrow> 'c MongoStorageClient run" where
  "NewMongoVolumeClientFromConfig M config client =
     (case client of
        None \<Rightarrow>
          (case NewMongoClientFromConfig M config of
             None \<Rightarrow> None
           | Some (Inl e) \<Rightarrow> Some (Inl (Wrap ''Could not create new mongo client'' e))
           | Some (Inr nclient) \<Rightarrow> Some (pinged M config nclient))
      | Some c \<Rightarrow> Some (pinged M config c))"

text \<open>A client for a connection that is made already; one that does not answer ends the program.\<close>

definition NewMongoStorageClient :: "('v, 'c) mongo_lib \<Rightarrow> 'c option \<Rightarrow> string \<Rightarrow> 'c MongoStorageClient option" where
  "NewMongoStorageClient M client dbname =
     (case client of
        None \<Rightarrow> None
      | Some c \<Rightarrow> if MongoPing M c \<noteq> None then None else Some \<lparr>ms_client = c, ms_db_name = dbname\<rparr>)"

section \<open>The authentication client\<close>

record ('v, 'key) auth_lib =
  DecodeAzureConfig :: "'v any_value gomap \<Rightarrow> AzureConfig res"
  DecodeMockUser :: "'v any_value gomap \<Rightarrow> user res"
  KeyfuncGet :: "string \<Rightarrow> 'key res"

text \<open>The key function of an authenticator that does not verify signatures is nil.\<close>

datatype 'key auth_client =
    AzureClient "'key option AzureTokenAuthenticator"
  | MockAuthenticator user

definition auth_Authenticate :: "'key option jwt \<Rightarrow> int \<Rightarrow> 'key auth_client \<Rightarrow> string \<Rightarrow> user res" where
  "auth_Authenticate J now client authStr =
     (case client of
        AzureClient a \<Rightarrow> Authenticate J now a authStr
      | MockAuthenticator u \<Rightarrow> Inr u)"

definition NewAzureTokenAuthenticator :: "'key option \<Rightarrow> string \<Rightarrow> string \<Rightarrow> bool \<Rightarrow> 'key auth_client" where
  "NewAzureTokenAuthenticator keyFunc audience issuer disable =
     AzureClient \<lparr>az_KeyFunc = keyFunc, az_Audience = audience, az_Issuer = issuer, az_DisableVerification = disable\<rparr>"

definition NewAuthClientFromConfig :: "('v, 'key) auth_lib \<Rightarrow> 'v AuthConfig \<Rightarrow> 'key auth_client res" where
  "NewAuthClientFromConfig A config =
     (if ac_Handler config = ''azure-oauth2-openid-token'' then
        (case DecodeAzureConfig A (ac_Config config) of
           Inl e \<Rightarrow> Inl (Wrap ''could not decode AuthConfig: %v'' e)
         | Inr azData \<Rightarrow>
             (if azc_KeysUrl azData = ''DISABLE_JWT_SIGNATURE_VERIFICATION'' then
                Inr (AzureClient \<lparr>az_KeyFunc = None, az_Audience = azc_Audience azData, az_Issuer = azc_Issuer azData,
                       az_DisableVerification = True\<rparr>)
              else
                (case KeyfuncGet A (azc_KeysUrl azData) of
                   Inl e \<Rightarrow> Inl (Wrap ''failed to get the JWKS'' e)
                 | Inr jwks \<Rightarrow>
                     Inr (AzureClient \<lparr>az_KeyFunc = Some jwks, az_Audience = azc_Audience azData,
                            az_Issuer = azc_Issuer azData, az_DisableVerification = False\<rparr>))))
      else if ac_Handler config = ''disabled-auth'' then
        (case DecodeMockUser A (ac_Config config) of
           Inl e \<Rightarrow> Inl (Wrap ''could not decode AuthConfig: %v'' e)
         | Inr muser \<Rightarrow> Inr (MockAuthenticator muser))
      else Inl (Errorf ''auth handler (%s) not supported'' [ac_Handler config]))"


section \<open>Lemmas\<close>

lemma NewAuthClientFromConfig_Inr:
  assumes "NewAuthClientFromConfig A config = Inr client"
  obtains (azure) az keys where "ac_Handler config = ''azure-oauth2-openid-token''"
      "DecodeAzureConfig A (ac_Config config) = Inr az"
      "client = AzureClient \<lparr>az_KeyFunc = keys, az_Audience = azc_Audience az, az_Issuer = azc_Issuer az,
                  az_DisableVerification = (keys = None)\<rparr>"
      "keys = None \<longleftrightarrow> azc_KeysUrl az = ''DISABLE_JWT_SIGNATURE_VERIFICATION''"
      "\<And>k. keys = Some k \<Longrightarrow> KeyfuncGet A (azc_KeysUrl az) = Inr k"
  | (mock) u where "ac_Handler config = ''disabled-auth''" "DecodeMockUser A (ac_Config config) = Inr u"
      "client = MockAuthenticator u"
  using assms by (auto simp: NewAuthClientFromConfig_def split: if_splits sum.split_asm)

lemma pinged_Inr: "pinged M config c = Inr s \<longleftrightarrow> MongoPing M c = None \<and> s = \<lparr>ms_client = c, ms_db_name = db_DbName config\<rparr>"
  by (auto simp: pinged_def)

lemma NewMongoStorageClient_new:
  "NewMongoStorageClientFromConfig M config None = Some (Inr s) \<longleftrightarrow>
     (\<exists>uri. connection_uri M config = Inr uri \<and> MongoConnect M uri True = Inr (ms_client s)
        \<and> MongoPing M (ms_client s) = None \<and> ms_db_name s = db_DbName config)"
  by (cases s) (auto simp: NewMongoStorageClientFromConfig_def NewMongoClientFromConfig_def pinged_Inr split: sum.splits)

lemma NewMongoVolumeClient_storage:
  "NewMongoVolumeClientFromConfig M config c = NewMongoStorageClientFromConfig M config c"
  by (simp add: NewMongoVolumeClientFromConfig_def NewMongoStorageClientFromConfig_def)

section \<open>Properties\<close>

text \<open>Who a configuration admits: the holder of a live, signed token, or the configured user.\<close>

definition admitted ::
  "('v, 'key) auth_lib \<Rightarrow> 'v AuthConfig \<Rightarrow> (string \<Rightarrow> 'key option \<Rightarrow> bool) \<Rightarrow> int \<Rightarrow> string \<Rightarrow> user \<Rightarrow> bool" where
  "admitted A config sig_ok now h u \<longleftrightarrow>
     (ac_Handler config = ''azure-oauth2-openid-token'' \<and>
      (\<exists>az scheme tok c. DecodeAzureConfig A (ac_Config config) = Inr az
         \<and> splitFirstSpace h = [scheme, tok] \<and> is_bearer scheme
         \<and> live_claims now (azc_Audience az) (azc_Issuer az) c \<and> usr_uid u = cl_oid c \<and> usr_roles u = cl_roles c
         \<and> (azc_KeysUrl az = ''DISABLE_JWT_SIGNATURE_VERIFICATION''
            \<or> (\<exists>keys. KeyfuncGet A (azc_KeysUrl az) = Inr keys \<and> sig_ok tok (Some keys)))))
    \<or> (ac_Handler config = ''disabled-auth'' \<and> DecodeMockUser A (ac_Config config) = Inr u)"

lemma authenticated_admitted:
  assumes "jwt_ok J sig_ok" "NewAuthClientFromConfig A config = Inr client"
    and "auth_Authenticate J now client h = Inr u"
  shows "admitted A config sig_ok now h u"
  using assms(2)
proof (cases rule: NewAuthClientFromConfig_Inr)
  case (azure az keys)
  let ?a = "\<lparr>az_KeyFunc = keys, az_Audience = azc_Audience az, az_Issuer = azc_Issuer az,
    az_DisableVerification = (keys = None)\<rparr>"
  have "Authenticate J now ?a h = Inr u" using assms(3) azure(3) by (simp add: auth_Authenticate_def)
  from authenticated_token_is_live [OF assms(1) this] obtain scheme tok c where
    "splitFirstSpace h = [scheme, tok]" "is_bearer scheme" "live_claims now (azc_Audience az) (azc_Issuer az) c"
    "keys = None \<or> sig_ok tok keys" "usr_uid u = cl_oid c" "usr_roles u = cl_roles c" by auto
  with azure show ?thesis by (cases keys) (auto simp: admitted_def)
next
  case (mock u')
  with assms(3) show ?thesis by (simp add: auth_Authenticate_def admitted_def)
qed


text \<open>
  C34: who a configured authentication client lets in. With the Azure handler, an authenticated user
  comes from a live bearer token for the configured audience and issuer, signed by the keys of the
  configured URL, unless that URL is the text that disables the check; the other handler that is
  known answers the configured user to every request; no other handler gives a client.
\<close>

theorem configured_authentication:
  assumes "jwt_ok J sig_ok" "NewAuthClientFromConfig A config = Inr client"
    and "auth_Authenticate J now client h = Inr u"
  shows "admitted A config sig_ok now h u"
  using assms by (rule authenticated_admitted)

definition ex_auth_lib :: "(unit, string) auth_lib" where
  "ex_auth_lib =
     \<lparr>DecodeAzureConfig = (\<lambda>m. case (map_of m ''audience'', map_of m ''keysurl'') of
        (Some (AnyString a), Some (AnyString k)) \<Rightarrow> Inr \<lparr>azc_Issuer = ''idp'', azc_Audience = a, azc_KeysUrl = k\<rparr>
      | _ \<Rightarrow> Inl (ExtErr ''expected type string'')),
      DecodeMockUser = (\<lambda>m. Inl (ExtErr ''expected type string'')),
      KeyfuncGet = (\<lambda>url. if url = ''http://keys'' then Inr ''key'' else Inl (ExtErr ''no such host''))\<rparr>"

definition ex_auth_config :: "unit AuthConfig" where
  "ex_auth_config =
     \<lparr>ac_Handler = ''azure-oauth2-openid-token'',
      ac_Config = [(''audience'', AnyString ''api''), (''keysurl'', AnyString ''http://keys'')]\<rparr>"

definition ex_key_jwt :: "string option jwt" where
  "ex_key_jwt =
     \<lparr>ParseUnverified = ParseUnverified ex_jwt,
      ParseWithClaims = (\<lambda>s key. case key of None \<Rightarrow> (\<lambda>_. Inl (ExtErr ''no Keyfunc'')) | Some k \<Rightarrow> ParseWithClaims ex_jwt s k),
      VerifyExpiresAt = VerifyExpiresAt ex_jwt, VerifyIssuedAt = VerifyIssuedAt ex_jwt,
      VerifyNotBefore = VerifyNotBefore ex_jwt, VerifyAudience = VerifyAudience ex_jwt\<rparr>"

definition ex_signed :: "string \<Rightarrow> string option \<Rightarrow> bool" where
  "ex_signed tok key \<longleftrightarrow> key = Some tok"

lemma ex_key_jwt_ok: "jwt_ok ex_key_jwt ex_signed"
  by (auto simp: jwt_ok_def ex_key_jwt_def ex_jwt_def ex_signed_def go_simps split: if_splits option.splits)

theorem configured_authentication_witness:
  "\<exists>client u c scheme tok. NewAuthClientFromConfig ex_auth_lib ex_auth_config = Inr client
     \<and> auth_Authenticate ex_key_jwt 10 client ''Bearer key'' = Inr u \<and> live_claims 10 ''api'' ''idp'' c
     \<and> splitFirstSpace ''Bearer key'' = [scheme, tok] \<and> ex_signed tok (Some ''key'')"
proof -
  let ?client = "AzureClient \<lparr>az_KeyFunc = Some ''key'', az_Audience = ''api'', az_Issuer = ''idp'', az_DisableVerification = False\<rparr>"
  have c: "NewAuthClientFromConfig ex_auth_lib ex_auth_config = Inr ?client" by code_simp
  have "returned (Some (auth_Authenticate ex_key_jwt 10 ?client ''Bearer key''))" by code_simp
  then obtain u where u: "auth_Authenticate ex_key_jwt 10 ?client ''Bearer key'' = Inr u" using returnedE by fastforce
  from configured_authentication [OF ex_key_jwt_ok c u]
  show ?thesis using c u by (auto simp: admitted_def ex_auth_lib_def ex_auth_config_def)
qed

text \<open>The credentials of a Cosmos database name its URI in base64, among members of other names.\<close>

definition credentials_name :: "members \<Rightarrow> string \<Rightarrow> bool" where
  "credentials_name ms uri \<longleftrightarrow>
     (\<exists>as bs. ms = as @ (''PrimaryMongoDBConnectionString'', enc_string (b64_encode uri)) # bs
        \<and> list_all (\<lambda>m. body_ok (fst m) \<and> json_ok (snd m)
             \<and> fold_key (unquote (fst m)) \<noteq> fold_key ''PrimaryMongoDBConnectionString'') (as @ bs))"

lemma dec_members_unknown:
  "list_all (\<lambda>m. fold_key (unquote (fst m)) \<noteq> fold_key ''PrimaryMongoDBConnectionString'') ms \<Longrightarrow>
   dec_members creds_fields ms s = Inr s"
  by (induction ms) (auto simp: dec_member_def find_field_def creds_fields_def)

lemma cosmos_uri:
  assumes "credentials_name ms uri"
  shows "cosmos_ConnectionString \<lparr>cc_Credentials = json_text (JObj ms)\<rparr> = Inr uri"
proof -
  obtain as bs where ms: "ms = as @ (''PrimaryMongoDBConnectionString'', enc_string (b64_encode uri)) # bs"
    and ok: "list_all (\<lambda>m. body_ok (fst m) \<and> json_ok (snd m)
       \<and> fold_key (unquote (fst m)) \<noteq> fold_key ''PrimaryMongoDBConnectionString'') (as @ bs)"
    using assms unfolding credentials_name_def by blast
  have "json_ok (JObj ms)" using ok by (auto simp: ms body_ok_def list_all_iff)
  then have p: "parse_json (json_text (JObj ms)) = Inr (JObj ms)" by (rule parse_json_text)
  have "dec_member creds_fields (''PrimaryMongoDBConnectionString'', enc_string (b64_encode uri)) s = Inr (b64_encode uri)" for s
    by (simp add: dec_member_def find_field_def creds_fields_def json_simps)
  moreover have "dec_members creds_fields as s = Inr s" "dec_members creds_fields bs s = Inr s" for s
    by (rule dec_members_unknown; use ok in \<open>auto simp: list_all_iff\<close>)+
  ultimately have "dec_struct creds_fields (JObj ms) '''' = Inr (b64_encode uri)"
    by (simp add: ms dec_struct_def dec_members_append)
  with p show ?thesis by (simp add: cosmos_ConnectionString_def del: json_text.simps)
qed

text \<open>
  which database a configuration reaches. With \<^verbatim>\<open>mongo\<close> it is the configured host and
  port, with \<^verbatim>\<open>cosmos\<close> the URI that the credentials hold in base64, with any other selection the
  empty URI. The clients of components and of volumes use the configured database name there; a
  database that does not answer is an error, and a connection that cannot be made ends the program.
\<close>

theorem configured_database:
  assumes "db_Select config = ''mongo'' \<and> DecodeMongoConfig M (db_Config config) = Inr m
      \<and> uri = ''mongodb://'' @ mc_Address m @ '':'' @ itoa (mc_Port m)
    \<or> db_Select config = ''cosmos''
      \<and> DecodeCosmosConfig M (db_Config config) = Inr \<lparr>cc_Credentials = json_text (JObj ms)\<rparr> \<and> credentials_name ms uri
    \<or> db_Select config \<notin> {''mongo'', ''cosmos''} \<and> uri = ''''"
  shows "NewMongoStorageClientFromConfig M config None =
      (case MongoConnect M uri True of
         Inl e \<Rightarrow> None
       | Inr c \<Rightarrow> Some (if MongoPing M c = None then Inr \<lparr>ms_client = c, ms_db_name = db_DbName config\<rparr>
                       else Inl (Errorf ''Cannot connect to database. Check configuration'' [])))
    \<and> NewMongoVolumeClientFromConfig M config None = NewMongoStorageClientFromConfig M config None"
proof -
  have "connection_uri M config = Inr uri"
    using assms cosmos_uri by (auto simp: connection_uri_def mongo_ConnectionString_def)
  then show ?thesis
    by (auto simp: NewMongoStorageClientFromConfig_def NewMongoClientFromConfig_def pinged_def
        NewMongoVolumeClient_storage split: sum.splits)
qed

definition ex_mongo_lib :: "(unit, string) mongo_lib" where
  "ex_mongo_lib =
     \<lparr>DecodeMongoConfig = (\<lambda>m. Inl (ExtErr ''expected type int'')),
      DecodeCosmosConfig = (\<lambda>m. case map_of m ''credentials'' of
         Some (AnyString s) \<Rightarrow> Inr \<lparr>cc_Credentials = s\<rparr> | _ \<Rightarrow> Inl (ExtErr ''expected type string'')),
      MongoConnect = (\<lambda>uri direct. if uri = '''' then Inl (ExtErr ''error parsing uri'') else Inr uri),
      MongoPing = (\<lambda>c. None)\<rparr>"

definition ex_credentials :: members where
  "ex_credentials =
     [(''PrimaryMongoDBConnectionString'', enc_string (b64_encode ''mongodb://u:p@h'')), (''primaryEndpoint'', enc_string ''e'')]"

theorem configured_database_witness:
  "NewMongoStorageClientFromConfig ex_mongo_lib
     \<lparr>db_Select = ''cosmos'', db_DbName = ''flowify'', db_Config = [(''credentials'', AnyString (json_text (JObj ex_credentials)))]\<rparr> None
   = Some (Inr \<lparr>ms_client = ''mongodb://u:p@h'', ms_db_name = ''flowify''\<rparr>)"
proof -
  let ?c = "\<lparr>db_Select = ''cosmos'', db_DbName = ''flowify'', db_Config = [(''credentials'', AnyString (json_text (JObj ex_credentials)))]\<rparr>"
  have "credentials_name ex_credentials ''mongodb://u:p@h''"
    unfolding credentials_name_def ex_credentials_def
    by (rule exI [of _ "[]"], rule exI [of _ "[(''primaryEndpoint'', enc_string ''e'')]"]) (simp add: body_ok_def)
  then have "db_Select ?c = ''mongo'' \<and> DecodeMongoConfig ex_mongo_lib (db_Config ?c) = Inr m
      \<and> ''mongodb://u:p@h'' = ''mongodb://'' @ mc_Address m @ '':'' @ itoa (mc_Port m)
    \<or> db_Select ?c = ''cosmos''
      \<and> DecodeCosmosConfig ex_mongo_lib (db_Config ?c) = Inr \<lparr>cc_Credentials = json_text (JObj ex_credentials)\<rparr>
      \<and> credentials_name ex_credentials ''mongodb://u:p@h''
    \<or> db_Select ?c \<notin> {''mongo'', ''cosmos''} \<and> ''mongodb://u:p@h'' = ''''" for m
    by (simp add: ex_mongo_lib_def)
  from configured_database [OF this] show ?thesis by (simp add: ex_mongo_lib_def)
qed

end
