(* ===== verification/Flags.thy ===== *)
theory Flags
  imports Go_Numbers
begin

text \<open>
  Go's \<^verbatim>\<open>flag\<close> package, with which the four programs of the repository read their command
  line: flags that take a text or an integer, given as \<^verbatim>\<open>-name=value\<close> or
  \<^verbatim>\<open>-name value\<close> with one or two dashes, up to the first argument that is no flag. A command line
  that does not parse ends the program.
\<close>

section \<open>Integers\<close>

text \<open>
  \<^verbatim>\<open>strconv.ParseInt\<close> with base 0: an optional sign, a prefix that names the base, digits,
  and underscores between digits.
\<close>

definition ascii_lowercase :: "char \<Rightarrow> char" where
  "ascii_lowercase c = (let n = of_char c :: nat in if 65 \<le> n \<and> n \<le> 90 then char_of (n + 32) else c)"

definition digit_value :: "char \<Rightarrow> nat option" where
  "digit_value c =
     (let n = of_char (ascii_lowercase c) :: nat in
      if 48 \<le> n \<and> n \<le> 57 then Some (n - 48)
      else if 97 \<le> n \<and> n \<le> 122 then Some (n - 87)
      else None)"

fun read_digits :: "nat \<Rightarrow> string \<Rightarrow> nat \<Rightarrow> nat option" where
  "read_digits base [] n = Some n"
| "read_digits base (c # cs) n =
     (if c = CHR ''_'' then read_digits base cs n
      else (case digit_value c of
              None \<Rightarrow> None
            | Some d \<Rightarrow> if base \<le> d then None else read_digits base cs (base * n + d)))"

text \<open>Each underscore follows a digit or the prefix, and a digit follows it.\<close>

fun underscores_ok :: "bool \<Rightarrow> string \<Rightarrow> bool" where
  "underscores_ok after_digit [] = True"
| "underscores_ok after_digit [c] = (c \<noteq> CHR ''_'')"
| "underscores_ok after_digit (c # d # cs) =
     (if c = CHR ''_'' then after_digit \<and> d \<noteq> CHR ''_'' \<and> underscores_ok False (d # cs)
      else underscores_ok True (d # cs))"

definition base_prefix :: "string \<Rightarrow> nat \<times> bool \<times> string" where
  "base_prefix s =
     (case s of
        c # r \<Rightarrow>
          if c \<noteq> CHR ''0'' then (10, False, s)
          else (case r of
                  b # d # r' \<Rightarrow>
                    (let l = ascii_lowercase b in
                     if l = CHR ''b'' then (2, True, d # r')
                     else if l = CHR ''o'' then (8, True, d # r')
                     else if l = CHR ''x'' then (16, True, d # r')
                     else (8, True, r))
                | _ \<Rightarrow> (8, True, r))
      | [] \<Rightarrow> (10, False, s))"

definition ParseInt0 :: "string \<Rightarrow> int res" where
  "ParseInt0 s =
     (let (neg, u) = (case s of [] \<Rightarrow> (False, s)
                      | c # cs \<Rightarrow> if c = CHR ''-'' then (True, cs) else if c = CHR ''+'' then (False, cs) else (False, s));
          (base, prefixed, ds) = base_prefix u
      in if u = [] \<or> \<not> underscores_ok prefixed ds then Inl (ExtErr ''parse error'')
         else (case read_digits base ds 0 of
                 None \<Rightarrow> Inl (ExtErr ''parse error'')
               | Some n \<Rightarrow>
                   (let i = (if neg then - int n else int n)
                    in if i < - (2 ^ 63) \<or> 2 ^ 63 \<le> i then Inl (ExtErr ''value out of range'') else Inr i)))"

section \<open>The command line\<close>

datatype flag_kind = StrFlag | IntFlag

text \<open>
  What a command line gives: the flags that were passed, the last one of a name counts, and the
  arguments after them; or the status the program ends with, 0 after the help was asked for.
\<close>

datatype flag_result =
    Parsed "string gomap" "string list"
  | FlagExit nat

definition split_eq :: "string \<Rightarrow> string \<times> string option" where
  "split_eq s =
     (let n = takeWhile (\<lambda>c. c \<noteq> CHR ''='') s
      in (n, if n = s then None else Some (drop (Suc (length n)) s)))"

definition set_flag :: "flag_kind \<Rightarrow> string \<Rightarrow> bool" where
  "set_flag k v = (case k of StrFlag \<Rightarrow> True | IntFlag \<Rightarrow> (case ParseInt0 v of Inl e \<Rightarrow> False | Inr i \<Rightarrow> True))"

text \<open>The name part of an argument that is a flag; \<open>None\<close> of one that ends the flags.\<close>

definition flag_text :: "string \<Rightarrow> string option" where
  "flag_text s =
     (case s of
        c # d # r \<Rightarrow>
          if c \<noteq> CHR ''-'' then None
          else if d = CHR ''-'' then (if r = [] then None else Some r) else Some (d # r)
      | _ \<Rightarrow> None)"

fun parse_flags :: "(string \<times> flag_kind) list \<Rightarrow> string list \<Rightarrow> string gomap \<Rightarrow> flag_result" where
  "parse_flags defs [] m = Parsed m []"
| "parse_flags defs (s # args) m =
     (case flag_text s of
        None \<Rightarrow> Parsed m (if s = ''--'' then args else s # args)
      | Some t \<Rightarrow>
          if hd t = CHR ''-'' \<or> hd t = CHR ''='' then FlagExit 2
          else (case split_eq t of (name, given) \<Rightarrow>
            (case map_of defs name of
               None \<Rightarrow> FlagExit (if name = ''help'' \<or> name = ''h'' then 0 else 2)
             | Some k \<Rightarrow>
                 (case given of
                    Some v \<Rightarrow> if set_flag k v then parse_flags defs args (AList.update name v m) else FlagExit 2
                  | None \<Rightarrow>
                      (case args of
                         [] \<Rightarrow> FlagExit 2
                       | v # args' \<Rightarrow>
                           if set_flag k v then parse_flags defs args' (AList.update name v m) else FlagExit 2)))))"

definition flag_Parse :: "(string \<times> flag_kind) list \<Rightarrow> string list \<Rightarrow> flag_result" where
  "flag_Parse defs args = parse_flags defs args []"

text \<open>The pointers the definitions return, and the flags that were set.\<close>

definition isFlagPassed :: "string gomap \<Rightarrow> string \<Rightarrow> bool" where
  "isFlagPassed m name \<longleftrightarrow> name \<in> set (map fst m)"

definition str_flag :: "string gomap \<Rightarrow> string \<Rightarrow> string \<Rightarrow> string" where
  "str_flag m name dflt = (case map_of m name of None \<Rightarrow> dflt | Some v \<Rightarrow> v)"

definition int_flag :: "string gomap \<Rightarrow> string \<Rightarrow> int \<Rightarrow> int" where
  "int_flag m name dflt =
     (case map_of m name of None \<Rightarrow> dflt | Some v \<Rightarrow> (case ParseInt0 v of Inl e \<Rightarrow> dflt | Inr i \<Rightarrow> i))"

definition flag_Arg :: "string list \<Rightarrow> nat \<Rightarrow> string" where
  "flag_Arg args i = (if i < length args then args ! i else '''')"

section \<open>Lemmas\<close>

lemma isFlagPassed_iff: "isFlagPassed m name \<longleftrightarrow> map_of m name \<noteq> None"
  by (simp add: isFlagPassed_def map_of_eq_None_iff)

lemma isFlagPassed_none [simp]: "\<not> isFlagPassed [] name"
  by (simp add: isFlagPassed_def)

text \<open>The flags that a command line sets are defined, and their values are of their kind.\<close>

definition flags_typed :: "(string \<times> flag_kind) list \<Rightarrow> string gomap \<Rightarrow> bool" where
  "flags_typed defs m \<longleftrightarrow> (\<forall>n v. map_of m n = Some v \<longrightarrow> (\<exists>k. map_of defs n = Some k \<and> set_flag k v))"

lemma parse_flags_typed:
  "parse_flags defs args m = Parsed m' rest \<Longrightarrow> flags_typed defs m \<Longrightarrow> flags_typed defs m'"
proof (induction defs args m rule: parse_flags.induct)
  case (2 defs s args m)
  have upd: "flags_typed defs (AList.update n v m)" if "map_of defs n = Some k" "set_flag k v" for n v k
    using "2.prems"(2) that by (auto simp: flags_typed_def update_conv)
  from "2.prems" "2.IH" upd show ?case
    by (auto split: option.split_asm if_splits prod.split_asm list.split_asm)
qed simp

lemma flag_Parse_typed: "flag_Parse defs args = Parsed m rest \<Longrightarrow> flags_typed defs m"
  unfolding flag_Parse_def by (erule parse_flags_typed) (simp add: flags_typed_def)

end
