(* ===== verification/Startup.thy ===== *)
theory Startup
  imports Config Flags Rest_Theorems
begin

text \<open>
  Starting the server: \<^verbatim>\<open>apiserver/apiserver.go\<close>, which builds the server from a
  configuration, listens and waits for a signal, and \<^verbatim>\<open>main.go\<close>, the program. The Kubernetes
  and Argo client libraries, the retry helper, the network and the signals are parameters.
\<close>

section \<open>The server from a configuration\<close>

record 'k clientset =
  cs_kube :: "'k kube"
  cs_secrets :: "'k secret_kube"

text \<open>
  The client libraries: the access data of the cluster, from within it or from a file, the clients made
  of it, which panic on bad data, and the collections of a database.
\<close>

record ('k, 'a, 'kc, 'c, 'd) cluster_lib =
  KubeInCluster :: "'kc res"
  KubeFromFlags :: "string \<Rightarrow> string \<Rightarrow> 'kc res"
  KubeForConfig :: "'kc \<Rightarrow> 'k clientset option"
  ArgoForConfig :: "'kc \<Rightarrow> 'a argo option"
  CollectionsOf :: "'c MongoStorageClient \<Rightarrow> 'd mongo"

text \<open>What the handlers get from outside: the parameters of the model, and the clock of a request.\<close>

record 'key server_ext =
  sx_ext :: ext
  sx_rest :: rest_ext
  sx_depth :: nat
  sx_jwt :: "'key option jwt"
  sx_clock :: "request \<Rightarrow> int"

definition NewFlowifyServer ::
  "'key server_ext \<Rightarrow> 'k clientset \<Rightarrow> 'k \<Rightarrow> string \<Rightarrow> 'a argo \<Rightarrow> 'd component_client \<Rightarrow> 'd volume_client
     \<Rightarrow> int \<Rightarrow> 'key auth_client \<Rightarrow> ('d, 'a, 'k) flowifyServer \<times> int" where
  "NewFlowifyServer SX cs k namespace wfclient nodeStorage volumeStorage portnumber sec =
     (\<lparr>fs_nodeStorage = nodeStorage, fs_volumeStorage = volumeStorage, fs_wfClient = wfclient,
       fs_k8Client = cs_kube cs, fs_secrets = cs_secrets cs, fs_namespace = namespace,
       fs_workspace = NewWorkspaceClient (cs_kube cs) namespace k,
       fs_auth = (\<lambda>r. auth_Authenticate (sx_jwt SX) (sx_clock SX r) sec (HeaderGet r ''Authorization'')),
       fs_ext = sx_ext SX, fs_rest = sx_rest SX, fs_depth = sx_depth SX\<rparr>, portnumber)"

definition cluster_config :: "('k, 'a, 'kc, 'c, 'd) cluster_lib \<Rightarrow> string \<Rightarrow> 'kc res" where
  "cluster_config L kubeconfigpath =
     (case KubeInCluster L of
        Inr kc \<Rightarrow> Inr kc
      | Inl _ \<Rightarrow> wrapres ''could not create ApiServer from config'' (KubeFromFlags L '''' kubeconfigpath))"

definition or_die :: "'x option \<Rightarrow> 'x res" where
  "or_die client = (case client of None \<Rightarrow> Inl (GoPanic ''NewForConfigOrDie'') | Some c \<Rightarrow> Inr c)"

text \<open>The workspace client starts with the config maps \<open>k\<close> the cluster holds.\<close>

definition NewFlowifyServerFromConfig ::
  "'key server_ext \<Rightarrow> ('k, 'a, 'kc, 'c, 'd) cluster_lib \<Rightarrow> ('v, 'c) mongo_lib \<Rightarrow> ('v, 'key) auth_lib \<Rightarrow> 'k \<Rightarrow> 'v Config
     \<Rightarrow> (('d, 'a, 'k) flowifyServer \<times> int) run" where
  "NewFlowifyServerFromConfig SX L M A k cfg =
     obind (Some (cluster_config L (kk_KubeConfigPath (cfg_Kubernetes cfg)))) (\<lambda>k8sConfig.
     obind (Some (or_die (KubeForConfig L k8sConfig))) (\<lambda>kubeClient.
     obind (Some (or_die (ArgoForConfig L k8sConfig))) (\<lambda>argoClient.
     obind (map_option (wrapres ''could not create new node storage'')
              (NewMongoStorageClientFromConfig M (cfg_Db cfg) None)) (\<lambda>nodeStorage.
     obind (map_option (wrapres ''could not create new volume storage'')
              (NewMongoVolumeClientFromConfig M (cfg_Db cfg) None)) (\<lambda>volumeStorage.
     obind (Some (wrapres ''could not create auth'' (NewAuthClientFromConfig A (cfg_Auth cfg)))) (\<lambda>authClient.
     Some (Inr (NewFlowifyServer SX kubeClient k (kk_Namespace (cfg_Kubernetes cfg)) argoClient
       (mongo_client (sx_ext SX) (CollectionsOf L nodeStorage)) (mongo_volumes (sx_ext SX) (CollectionsOf L volumeStorage))
       (sc_Port (cfg_Server cfg)) authClient))))))))"

section \<open>Logging requests\<close>

text \<open>
  \<^verbatim>\<open>net.SplitHostPort\<close>, of which the host is used; it is empty when the address is not of the
  form host and port.
\<close>

definition before_last :: "char \<Rightarrow> string \<Rightarrow> string option" where
  "before_last c s = (if c \<in> set s then Some (rev (tl (dropWhile (\<lambda>d. d \<noteq> c) (rev s)))) else None)"

definition split_host :: "string \<Rightarrow> string" where
  "split_host hostport =
     (case before_last (CHR '':'') hostport of
        None \<Rightarrow> ''''
      | Some h \<Rightarrow>
          (case hostport of
             c # r \<Rightarrow>
               if c = CHR ''['' then
                 (let host = takeWhile (\<lambda>d. d \<noteq> CHR '']'') r; port = drop (length h) hostport
                  in if h = c # host @ '']'' \<and> CHR ''['' \<notin> set (host @ port) \<and> CHR '']'' \<notin> set port then host else '''')
               else if CHR '':'' \<in> set h \<or> CHR ''['' \<in> set hostport \<or> CHR '']'' \<in> set hostport then ''''
               else h
           | [] \<Rightarrow> ''''))"

text \<open>The origin of the log entry of a request; no entry for the probes.\<close>

definition logHTTPRequest :: "string \<Rightarrow> string \<Rightarrow> string list \<Rightarrow> string option" where
  "logHTTPRequest path remoteAddr ignoreList =
     (if path \<in> set ignoreList then None
      else (let origin = split_host remoteAddr
            in Some (if origin = ''::1'' \<or> origin = ''127.0.0.1'' then ''localhost'' else origin)))"

definition LogRequestMiddleware ::
  "('s handler) \<Rightarrow> string \<Rightarrow> string \<Rightarrow> rw \<Rightarrow> request \<Rightarrow> 's \<Rightarrow> (rw \<times> 's) \<times> string option" where
  "LogRequestMiddleware next path remoteAddr w r s =
     (let done = next w r s in (done, logHTTPRequest path remoteAddr [''/readyz'', ''/livez'', ''/versionz'']))"

definition newHTTPServer :: "('d, 'a, 'k) flowifyServer \<Rightarrow> int \<Rightarrow> string \<times> ('d, 'a, 'k) route list" where
  "newHTTPServer fs port = (''localhost:'' @ itoa port, registerApplicationRoutes fs)"

section \<open>Running\<close>

text \<open>
  The retry helper calls a condition, numbered from 0, until it is done or fails or the steps are used up;
  it answers the number of calls and the error.
\<close>

record backoff =
  bo_Steps :: nat
  bo_DurationMillis :: nat

type_synonym retry = "backoff \<Rightarrow> (nat \<Rightarrow> bool res) \<Rightarrow> nat \<times> goerr option"

definition server_backoff :: backoff where
  "server_backoff = \<lparr>bo_Steps = 5, bo_DurationMillis = 500\<rparr>"

text \<open>
  What happens once the signals are relayed: a signal of the system, or \<^verbatim>\<open>log.Fatal\<close> in some
  goroutine, whose handler sets the exit status and sends the signal itself. The server runs on as long
  as nothing happens.
\<close>

datatype server_event = Signal | FatalLogged

text \<open>
  The notifications, the connection that is served, and how \<^verbatim>\<open>Run\<close> ends: \<open>None\<close> when it goes
  on.
\<close>

record 'conn run_result =
  rr_notified :: "bool list"
  rr_serving :: "'conn option"
  rr_end :: "unit run"

definition Run ::
  "retry \<Rightarrow> (string \<Rightarrow> nat \<Rightarrow> 'conn res) \<Rightarrow> int \<Rightarrow> bool \<Rightarrow> server_event list \<Rightarrow> 'conn run_result" where
  "Run exponentialBackoff Listen portnumber readyNotifier events =
     (let address = '':'' @ itoa portnumber;
          (calls, err) = exponentialBackoff server_backoff
            (\<lambda>i. case Listen address i of Inl _ \<Rightarrow> Inr False | Inr conn \<Rightarrow> Inr True)
      in case err of
           Some e \<Rightarrow>
             \<lparr>rr_notified = (if readyNotifier then [False] else []), rr_serving = None,
              rr_end = Some (Inl (Wrap ''server run failure'' e))\<rparr>
         | None \<Rightarrow>
             \<lparr>rr_notified = (if readyNotifier then [True] else []),
              rr_serving = (case Listen address (calls - 1) of Inl _ \<Rightarrow> None | Inr conn \<Rightarrow> Some conn),
              rr_end = (if events = [] then None else Some (Inr ()))\<rparr>)"

section \<open>The program\<close>

datatype process_end = Exited nat | Killed | Serving

definition server_flags :: "(string \<times> flag_kind) list" where
  "server_flags =
     [(''loglevel'', StrFlag), (''port'', IntFlag), (''db'', StrFlag), (''namespace'', StrFlag), (''auth'', StrFlag),
      (''kubeconfig'', StrFlag), (''dumpconfig'', StrFlag)]"

definition override :: "bool \<Rightarrow> ('c \<Rightarrow> 'c) \<Rightarrow> 'c \<Rightarrow> 'c" where
  "override passed f cfg = (if passed then f cfg else cfg)"

definition overrideConfig :: "string gomap \<Rightarrow> 'v Config \<Rightarrow> 'v Config" where
  "overrideConfig m cfg =
     override (isFlagPassed m ''auth'')
       (cfg_Auth_update (ac_Handler_update (\<lambda>_. str_flag m ''auth'' ''azure-oauth2-openid-token'')))
     (override (isFlagPassed m ''namespace'')
       (cfg_Kubernetes_update (kk_Namespace_update (\<lambda>_. str_flag m ''namespace'' ''test'')))
     (override (isFlagPassed m ''kubeconfig'')
       (cfg_Kubernetes_update (kk_KubeConfigPath_update (\<lambda>_. str_flag m ''kubeconfig'' ''~/kube/config'')))
     (override (isFlagPassed m ''db'') (cfg_Db_update (db_DbName_update (\<lambda>_. str_flag m ''db'' ''Flowify'')))
     (override (isFlagPassed m ''port'') (cfg_Server_update (sc_Port_update (\<lambda>_. int_flag m ''port'' 8842)))
     (override (isFlagPassed m ''loglevel'') (cfg_Log_update (lc_LogLevel_update (\<lambda>_. str_flag m ''loglevel'' ''info''))) cfg)))))"

text \<open>
  The exit handler that \<^verbatim>\<open>log.Fatal\<close> calls sets the status and sends the process a signal,
  which kills it unless \<^verbatim>\<open>Run\<close> relays it.
\<close>

definition logFatalHandler :: "nat \<Rightarrow> nat" where
  "logFatalHandler status = 1"

definition status_after :: "server_event list \<Rightarrow> nat" where
  "status_after events = foldl (\<lambda>status ev. case ev of Signal \<Rightarrow> status | FatalLogged \<Rightarrow> logFatalHandler status) 0 events"

record ('l, 'conn) main_result =
  mr_effects :: "effect list"
  mr_level :: "'l option"
  mr_serving :: "'conn option"
  mr_end :: process_end

definition ends :: "process_end \<Rightarrow> ('l, 'conn) main_result" where
  "ends e = \<lparr>mr_effects = [], mr_level = None, mr_serving = None, mr_end = e\<rparr>"

text \<open>A panic ends a Go program with status 2.\<close>

definition run_main ::
  "retry \<Rightarrow> (string \<Rightarrow> nat \<Rightarrow> 'conn res) \<Rightarrow> server_event list \<Rightarrow> ('s \<times> int) run \<Rightarrow> 'conn option \<times> process_end" where
  "run_main exponentialBackoff Listen events server =
     (case server of
        None \<Rightarrow> (None, Killed)
      | Some (Inl e) \<Rightarrow> (None, Exited (if is_panic e then 2 else 1))
      | Some (Inr (fs, port)) \<Rightarrow>
          (let res = Run exponentialBackoff Listen port False events
           in (rr_serving res,
               case rr_end res of
                 None \<Rightarrow> Serving
               | Some (Inl e) \<Rightarrow> Exited 1
               | Some (Inr _) \<Rightarrow> Exited (status_after events))))"

definition main ::
  "('v, 's) config_lib \<Rightarrow> viper \<Rightarrow> (string \<Rightarrow> goerr option) \<Rightarrow> (string \<Rightarrow> 'l \<times> goerr option) \<Rightarrow> retry
     \<Rightarrow> (string \<Rightarrow> nat \<Rightarrow> 'conn res) \<Rightarrow> server_event list \<Rightarrow> ('v Config \<Rightarrow> ('f \<times> int) run) \<Rightarrow> string list
     \<Rightarrow> ('l, 'conn) main_result" where
  "main C v writeError ParseLevel exponentialBackoff Listen events newServer args =
     (case LoadConfigFromPath C v ''.'' of
        Inl e \<Rightarrow> ends (Exited 0)
      | Inr loaded \<Rightarrow>
          (case flag_Parse server_flags args of
             FlagExit n \<Rightarrow> ends (Exited n)
           | Parsed m rest \<Rightarrow>
               (let cfg = overrideConfig m loaded;
                    dumped = (if isFlagPassed m ''dumpconfig''
                              then fst (Dump C writeError cfg (str_flag m ''dumpconfig'' '''')) else []);
                    level = fst (ParseLevel (lc_LogLevel (cfg_Log cfg)));
                    (serving, e) = run_main exponentialBackoff Listen events (newServer cfg)
                in \<lparr>mr_effects = dumped, mr_level = Some level, mr_serving = serving, mr_end = e\<rparr>)))"


section \<open>Lemmas\<close>

text \<open>
  Documented behaviour of the retry helper, for a condition that does not fail: it stops at the first call
  that is done, and gives up when all steps are used.
\<close>

definition retry_ok :: "retry \<Rightarrow> bool" where
  "retry_ok retry \<longleftrightarrow>
     (\<forall>b cond. (\<forall>i. \<exists>d. cond i = Inr d) \<longrightarrow>
        retry b cond = (case find (\<lambda>i. cond i = Inr True) [0..<bo_Steps b] of
                          Some i \<Rightarrow> (Suc i, None)
                        | None \<Rightarrow> (bo_Steps b, Some (ExtErr ''timed out waiting for the condition''))))"

lemma retry_okD:
  "retry_ok retry \<Longrightarrow> (\<And>i. \<exists>d. cond i = Inr d) \<Longrightarrow>
   retry b cond = (case find (\<lambda>i. cond i = Inr True) [0..<bo_Steps b] of
                     Some i \<Rightarrow> (Suc i, None)
                   | None \<Rightarrow> (bo_Steps b, Some (ExtErr ''timed out waiting for the condition'')))"
  unfolding retry_ok_def by simp

definition first_connection :: "(nat \<Rightarrow> 'conn res) \<Rightarrow> nat list \<Rightarrow> 'conn option" where
  "first_connection listen is =
     (case find (\<lambda>i. \<exists>c. listen i = Inr c) is of
        None \<Rightarrow> None
      | Some i \<Rightarrow> (case listen i of Inl e \<Rightarrow> None | Inr c \<Rightarrow> Some c))"

lemma Run_outcome:
  assumes "retry_ok retry"
  shows "Run retry Listen port ready events =
    (case first_connection (Listen ('':'' @ itoa port)) [0..<5] of
       None \<Rightarrow> \<lparr>rr_notified = (if ready then [False] else []), rr_serving = None,
                rr_end = Some (Inl (Wrap ''server run failure'' (ExtErr ''timed out waiting for the condition'')))\<rparr>
     | Some c \<Rightarrow> \<lparr>rr_notified = (if ready then [True] else []), rr_serving = Some c,
                  rr_end = (if events = [] then None else Some (Inr ()))\<rparr>)"
proof -
  let ?L = "Listen ('':'' @ itoa port)"
  let ?cond = "\<lambda>i. (case ?L i of Inl _ \<Rightarrow> Inr False | Inr conn \<Rightarrow> Inr True) :: bool res"
  have total: "\<exists>d. ?cond i = Inr d" for i by (cases "?L i") auto
  have r: "retry server_backoff ?cond =
      (case find (\<lambda>i. ?cond i = Inr True) [0..<bo_Steps server_backoff] of
         Some i \<Rightarrow> (Suc i, None)
       | None \<Rightarrow> (bo_Steps server_backoff, Some (ExtErr ''timed out waiting for the condition'')))"
    by (rule retry_okD [OF assms]) (rule total)
  have c: "(\<lambda>i. ?cond i = Inr True) = (\<lambda>i. \<exists>c. ?L i = Inr c)"
  proof
    show "(?cond i = Inr True) = (\<exists>c. ?L i = Inr c)" for i by (cases "?L i") auto
  qed
  have steps: "bo_Steps server_backoff = 5" by (simp add: server_backoff_def)
  show ?thesis
  proof (cases "find (\<lambda>i. \<exists>c. ?L i = Inr c) [0..<5]")
    case None
    then show ?thesis unfolding Run_def Let_def r c steps first_connection_def by simp
  next
    case (Some i)
    then obtain conn where "?L i = Inr conn" by (auto simp: find_Some_iff)
    with Some show ?thesis unfolding Run_def Let_def r c steps first_connection_def by simp
  qed
qed

lemma status_after_fatal: "status_after events = (if FatalLogged \<in> set events then 1 else 0)"
proof -
  have "foldl (\<lambda>status ev. case ev of Signal \<Rightarrow> status | FatalLogged \<Rightarrow> logFatalHandler status) n events
    = (if FatalLogged \<in> set events then 1 else n)" for n
    by (induction events arbitrary: n) (auto simp: logFatalHandler_def split: server_event.splits)
  then show ?thesis by (simp add: status_after_def)
qed

lemma first_connection_None: "first_connection L [0..<n] = None \<longleftrightarrow> (\<forall>i < n. \<exists>e. L i = Inl e)"
proof -
  have c: "(\<nexists>c. L i = Inr c) \<longleftrightarrow> (\<exists>e. L i = Inl e)" for i by (cases "L i") auto
  then have "find (\<lambda>i. \<exists>c. L i = Inr c) [0..<n] = None \<longleftrightarrow> (\<forall>i < n. \<exists>e. L i = Inl e)"
    by (auto simp: find_None_iff)
  moreover have "find (\<lambda>i. \<exists>c. L i = Inr c) [0..<n] = Some i \<Longrightarrow> \<exists>c. L i = Inr c" for i
    by (auto simp: find_Some_iff)
  ultimately show ?thesis by (fastforce simp: first_connection_def split: option.splits sum.splits)
qed

lemma run_main_outcome:
  assumes "retry_ok retry"
  shows "snd (run_main retry Listen events server) =
    (case server of
       None \<Rightarrow> Killed
     | Some (Inl e) \<Rightarrow> Exited (if is_panic e then 2 else 1)
     | Some (Inr (fs, port)) \<Rightarrow>
         if \<forall>i < 5. \<exists>e. Listen ('':'' @ itoa port) i = Inl e then Exited 1
         else if events = [] then Serving else Exited (status_after events))"
proof -
  have "snd (run_main retry Listen events (Some (Inr (fs, port)))) =
      (if \<forall>i < 5. \<exists>e. Listen ('':'' @ itoa port) i = Inl e then Exited 1
       else if events = [] then Serving else Exited (status_after events))" for fs port
    unfolding first_connection_None [symmetric]
    by (auto simp: run_main_def Run_outcome [OF assms] split: option.splits)
  then show ?thesis by (auto simp: run_main_def split: option.splits sum.splits)
qed

lemma main_end:
  "mr_end (main C v writeError ParseLevel retry Listen events newServer args) =
    (case LoadConfigFromPath C v ''.'' of
       Inl e \<Rightarrow> Exited 0
     | Inr loaded \<Rightarrow>
         (case flag_Parse server_flags args of
            FlagExit n \<Rightarrow> Exited n
          | Parsed m rest \<Rightarrow> snd (run_main retry Listen events (newServer (overrideConfig m loaded)))))"
  by (simp add: main_def ends_def Let_def case_prod_beta split: sum.split flag_result.split)

lemma NewFlowifyServerFromConfig_Inr:
  assumes "NewFlowifyServerFromConfig SX L M A k cfg = Some (Inr (fs, port))"
  obtains kc cs ac ns vs client where
    "NewMongoStorageClientFromConfig M (cfg_Db cfg) None = Some (Inr ns)"
    "NewMongoVolumeClientFromConfig M (cfg_Db cfg) None = Some (Inr vs)"
    "NewAuthClientFromConfig A (cfg_Auth cfg) = Inr client"
    "fs_nodeStorage fs = mongo_client (sx_ext SX) (CollectionsOf L ns)"
    "fs_volumeStorage fs = mongo_volumes (sx_ext SX) (CollectionsOf L vs)"
    "fs_auth fs = (\<lambda>r. auth_Authenticate (sx_jwt SX) (sx_clock SX r) client (HeaderGet r ''Authorization''))"
    "fs_workspace fs = NewWorkspaceClient (cs_kube cs) (kk_Namespace (cfg_Kubernetes cfg)) k"
    "port = sc_Port (cfg_Server cfg)" "cluster_config L (kk_KubeConfigPath (cfg_Kubernetes cfg)) = Inr kc"
    "KubeForConfig L kc = Some cs" "ArgoForConfig L kc = Some ac"
  using assms
  by (auto simp: NewFlowifyServerFromConfig_def NewFlowifyServer_def go_simps or_die_def split: option.split_asm)


section \<open>Properties\<close>



definition ex_listing_kube :: "mem_secrets kube" where
  "ex_listing_kube = ex_kube\<lparr>CmList := (\<lambda>ns sel k.
     ([\<lparr>cm_name = ''ns'', cm_namespace = ns, cm_labels = sel, cm_data = [(''roles'', arrayText [''dev''])],
        cm_resourceVersion = ''1''\<rparr>], None))\<rparr>"

definition ex_cluster_lib :: "(mem_secrets, argo_wf list, string, string, mem) cluster_lib" where
  "ex_cluster_lib =
     \<lparr>KubeInCluster = Inl (ExtErr ''not in cluster''), KubeFromFlags = (\<lambda>url path. Inr path),
      KubeForConfig = (\<lambda>kc. Some \<lparr>cs_kube = ex_listing_kube, cs_secrets = mem_secret_kube\<rparr>),
      ArgoForConfig = (\<lambda>kc. Some ex_argo), CollectionsOf = (\<lambda>c. mem_mongo ext_example)\<rparr>"

definition ex_server_ext :: "string server_ext" where
  "ex_server_ext = \<lparr>sx_ext = ext_example, sx_rest = ex_rest, sx_depth = 2, sx_jwt = ex_key_jwt, sx_clock = (\<lambda>r. 10)\<rparr>"

definition ex_config :: "unit Config" where
  "ex_config =
     \<lparr>cfg_Db = \<lparr>db_Select = ''cosmos'', db_DbName = ''flowify'',
                 db_Config = [(''credentials'', AnyString (json_text (JObj ex_credentials)))]\<rparr>,
      cfg_Kubernetes = \<lparr>kk_KubeConfigPath = ''kubeconfig'', kk_Namespace = ''argo''\<rparr>,
      cfg_Auth = ex_auth_config, cfg_Log = \<lparr>lc_LogLevel = ''info''\<rparr>, cfg_Server = \<lparr>sc_Port = 8842\<rparr>\<rparr>"

definition ex_configured :: "(mem, argo_wf list, mem_secrets) flowifyServer" where
  "ex_configured =
     fst (NewFlowifyServer ex_server_ext \<lparr>cs_kube = ex_listing_kube, cs_secrets = mem_secret_kube\<rparr> [] ''argo'' ex_argo
       (mongo_client ext_example (mem_mongo ext_example)) (mongo_volumes ext_example (mem_mongo ext_example)) 8842
       (AzureClient \<lparr>az_KeyFunc = Some ''key'', az_Audience = ''api'', az_Issuer = ''idp'', az_DisableVerification = False\<rparr>))"

lemma ex_configured_server:
  "NewFlowifyServerFromConfig ex_server_ext ex_cluster_lib ex_mongo_lib ex_auth_lib [] ex_config = Some (Inr (ex_configured, 8842))"
proof -
  have "NewMongoStorageClientFromConfig ex_mongo_lib (cfg_Db ex_config) None
      = Some (Inr \<lparr>ms_client = ''mongodb://u:p@h'', ms_db_name = ''flowify''\<rparr>)" by code_simp
  moreover have "NewAuthClientFromConfig ex_auth_lib (cfg_Auth ex_config) = Inr (AzureClient
      \<lparr>az_KeyFunc = Some ''key'', az_Audience = ''api'', az_Issuer = ''idp'', az_DisableVerification = False\<rparr>)" by code_simp
  ultimately show ?thesis
    by (simp add: NewFlowifyServerFromConfig_def NewMongoVolumeClient_storage cluster_config_def ex_cluster_lib_def or_die_def
        ex_configured_def NewFlowifyServer_def ex_server_ext_def ex_config_def)
qed




text \<open>
  Flags win over the configuration. Each of the six settings that have a flag is the flag's value if
  the flag was passed and the loaded value otherwise, whatever else was passed; the value of a passed
  integer flag is the one its text denotes; nothing else of the configuration changes, and parsing the
  command line passes no flag that is not defined.
\<close>

theorem flags_override_configuration:
  assumes "flag_Parse server_flags args = Parsed m rest"
  shows "(let cfg' = overrideConfig m cfg;
       txt = (\<lambda>name old. case map_of m name of None \<Rightarrow> old | Some v \<Rightarrow> v) in
     lc_LogLevel (cfg_Log cfg') = txt ''loglevel'' (lc_LogLevel (cfg_Log cfg))
   \<and> db_DbName (cfg_Db cfg') = txt ''db'' (db_DbName (cfg_Db cfg))
   \<and> kk_KubeConfigPath (cfg_Kubernetes cfg') = txt ''kubeconfig'' (kk_KubeConfigPath (cfg_Kubernetes cfg))
   \<and> kk_Namespace (cfg_Kubernetes cfg') = txt ''namespace'' (kk_Namespace (cfg_Kubernetes cfg))
   \<and> ac_Handler (cfg_Auth cfg') = txt ''auth'' (ac_Handler (cfg_Auth cfg))
   \<and> (case map_of m ''port'' of
        None \<Rightarrow> sc_Port (cfg_Server cfg') = sc_Port (cfg_Server cfg)
      | Some t \<Rightarrow> ParseInt0 t = Inr (sc_Port (cfg_Server cfg')))
   \<and> db_Select (cfg_Db cfg') = db_Select (cfg_Db cfg) \<and> db_Config (cfg_Db cfg') = db_Config (cfg_Db cfg)
   \<and> ac_Config (cfg_Auth cfg') = ac_Config (cfg_Auth cfg))
   \<and> set (map fst m) \<subseteq> set (map fst server_flags)"
proof -
  have typed: "flags_typed server_flags m" using assms by (rule flag_Parse_typed)
  have port: "ParseInt0 t = Inr (int_flag m ''port'' 8842)" if "map_of m ''port'' = Some t" for t
  proof -
    have "set_flag IntFlag t" using typed that by (fastforce simp: flags_typed_def server_flags_def)
    then show ?thesis using that by (simp add: set_flag_def int_flag_def split: sum.splits)
  qed
  have "set (map fst m) \<subseteq> set (map fst server_flags)"
  proof
    fix n assume "n \<in> set (map fst m)"
    then obtain v where "map_of m n = Some v" by (metis map_of_eq_None_iff not_None_eq set_map)
    with typed obtain k where "map_of server_flags n = Some k" unfolding flags_typed_def by blast
    then show "n \<in> set (map fst server_flags)" by (metis map_of_eq_None_iff option.distinct(1) set_map)
  qed
  then show ?thesis
    using port by (auto simp: overrideConfig_def override_def isFlagPassed_iff str_flag_def Let_def split: option.splits)
qed

theorem flags_override_configuration_witness:
  "sc_Port (cfg_Server (overrideConfig [(''port'', ''0x20'')] ex_config)) = 32
     \<and> kk_Namespace (cfg_Kubernetes (overrideConfig [(''port'', ''0x20'')] ex_config)) = ''argo''"
proof -
  have "flag_Parse server_flags [''-port'', ''0x20''] = Parsed [(''port'', ''0x20'')] []" by code_simp
  moreover have "ParseInt0 ''0x20'' = Inr 32" by code_simp
  ultimately show ?thesis
    using flags_override_configuration [of "[''-port'', ''0x20'']" "[(''port'', ''0x20'')]" "[]" ex_config]
    by (simp add: Let_def ex_config_def)
qed

text \<open>
  How the program ends, whatever makes the server. It listens at most five times and serves the first
  connection it gets; then it runs until a signal and ends with status 0, or 1 when \<^verbatim>\<open>log.Fatal\<close>
  was called. It ends with 1 when the server cannot be made or no attempt to listen succeeds, with 2 when
  making it panics, is killed when the database connection cannot be made, and ends with the status of the
  flag parser when there is nothing to run: 2 on a bad command line, 0 after a request for help. A
  configuration that cannot be loaded ends it with status 0, as success would.
\<close>

theorem program_ends:
  assumes "retry_ok retry"
  shows "mr_end (main C v writeError ParseLevel retry Listen events newServer args) =
    (case LoadConfigFromPath C v ''.'' of
       Inl e \<Rightarrow> Exited 0
     | Inr loaded \<Rightarrow>
         (case flag_Parse server_flags args of
            FlagExit n \<Rightarrow> Exited n
          | Parsed m rest \<Rightarrow>
              (case newServer (overrideConfig m loaded) of
                 None \<Rightarrow> Killed
               | Some (Inl e) \<Rightarrow> Exited (if is_panic e then 2 else 1)
               | Some (Inr (fs, port)) \<Rightarrow>
                   if \<forall>i < 5. \<exists>e. Listen ('':'' @ itoa port) i = Inl e then Exited 1
                   else if events = [] then Serving
                   else if FatalLogged \<in> set events then Exited 1
                   else Exited 0)))"
  unfolding main_end run_main_outcome [OF assms] status_after_fatal
  by (auto split: sum.splits flag_result.splits option.splits)

definition ex_retry :: retry where
  "ex_retry b cond =
     (case find (\<lambda>i. cond i = Inr True) [0..<bo_Steps b] of
        Some i \<Rightarrow> (Suc i, None)
      | None \<Rightarrow> (bo_Steps b, Some (ExtErr ''timed out waiting for the condition'')))"

definition ex_config_lib :: "(unit, unit) config_lib" where
  "ex_config_lib =
     \<lparr>ReadConfig = (\<lambda>v s. Inr ()), ReadInConfig = (\<lambda>v. Inr ()), UnmarshalConfig = (\<lambda>v s hook. Inr ex_config),
      UnmarshalDbConfig = (\<lambda>v s. (cfg_Db ex_config, None)), MarshalYaml = (\<lambda>cfg. Inr ''db:'')\<rparr>"

definition ex_viper :: viper where
  "ex_viper = \<lparr>vp_paths = [], vp_name = ''config'', vp_type = '''', vp_autoEnv = False, vp_envReplace = [], vp_envPrefix = ''''\<rparr>"

text \<open>A server whose port is taken for two attempts, and that is told to stop.\<close>

theorem program_ends_witness:
  "mr_end (main ex_config_lib ex_viper (\<lambda>f. None) (\<lambda>l. (l, None)) ex_retry
      (\<lambda>address i. if i < 2 then Inl (ExtErr ''address in use'') else Inr address) [Signal]
      (NewFlowifyServerFromConfig ex_server_ext ex_cluster_lib ex_mongo_lib ex_auth_lib []) []) = Exited 0"
proof -
  have "retry_ok ex_retry" by (simp add: retry_ok_def ex_retry_def)
  moreover have "LoadConfigFromPath ex_config_lib ex_viper ''.'' = Inr ex_config"
    by (simp add: LoadConfigFromPath_def ex_config_lib_def)
  moreover have "flag_Parse server_flags [] = Parsed [] []" by (simp add: flag_Parse_def)
  moreover have "overrideConfig [] ex_config = ex_config" by (simp add: overrideConfig_def override_def)
  moreover have "\<not> (\<forall>i < (5 :: nat). \<exists>e :: goerr. (if i < 2 then Inl (ExtErr ''address in use'') else Inr a) = Inl e)" for a :: string
    by (simp, intro exI [of _ 2]) simp
  ultimately show ?thesis
    using program_ends [of ex_retry ex_config_lib ex_viper "\<lambda>f. None" "\<lambda>l. (l, None)"
        "\<lambda>address i. if i < 2 then Inl (ExtErr ''address in use'') else Inr address" "[Signal]"
        "NewFlowifyServerFromConfig ex_server_ext ex_cluster_lib ex_mongo_lib ex_auth_lib []" "[]"]
    by (simp add: ex_configured_server)
qed

section \<open>What is served\<close>

lemma main_serving:
  "mr_serving (main C v writeError ParseLevel retry Listen events newServer args) =
    (case LoadConfigFromPath C v ''.'' of
       Inl e \<Rightarrow> None
     | Inr loaded \<Rightarrow>
         (case flag_Parse server_flags args of
            FlagExit n \<Rightarrow> None
          | Parsed m rest \<Rightarrow> fst (run_main retry Listen events (newServer (overrideConfig m loaded)))))"
  by (simp add: main_def ends_def Let_def case_prod_beta split: sum.split flag_result.split)

lemma run_main_serving:
  "retry_ok retry \<Longrightarrow> fst (run_main retry Listen events server) =
    (case server of Some (Inr (fs, port)) \<Rightarrow> first_connection (Listen ('':'' @ itoa port)) [0..<5] | _ \<Rightarrow> None)"
  by (auto simp: run_main_def Run_outcome split: option.splits sum.splits)

lemma first_connection_Some:
  assumes "first_connection L [0..<n] = Some c"
  shows "\<exists>i < n. L i = Inr c \<and> (\<forall>j < i. \<exists>e. L j = Inl e)"
proof -
  obtain i where f: "find (\<lambda>i. \<exists>c. L i = Inr c) [0..<n] = Some i" and c: "L i = Inr c"
    using assms by (auto simp: first_connection_def split: option.splits sum.splits)
  have e: "(\<nexists>c. L j = Inr c) \<longleftrightarrow> (\<exists>e. L j = Inl e)" for j by (cases "L j") auto
  have "i < n \<and> (\<forall>j < i. \<nexists>c. L j = Inr c)" using f by (fastforce simp: find_Some_iff)
  then show ?thesis using c unfolding e by blast
qed

lemma override_port:
  assumes "flag_Parse server_flags args = Parsed m rest"
  shows "case map_of m ''port'' of
      None \<Rightarrow> sc_Port (cfg_Server (overrideConfig m cfg)) = sc_Port (cfg_Server cfg)
    | Some t \<Rightarrow> ParseInt0 t = Inr (sc_Port (cfg_Server (overrideConfig m cfg)))"
  using flags_override_configuration [OF assms, of cfg] by (simp add: Let_def)

text \<open>
  C23: what the program serves, and that it runs only while it serves. If it serves a connection, then its
  configuration was loaded and its command line parsed, the server was made from this configuration with the
  passed flags put over it, and the connection is the first one that one of at most five attempts to
  listen got on the port, which is the value of the flag \<^verbatim>\<open>-port\<close> if that was passed and the loaded
  one otherwise; it runs until something happens, and then ends with status 1 if \<^verbatim>\<open>log.Fatal\<close> was
  called and 0 if not. If it serves none it ends, and with status 0 only when the configuration could not be
  loaded or the flag parser ended the program with that status.
\<close>

theorem program_serves_as_configured:
  assumes "retry_ok retry"
    and result: "result = main C v writeError ParseLevel retry Listen events (NewFlowifyServerFromConfig SX L M A k) args"
  shows "case mr_serving result of
      Some conn \<Rightarrow>
        (\<exists>loaded m rest fs port i. LoadConfigFromPath C v ''.'' = Inr loaded \<and> flag_Parse server_flags args = Parsed m rest
         \<and> NewFlowifyServerFromConfig SX L M A k (overrideConfig m loaded) = Some (Inr (fs, port))
         \<and> (case map_of m ''port'' of None \<Rightarrow> port = sc_Port (cfg_Server loaded) | Some t \<Rightarrow> ParseInt0 t = Inr port)
         \<and> i < 5 \<and> Listen ('':'' @ itoa port) i = Inr conn \<and> (\<forall>j < i. \<exists>e. Listen ('':'' @ itoa port) j = Inl e))
        \<and> mr_end result = (if events = [] then Serving else Exited (if FatalLogged \<in> set events then 1 else 0))
    | None \<Rightarrow> mr_end result \<noteq> Serving
        \<and> (mr_end result = Exited 0 \<longrightarrow>
             (\<exists>e. LoadConfigFromPath C v ''.'' = Inl e) \<or> flag_Parse server_flags args = FlagExit 0)"
proof -
  let ?new = "NewFlowifyServerFromConfig SX L M A k"
  note out = result main_end main_serving run_main_outcome [OF assms(1)] run_main_serving [OF assms(1)]
  show ?thesis
  proof (cases "mr_serving result")
    case None
    then show ?thesis unfolding out first_connection_None
      by (auto simp: first_connection_None split: sum.splits flag_result.splits option.splits if_splits)
        (blast+)
  next
    case (Some conn)
    then obtain loaded m rest fs port where c: "LoadConfigFromPath C v ''.'' = Inr loaded"
      "flag_Parse server_flags args = Parsed m rest" "?new (overrideConfig m loaded) = Some (Inr (fs, port))"
      and f: "first_connection (Listen ('':'' @ itoa port)) [0..<5] = Some conn"
      unfolding out by (auto split: sum.splits flag_result.splits option.splits)
    obtain i where i: "i < 5" "Listen ('':'' @ itoa port) i = Inr conn" "\<forall>j < i. \<exists>e. Listen ('':'' @ itoa port) j = Inl e"
      using first_connection_Some [OF f] by blast
    have "port = sc_Port (cfg_Server (overrideConfig m loaded))" using c(3) by (rule NewFlowifyServerFromConfig_Inr)
    with override_port [OF c(2), of loaded]
    have p: "case map_of m ''port'' of None \<Rightarrow> port = sc_Port (cfg_Server loaded) | Some t \<Rightarrow> ParseInt0 t = Inr port"
      by (auto split: option.splits)
    have "mr_end result = (if events = [] then Serving else Exited (if FatalLogged \<in> set events then 1 else 0))"
      unfolding out using c f first_connection_None [of "Listen ('':'' @ itoa port)" 5] by (auto simp: status_after_fatal)
    with c i p show ?thesis unfolding Some by auto
  qed
qed

theorem program_serves_as_configured_witness:
  "\<exists>result. result = main ex_config_lib ex_viper (\<lambda>f. None) (\<lambda>l. (l, None)) ex_retry
      (\<lambda>address i. if i < 2 then Inl (ExtErr ''address in use'') else Inr address) [Signal]
      (NewFlowifyServerFromConfig ex_server_ext ex_cluster_lib ex_mongo_lib ex_auth_lib []) []
    \<and> mr_serving result = Some '':8842'' \<and> mr_end result = Exited 0"
proof -
  let ?L = "\<lambda>address i. if i < (2 :: nat) then Inl (ExtErr ''address in use'') else Inr address"
  let ?new = "NewFlowifyServerFromConfig ex_server_ext ex_cluster_lib ex_mongo_lib ex_auth_lib []"
  let ?main = "main ex_config_lib ex_viper (\<lambda>f. None) (\<lambda>l. (l, None)) ex_retry ?L [Signal] ?new []"
  have retry: "retry_ok ex_retry" by (simp add: retry_ok_def ex_retry_def)
  have c: "LoadConfigFromPath ex_config_lib ex_viper ''.'' = Inr ex_config" "flag_Parse server_flags [] = Parsed [] []"
    "overrideConfig [] ex_config = ex_config"
    by (simp_all add: LoadConfigFromPath_def ex_config_lib_def flag_Parse_def overrideConfig_def override_def)
  have port: "sc_Port (cfg_Server ex_config) = 8842" by (simp add: ex_config_def)
  have "mr_serving ?main = first_connection (?L ('':'' @ itoa 8842)) [0..<5]"
    by (simp add: main_serving c run_main_serving [OF retry] ex_configured_server)
  moreover have "first_connection (?L ('':'' @ itoa 8842)) [0..<5] \<noteq> None"
    unfolding first_connection_None by (simp, intro exI [of _ 2]) simp
  ultimately obtain conn where s: "mr_serving ?main = Some conn" by auto
  note all = program_serves_as_configured [OF retry refl, of ex_config_lib ex_viper "\<lambda>f. None" "\<lambda>l. (l, None)" ?L "[Signal]"
      ex_server_ext ex_cluster_lib ex_mongo_lib ex_auth_lib "[]" "[]", unfolded s option.case]
  from all [THEN conjunct1] obtain loaded m rest and i :: nat and port :: int
    where l: "LoadConfigFromPath ex_config_lib ex_viper ''.'' = Inr loaded" "flag_Parse server_flags [] = Parsed m rest"
      "case map_of m ''port'' of None \<Rightarrow> port = sc_Port (cfg_Server loaded) | Some t \<Rightarrow> ParseInt0 t = Inr port"
      "?L ('':'' @ itoa port) i = Inr conn"
    by (elim exE conjE) (rule that)
  have "m = []" "loaded = ex_config" using l(1,2) c(1,2) by simp_all
  then have "port = 8842" using l(3) port by simp
  then have "conn = '':'' @ itoa 8842" using l(4) by (simp split: if_split_asm)
  moreover have "mr_end ?main = Exited 0" using all [THEN conjunct2] by simp
  moreover have "char_of (56 :: nat) = CHR ''8''" "char_of (52 :: nat) = CHR ''4''" "char_of (50 :: nat) = CHR ''2''" by code_simp+
  then have "itoa 8842 = ''8842''" by (simp add: itoa_def nat_digits.simps)
  ultimately show ?thesis using s by auto
qed

end
