(* ===== verification/Commands.thy ===== *)
theory Commands
  imports Config Flags Validation Json_Theorems Http
begin

text \<open>
  The command line programs: \<^verbatim>\<open>cmd/validate\<close>, which checks a document against a schema,
  \<^verbatim>\<open>cmd/transpile\<close>, which prints the Argo manifest of a job, workflow or component, and
  \<^verbatim>\<open>cmd/dereference\<close>, which prints a component with its references replaced. A program is a
  function of its arguments and files whose value is what it prints and the status it ends with;
  \<open>None\<close> means that it does not end. A panic ends a program with status 2, \<^verbatim>\<open>log.Fatal\<close> with 1.
\<close>

type_synonym command = "string list \<times> nat"

record files =
  ReadFile :: "string \<Rightarrow> string res"
  Stdin :: "string res"

definition usage_text :: "string \<Rightarrow> string \<Rightarrow> string" where
  "usage_text prog operand = ''Usage: '' @ prog @ '' [OPTIONS] '' @ operand @ [CHR 0x0A]"

definition schema_flags :: "(string \<times> flag_kind) list" where
  "schema_flags = [(''schema'', StrFlag)]"

section \<open>Validating\<close>

definition schema_verdict :: "'schema schema_lib \<Rightarrow> 'schema \<Rightarrow> string \<Rightarrow> goerr option" where
  "schema_verdict L schema rawbytes =
     (case unmarshal_any rawbytes of Inl e \<Rightarrow> Some e | Inr v \<Rightarrow> SchemaValidate L schema v)"

definition validate_main ::
  "'schema schema_lib \<Rightarrow> (string \<times> 'schema) list \<Rightarrow> files \<Rightarrow> string \<Rightarrow> string list \<Rightarrow> command" where
  "validate_main L registered F prog args =
     (case flag_Parse schema_flags args of
        FlagExit n \<Rightarrow> ([], n)
      | Parsed m rest \<Rightarrow>
          if 1 < length rest then ([usage_text prog ''filename''], 0)
          else (case ReadFile F (flag_Arg rest 0) of
             Inl e \<Rightarrow> ([], 1)
           | Inr rawbytes \<Rightarrow>
               (case FindSchema L registered (str_flag m ''schema'' '''') of
                  None \<Rightarrow> ([], 0)
                | Some schema \<Rightarrow>
                    (case schema_verdict L schema rawbytes of Some e \<Rightarrow> ([], 1) | None \<Rightarrow> ([], 0)))))"

section \<open>Transpiling\<close>

definition empty_job :: "string \<Rightarrow> workflow \<Rightarrow> job" where
  "empty_job description wkf =
     \<lparr>job_metadata = zero_metadata\<lparr>md_description := description\<rparr>, job_type = ''job'', job_inputValues = [],
      job_workflow = wkf, job_events = []\<rparr>"

text \<open>The document is tried as a job, as a workflow and as a component.\<close>

definition job_of_document :: "codec \<Rightarrow> string \<Rightarrow> job option" where
  "job_of_document X rawbytes =
     (case unmarshal_job X rawbytes of
        Inr job \<Rightarrow> if job_type job = ''job'' then Some job else None
      | Inl e \<Rightarrow> None)"

definition job_of_workflow_document :: "codec \<Rightarrow> string \<Rightarrow> job option" where
  "job_of_workflow_document X rawbytes =
     (case unmarshal_workflow X rawbytes of
        Inr workflow \<Rightarrow>
          if wf_type workflow = ''workflow'' then Some (empty_job ''Empty job from workflow'' workflow) else None
      | Inl e \<Rightarrow> None)"

definition job_of_component_document :: "codec \<Rightarrow> string \<Rightarrow> job option" where
  "job_of_component_document X rawbytes =
     (case unmarshal_component X rawbytes of
        Inr component \<Rightarrow> Some (empty_job ''Empty job from component'' (zero_workflow\<lparr>wf_component := component\<rparr>))
      | Inl e \<Rightarrow> None)"

definition input_job :: "codec \<Rightarrow> string \<Rightarrow> job option" where
  "input_job X rawbytes =
     (case job_of_document X rawbytes of
        Some job \<Rightarrow> Some job
      | None \<Rightarrow>
          (case job_of_workflow_document X rawbytes of
             Some job \<Rightarrow> Some job
           | None \<Rightarrow> job_of_component_document X rawbytes))"

definition print_manifest :: "(argo_workflow \<Rightarrow> string res) \<Rightarrow> argo_workflow run \<Rightarrow> command option" where
  "print_manifest YamlText r =
     (case r of
        None \<Rightarrow> None
      | Some (Inl e) \<Rightarrow> Some ([], if is_panic e then 2 else 1)
      | Some (Inr ajob) \<Rightarrow> Some ([case YamlText ajob of Inl e \<Rightarrow> '''' | Inr t \<Rightarrow> t], 0))"

definition transpile_main ::
  "codec \<Rightarrow> ext \<Rightarrow> 'schema schema_lib \<Rightarrow> (string \<times> 'schema) list \<Rightarrow> (argo_workflow \<Rightarrow> string res) \<Rightarrow> files \<Rightarrow> string
     \<Rightarrow> string list \<Rightarrow> command option" where
  "transpile_main X E L registered YamlText F prog args =
     (case flag_Parse schema_flags args of
        FlagExit n \<Rightarrow> Some ([], n)
      | Parsed m rest \<Rightarrow>
          if 1 < length rest then Some ([usage_text prog ''filename''], 0)
          else (case ReadFile F (flag_Arg rest 0) of
             Inl e \<Rightarrow> Some ([], 1)
           | Inr rawbytes \<Rightarrow>
               (case map_option (\<lambda>schema. schema_verdict L schema rawbytes)
                       (FindSchema L registered (str_flag m ''schema'' '''')) of
                  Some (Some e) \<Rightarrow> Some ([], 1)
                | _ \<Rightarrow>
                    (case input_job X rawbytes of
                       None \<Rightarrow> Some ([], 1)
                     | Some job \<Rightarrow> print_manifest YamlText (GetArgoWorkflow E job)))))"

section \<open>Dereferencing\<close>

text \<open>\<^verbatim>\<open>bytes.TrimSpace\<close>: the white space of Unicode, in UTF-8.\<close>

definition space_texts :: "string list" where
  "space_texts =
     map (\<lambda>n. [char_of n]) [9, 10, 11, 12, 13, 32 :: nat]
     @ [[CHR 0xC2, CHR 0x85], [CHR 0xC2, CHR 0xA0], [CHR 0xE1, CHR 0x9A, CHR 0x80]]
     @ map (\<lambda>n. [CHR 0xE2, CHR 0x80, char_of n]) [128, 129, 130, 131, 132, 133, 134, 135, 136, 137, 138, 168, 169, 175 :: nat]
     @ [[CHR 0xE2, CHR 0x81, CHR 0x9F], [CHR 0xE3, CHR 0x80, CHR 0x80]]"

lemma space_texts_nonempty: "sp \<in> set space_texts \<Longrightarrow> sp \<noteq> []"
  by (auto simp: space_texts_def)

function trim_left :: "string list \<Rightarrow> string \<Rightarrow> string" where
  "trim_left spaces s =
     (case find (\<lambda>sp. sp \<noteq> [] \<and> has_prefix sp s) spaces of
        None \<Rightarrow> s
      | Some sp \<Rightarrow> trim_left spaces (drop (length sp) s))"
  by pat_completeness auto
termination
proof (relation "measure (\<lambda>(spaces, s). length s)")
  fix spaces s sp assume "find (\<lambda>sp. sp \<noteq> [] \<and> has_prefix sp s) spaces = Some sp"
  then have "sp \<noteq> []" "has_prefix sp s" by (auto simp: find_Some_iff)
  then have "0 < length sp" "s \<noteq> []" by (cases sp; cases s; simp)+
  then show "((spaces, drop (length sp) s), spaces, s) \<in> measure (\<lambda>(spaces, s). length s)"
    by (cases s) auto
qed simp

declare trim_left.simps [simp del]

definition TrimSpace :: "string \<Rightarrow> string" where
  "TrimSpace s = rev (trim_left (map rev space_texts) (rev (trim_left space_texts s)))"

text \<open>A plain reference, or a component held inline.\<close>

definition parseInput :: "codec \<Rightarrow> string \<Rightarrow> node_value res" where
  "parseInput X doc =
     (case ParseUUIDBytes X (TrimSpace doc) of
        Inr cref \<Rightarrow> Inr (NVReference cref)
      | Inl _ \<Rightarrow>
          (case unmarshal_component X doc of
             Inr cmp \<Rightarrow> Inr (NVComponent cmp)
           | Inl _ \<Rightarrow> Inl (Errorf (''could not parse '' @ [CHR 0x27] @ ''%s'' @ [CHR 0x27]) [doc])))"

text \<open>
  The error of loading the configuration is not looked at. The database name that a flag would give is
  not used: it is asked for before the command line is parsed, when no flag is set.
\<close>

definition LoadDbConfig :: "('v, 's) config_lib \<Rightarrow> viper \<Rightarrow> 'v DbConfig \<Rightarrow> string \<Rightarrow> 'v DbConfig \<times> goerr option" where
  "LoadDbConfig C v zero path =
     (let v' = v\<lparr>vp_paths := vp_paths v @ [path], vp_name := ''config'', vp_type := ''yaml'', vp_autoEnv := True,
                vp_envReplace := [(''.'', ''_'')], vp_envPrefix := ''FLOWIFY''\<rparr>
      in case ReadInConfig C v' of
           Inl e \<Rightarrow> (zero, Some e)
         | Inr s \<Rightarrow> UnmarshalDbConfig C v' s)"

definition zero_db_config :: "'v DbConfig" where
  "zero_db_config = \<lparr>db_Select = '''', db_DbName = '''', db_Config = []\<rparr>"

definition dereference_flags :: "(string \<times> flag_kind) list" where
  "dereference_flags = [(''file'', StrFlag), (''db'', StrFlag)]"

definition dereference_config :: "('v, 's) config_lib \<Rightarrow> viper \<Rightarrow> 'v DbConfig" where
  "dereference_config C v =
     (let cfg = fst (LoadDbConfig C v zero_db_config ''.'')
      in if isFlagPassed [] ''db'' then cfg\<lparr>db_DbName := str_flag [] ''db'' ''Flowify''\<rparr> else cfg)"

definition dereference_input :: "files \<Rightarrow> string gomap \<Rightarrow> string list \<Rightarrow> string res" where
  "dereference_input F m rest =
     (let fileName = str_flag m ''file'' ''''
      in if length rest = 1 then Inr (flag_Arg rest 0)
         else if fileName \<noteq> '''' then (if fileName = ''-'' then Stdin F else ReadFile F fileName)
         else Inl (GoPanic ''unexpected''))"

definition print_component :: "codec \<Rightarrow> component \<Rightarrow> string" where
  "print_component X cmp =
     (case component_encode X cmp of Inl e \<Rightarrow> '''' | Inr j \<Rightarrow> json_indent j) @ [CHR 0x0A]"

text \<open>The client is asked for the component that a plain reference names, then for those below it.\<close>

definition dereference_value ::
  "codec \<Rightarrow> (node_value \<Rightarrow> component res) \<Rightarrow> nat \<Rightarrow> node_value \<Rightarrow> command option" where
  "dereference_value X get depth v =
     (case (case v of NVReference u \<Rightarrow> get v | NVComponent c \<Rightarrow> Inr c | _ \<Rightarrow> Inl (GoPanic ''unexpected'')) of
        Inl e \<Rightarrow> Some ((case v of NVReference u \<Rightarrow> [''oops!'' @ [CHR 0x0A]] | _ \<Rightarrow> []), 2)
      | Inr component \<Rightarrow>
          (case DereferenceComponent (\<lambda>r. get (NVCRefVersion r)) depth (NVComponent component) of
             None \<Rightarrow> None
           | Some (Inl e) \<Rightarrow> Some ([], 2)
           | Some (Inr cmpResolved) \<Rightarrow> Some ([print_component X cmpResolved], 0)))"

definition dereference_main ::
  "codec \<Rightarrow> ('v, 's) config_lib \<Rightarrow> viper \<Rightarrow> ('v, 'c) mongo_lib \<Rightarrow> ('c MongoStorageClient \<Rightarrow> node_value \<Rightarrow> component res)
     \<Rightarrow> nat \<Rightarrow> files \<Rightarrow> string \<Rightarrow> string list \<Rightarrow> command option" where
  "dereference_main X C v M get depth F prog args =
     (case flag_Parse dereference_flags args of
        FlagExit n \<Rightarrow> Some ([], n)
      | Parsed m rest \<Rightarrow>
          if (length rest = 1) = (str_flag m ''file'' '''' \<noteq> '''') then Some ([usage_text prog ''cmpRef''], 0)
          else (case dereference_input F m rest of
             Inl e \<Rightarrow> Some ([], 2)
           | Inr bytes \<Rightarrow>
               (case parseInput X bytes of
                  Inl e \<Rightarrow> Some ([], 2)
                | Inr any \<Rightarrow>
                    (case NewMongoStorageClientFromConfig M (dereference_config C v) None of
                       None \<Rightarrow> Some ([], 1)
                     | Some (Inl e) \<Rightarrow> Some ([], 2)
                     | Some (Inr cstorage) \<Rightarrow> dereference_value X (get cstorage) depth any))))"


section \<open>Lemmas\<close>

lemma zero_job_type: "dec_struct (job_fields X) j zero_job = Inr b \<Longrightarrow> dec_struct type_fields j '''' = Inr t \<Longrightarrow> job_type b = t"
  by (rule field_alone [where sel = job_type and upd = job_type_update and k = "''type''" and dec = dec_string])
    (auto simp: type_fields_def zero_job_def job_fields_def embedded_def metadata_fields_def distinct_folds_def
      field_laws_def fld_iff)

lemma zero_workflow_type:
  "dec_struct (workflow_fields X) j zero_workflow = Inr w \<Longrightarrow> dec_struct type_fields j '''' = Inr t \<Longrightarrow> wf_type w = t"
  by (rule field_alone [where sel = wf_type and upd = wf_type_update and k = "''type''" and dec = dec_string])
    (auto simp: type_fields_def zero_workflow_def workflow_fields_def embedded_def metadata_fields_def distinct_folds_def
      field_laws_def fld_iff)

lemma encoded_metadata_no_type:
  "enc_members (metadata_members X md) = Inr ms \<Longrightarrow> dec_members type_fields ms t = Inr t"
  by (auto simp: metadata_members_def enc_iffs type_fields_def dec_member_def find_field_def split: if_splits)

lemma component_document_type: "component_encode X c = Inr j \<Longrightarrow> dec_struct type_fields j '''' = Inr (cmp_type c)"
  by (cases c)
    (auto simp: enc_struct_iff enc_members_append dec_struct_def dec_members_append encoded_metadata_no_type enc_iffs
      type_fields_def dec_member_def find_field_def json_simps
      dest!: encoded_metadata_no_type [of _ _ _ "''''"] split: if_splits)

lemma workflow_document_type: "workflow_encode X w = Inr j \<Longrightarrow> dec_struct type_fields j '''' = Inr (wf_type w)"
  by (auto simp: workflow_encode_def enc_struct_iff enc_members_append dec_struct_def dec_members_append enc_iffs
      type_fields_def dec_member_def find_field_def json_simps
      dest!: encoded_metadata_no_type [of _ _ _ "''''"] split: if_splits)


lemma encoded_document:
  assumes "uuid_codec_ok X"
  shows "component_reads_back X c \<Longrightarrow> json_Marshal (component_encode X) c = Inr doc \<Longrightarrow>
      \<exists>j. component_encode X c = Inr j \<and> json_ok j \<and> parse_json doc = Inr j"
    and "workflow_reads_back X w \<Longrightarrow> json_Marshal (workflow_encode X) w = Inr doc \<Longrightarrow>
      \<exists>j. workflow_encode X w = Inr j \<and> parse_json doc = Inr j"
  using component_encodes_all(1) [OF assms, of c] workflow_encodes [OF assms, of w]
  by (auto simp: json_Marshal_def encodes_def parse_json_text simp del: component_encode.simps)

lemma no_job_document:
  assumes "parse_json doc = Inr j" "dec_struct type_fields j '''' = Inr t" "t \<noteq> ''job''"
  shows "job_of_document X doc = None"
  using zero_job_type [OF _ assms(2)] assms(1,3)
  by (auto simp: job_of_document_def unmarshal_job_def json_Unmarshal_def split: sum.splits)

lemma no_workflow_document:
  assumes "parse_json doc = Inr j" "dec_struct type_fields j '''' = Inr t" "t \<noteq> ''workflow''"
  shows "job_of_workflow_document X doc = None"
  using zero_workflow_type [OF _ assms(2)] assms(1,3)
  by (auto simp: job_of_workflow_document_def unmarshal_workflow_def json_Unmarshal_def split: sum.splits)

lemma unmarshal_documents:
  assumes X: "uuid_codec_ok X"
  shows "component_reads_back X c \<Longrightarrow> json_Marshal (component_encode X) c = Inr doc \<Longrightarrow> unmarshal_component X doc = Inr c"
    and "workflow_reads_back X w \<Longrightarrow> json_Marshal (workflow_encode X) w = Inr doc \<Longrightarrow> unmarshal_workflow X doc = Inr w"
    and "job_reads_back X b \<Longrightarrow> json_Marshal (job_encode X) b = Inr doc \<Longrightarrow> unmarshal_job X doc = Inr b"
  unfolding unmarshal_component_def unmarshal_workflow_def unmarshal_job_def
  using document_roundtrip [of "component_encode X" c "component_field X" zero_component]
    document_roundtrip [of "workflow_encode X" w "dec_struct (workflow_fields X)" zero_workflow]
    document_roundtrip [of "job_encode X" b "dec_struct (job_fields X)" zero_job]
    component_encodes_all(1) [OF X, of c] workflow_encodes [OF X, of w] job_encodes [OF X, of b]
    component_field_roundtrip [OF X] workflow_roundtrip [OF X] job_roundtrip [OF X]
  by auto

lemma input_job_documents:
  assumes X: "uuid_codec_ok X"
  shows "job_reads_back X b \<Longrightarrow> json_Marshal (job_encode X) b = Inr doc \<Longrightarrow> job_type b = ''job'' \<Longrightarrow> input_job X doc = Some b"
    and "workflow_reads_back X w \<Longrightarrow> json_Marshal (workflow_encode X) w = Inr doc \<Longrightarrow> wf_type w = ''workflow'' \<Longrightarrow>
      input_job X doc = Some (empty_job ''Empty job from workflow'' w)"
    and "component_reads_back X c \<Longrightarrow> json_Marshal (component_encode X) c = Inr doc \<Longrightarrow>
      cmp_type c \<notin> {''job'', ''workflow''} \<Longrightarrow>
      input_job X doc = Some (empty_job ''Empty job from component'' (zero_workflow\<lparr>wf_component := c\<rparr>))"
proof -
  show "input_job X doc = Some b"
    if "job_reads_back X b" "json_Marshal (job_encode X) b = Inr doc" "job_type b = ''job''"
    using unmarshal_documents(3) [OF X that(1,2)] that(3) by (simp add: input_job_def job_of_document_def)
  show "input_job X doc = Some (empty_job ''Empty job from workflow'' w)"
    if w: "workflow_reads_back X w" "json_Marshal (workflow_encode X) w = Inr doc" "wf_type w = ''workflow''"
  proof -
    obtain j where j: "workflow_encode X w = Inr j" "parse_json doc = Inr j"
      using encoded_document(2) [OF X w(1,2)] by blast
    have "job_of_document X doc = None"
      using no_job_document [OF j(2) workflow_document_type [OF j(1)]] w(3) by simp
    then show ?thesis
      using unmarshal_documents(2) [OF X w(1,2)] w(3) by (simp add: input_job_def job_of_workflow_document_def)
  qed
  show "input_job X doc = Some (empty_job ''Empty job from component'' (zero_workflow\<lparr>wf_component := c\<rparr>))"
    if c: "component_reads_back X c" "json_Marshal (component_encode X) c = Inr doc" "cmp_type c \<notin> {''job'', ''workflow''}"
  proof -
    obtain j where j: "component_encode X c = Inr j" "parse_json doc = Inr j"
      using encoded_document(1) [OF X c(1,2)] by blast
    note t = component_document_type [OF j(1)]
    have "job_of_document X doc = None" "job_of_workflow_document X doc = None"
      using no_job_document [OF j(2) t] no_workflow_document [OF j(2) t] c(3) by simp_all
    then show ?thesis
      using unmarshal_documents(1) [OF X c(1,2)] by (simp add: input_job_def job_of_component_document_def)
  qed
qed

section \<open>Properties\<close>

text \<open>
  C25: what the transpile command prints. On the text of a job it prints the manifest of the job, on the
  text of a workflow or of a component the manifest of a job without values for it, provided that no
  schema is named or the document satisfies it; it fails if the manifest cannot be made, and does not
  end if the transpiler does not.
\<close>

theorem transpile_prints_the_manifest:
  assumes X: "uuid_codec_ok X"
    and args: "flag_Parse schema_flags args = Parsed m [file]" "ReadFile F file = Inr doc"
    and schema: "case FindSchema L registered (str_flag m ''schema'' '''') of
      None \<Rightarrow> True | Some s \<Rightarrow> schema_verdict L s doc = None"
    and doc: "job_reads_back X b \<and> json_Marshal (job_encode X) b = Inr doc \<and> job_type b = ''job'' \<and> job = b
      \<or> workflow_reads_back X w \<and> json_Marshal (workflow_encode X) w = Inr doc \<and> wf_type w = ''workflow''
        \<and> job = empty_job ''Empty job from workflow'' w
      \<or> component_reads_back X c \<and> json_Marshal (component_encode X) c = Inr doc \<and> cmp_type c \<notin> {''job'', ''workflow''}
        \<and> job = empty_job ''Empty job from component'' (zero_workflow\<lparr>wf_component := c\<rparr>)"
  shows "transpile_main X E L registered YamlText F prog args =
    (case GetArgoWorkflow E job of
       None \<Rightarrow> None
     | Some (Inl e) \<Rightarrow> Some ([], if is_panic e then 2 else 1)
     | Some (Inr manifest) \<Rightarrow> Some ([case YamlText manifest of Inl e \<Rightarrow> '''' | Inr t \<Rightarrow> t], 0))"
proof -
  have "input_job X doc = Some job" using doc input_job_documents [OF X] by auto
  with args schema show ?thesis
    by (auto simp: transpile_main_def print_manifest_def flag_Arg_def split: option.splits)
qed

definition ex_schema_lib :: "string schema_lib" where
  "ex_schema_lib =
     \<lparr>FileMissing = (\<lambda>f. True), CompileFile = (\<lambda>f. Inr f), CompileResource = (\<lambda>rs f. Inr f),
      SchemaValidate = (\<lambda>s j. case j of JObj ms \<Rightarrow> None | _ \<Rightarrow> Some (ExtErr ''expected object''))\<rparr>"

definition ex_files :: "string \<Rightarrow> files" where
  "ex_files doc = \<lparr>ReadFile = (\<lambda>f. Inr doc), Stdin = Inl (ExtErr ''no input'')\<rparr>"

definition ex_runnable :: component where
  "ex_runnable = Component (ex_json_metadata 1) [] [] ''component''
     (ImplBrick \<lparr>br_type = ''brick'', br_container = Some zero_container, br_args = [], br_results = []\<rparr>)"

lemma ex_runnable_reads_back: "component_reads_back codec_example ex_runnable"
proof -
  have "container_reads_back codec_example (Some zero_container)" by code_simp
  then show ?thesis
    by (simp add: ex_runnable_def ex_json_metadata_def metadata_reads_back_def int64_def data_reads_back_def component_types)
qed

lemma component_text: "uuid_codec_ok X \<Longrightarrow> component_reads_back X c \<Longrightarrow> \<exists>doc. json_Marshal (component_encode X) c = Inr doc"
  using component_encodes_all(1) [of X c] by (auto simp: json_Marshal_def encodes_def simp del: component_encode.simps)

theorem transpile_prints_the_manifest_witness:
  "\<exists>doc. transpile_main codec_example ext_example ex_schema_lib [] (\<lambda>m. Inr (awf_entrypoint m)) (ex_files doc) ''transpile''
     [''job.json''] = Some ([''u''], 0)"
proof -
  obtain doc where doc: "json_Marshal (component_encode codec_example) ex_runnable = Inr doc"
    using component_text [OF uuid_codec_ok_example ex_runnable_reads_back] by blast
  have args: "flag_Parse schema_flags [''job.json''] = Parsed [] [''job.json'']" by code_simp
  have "transpile_main codec_example ext_example ex_schema_lib [] (\<lambda>m. Inr (awf_entrypoint m)) (ex_files doc) ''transpile''
      [''job.json''] =
    (case GetArgoWorkflow ext_example
            (empty_job ''Empty job from component'' (zero_workflow\<lparr>wf_component := ex_runnable\<rparr>)) of
       None \<Rightarrow> None
     | Some (Inl e) \<Rightarrow> Some ([], if is_panic e then 2 else 1)
     | Some (Inr manifest) \<Rightarrow>
         Some ([case (Inr (awf_entrypoint manifest) :: string res) of Inl e \<Rightarrow> '''' | Inr t \<Rightarrow> t], 0))"
    by (rule transpile_prints_the_manifest [OF uuid_codec_ok_example args])
      (use doc ex_runnable_reads_back in
        \<open>auto simp: ex_files_def FindSchema_def schema_of_def findFileSchema_def ex_schema_lib_def ex_runnable_def\<close>)
  also have "\<dots> = Some ([''u''], 0)" by code_simp
  finally show ?thesis by blast
qed

text \<open>
  C26: the validate command and the server agree. With the name of a registered type as its schema, and no
  file of that name, the command accepts a document exactly if the server's validation of a request body
  of that type does.
\<close>

theorem validate_command_agrees_with_server:
  assumes "models_init L spec = Inr registered" "t \<in> set RegisteredSchemas" "FileMissing L t"
    and "flag_Parse schema_flags args = Parsed m [file]" "map_of m ''schema'' = Some t" "ReadFile F file = Inr doc"
  shows "snd (validate_main L registered F prog args) =
    (if ValidateDocument (schema_rest L registered R) doc t = None then 0 else 1)"
proof -
  obtain schema where s: "map_of registered t = Some schema"
    using assms(2) unfolding models_init_keys [OF assms(1), symmetric] by (metis map_of_eq_None_iff not_None_eq set_map)
  then have "FindSchema L registered t = Some schema"
    using assms(3) by (simp add: FindSchema_def findFileSchema_def schema_of_def findPrecompiledSchema_map_of)
  then show ?thesis
    using assms(4-6) s
    by (simp add: validate_main_def flag_Arg_def str_flag_def schema_verdict_def ValidateDocument_schema_rest [OF assms(1)]
        split: sum.split option.split)
qed

theorem validate_command_agrees_with_server_witness:
  "\<exists>registered. models_init ex_schema_lib [] = Inr registered
     \<and> snd (validate_main ex_schema_lib registered (ex_files ''1'') ''validate'' [''-schema'', ''Component'', ''c.json'']) = 1"
proof -
  have r: "models_init ex_schema_lib [] = Inr schemaFiles" "map_of schemaFiles ''Component'' \<noteq> None" by code_simp+
  obtain y where y: "map_of schemaFiles ''Component'' = Some y" using r(2) by blast
  obtain e where e: "SchemaValidate ex_schema_lib y (JNum ''1'') = Some e" by (simp add: ex_schema_lib_def)
  have u: "unmarshal_any ''1'' = Inr (JNum ''1'')"
    using float_fits_digit [of "CHR ''1''"] by code_simp
  have p: "flag_Parse schema_flags [''-schema'', ''Component'', ''c.json''] = Parsed [(''schema'', ''Component'')] [''c.json'']"
    by code_simp
  have "snd (validate_main ex_schema_lib schemaFiles (ex_files ''1'') ''validate'' [''-schema'', ''Component'', ''c.json'']) =
    (if ValidateDocument (schema_rest ex_schema_lib schemaFiles undefined) ''1'' ''Component'' = None then 0 else 1)"
    by (rule validate_command_agrees_with_server [OF r(1) _ _ p])
      (simp_all add: ex_schema_lib_def ex_files_def RegisteredSchemas_def)
  also have "\<dots> = 1"
    using y e by (simp add: ValidateDocument_schema_rest [OF r(1)] u)
  finally show ?thesis using r(1) by blast
qed


section \<open>Output that is dereferenced again\<close>

lemma layout_parsed:
  assumes "\<And>d. list_all is_space (nl d)" "list_all is_space sp" "json_ok j" "list_all is_space r"
  shows "parse_json (layout_text nl sp d j @ r) = Inr j"
proof -
  have "parse_value (Suc (length (layout_text nl sp d j @ r))) (layout_text nl sp d j @ r) = Some (j, r)"
    by (rule parse_layout_all(1)) (use assms ends_number_spaces [of r "[]"] in simp_all)
  moreover from this have "skip (layout_text nl sp d j @ r) \<noteq> []" by (auto split: list.splits)
  moreover have "skip r = []" using skip_spaces [of r "[]"] assms(4) by simp
  ultimately show ?thesis by (simp add: parse_json_def)
qed

lemma component_document_members: "component_encode X c = Inr j \<Longrightarrow> \<exists>ms. ms \<noteq> [] \<and> j = JObj ms"
  by (cases c) (auto simp: enc_struct_iff enc_iffs enc_members_append split: if_splits)

lemma no_space_prefix:
  assumes "\<forall>sp \<in> set spaces. sp = [] \<or> hd sp \<noteq> c"
  shows "trim_left spaces (c # s) = c # s"
proof -
  have "find (\<lambda>sp. sp \<noteq> [] \<and> has_prefix sp (c # s)) spaces = None"
    using assms by (auto simp: find_None_iff neq_Nil_conv)
  then show ?thesis by (simp add: trim_left.simps)
qed

lemma TrimSpace_object:
  "TrimSpace (CHR ''{'' # s @ [CHR ''}'', CHR 0x0A]) = CHR ''{'' # s @ ''}''"
proof -
  have first: "trim_left space_texts (CHR ''{'' # u) = CHR ''{'' # u" for u
    by (rule no_space_prefix) code_simp
  have last: "trim_left (map rev space_texts) (CHR ''}'' # u) = CHR ''}'' # u" for u
    by (rule no_space_prefix) code_simp
  have "find (\<lambda>sp. sp \<noteq> [] \<and> has_prefix sp (CHR 0x0A # u)) (map rev space_texts) = Some [CHR 0x0A]" for u
    by (simp add: space_texts_def)
  then have "trim_left (map rev space_texts) (CHR 0x0A # u) = trim_left (map rev space_texts) u" for u
    by (subst trim_left.simps) simp
  then show ?thesis by (simp add: TrimSpace_def first last)
qed

text \<open>No UUID text begins with a brace at the end of a line.\<close>

definition no_brace_line :: "codec \<Rightarrow> bool" where
  "no_brace_line X \<longleftrightarrow> (\<forall>s u. ParseUUIDBytes X (CHR ''{'' # CHR 0x0A # s) \<noteq> Inr u)"

lemma object_text: "ms \<noteq> [] \<Longrightarrow> \<exists>s. json_indent (JObj ms) = CHR ''{'' # CHR 0x0A # s @ ''}''"
  by (induction ms rule: induct_list012) (auto simp: json_indent_def)

lemma printed_component_read:
  assumes X: "uuid_codec_ok X" "no_brace_line X" and c: "component_reads_back X c"
  shows "parseInput X (print_component X c) = Inr (NVComponent c)"
proof -
  obtain j where j: "component_encode X c = Inr j" "json_ok j"
    using component_text [OF X(1) c] encoded_document(1) [OF X(1) c] by blast
  then obtain ms where jm: "ms \<noteq> []" "j = JObj ms" using component_document_members by blast
  obtain s where s: "json_indent j = CHR ''{'' # CHR 0x0A # s @ ''}''" using object_text jm by blast
  have "parse_json (print_component X c) = Inr j"
    unfolding print_component_def j(1) json_indent_def sum.case using j(2)
    by (auto intro!: layout_parsed simp: is_space_def list_all_iff)
  then have "unmarshal_component X (print_component X c) = Inr c"
    using component_field_roundtrip [OF X(1) j(1) c] by (simp add: unmarshal_component_def json_Unmarshal_def)
  moreover have "TrimSpace (print_component X c) = CHR ''{'' # CHR 0x0A # s @ ''}''"
    using TrimSpace_object [of "CHR 0x0A # s"] by (simp add: print_component_def j(1) s)
  then have "\<exists>e. ParseUUIDBytes X (TrimSpace (print_component X c)) = Inl e"
    using X(2) by (auto simp: no_brace_line_def) (metis old.sum.exhaust)
  ultimately show ?thesis by (auto simp: parseInput_def)
qed


lemma dereference_value_again:
  assumes "DereferenceComponent get k v = Some (Inr r)"
  shows "dereference_value X get' k (NVComponent r) = Some ([print_component X r], 0)"
  using dereference_idempotent [OF assms] by (simp add: dereference_value_def)

lemma dereference_value_root:
  assumes "v = NVReference u \<and> get v = Inr c \<or> v = NVComponent c"
    and "DereferenceComponent (\<lambda>r. get (NVCRefVersion r)) k (NVComponent c) = Some (Inr r)"
  shows "dereference_value X get k v = Some ([print_component X r], 0)"
  using assms by (auto simp: dereference_value_def)

text \<open>
  C24: what the dereference command prints. Given a component, or the UUID of a stored one, that
  dereferences to \<open>r\<close>, it prints \<open>r\<close>, which has no reference below it. If \<open>r\<close> can be read back, the output
  is final: given a file with it, the command prints the same text, whatever the database holds by then.
\<close>

theorem dereferenced_output_is_stable:
  assumes X: "uuid_codec_ok X" "no_brace_line X"
    and args: "flag_Parse dereference_flags args = Parsed m rest" "(length rest = 1) \<noteq> (str_flag m ''file'' '''' \<noteq> '''')"
      "dereference_input F m rest = Inr bytes" "parseInput X bytes = Inr a"
    and db: "NewMongoStorageClientFromConfig M (dereference_config C v) None = Some (Inr s)"
    and root: "a = NVReference u \<and> get s a = Inr c \<or> a = NVComponent c"
      "DereferenceComponent (\<lambda>r. get s (NVCRefVersion r)) depth (NVComponent c) = Some (Inr r)"
    and again: "flag_Parse dereference_flags args' = Parsed m' []" "str_flag m' ''file'' '''' = f" "f \<notin> {'''', ''-''}"
      "ReadFile F' f = Inr (print_component X r)"
  shows "dereferenced r \<and> dereference_main X C v M get depth F prog args = Some ([print_component X r], 0)
    \<and> (component_reads_back X r \<longrightarrow>
         dereference_main X C v M get' depth F' prog args' = Some ([print_component X r], 0))"
proof (intro conjI impI)
  show "dereferenced r"
    using root(2) traverse_dereferences(1) by (auto simp: DereferenceComponent_def split: sum.split_asm)
  show "dereference_main X C v M get depth F prog args = Some ([print_component X r], 0)"
    using args db dereference_value_root [OF root] by (auto simp: dereference_main_def)
  show "dereference_main X C v M get' depth F' prog args' = Some ([print_component X r], 0)" if "component_reads_back X r"
    using again db printed_component_read [OF X that] dereference_value_again [OF root(2)]
    by (simp add: dereference_main_def dereference_input_def)
qed

definition ex_main_ref :: component where
  "ex_main_ref = Component (ex_json_metadata 3) [] [] ''component''
     (ImplGraph (Graph ''graph'' [Node ''a'' (NVReference 1) ''1''] [] [] []))"

definition ex_main_dref :: component where
  "ex_main_dref = Component (ex_json_metadata 3) [] [] ''component''
     (ImplGraph (Graph ''graph'' [Node ''a'' (NVComponent ex_runnable) ''''] [] [] []))"

definition ex_get :: "string MongoStorageClient \<Rightarrow> node_value \<Rightarrow> component res" where
  "ex_get s v =
     (case v of
        NVReference u \<Rightarrow> if u = 3 then Inr ex_main_ref else Inl ErrNotFound
      | NVCRefVersion r \<Rightarrow> if crv_uid r = 1 then Inr ex_runnable else Inl ErrNotFound
      | _ \<Rightarrow> Inl ErrNotFound)"

definition ex_open_mongo :: "(unit, string) mongo_lib" where
  "ex_open_mongo = ex_mongo_lib\<lparr>MongoConnect := \<lambda>uri direct. Inr uri\<rparr>"

definition ex_db_config_lib :: "(unit, unit) config_lib" where
  "ex_db_config_lib =
     \<lparr>ReadConfig = (\<lambda>v s. Inr ()), ReadInConfig = (\<lambda>v. Inl (ExtErr ''not found'')),
      UnmarshalConfig = (\<lambda>v s hook. Inl (ExtErr ''not found'')), UnmarshalDbConfig = (\<lambda>v s. (zero_db_config, None)),
      MarshalYaml = (\<lambda>cfg. Inr '''')\<rparr>"

definition ex_no_viper :: viper where
  "ex_no_viper = \<lparr>vp_paths = [], vp_name = ''config'', vp_type = '''', vp_autoEnv = False, vp_envReplace = [], vp_envPrefix = ''''\<rparr>"

abbreviation (input) ex_dereference :: "(string MongoStorageClient \<Rightarrow> node_value \<Rightarrow> component res) \<Rightarrow> string \<Rightarrow> string list \<Rightarrow> command option" where
  "ex_dereference get doc args \<equiv>
     dereference_main codec_example ex_db_config_lib ex_no_viper ex_open_mongo get 3 (ex_files doc) ''dereference'' args"

definition ex_quoted :: string where
  "ex_quoted = [CHR 0x22, CHR ''u'', CHR ''u'', CHR ''u'', CHR 0x22]"

lemma ex_main_dref_reads_back: "component_reads_back codec_example ex_main_dref"
proof -
  have "raw_reads_back ''''" by code_simp
  then show ?thesis
    using ex_runnable_reads_back
    by (simp add: ex_main_dref_def ex_json_metadata_def metadata_reads_back_def int64_def data_reads_back_def component_types)
qed

theorem dereferenced_output_is_stable_witness:
  "dereferenced ex_main_dref
     \<and> ex_dereference ex_get '''' [ex_quoted] = Some ([print_component codec_example ex_main_dref], 0)
     \<and> ex_dereference (\<lambda>s v. Inl ErrNotFound) (print_component codec_example ex_main_dref) [''-file'', ''c.json'']
       = Some ([print_component codec_example ex_main_dref], 0)"
proof -
  have n: "no_brace_line codec_example" by (auto simp: no_brace_line_def ex_parse_uuid_def Let_def)
  have p: "flag_Parse dereference_flags [ex_quoted] = Parsed [] [ex_quoted]"
    "flag_Parse dereference_flags [''-file'', ''c.json''] = Parsed [(''file'', ''c.json'')] []"
    "parseInput codec_example ex_quoted = Inr (NVReference 3)"
    "NewMongoStorageClientFromConfig ex_open_mongo (dereference_config ex_db_config_lib ex_no_viper) None
      = Some (Inr \<lparr>ms_client = '''', ms_db_name = ''''\<rparr>)"
    by code_simp+
  have d: "DereferenceComponent (\<lambda>r. ex_get \<lparr>ms_client = '''', ms_db_name = ''''\<rparr> (NVCRefVersion r)) 3 (NVComponent ex_main_ref)
      = Some (Inr ex_main_dref)"
    by code_simp
  show ?thesis
    using dereferenced_output_is_stable [where get = ex_get and depth = 3 and F = "ex_files ''''" and f = "''c.json''"
        and F' = "ex_files (print_component codec_example ex_main_dref)" and prog = "''dereference''"
        and get' = "\<lambda>s v. Inl ErrNotFound", OF uuid_codec_ok_example n p(1) _ _ p(3,4) _ d p(2)] ex_main_dref_reads_back
    by (simp add: str_flag_def ex_files_def dereference_input_def flag_Arg_def ex_get_def)
qed

end
