(* ===== verification/Bson_Models.thy ===== *)
theory Bson_Models
  imports Json_Types Transpiler_Proofs
begin

text \<open>
  The decoders that \<^verbatim>\<open>models/models.go\<close> gives the MongoDB driver for its types: how a stored
  component is read back. The driver itself is the parameter record \<open>bson_lib\<close>: what it makes of the
  bytes of a document for one struct of the program, calling the program's own decoders for the parts
  that have one. A decoder that ends in a panic is not caught by the driver.
\<close>

section \<open>The driver\<close>

datatype bson_type = BsonString | BsonOther string

record component_base =
  cb_metadata :: metadata
  cb_inputs :: "data list"
  cb_outputs :: "data list"
  cb_type :: string

record raw_expression =
  rx_operator :: string
  rx_left :: string
  rx_right :: string

record raw_node =
  rn_id :: string
  rn_node :: string
  rn_userdata :: string

text \<open>Of an argument and of a result the part before the source is decoded, with no source yet.\<close>

record raw_argument =
  ra_base :: argument
  ra_source :: string

record raw_result =
  rr_base :: brick_result
  rr_source :: string

record raw_map =
  rm_type :: string
  rm_node :: string
  rm_inputMappings :: "edge list"
  rm_outputMappings :: "edge list"

record raw_conditional =
  rd_type :: string
  rd_expression :: expression
  rd_nodeTrue :: string
  rd_nodeFalse :: "string option"
  rd_inputMappings :: "edge list"
  rd_outputMappings :: "edge list"

text \<open>
  Bytes are texts. A component reference is decoded by the program's decoder, so every driver function
  for a type that holds one takes it as an argument; so do the parts of a component. \<open>LookupErr\<close> gives
  the type and the bytes of a field, \<open>StringValue\<close> the text of such a value, \<open>None\<close> for a panic.
  \<open>DecodeData\<close> decodes into a variable that has a value already and writes the elements of its slices into
  the memory they have: it gives the new value of the variable, and what a copy made of the variable
  before reads as from now on.
\<close>

type_synonym cref_decoder = "bson_type \<Rightarrow> string \<Rightarrow> uuid res"

record bson_lib =
  UuidText :: "uuid \<Rightarrow> string"
  ParseUuid :: "string \<Rightarrow> uuid res"
  AppendString :: "string \<Rightarrow> string \<Rightarrow> string"
  ReadString :: "string \<Rightarrow> string option"
  BsonRaw :: "string \<Rightarrow> string res"
  LookupErr :: "string \<Rightarrow> string \<Rightarrow> (bson_type \<times> string) res"
  StringValue :: "bson_type \<times> string \<Rightarrow> string option"
  DecodeData :: "string \<Rightarrow> data \<Rightarrow> (data \<times> data) res"
  DecodeFileSource :: "string \<Rightarrow> string res"
  DecodeCRefVersion :: "cref_decoder \<Rightarrow> string \<Rightarrow> cref_version \<Rightarrow> cref_version res"
  PartialExpression :: "string \<Rightarrow> raw_expression res"
  PartialNode :: "string \<Rightarrow> raw_node res"
  PartialArgument :: "string \<Rightarrow> raw_argument res"
  PartialResult :: "string \<Rightarrow> raw_result res"
  PartialMap :: "string \<Rightarrow> raw_map res"
  PartialConditional :: "(string \<Rightarrow> expression res) \<Rightarrow> string \<Rightarrow> raw_conditional res"
  PartialComponent :: "cref_decoder \<Rightarrow> string \<Rightarrow> (component_base \<times> string) res"
  AnyComponent :: "cref_decoder \<Rightarrow> string \<Rightarrow> (component_base \<times> string) res"
  BrickComponent :: "cref_decoder \<Rightarrow> (string \<Rightarrow> argument res) \<Rightarrow> (string \<Rightarrow> brick_result res) \<Rightarrow> string \<Rightarrow>
    (component_base \<times> brick) res"
  GraphComponent :: "cref_decoder \<Rightarrow> (string \<Rightarrow> node run) \<Rightarrow> string \<Rightarrow> (component_base \<times> graph) run"
  MapComponentOf :: "cref_decoder \<Rightarrow> (string \<Rightarrow> map_component run) \<Rightarrow> string \<Rightarrow> (component_base \<times> map_component) run"
  ConditionalComponent :: "cref_decoder \<Rightarrow> (string \<Rightarrow> conditional run) \<Rightarrow> string \<Rightarrow> (component_base \<times> conditional) run"

section \<open>Texts and references\<close>

definition bson_type_error :: "bson_type \<Rightarrow> goerr" where
  "bson_type_error t = Errorf (''invalid bson value type '' @ [CHR 0x27] @ ''%s'' @ [CHR 0x27]) [case t of BsonString \<Rightarrow> ''string'' | BsonOther n \<Rightarrow> n]"

definition sourcetxt_MarshalBSONValue :: "bson_lib \<Rightarrow> string \<Rightarrow> bson_type \<times> string" where
  "sourcetxt_MarshalBSONValue B a = (BsonString, AppendString B '''' a)"


definition cref_MarshalBSONValue :: "bson_lib \<Rightarrow> uuid \<Rightarrow> bson_type \<times> string" where
  "cref_MarshalBSONValue B c = (BsonString, AppendString B '''' (UuidText B c))"

definition cref_UnmarshalBSONValue :: "bson_lib \<Rightarrow> bson_type \<Rightarrow> string \<Rightarrow> uuid res" where
  "cref_UnmarshalBSONValue B t bytes =
     (if t \<noteq> BsonString then Inl (bson_type_error t)
      else (case ReadString B bytes of
              None \<Rightarrow> Inl (Errorf ''invalid bson string value'' [])
            | Some s \<Rightarrow> wrapres ''cannot unmarshal ComponentReference from %s'' (ParseUuid B s)))"

section \<open>Expressions, arguments and results\<close>








section \<open>Components\<close>


definition wraprun :: "string \<Rightarrow> 'a run \<Rightarrow> 'a run" where
  "wraprun m r = map_option (wrapres m) r"

definition unrecognized :: "string \<Rightarrow> 'a run \<Rightarrow> 'a run" where
  "unrecognized node r =
     (case r of
        Some (Inl e) \<Rightarrow>
          Some (Inl (if is_panic e then e
                     else Errorf ''cannot unmarshal node, unrecognized type of node.Node, node Id: %s'' [node]))
      | _ \<Rightarrow> r)"







section \<open>What the driver promises\<close>




section \<open>Lemmas\<close>



lemma wraprun_simps [simp]:
  "wraprun m r = None \<longleftrightarrow> r = None"
  "wraprun m r = Some (Inr x) \<longleftrightarrow> r = Some (Inr x)"
  by (cases r; auto simp: wraprun_def wrapres_def split: sum.splits)+

lemma unrecognized_simps [simp]:
  "unrecognized i r = None \<longleftrightarrow> r = None" "unrecognized i r = Some (Inr x) \<longleftrightarrow> r = Some (Inr x)"
  by (auto simp: unrecognized_def split: option.splits sum.splits)








section \<open>Stored components\<close>






lemma reference_BSON_roundtrip:
  assumes "ReadString B (AppendString B '''' (UuidText B u)) = Some (UuidText B u)" "ParseUuid B (UuidText B u) = Inr u"
  shows "cref_UnmarshalBSONValue B (fst (cref_MarshalBSONValue B u)) (snd (cref_MarshalBSONValue B u)) = Inr u"
  using assms by (simp add: cref_MarshalBSONValue_def cref_UnmarshalBSONValue_def go_simps)















section \<open>Panics\<close>


lemma calm_wraps [simp]: "calm_run (wraprun m x) \<longleftrightarrow> calm_run x" "calm_run (unrecognized i x) \<longleftrightarrow> calm_run x"
  by (cases x rule: option.exhaust; auto simp: wraprun_def unrecognized_def split: sum.split)+



















end
