(* ===== verification/Service_Account.thy ===== *)
theory Service_Account
  imports Secrets
begin

text \<open>
  \<^verbatim>\<open>pkg/secret/config.go\<close>: the client configuration of a workspace's service account inside
  the cluster. The calls on the cluster and the environment are a parameter.
\<close>

definition DefaultServiceAccountName :: string where "DefaultServiceAccountName = ''default''"

definition cmKeyServiceAccount :: string where "cmKeyServiceAccount = ''serviceAccountName''"

record account_cluster =
  AccConfigMap :: "string \<Rightarrow> string \<Rightarrow> string gomap res"
  AccServiceAccount :: "string \<Rightarrow> string \<Rightarrow> string list res"
  AccSecret :: "string \<Rightarrow> string \<Rightarrow> string gomap res"
  Getenv :: "string \<Rightarrow> string"

record rest_config =
  rc_Host :: string
  rc_CAData :: string
  rc_BearerToken :: string

definition ErrNotInCluster :: goerr where
  "ErrNotInCluster = ExtErr ''unable to load in-cluster configuration''"

definition lookupServiceAccount :: "account_cluster \<Rightarrow> string \<Rightarrow> string \<Rightarrow> string list res" where
  "lookupServiceAccount A workspace namespace =
     rbind (AccConfigMap A namespace workspace) (\<lambda>cm.
       let serviceAccountName =
             (case map_of cm cmKeyServiceAccount of Some n \<Rightarrow> n | None \<Rightarrow> DefaultServiceAccountName)
       in AccServiceAccount A workspace serviceAccountName)"

text \<open>A host with a colon is an IPv6 address and gets brackets.\<close>

definition JoinHostPort :: "string \<Rightarrow> string \<Rightarrow> string" where
  "JoinHostPort host port =
     (if CHR '':'' \<in> set host then ''['' @ host @ '']:'' @ port else host @ '':'' @ port)"

definition InClusterConfig :: "account_cluster \<Rightarrow> string \<Rightarrow> string \<Rightarrow> rest_config res" where
  "InClusterConfig A namespace workspace =
     (case lookupServiceAccount A workspace namespace of
        Inl err \<Rightarrow> Inl (Wrap ''cannot look-up service account'' err)
      | Inr [] \<Rightarrow> Inl (Errorf ''service account %s has no attached secret'' [workspace])
      | Inr (s # ss) \<Rightarrow>
          (case AccSecret A workspace s of
             Inl err \<Rightarrow> Inl (Wrap ''cannot get secret %s/%s'' err)
           | Inr dat \<Rightarrow>
               let host = Getenv A ''KUBERNETES_SERVICE_HOST''; port = Getenv A ''KUBERNETES_SERVICE_PORT''
               in if host = '''' \<or> port = '''' then Inl ErrNotInCluster
                  else Inr \<lparr>rc_Host = ''https://'' @ JoinHostPort host port,
                            rc_CAData = (case map_of dat ''ca.crt'' of Some c \<Rightarrow> c | None \<Rightarrow> ''''),
                            rc_BearerToken = (case map_of dat ''token'' of Some t \<Rightarrow> t | None \<Rightarrow> '''')\<rparr>))"

text \<open>
  A configuration carries the token of the first secret of the account that the config map of the
  workspace names; the secret and the account are in the namespace of the workspace.
\<close>

theorem in_cluster_token:
  assumes "InClusterConfig A namespace workspace = Inr c"
  shows "\<exists>cm account s ss dat. AccConfigMap A namespace workspace = Inr cm
    \<and> account = (case map_of cm cmKeyServiceAccount of Some n \<Rightarrow> n | None \<Rightarrow> DefaultServiceAccountName)
    \<and> AccServiceAccount A workspace account = Inr (s # ss) \<and> AccSecret A workspace s = Inr dat
    \<and> rc_BearerToken c = (case map_of dat ''token'' of Some t \<Rightarrow> t | None \<Rightarrow> '''')
    \<and> Getenv A ''KUBERNETES_SERVICE_HOST'' \<noteq> '''' \<and> Getenv A ''KUBERNETES_SERVICE_PORT'' \<noteq> ''''"
proof -
  obtain s ss where l: "lookupServiceAccount A workspace namespace = Inr (s # ss)"
    using assms by (auto simp: InClusterConfig_def split: sum.split_asm list.split_asm)
  then obtain dat where "AccSecret A workspace s = Inr dat"
    using assms by (auto simp: InClusterConfig_def split: sum.split_asm)
  with l assms show ?thesis
    by (auto simp: InClusterConfig_def lookupServiceAccount_def go_simps Let_def split: if_split_asm)
qed

end
