(* ===== verification/Mongo_Invariant.thy ===== *)
theory Mongo_Invariant
  imports Mongo_Access
begin

text \<open>
  The storage calls as the steps of a state machine, and what every one of them keeps of the stored
  components and workflows: the documents of a UUID have different version numbers, and only the
  newest of them can be tagged latest.
\<close>

section \<open>Further laws of the driver and the encoding\<close>

text \<open>
  Updating one document changes at most one matching document of the collection. The encoding of a
  struct has no key twice, and an empty tag list is left out or stored as an empty array.
\<close>

definition update_one_law :: "'d mongo \<Rightarrow> ('d \<Rightarrow> store) \<Rightarrow> (string \<Rightarrow> string \<Rightarrow> bool) \<Rightarrow> bool" where
  "update_one_law M docs rx \<longleftrightarrow>
     (\<forall>coll f u d r d'. UpdateOne M coll f u d = (r, d') \<longrightarrow>
        docs d' = docs d
        \<or> \<not> isl r \<and> (\<exists>s \<in># docs d coll. matches rx s f \<and> docs d' = replaced coll s (apply_update u s) (docs d)))"

definition keys_tags :: "version \<Rightarrow> bsonD \<Rightarrow> bool" where
  "keys_tags v b \<longleftrightarrow>
     distinct (map fst b) \<and> (ver_tags v = [] \<longrightarrow> field b ''version.tags'' \<in> {None, Some (BArr [])})"

definition marshal_law :: "'d mongo \<Rightarrow> bool" where
  "marshal_law M \<longleftrightarrow>
     (\<forall>c b. Marshal M (DComponent c) = Inr b \<longrightarrow> keys_tags (md_version (cmp_metadata c)) b)
     \<and> (\<forall>w b. Marshal M (DWorkflow w) = Inr b \<longrightarrow> keys_tags (md_version (wf_metadata w)) b)"

text \<open>All that the calls rely on.\<close>

definition storage_laws :: "ext \<Rightarrow> 'd mongo \<Rightarrow> ('d \<Rightarrow> store) \<Rightarrow> (string \<Rightarrow> string \<Rightarrow> bool) \<Rightarrow> bool" where
  "storage_laws E M docs rx \<longleftrightarrow>
     driver_laws M docs rx \<and> update_one_law M docs rx \<and> encode_law E M \<and> marshal_law M \<and> decode_law M
     \<and> timestamp_law M \<and> wrapf_ok E \<and> uuid_string_ok E"

lemma mem_storage_laws: "storage_laws ext_example (mem_mongo ext_example) mem_docs no_regex"
proof -
  have "update_one_law (mem_mongo ext_example) mem_docs no_regex"
    unfolding update_one_law_def
  proof (intro allI impI)
    fix coll f u r and d d' :: mem
    assume run: "UpdateOne (mem_mongo ext_example) coll f u d = (r, d')"
    show "mem_docs d' = mem_docs d
      \<or> \<not> isl r \<and> (\<exists>s \<in># mem_docs d coll. matches no_regex s f \<and> mem_docs d' = replaced coll s (apply_update u s) (mem_docs d))"
    proof (cases "find (\<lambda>s. matches no_regex s f) (d coll)")
      case None
      then show ?thesis using run by (auto simp: mem_mongo_def update_first_none)
    next
      case (Some s)
      then show ?thesis
        using run mem_find_some[of _ d coll, OF Some] mem_replaced[of _ d coll, OF Some, of "apply_update u"]
        by (auto simp: mem_mongo_def)
    qed
  qed
  moreover have "marshal_law (mem_mongo ext_example)"
    by (simp add: marshal_law_def keys_tags_def mem_mongo_def mem_metadata_def)
  ultimately show ?thesis
    using mem_laws ext_example_ok by (simp add: storage_laws_def)
qed

section \<open>The invariant of a collection\<close>

definition has_uid :: "ext \<Rightarrow> bsonD \<Rightarrow> bool" where
  "has_uid E s \<longleftrightarrow> (\<exists>u. \<not> uuid_IsZero u \<and> field s ''uid'' = Some (bson_uid E u))"

definition numbered :: "ext \<Rightarrow> nat \<Rightarrow> component_reference \<Rightarrow> bsonD multiset \<Rightarrow> bool" where
  "numbered E k u C \<longleftrightarrow>
     newest E u C \<le> int k
     \<and> (\<forall>n. count (versions_of E u C) n \<le> 1)
     \<and> (\<forall>n \<in># latest_of E u C. n = newest E u C)"

text \<open>The state of a collection of versions after at most \<open>k\<close> saves.\<close>

definition consistent :: "ext \<Rightarrow> nat \<Rightarrow> bsonD multiset \<Rightarrow> bool" where
  "consistent E k C \<longleftrightarrow> (\<forall>s \<in># C. versioned s \<and> has_uid E s) \<and> (\<forall>u. numbered E k u C)"

lemma consistent_well: "consistent E k C \<Longrightarrow> well_versioned E u C"
  by (simp add: consistent_def well_versioned_def)

lemma consistent_mono: "consistent E k C \<Longrightarrow> consistent E (Suc k) C"
  unfolding consistent_def numbered_def by (auto intro: order_trans [of _ "int k"])

lemma consistent_empty: "consistent E k {#}"
  by (simp add: consistent_def numbered_def newest_def versions_of_def latest_of_def)

lemma of_uid_has:
  assumes "uuid_string_ok E" "has_uid E s" "of_uid E u s" "of_uid E v s"
  shows "u = v"
  using assms by (auto simp: has_uid_def of_uid_def bson_uid_def uuid_string_ok_def inj_eq)

lemma zero_uid: "uuid_string_ok E \<Longrightarrow> has_uid E s \<Longrightarrow> of_uid E u s \<Longrightarrow> \<not> uuid_IsZero u"
  by (auto simp: has_uid_def of_uid_def bson_uid_def uuid_string_ok_def inj_eq)

lemma numbered_cong:
  assumes "filter_mset (of_uid E u) C = filter_mset (of_uid E u) C'"
  shows "numbered E k u C = numbered E k u C'"
proof -
  have "latest_of E u X = image_mset current_of (filter_mset latest_tagged (filter_mset (of_uid E u) X))" for X
    by (simp add: latest_of_def filter_filter_mset conj_commute)
  then show ?thesis using assms by (simp add: numbered_def newest_def versions_of_def)
qed

text \<open>Documents of another UUID are not among those of this one.\<close>

lemma other_uid:
  assumes "uuid_string_ok E" "\<forall>s \<in># C. has_uid E s" "u \<noteq> v"
  shows "filter_mset (of_uid E v) C = filter_mset (of_uid E v) (filter_mset (\<lambda>s. \<not> of_uid E u s) C)"
  unfolding filter_filter_mset using assms of_uid_has by (intro filter_mset_cong refl) blast

lemma new_version_consistent:
  assumes uuid: "uuid_string_ok E" and C: "consistent E k (D coll)"
    and nv: "new_version E u coll s D D'" and uids: "\<forall>s \<in># D' coll. has_uid E s"
    and k: "int (Suc k) < 2 ^ 63 - 1"
  shows "consistent E (Suc k) (D' coll)"
proof -
  let ?n = "newest E u (D coll) + 1"
  have num: "newest E u (D coll) \<le> int k" "\<And>n. count (versions_of E u (D coll)) n \<le> 1"
    using C by (auto simp: consistent_def numbered_def)
  have vs: "versions_of E u (D' coll) = add_mset ?n (versions_of E u (D coll))"
    and la: "latest_of E u (D' coll) = {#?n#}"
    and same: "filter_mset (\<lambda>s. \<not> of_uid E u s) (D' coll) = filter_mset (\<lambda>s. \<not> of_uid E u s) (D coll)"
    and wv: "well_versioned E u (D' coll)"
    using nv num(1) k by (auto simp: new_version_def Let_def)
  have "versioned t" if t: "t \<in># D' coll" for t
  proof (cases "of_uid E u t")
    case False
    then have "t \<in># filter_mset (\<lambda>s. \<not> of_uid E u s) (D coll)" using t by (simp flip: same)
    then show ?thesis using C by (simp add: consistent_def)
  qed (use wv t in \<open>simp add: well_versioned_def\<close>)
  moreover have "numbered E (Suc k) v (D' coll)" for v
  proof (cases "u = v")
    case True
    have "?n \<notin># versions_of E u (D coll)" using version_le_newest by force
    then have "count (versions_of E u (D' coll)) n \<le> 1" for n
      using num(2)[of n] by (auto simp: vs not_in_iff)
    then show ?thesis
      unfolding numbered_def True[symmetric] using new_version_newest[OF nv] num(1) la by auto
  next
    case False
    have "filter_mset (of_uid E v) (D' coll) = filter_mset (of_uid E v) (D coll)"
      using other_uid[OF uuid uids False] other_uid[OF uuid _ False, of "D coll"] C same
      by (simp add: consistent_def)
    from numbered_cong[OF this] have "numbered E k v (D' coll)" using C by (simp add: consistent_def)
    then show ?thesis by (auto simp: numbered_def)
  qed
  ultimately show ?thesis using uids by (simp add: consistent_def)
qed

lemma delete_consistent:
  assumes "consistent E k C" "s \<in># C"
  shows "consistent E k (C - {#s#})"
proof -
  obtain R where R: "C = add_mset s R" using assms(2) by (metis multi_member_split)
  have "numbered E k u R" for u
  proof -
    have num: "newest E u C \<le> int k" "\<And>n. count (versions_of E u C) n \<le> 1" "\<And>n. n \<in># latest_of E u C \<Longrightarrow> n = newest E u C"
      using assms(1) by (auto simp: consistent_def numbered_def)
    have sub: "versions_of E u R \<subseteq># versions_of E u C" "latest_of E u R \<subseteq># latest_of E u C"
      by (simp_all add: R versions_of_def latest_of_def)
    have le: "newest E u R \<le> newest E u C"
      unfolding newest_def using set_mset_mono[OF sub(1)] by (intro Max_mono) auto
    have "n = newest E u R" if n: "n \<in># latest_of E u R" for n
    proof -
      have "n = newest E u C" using num(3) n sub(2) by (meson mset_subset_eqD)
      moreover have "n \<in># versions_of E u R" using n by (auto simp: latest_of_def versions_of_def)
      ultimately show ?thesis using version_le_newest[of n E u R] le by simp
    qed
    moreover have "count (versions_of E u R) n \<le> 1" for n
      using num(2)[of n] mset_subset_eq_count[OF sub(1), of n] by simp
    ultimately show ?thesis using le num(1) by (simp add: numbered_def)
  qed
  then show ?thesis using assms(1) by (auto simp: consistent_def R)
qed

lemma replace_newest_consistent:
  assumes uuid: "uuid_string_ok E" and C: "consistent E k C" and s: "s \<in># C" "of_uid E u s"
    and cur: "current_of s = newest E u C"
    and t: "of_uid E u t" "current_of t = current_of s" "versioned t" "has_uid E t"
  shows "consistent E k (add_mset t (C - {#s#}))"
proof -
  obtain R where R: "C = add_mset s R" using s(1) by (metis multi_member_split)
  have "numbered E k v (add_mset t R)" for v
  proof (cases "v = u")
    case True
    have vs: "versions_of E u (add_mset t R) = versions_of E u C"
      using s t by (simp add: R versions_of_def)
    have "n = newest E u C" if "n \<in># latest_of E u (add_mset t R)" for n
    proof -
      have "n = current_of s \<or> n \<in># latest_of E u C" using that t by (auto simp: R latest_of_def split: if_splits)
      then show ?thesis using C cur by (auto simp: consistent_def numbered_def)
    qed
    then show ?thesis using C vs by (simp add: True consistent_def numbered_def newest_def)
  next
    case False
    have "filter_mset (of_uid E v) (add_mset t R) = filter_mset (of_uid E v) C"
      using of_uid_has[OF uuid] C s t False by (auto simp: R consistent_def)
    from numbered_cong[OF this] show ?thesis using C by (simp add: consistent_def)
  qed
  then show ?thesis using C t by (auto simp: consistent_def R)
qed

text \<open>What the invariant says of the versions of one UUID.\<close>

lemma consistent_bounds:
  assumes "consistent E k C"
  shows "(\<forall>n. count (versions_of E u C) n \<le> 1) \<and> set_mset (versions_of E u C) \<subseteq> {1..int k}
    \<and> latest_of E u C \<in> {{#}, {#newest E u C#}}"
proof (intro conjI)
  have num: "newest E u C \<le> int k" "\<And>n. count (versions_of E u C) n \<le> 1" "\<And>n. n \<in># latest_of E u C \<Longrightarrow> n = newest E u C"
    using assms by (auto simp: consistent_def numbered_def)
  show "\<forall>n. count (versions_of E u C) n \<le> 1" using num(2) by blast
  have "1 \<le> n \<and> n \<le> int k" if n: "n \<in># versions_of E u C" for n
  proof -
    obtain s where "s \<in># C" "n = current_of s" using n by (auto simp: versions_of_def)
    then show ?thesis using assms version_le_newest[OF n] num(1) by (auto simp: consistent_def elim!: versionedE)
  qed
  then show "set_mset (versions_of E u C) \<subseteq> {1..int k}" by auto
  have "filter_mset latest_tagged (filter_mset (of_uid E u) C) \<subseteq># filter_mset (of_uid E u) C"
    by (rule multiset_filter_subset)
  then have "filter_mset (\<lambda>s. of_uid E u s \<and> latest_tagged s) C \<subseteq># filter_mset (of_uid E u) C"
    by (simp add: filter_filter_mset conj_commute)
  then have "latest_of E u C \<subseteq># versions_of E u C"
    unfolding latest_of_def versions_of_def by (rule image_mset_subseteq_mono)
  then have one: "count (latest_of E u C) n \<le> 1" for n
    using num(2)[of n] mset_subset_eq_count[of "latest_of E u C" "versions_of E u C" n] by simp
  show "latest_of E u C \<in> {{#}, {#newest E u C#}}"
  proof (cases "latest_of E u C = {#}")
    case False
    then obtain n R where R: "latest_of E u C = add_mset n R" by (meson multiset_cases)
    have "n = newest E u C" and "\<And>m. m \<in># R \<Longrightarrow> m = n" using num(3) by (auto simp: R)
    moreover have "n \<notin># R" using one[of n] by (simp add: R not_in_iff)
    ultimately have "R = {#}" by (metis multiset_nonemptyE)
    then show ?thesis using R \<open>n = newest E u C\<close> by simp
  qed simp
qed

section \<open>Calls on versioned documents\<close>

text \<open>What a transaction leaves is what it found, or what a successful run of its callback leaves.\<close>

lemma session_cases:
  assumes "driver_laws M docs rx" "in_session M a c cb d = (r, d')"
  obtains (unchanged) "docs d' = docs d"
  | (ran) d0 x d1 where "docs d0 = docs d" "cb d0 = (Inr x, d1)" "docs d' = docs d1"
proof (cases "StartSession M d")
  case (Inr u)
  then obtain r1 where "WithTransaction M cb d = (r1, d')"
    using assms(2) by (auto simp: in_session_def split: prod.splits)
  from assms(1) this show ?thesis by (cases rule: transaction_cases) (use that in auto)
qed (use assms that in \<open>auto simp: in_session_def\<close>)

definition save_step :: "ext \<Rightarrow> nat \<Rightarrow> string \<Rightarrow> store \<Rightarrow> store \<Rightarrow> bool" where
  "save_step E k coll D D' \<longleftrightarrow> consistent E (Suc k) (D' coll) \<and> (\<forall>c. c \<noteq> coll \<longrightarrow> D' c = D c)"

lemma retag_uid: "field (retag rx E u n s) ''uid'' = field s ''uid''"
  unfolding retag_def apply_pull by (simp add: untag_fields del: field_paths)

lemma encoded_uid: "encodes_metadata E md b \<Longrightarrow> \<not> uuid_IsZero (md_uid md) \<Longrightarrow> has_uid E ((''_id'', i) # b)"
  by (auto simp: encodes_metadata_def has_uid_def)

lemma map_of_set_fields:
  "distinct (map fst b) \<Longrightarrow> map_of (set_fields b s) k = (case map_of b k of Some v \<Rightarrow> Some v | None \<Rightarrow> map_of s k)"
proof (induction b arbitrary: s)
  case (Cons e b)
  obtain k' v where e: "e = (k', v)" by fastforce
  have "map_of b k' = None" using Cons.prems e by (simp add: map_of_eq_None_iff)
  then show ?case
    using Cons.IH[of "AList.update k' v s"] Cons.prems e
    by (auto simp: set_fields_def update_conv' split: option.splits)
qed (simp add: set_fields_def)

text \<open>A document whose fields were set to an encoding has the UUID and the version of that encoding.\<close>

lemma set_fields_version:
  assumes enc: "encodes_metadata E md b" and keys: "keys_tags (md_version md) b"
    and n: "1 \<le> ver_current (md_version md)" "ver_current (md_version md) < 2 ^ 63 - 1"
  shows "field (set_fields b s) ''uid'' = Some (bson_uid E (md_uid md)) \<and> versioned (set_fields b s)
    \<and> current_of (set_fields b s) = ver_current (md_version md)"
proof -
  have d: "distinct (map fst b)" using keys by (simp add: keys_tags_def)
  obtain ver where ver: "map_of b ''version'' = Some (BDoc ver)"
    "map_of ver ''current'' = Some (BInt (ver_current (md_version md)))"
    using enc by (auto simp: encodes_metadata_def split: option.splits bson.splits)
  have "map_of (set_fields b s) ''version'' = map_of b ''version''"
    using ver(1) by (simp add: map_of_set_fields [OF d])
  then have same: "field (set_fields b s) ''version.current'' = field b ''version.current''"
    "field (set_fields b s) ''version.tags'' = field b ''version.tags''"
    by simp_all
  have tags: "case field b ''version.tags'' of None \<Rightarrow> True | Some (BArr ts) \<Rightarrow> True | _ \<Rightarrow> False"
    using enc keys by (cases "ver_tags (md_version md) = []") (auto simp: encodes_metadata_def keys_tags_def simp del: field_paths)
  have "map_of b ''uid'' = Some (bson_uid E (md_uid md))" using enc by (simp add: encodes_metadata_def)
  then have "field (set_fields b s) ''uid'' = Some (bson_uid E (md_uid md))" by (simp add: map_of_set_fields [OF d])
  moreover have "field b ''version.current'' = Some (BInt (ver_current (md_version md)))"
    using enc by (simp add: encodes_metadata_def)
  ultimately show ?thesis
    using n tags unfolding versioned_def current_of_def get_int_def same by (simp del: field_paths)
qed

lemma replaced_frame: "c \<noteq> coll \<Longrightarrow> replaced coll s t D c = D c"
  by (simp add: replaced_def)

lemma InsertOne_frame:
  "driver_laws M docs rx \<Longrightarrow> InsertOne M coll b d = (r, d') \<Longrightarrow> c \<noteq> coll \<Longrightarrow> docs d' c = docs d c"
  using insert_ok[of M docs rx coll b d r d'] by auto

locale saved_document = versioned_document +
  assumes keys: "marshal_law M \<Longrightarrow> Marshal M (mk x) = Inr b \<Longrightarrow> keys_tags (md_version (meta x)) b"
begin

lemma put_consistent:
  assumes laws: "storage_laws E M docs rx" and uid: "\<not> uuid_IsZero (md_uid (meta x))"
    and C: "consistent E k (docs d coll)" and k: "int (Suc k) < 2 ^ 63 - 1"
    and run: "in_session M a c (updateCallback E M (mk x)) d = (r, d')"
  shows "save_step E k coll (docs d) (docs d')"
proof -
  have drv: "driver_laws M docs rx" "encode_law E M" "decode_law M" "wrapf_ok E" and uuid: "uuid_string_ok E"
    using laws by (simp_all add: storage_laws_def)
  from drv(1) run show ?thesis
  proof (cases rule: session_cases)
    case unchanged
    then show ?thesis using C by (simp add: save_step_def consistent_mono)
  next
    case (ran d0 y d1)
    let ?u = "md_uid (meta x)"
    have wv: "well_versioned E ?u (docs d0 coll)" using C ran(1) by (simp add: consistent_well)
    obtain s where nv: "new_version E ?u coll s (docs d0) (docs d1)"
      using update_new_version[OF drv uid wv ran(2)] by blast
    obtain v where ins: "insertVersion E M (mk (set_meta (nextVersion v (meta x)) x)) ?u
        (ver_current (md_version (nextVersion v (meta x)))) coll d0 = (Inr y, d1)"
      using ran(2) by (auto simp: update_branch Let_def split: sum.splits)
    let ?md = "nextVersion v (meta x)"
    have u: "md_uid ?md = ?u" by (simp add: nextVersion_def)
    obtain b i where b: "Marshal M (mk (set_meta ?md x)) = Inr b"
      and D1: "docs d1 = (docs d0)(coll := image_mset (retag rx E ?u (ver_current (md_version ?md)))
                 (add_mset ((''_id'', i) # b) (docs d0 coll)))"
      using insertVersion_store[OF drv(1) ins] by blast
    have "has_uid E ((''_id'', i) # b)"
      using encodes[OF drv(2) b] encoded_uid uid u by (simp add: meta_set)
    then have "\<forall>s \<in># docs d1 coll. has_uid E s"
      using C ran(1) by (auto simp: D1 has_uid_def retag_uid consistent_def simp del: field_paths)
    from new_version_consistent[OF uuid _ nv this k] have "consistent E (Suc k) (docs d1 coll)"
      using C ran(1) by simp
    then show ?thesis using nv ran(1,3) by (auto simp: save_step_def new_version_def Let_def)
  qed
qed

lemma insert_consistent:
  assumes laws: "storage_laws E M docs rx" and uid: "\<not> uuid_IsZero (md_uid md)"
    and v: "InitializeNew v0 = Inr (md_version md)"
    and none: "versions_of E (md_uid md) (docs d coll) = {#}"
    and C: "consistent E k (docs d coll)" and k: "int (Suc k) < 2 ^ 63 - 1"
    and run: "insertDocument M (mk (set_meta md x)) coll e1 e2 d = (r, d')"
  shows "save_step E k coll (docs d) (docs d')"
proof (cases "docs d' = docs d")
  case False
  let ?u = "md_uid md"
  have drv: "driver_laws M docs rx" "encode_law E M" and uuid: "uuid_string_ok E"
    using laws by (simp_all add: storage_laws_def)
  obtain b r1 where b: "Marshal M (mk (set_meta md x)) = Inr b" and ins: "InsertOne M coll b d = (r1, d')"
    using run False by (auto simp: insertDocument_def split: sum.splits prod.splits)
  obtain i where d': "docs d' = (docs d)(coll := add_mset ((''_id'', i) # b) (docs d coll))"
    using insert_ok[OF drv(1) ins] False by auto
  have enc: "encodes_metadata E md b" using encodes[OF drv(2) b] uid by (simp add: meta_set)
  moreover have "VersionTagLatest \<in> set (ver_tags (md_version md))" "ver_current (md_version md) = 1"
    using InitializeNew_Inr[OF v] by (simp_all add: VersionInit_def)
  ultimately have s: "of_uid E ?u ((''_id'', i) # b)" "latest_tagged ((''_id'', i) # b)"
    "current_of ((''_id'', i) # b) = 1" "versioned ((''_id'', i) # b)"
    using stored_version[of md b i] by (auto simp: versioned_def simp del: field_paths)
  have no: "\<not> of_uid E ?u s" if "s \<in># docs d coll" for s
    using none that by (auto simp: versions_of_def filter_mset_none)
  then have "filter_mset (of_uid E ?u) (docs d coll) = {#}"
    "filter_mset (\<lambda>s. of_uid E ?u s \<and> latest_tagged s) (docs d coll) = {#}"
    by (auto simp: filter_mset_none)
  moreover have "newest E ?u (docs d coll) = 0" using none by (simp add: newest_def)
  ultimately have nv: "new_version E ?u coll ((''_id'', i) # b) (docs d) (docs d')"
    using s none no by (auto simp: new_version_def d' versions_of_def latest_of_def well_versioned_def)
  have "\<forall>s \<in># docs d' coll. has_uid E s"
    using C encoded_uid[OF enc uid, of i] by (auto simp: d' consistent_def)
  then have "consistent E (Suc k) (docs d' coll)"
    by (rule new_version_consistent[where D = "docs d" and D' = "docs d'" and coll = coll, OF uuid C nv _ k])
  then show ?thesis by (simp add: save_step_def d')
qed (use C in \<open>simp add: save_step_def consistent_mono\<close>)

lemma patch_consistent:
  assumes laws: "storage_laws E M docs rx" and C: "consistent E k (docs d coll)"
    and run: "in_session M a c (patchCallback E M (mk x) t) d = (r, d')"
  shows "save_step E k coll (docs d) (docs d')"
proof (cases "docs d' = docs d")
  case False
  have drv: "driver_laws M docs rx" "decode_law M" "wrapf_ok E" "timestamp_law M"
    and enc: "encode_law E M" and mar: "marshal_law M" and uuid: "uuid_string_ok E"
    using laws by (simp_all add: storage_laws_def)
  let ?u = "md_uid (meta x)" and ?n = "ver_current (md_version (meta x))"
  obtain d0 y d1 where d0: "docs d0 = docs d" "patchCallback E M (mk x) t d0 = (Inr y, d1)" "docs d' = docs d1"
    using drv(1) run False by (cases rule: session_cases) auto
  obtain bz r1 where upd: "FindOneAndUpdate M coll (version_filter E ?u ?n) [(''$set'', BDoc bz)] d0 = (r1, d1)"
    and y: "y = TxSingle r1"
    using d0(2) unfolding patch_branch patchVersion_def
    by (auto split: sum.splits if_splits option.splits prod.splits)
  obtain b where "r1 = Inr (Some b)"
  proof -
    have "modify_law M docs rx" using drv(1) by (simp add: driver_laws_def)
    from this[unfolded modify_law_def, rule_format, OF upd] that False d0 show ?thesis
      by (auto split: sum.splits option.splits)
  qed
  with patch_newest[OF drv, where x = x and d = d0 and t = t and b = b and d' = d1] d0 y C
  obtain s bz where n: "?n = newest E ?u (docs d coll)" and s: "s \<in># docs d coll" "of_uid E ?u s"
      "current_of s = newest E ?u (docs d coll)"
    and bz: "Marshal M (mk x) = Inr bz" and D': "docs d' = replaced coll s (set_fields bz s) (docs d)"
    by (auto simp: patched_def consistent_well)
  have sv: "versioned s" "has_uid E s" using C s(1) by (auto simp: consistent_def)
  have uid: "\<not> uuid_IsZero ?u" by (rule zero_uid[OF uuid sv(2) s(2)])
  have "1 \<le> ?n" "?n < 2 ^ 63 - 1" using sv(1) s(3) n by (auto elim!: versionedE)
  from set_fields_version[OF encodes[OF enc bz uid] keys[OF mar bz] this, of s]
  have t: "of_uid E ?u (set_fields bz s)" "current_of (set_fields bz s) = current_of s"
    "versioned (set_fields bz s)" "has_uid E (set_fields bz s)"
    using uid s(3) n by (auto simp: of_uid_def has_uid_def bson_uid_def)
  have "consistent E k (docs d' coll)"
    using replace_newest_consistent[OF uuid C s(1,2,3) t] by (simp add: D' replaced_def)
  then show ?thesis by (simp add: save_step_def consistent_mono D' replaced_def)
qed (use C in \<open>simp add: save_step_def consistent_mono\<close>)

text \<open>None of the three changes another collection.\<close>

lemma frame:
  assumes laws: "driver_laws M docs rx" and c: "c \<noteq> coll"
  shows "insertDocument M doc coll e1 e2 d = (r, d') \<Longrightarrow> docs d' c = docs d c"
    and "in_session M a b (updateCallback E M (mk x)) d = (r2, d') \<Longrightarrow> docs d' c = docs d c"
    and "in_session M a b (patchCallback E M (mk x) t) d = (r2, d') \<Longrightarrow> docs d' c = docs d c"
proof -
  show "docs d' c = docs d c" if "insertDocument M doc coll e1 e2 d = (r, d')"
    using that InsertOne_frame[OF laws _ c] by (auto simp: insertDocument_def split: sum.splits prod.splits)
  show "docs d' c = docs d c" if "in_session M a b (updateCallback E M (mk x)) d = (r2, d')"
    using laws that
  proof (cases rule: session_cases)
    case (ran d0 y d1)
    then show ?thesis using insertVersion_store[OF laws] c
      by (auto simp: update_branch Let_def split: sum.splits) (metis fun_upd_other)
  qed simp
  show "docs d' c = docs d c" if "in_session M a b (patchCallback E M (mk x) t) d = (r2, d')"
    using laws that
  proof (cases rule: session_cases)
    case (ran d0 y d1)
    then obtain f up r3 where upd: "FindOneAndUpdate M coll f up d0 = (r3, d1)"
      unfolding patch_branch patchVersion_def by (auto split: sum.splits if_splits option.splits prod.splits)
    have "modify_law M docs rx" using laws by (simp add: driver_laws_def)
    from this[unfolded modify_law_def, rule_format, OF upd] show ?thesis
      using ran c by (auto simp: replaced_frame split: sum.splits option.splits)
  qed simp
qed

end

interpretation saved_components: saved_document E M cmp_metadata cmp_set_metadata DComponent componentCollection
  for E and M :: "'d mongo"
  by unfold_locales (simp add: marshal_law_def)

interpretation saved_workflows: saved_document E M wf_metadata wf_set_metadata DWorkflow workflowCollection
  for E and M :: "'d mongo"
  by unfold_locales (simp add: marshal_law_def)

section \<open>Every storage call\<close>

text \<open>
  The calls that change the database, with their arguments, and the state each leaves behind. The
  context is that of the request; the last call is that of the event saver.
\<close>

datatype storage_call =
    CallCreateComponent component
  | CallPutComponent component
  | CallPatchComponent component gotime
  | CallCreateWorkflow workflow
  | CallPutWorkflow workflow
  | CallPatchWorkflow workflow gotime
  | CallCreateJob job
  | CallDeleteDocument DocumentKind cref_version
  | CallPutVolume flowify_volume
  | CallDeleteVolume component_reference
  | CallAddJobEvents component_reference "string list"

fun perform :: "ext \<Rightarrow> 'd mongo \<Rightarrow> ctx \<Rightarrow> storage_call \<Rightarrow> 'd \<Rightarrow> 'd" where
  "perform E M cx (CallCreateComponent c) d = snd (CreateComponent M c d)"
| "perform E M cx (CallPutComponent c) d = snd (PutComponent E M c d)"
| "perform E M cx (CallPatchComponent c t) d = snd (PatchComponent E M c t d)"
| "perform E M cx (CallCreateWorkflow w) d = snd (CreateWorkflow M cx w d)"
| "perform E M cx (CallPutWorkflow w) d = snd (PutWorkflow E M cx w d)"
| "perform E M cx (CallPatchWorkflow w t) d = snd (PatchWorkflow E M cx w t d)"
| "perform E M cx (CallCreateJob j) d = snd (CreateJob M cx j d)"
| "perform E M cx (CallDeleteDocument k r) d = snd (DeleteDocument E M cx k r d)"
| "perform E M cx (CallPutVolume v) d = snd (PutVolume E M cx v d)"
| "perform E M cx (CallDeleteVolume u) d = snd (DeleteVolume E M cx u d)"
| "perform E M cx (CallAddJobEvents u es) d = snd (AddJobEvents E M u es d)"

text \<open>A new document has a UUID that no stored one of its collection has.\<close>

fun fresh_for :: "ext \<Rightarrow> store \<Rightarrow> storage_call \<Rightarrow> bool" where
  "fresh_for E D (CallCreateComponent c) = (versions_of E (cmp_uid c) (D componentCollection) = {#})"
| "fresh_for E D (CallCreateWorkflow w) = (\<not> uuid_IsZero (md_uid (wf_metadata w))
     \<and> versions_of E (md_uid (wf_metadata w)) (D workflowCollection) = {#})"
| "fresh_for E D c = True"

definition versions_kept :: "ext \<Rightarrow> nat \<Rightarrow> store \<Rightarrow> bool" where
  "versions_kept E k D \<longleftrightarrow> consistent E k (D componentCollection) \<and> consistent E k (D workflowCollection)"

lemma versions_kept_mono: "versions_kept E k D \<Longrightarrow> versions_kept E (Suc k) D"
  by (simp add: versions_kept_def consistent_mono)

lemma save_steps:
  "versions_kept E k D \<Longrightarrow> save_step E k componentCollection D D' \<Longrightarrow> versions_kept E (Suc k) D'"
  "versions_kept E k D \<Longrightarrow> save_step E k workflowCollection D D' \<Longrightarrow> versions_kept E (Suc k) D'"
  by (auto simp: versions_kept_def save_step_def consistent_mono collections)

lemma versions_frame:
  "versions_kept E k D \<Longrightarrow> D' componentCollection = D componentCollection \<Longrightarrow>
   D' workflowCollection = D workflowCollection \<Longrightarrow> versions_kept E (Suc k) D'"
  by (simp add: versions_kept_def consistent_mono)

lemma ReplaceOne_frame:
  assumes "driver_laws M docs rx" "ReplaceOne M coll f b d = (r, d')" "c \<noteq> coll"
  shows "docs d' c = docs d c"
proof (cases r)
  case (Inl e)
  have "replace_law M docs rx" using assms(1) by (simp add: driver_laws_def)
  from this[unfolded replace_law_def, rule_format, OF assms(2)] Inl show ?thesis by simp
next
  case (Inr u)
  then show ?thesis using replace_ok[OF assms(1), of coll f b d u d'] assms(2,3) by (auto simp: replaced_frame)
qed

lemma DeleteOne_removes:
  assumes "driver_laws M docs rx" "DeleteOne M coll f d = (r, d')"
  shows "docs d' = docs d \<or> (\<exists>s \<in># docs d coll. docs d' = (docs d)(coll := docs d coll - {#s#}))"
proof (cases r)
  case (Inl e)
  have "delete_law M docs rx" using assms(1) by (simp add: driver_laws_def)
  from this[unfolded delete_law_def, rule_format, OF assms(2)] Inl show ?thesis by simp
next
  case (Inr n)
  then show ?thesis using delete_ok[OF assms(1), of coll f d n d'] assms(2) by auto
qed

lemma DeleteDocument_removes:
  assumes laws: "driver_laws M docs rx" and run: "DeleteDocument E M cx kind r d = (res, d')"
  shows "docs d' = docs d
    \<or> (\<exists>coll s. selectGetter kind = Some coll \<and> s \<in># docs d coll \<and> docs d' = (docs d)(coll := docs d coll - {#s#}))"
proof (cases "docs d' = docs d")
  case False
  obtain r1 where "in_session M ''cannot start DB session for delete document transaction''
      ''delete document transaction fail'' (deleteCallback E M kind r) d = (r1, d')"
    using run False by (auto simp: DeleteDocument_def split: sum.splits prod.splits tx_result.splits if_splits)
  with laws show ?thesis
  proof (cases rule: session_cases)
    case (ran d0 x d1)
    obtain coll f n where coll: "selectGetter kind = Some coll" "DeleteOne M coll f d0 = (n, d1)"
      using ran(2) by (cases "selectGetter kind") (auto simp: deleteCallback_def split: prod.splits sum.splits)
    from DeleteOne_removes[OF laws coll(2)] show ?thesis using coll(1) ran by auto
  qed simp
qed simp

lemma volume_frame:
  assumes laws: "driver_laws M docs rx" and c: "c \<noteq> volumeCollection"
  shows "docs (snd (PutVolume E M cx v d)) c = docs d c" "docs (snd (DeleteVolume E M cx u d)) c = docs d c"
proof -
  show "docs (snd (PutVolume E M cx v d)) c = docs d c"
    using InsertOne_frame[OF laws _ c] ReplaceOne_frame[OF laws _ c]
    by (auto simp: PutVolume_def split: sum.splits prod.splits goerr.splits)
next
  obtain r d' where "DeleteOne M volumeCollection (uid_filter E u) d = (r, d')" by fastforce
  with DeleteOne_removes[OF laws this] c show "docs (snd (DeleteVolume E M cx u d)) c = docs d c"
    by (auto simp: DeleteVolume_def split: sum.splits prod.splits)
qed

lemma job_frame:
  assumes laws: "storage_laws E M docs rx" and c: "c \<noteq> jobCollection"
  shows "docs (snd (CreateJob M cx j d)) c = docs d c" "docs (snd (AddJobEvents E M u es d)) c = docs d c"
proof -
  have "driver_laws M docs rx" "update_one_law M docs rx" using laws by (simp_all add: storage_laws_def)
  then show "docs (snd (CreateJob M cx j d)) c = docs d c" "docs (snd (AddJobEvents E M u es d)) c = docs d c"
  proof -
    show "docs (snd (CreateJob M cx j d)) c = docs d c"
      using InsertOne_frame[OF \<open>driver_laws M docs rx\<close> _ c]
      by (auto simp: CreateJob_def insertDocument_def split: sum.splits prod.splits)
    obtain r d' where run: "AddJobEvents E M u es d = (r, d')" by fastforce
    from \<open>update_one_law M docs rx\<close>[unfolded update_one_law_def, rule_format, OF run[unfolded AddJobEvents_def]] c run
    show "docs (snd (AddJobEvents E M u es d)) c = docs d c" by (auto simp: replaced_frame)
  qed
qed

section \<open>Every call keeps the versions\<close>

lemma create_component_keeps:
  assumes laws: "storage_laws E M docs rx" and V: "versions_kept E k (docs d)" and k: "int (Suc k) < 2 ^ 63 - 1"
    and fresh: "versions_of E (cmp_uid c) (docs d componentCollection) = {#}"
  shows "versions_kept E (Suc k) (docs (snd (CreateComponent M c d)))"
proof (cases "uuid_IsZero (cmp_uid c) \<or> isl (InitializeNew (md_version (cmp_metadata c)))")
  case True
  then show ?thesis using V by (auto simp: CreateComponent_def versions_kept_mono split: sum.splits)
next
  case False
  then obtain v where v: "InitializeNew (md_version (cmp_metadata c)) = Inr v" and uid: "\<not> uuid_IsZero (cmp_uid c)"
    by (cases "InitializeNew (md_version (cmp_metadata c))") auto
  let ?md = "(cmp_metadata c)\<lparr>md_version := v\<rparr>"
  obtain r d' where run: "insertDocument M (DComponent (cmp_set_metadata ?md c)) componentCollection
      ''cannot marshal workflow for database'' ''cannot insert node %s'' d = (r, d')" by fastforce
  have "save_step E k componentCollection (docs d) (docs d')"
    using V fresh uid v by (intro saved_components.insert_consistent[OF laws _ _ _ _ k run])
      (simp_all add: versions_kept_def)
  then show ?thesis using save_steps(1)[OF V] run v uid by (simp add: CreateComponent_def)
qed

lemma create_workflow_keeps:
  assumes laws: "storage_laws E M docs rx" and V: "versions_kept E k (docs d)" and k: "int (Suc k) < 2 ^ 63 - 1"
    and uid: "\<not> uuid_IsZero (md_uid (wf_metadata w))"
    and fresh: "versions_of E (md_uid (wf_metadata w)) (docs d workflowCollection) = {#}"
  shows "versions_kept E (Suc k) (docs (snd (CreateWorkflow M cx w d)))"
proof (cases "docs (snd (CreateWorkflow M cx w d)) = docs d")
  case True
  then show ?thesis using V by (simp add: versions_kept_mono)
next
  case False
  then obtain v where v: "InitializeNew (md_version (wf_metadata w)) = Inr v"
    and go: "CreateWorkflow M cx w d = insertDocument M (DWorkflow (wf_set_metadata ((wf_metadata w)\<lparr>md_version := v\<rparr>) w))
      workflowCollection ''cannot marshal workflow for database'' ''cannot insert node %s'' d"
    by (auto simp: CreateWorkflow_def split: sum.splits if_splits)
  let ?md = "(wf_metadata w)\<lparr>md_version := v\<rparr>"
  obtain r d' where run: "insertDocument M (DWorkflow (wf_set_metadata ?md w)) workflowCollection
      ''cannot marshal workflow for database'' ''cannot insert node %s'' d = (r, d')" by fastforce
  have "save_step E k workflowCollection (docs d) (docs d')"
    using V fresh uid v by (intro saved_workflows.insert_consistent[OF laws _ _ _ _ k run])
      (simp_all add: versions_kept_def)
  then show ?thesis using save_steps(2)[OF V] run go by simp
qed

lemma put_keeps:
  assumes laws: "storage_laws E M docs rx" and V: "versions_kept E k (docs d)" and k: "int (Suc k) < 2 ^ 63 - 1"
  shows "versions_kept E (Suc k) (docs (snd (PutComponent E M c d)))"
    and "versions_kept E (Suc k) (docs (snd (PutWorkflow E M cx w d)))"
proof -
  have C: "consistent E k (docs d componentCollection)" "consistent E k (docs d workflowCollection)"
    using V by (simp_all add: versions_kept_def)
  show "versions_kept E (Suc k) (docs (snd (PutComponent E M c d)))"
    using save_steps(1)[OF V saved_components.put_consistent[OF laws _ C(1) k]] V
    by (auto simp: PutComponent_def versions_kept_mono split: sum.splits prod.splits)
  show "versions_kept E (Suc k) (docs (snd (PutWorkflow E M cx w d)))"
    using save_steps(2)[OF V saved_workflows.put_consistent[OF laws _ C(2) k]] V
    by (auto simp: PutWorkflow_def versions_kept_mono split: sum.splits prod.splits)
qed

lemma patch_keeps:
  assumes laws: "storage_laws E M docs rx" and V: "versions_kept E k (docs d)"
  shows "versions_kept E (Suc k) (docs (snd (PatchComponent E M c t d)))"
    and "versions_kept E (Suc k) (docs (snd (PatchWorkflow E M cx w t d)))"
proof -
  have C: "consistent E k (docs d componentCollection)" "consistent E k (docs d workflowCollection)"
    using V by (simp_all add: versions_kept_def)
  show "versions_kept E (Suc k) (docs (snd (PatchComponent E M c t d)))"
    using save_steps(1)[OF V saved_components.patch_consistent[OF laws C(1)]]
    by (auto simp: PatchComponent_def split: prod.splits)
  show "versions_kept E (Suc k) (docs (snd (PatchWorkflow E M cx w t d)))"
    using save_steps(2)[OF V saved_workflows.patch_consistent[OF laws C(2)]]
    by (auto simp: PatchWorkflow_def split: prod.splits)
qed

lemma delete_keeps:
  assumes laws: "driver_laws M docs rx" and V: "versions_kept E k (docs d)"
  shows "versions_kept E (Suc k) (docs (snd (DeleteDocument E M cx kind r d)))"
proof -
  obtain res d' where run: "DeleteDocument E M cx kind r d = (res, d')" by fastforce
  from DeleteDocument_removes[OF laws run] have "versions_kept E k (docs d')"
    using V by (auto simp: versions_kept_def collections delete_consistent)
  then show ?thesis using run by (simp add: versions_kept_mono)
qed

lemma calls_keep_versions:
  assumes laws: "storage_laws E M docs rx" and V: "versions_kept E k (docs d)" and k: "int (Suc k) < 2 ^ 63 - 1"
    and fresh: "fresh_for E (docs d) call"
  shows "versions_kept E (Suc k) (docs (perform E M cx call d))"
proof -
  have drv: "driver_laws M docs rx" using laws by (simp add: storage_laws_def)
  have other: "componentCollection \<noteq> jobCollection" "workflowCollection \<noteq> jobCollection"
    "componentCollection \<noteq> volumeCollection" "workflowCollection \<noteq> volumeCollection"
    by (simp_all add: collections)
  note frames = versions_frame[OF V] job_frame[OF laws] volume_frame[OF drv] other
  show ?thesis
    using fresh create_component_keeps[OF laws V k] create_workflow_keeps[OF laws V k] put_keeps[OF laws V k]
      patch_keeps[OF laws V] delete_keeps[OF drv V] frames
    by (cases call) simp_all
qed

section \<open>Jobs and their workspaces\<close>

text \<open>The workspace a stored job belongs to, as the listings and the access checks read it.\<close>

definition job_in :: "string \<Rightarrow> bsonD \<Rightarrow> bool" where
  "job_in ws s \<longleftrightarrow> field s ''workflow.workspace'' = Some (BStr ws)"

definition job_law :: "'d mongo \<Rightarrow> bool" where
  "job_law M \<longleftrightarrow>
     (\<forall>j b. Marshal M (DJob j) = Inr b \<longrightarrow> map_of b ''_id'' = None
        \<and> field b ''workflow.workspace'' = Some (BStr (wf_workspace (job_workflow j))))"

lemma mem_job_law: "job_law (mem_mongo E)"
  by (simp add: job_law_def mem_mongo_def mem_metadata_def)

text \<open>The workspaces that have jobs.\<close>

definition job_spaces :: "store \<Rightarrow> string set" where
  "job_spaces D = {ws. \<exists>s \<in># D jobCollection. job_in ws s}"

lemma job_spaces_cong: "D' jobCollection = D jobCollection \<Longrightarrow> job_spaces D' = job_spaces D"
  by (simp add: job_spaces_def)

lemma create_job_spaces:
  assumes laws: "driver_laws M docs rx" "job_law M"
  shows "job_spaces (docs (snd (CreateJob M cx j d)))
    \<subseteq> job_spaces (docs d) \<union> {ws. ws = wf_workspace (job_workflow j) \<and> has_access cx ws}"
proof (cases "docs (snd (CreateJob M cx j d)) = docs d")
  case False
  then obtain b r d' where acc: "CheckWorkspaceAccess cx (wf_workspace (job_workflow j)) = Inr True"
    and b: "Marshal M (DJob j) = Inr b" and ins: "InsertOne M jobCollection b d = (r, d')"
    and d': "d' = snd (CreateJob M cx j d)"
    by (auto simp: CreateJob_def insertDocument_def split: sum.splits if_splits prod.splits)
  then obtain i where "docs d' = (docs d)(jobCollection := add_mset ((''_id'', i) # b) (docs d jobCollection))"
    using insert_ok[OF laws(1) ins] False by auto
  moreover have "field b ''workflow.workspace'' = Some (BStr (wf_workspace (job_workflow j)))"
    using laws(2) b by (simp add: job_law_def del: field_paths)
  then have "job_in ws ((''_id'', i) # b) \<Longrightarrow> ws = wf_workspace (job_workflow j)" for ws
    by (simp add: job_in_def)
  ultimately show ?thesis using acc d' by (auto simp: job_spaces_def CheckWorkspaceAccess_iff)
qed simp

lemma events_job_spaces:
  assumes "update_one_law M docs rx"
  shows "job_spaces (docs (snd (AddJobEvents E M u es d))) = job_spaces (docs d)"
proof -
  let ?up = "[(''$set'', BDoc [(''events'', BArr (map BOther es))])]"
  obtain r d' where run: "AddJobEvents E M u es d = (r, d')" by fastforce
  have keep: "job_in ws (apply_update ?up s) = job_in ws s" for ws s
    by (simp add: job_in_def apply_update_def set_fields_def update_conv')
  from assms[unfolded update_one_law_def, rule_format, OF run[unfolded AddJobEvents_def]]
  consider "docs d' = docs d" | s where "s \<in># docs d jobCollection"
    "docs d' = replaced jobCollection s (apply_update ?up s) (docs d)" by blast
  then have "job_spaces (docs d') = job_spaces (docs d)"
  proof cases
    case (2 s)
    then obtain R where R: "docs d jobCollection = add_mset s R" by (metis multi_member_split)
    then show ?thesis using 2(2) keep by (simp add: job_spaces_def replaced_def)
  qed simp
  then show ?thesis using run by simp
qed

lemma delete_job_spaces:
  assumes laws: "driver_laws M docs rx"
  shows "job_spaces (docs (snd (DeleteDocument E M cx kind r d))) \<subseteq> job_spaces (docs d)"
proof -
  obtain res d' where run: "DeleteDocument E M cx kind r d = (res, d')" by fastforce
  from DeleteDocument_removes[OF laws run] have "set_mset (docs d' jobCollection) \<subseteq> set_mset (docs d jobCollection)"
    by (auto dest: in_diffD split: if_splits)
  then show ?thesis using run by (auto simp: job_spaces_def)
qed

lemma calls_job_spaces:
  assumes laws: "storage_laws E M docs rx" "job_law M"
  shows "job_spaces (docs (perform E M cx call d))
    \<subseteq> job_spaces (docs d) \<union> {ws. has_access cx ws \<and> (\<exists>j. call = CallCreateJob j \<and> wf_workspace (job_workflow j) = ws)}"
proof -
  have drv: "driver_laws M docs rx" "update_one_law M docs rx" using laws by (simp_all add: storage_laws_def)
  have other: "jobCollection \<noteq> componentCollection" "jobCollection \<noteq> workflowCollection" "jobCollection \<noteq> volumeCollection"
    by (simp_all add: collections)
  note frames = volume_frame[OF drv(1) other(3)] saved_components.frame[OF drv(1) other(1)]
    saved_workflows.frame[OF drv(1) other(2)]
  have "docs (perform E M cx call d) jobCollection = docs d jobCollection"
    if "\<nexists>j. call = CallCreateJob j" "\<nexists>k r. call = CallDeleteDocument k r" "\<nexists>u es. call = CallAddJobEvents u es"
    using that frames saved_components.frame(1)[OF drv(1) other(1) prod.collapse[symmetric]]
      saved_workflows.frame(1)[OF drv(1) other(2) prod.collapse[symmetric]]
    by (cases call) (auto simp: CreateComponent_def PutComponent_def PatchComponent_def CreateWorkflow_def
        PutWorkflow_def PatchWorkflow_def split: sum.splits prod.splits)
  then have rest: "?thesis"
    if "\<nexists>j. call = CallCreateJob j" "\<nexists>k r. call = CallDeleteDocument k r" "\<nexists>u es. call = CallAddJobEvents u es"
    using that job_spaces_cong[of "docs (perform E M cx call d)" "docs d"] by simp
  show ?thesis
  proof (cases call)
    case (CallCreateJob j)
    then show ?thesis using create_job_spaces[OF drv(1) laws(2), of cx j d] by auto
  next
    case (CallDeleteDocument k r)
    then show ?thesis using delete_job_spaces[OF drv(1), of E cx k r d] by auto
  next
    case (CallAddJobEvents u es)
    then show ?thesis using events_job_spaces[OF drv(2), of E u es d] by simp
  qed (use rest in simp_all)
qed

end
