(* ===== verification/Server_Runs.thy ===== *)
theory Server_Runs
  imports Rest_Job_Theorems Mongo_Invariant
begin

text \<open>
  The server over time: what one request does to the database is at most one storage call, made for
  its authenticated user, and the states that a sequence of requests, of finished event savers and
  of changes in the cluster reaches keep the invariants of the storage.
\<close>

section \<open>One call for one request\<close>

text \<open>The calls a request can lead to: new documents carry the UUID made for it.\<close>

definition issued :: "request \<Rightarrow> storage_call \<Rightarrow> bool" where
  "issued r call =
     (case call of
        CallCreateComponent c \<Rightarrow> cmp_uid c = rq_newId r
      | CallCreateWorkflow w \<Rightarrow> md_uid (wf_metadata w) = rq_newId r \<and> \<not> uuid_IsZero (rq_newId r)
      | CallCreateJob j \<Rightarrow> md_uid (job_metadata j) = rq_newId r
      | CallAddJobEvents u es \<Rightarrow> False
      | _ \<Rightarrow> True)"

definition one_call :: "ext \<Rightarrow> 'd mongo \<Rightarrow> request \<Rightarrow> 'd \<Rightarrow> 'd \<Rightarrow> bool" where
  "one_call E M r d d' \<longleftrightarrow> d' = d \<or> (\<exists>c. issued r c \<and> d' = perform E M (rq_ctx r) c d)"

named_theorems once_rules "a handler makes at most one storage call"

lemma once_same [once_rules]: "one_call E M r d d"
  by (simp add: one_call_def)

lemma once_call: "issued r c \<Longrightarrow> one_call E M r d (perform E M (rq_ctx r) c d)"
  by (auto simp: one_call_def)

text \<open>\<open>db\<close> is the database in the state of the handler.\<close>

lemma on_result_once:
  "one_call E M r d (db (snd p)) \<Longrightarrow> (\<And>e. x = Inl e \<Longrightarrow> one_call E M r d (db (snd (failed e)))) \<Longrightarrow>
   (\<And>y. x = Inr y \<Longrightarrow> one_call E M r d (db (snd (ok y)))) \<Longrightarrow> one_call E M r d (db (snd (on_result x p failed ok)))"
  by (cases x) auto

lemmas once_on_result [once_rules] = on_result_once [where db = "\<lambda>d. d"] on_result_once [where db = js_db]

text \<open>The results of the storing steps of the handlers.\<close>

lemma once_StoreComponent:
  assumes "InitializeComponent E (rq_ctx r) now (rq_newId r) c0 = Inr c"
  shows "one_call E M r d (snd (StoreComponent (mongo_client E M) (rq_ctx r) c d))"
proof -
  have "cmp_uid c = rq_newId r"
    using assms(1) InitializeMetadata_uid by (auto simp: InitializeComponent_def go_simps split: if_splits)
  then show ?thesis using once_call[of r "CallCreateComponent c" E M d]
    by (auto simp: StoreComponent_def mongo_client_def issued_def one_call_def split: if_splits prod.splits sum.splits)
qed

lemma once_calls [once_rules]:
  "one_call E M r d (snd (PutComponent E M c d))" "one_call E M r d (snd (PatchComponent E M c t d))"
  "one_call E M r d (snd (PutWorkflow E M (rq_ctx r) w d))" "one_call E M r d (snd (PatchWorkflow E M (rq_ctx r) w t d))"
  "one_call E M r d (snd (DeleteDocument E M (rq_ctx r) k ref d))"
  "one_call E M r d (snd (PutVolume E M (rq_ctx r) v d))" "one_call E M r d (snd (DeleteVolume E M (rq_ctx r) u d))"
  using once_call[of r "CallPutComponent c" E M d] once_call[of r "CallPatchComponent c t" E M d]
    once_call[of r "CallPutWorkflow w" E M d] once_call[of r "CallPatchWorkflow w t" E M d]
    once_call[of r "CallDeleteDocument k ref" E M d] once_call[of r "CallPutVolume v" E M d]
    once_call[of r "CallDeleteVolume u" E M d]
  by (simp_all add: issued_def)

text \<open>A handler over a state whose database is \<open>db\<close>.\<close>

definition once :: "ext \<Rightarrow> 'd mongo \<Rightarrow> ('s \<Rightarrow> 'd) \<Rightarrow> 's handler \<Rightarrow> bool" where
  "once E M db h \<longleftrightarrow> (\<forall>w r s. one_call E M r (db s) (db (snd (h w r s))))"

lemma onceI: "(\<And>w r s. one_call E M r (db s) (db (snd (h w r s)))) \<Longrightarrow> once E M db h"
  by (simp add: once_def)

lemma once_writes:
  "once E M (\<lambda>d. d) (ComponentPutHandler R (mongo_client E M))"
  "once E M (\<lambda>d. d) (ComponentPatchHandler R (mongo_client E M))"
  "once E M (\<lambda>d. d) (WorkflowPutHandler R (mongo_client E M))"
  "once E M (\<lambda>d. d) (WorkflowPatchHandler R (mongo_client E M))"
  "once E M (\<lambda>d. d) (deleteHandler E R (mongo_client E M) kind t1 t2)"
  by (auto intro!: onceI once_rules simp: case_prod_unfold ComponentPutHandler_def ComponentPatchHandler_def WorkflowPutHandler_def
      WorkflowPatchHandler_def deleteHandler_def rest_PutComponent_def rest_PatchComponent_def rest_PutWorkflow_def
      rest_PatchWorkflow_def mongo_client_def Let_def split: sum.splits)

lemma once_volumes:
  "once E M (\<lambda>d. d) (VolumePutHandler R (mongo_volumes E M))"
  "once E M (\<lambda>d. d) (VolumePostHandler E R (mongo_volumes E M))"
  "once E M (\<lambda>d. d) (VolumeDeleteHandler R (mongo_volumes E M))"
  by (auto intro!: onceI once_rules simp: case_prod_unfold VolumePutHandler_def VolumePostHandler_def VolumeDeleteHandler_def
      mongo_volumes_def)

section \<open>Creating documents\<close>

lemma once_ComponentCreate: "once E M (\<lambda>d. d) (ComponentCreateHandler E R (mongo_client E M))"
  by (auto intro!: onceI once_rules once_StoreComponent simp: ComponentCreateHandler_def case_prod_unfold)

lemma once_StoreWorkflow:
  assumes "md_uid (wf_metadata w) = rq_newId r \<or> uuid_IsZero (md_uid (wf_metadata w))"
  shows "one_call E M r d (snd (StoreWorkflow (mongo_client E M) (rq_ctx r) w d))"
proof (cases "uuid_IsZero (md_uid (wf_metadata w))")
  case False
  then have "issued r (CallCreateWorkflow w)" using assms(1) by (auto simp: issued_def)
  from once_call[OF this, of E M d] show ?thesis
    using False by (auto simp: StoreWorkflow_def mongo_client_def split: prod.splits sum.splits)
qed (simp add: StoreWorkflow_def once_same)

lemma InitializeWorkflow_uid:
  "InitializeWorkflow E cx now newId w0 = Inr w \<Longrightarrow> md_uid (wf_metadata w) = newId"
  using InitializeMetadata_uid by (auto simp: InitializeWorkflow_def go_simps wf_set_metadata_def)

lemma once_WorkflowPost: "once E M (\<lambda>d. d) (WorkflowPostHandler E R (mongo_client E M))"
proof -
  have "uuid_IsZero (md_uid (wf_metadata zero_workflow))"
    by (simp add: zero_workflow_def zero_metadata_def uuid_IsZero_def)
  then show ?thesis
    by (auto intro!: onceI once_rules once_StoreWorkflow simp: WorkflowPostHandler_def Let_def case_prod_unfold
        split: sum.splits dest!: InitializeWorkflow_uid)
qed

lemma once_StoreJob:
  assumes "InitializeJob E (rq_ctx r) now (rq_newId r) j0 = Inr j"
  shows "one_call E M r d (snd (StoreJob (mongo_client E M) (rq_ctx r) j d))"
proof -
  have "issued r (CallCreateJob j)"
    using assms(1) InitializeMetadata_uid by (auto simp: InitializeJob_def go_simps issued_def)
  from once_call[OF this, of E M d] show ?thesis
    by (auto simp: StoreJob_def mongo_client_def once_same split: prod.splits sum.splits)
qed

lemma startJob_db: "js_db (snd (startJob E R A job tags aw w s)) = js_db s"
  by (cases "fst (WfCreate A (wf_workspace (job_workflow job)) (named_manifest E job tags aw) (js_argo s))")
    (auto simp: startJob_def Let_def split: prod.splits)

lemma on_run_once [once_rules]:
  "one_call E M r d (js_db (snd p)) \<Longrightarrow> (\<And>e. x = Some (Inl e) \<Longrightarrow> one_call E M r d (js_db (snd (failed e)))) \<Longrightarrow>
   (\<And>y. x = Some (Inr y) \<Longrightarrow> one_call E M r d (js_db (snd (ok y)))) \<Longrightarrow>
   one_call E M r d (js_db (snd (on_run x p failed ok)))"
  by (cases x) (auto intro: once_rules)

lemma once_JobsSubmit: "once E M js_db (JobsSubmitHandler E R depth (mongo_client E M) A)"
  by (auto intro!: onceI once_rules once_StoreJob simp: JobsSubmitHandler_def Let_def case_prod_unfold startJob_db)

lemma in_workspace_once [once_rules]:
  "(\<And>id ws. one_call E M r (js_db s) (js_db (snd (act id ws)))) \<Longrightarrow>
   one_call E M r (js_db s) (js_db (snd (in_workspace E' R A w r s act)))"
  by (auto intro!: once_rules simp: in_workspace_def)

lemma DeleteJob_once [once_rules]:
  "one_call E M r (js_db s) (js_db (snd (DeleteJob E (mongo_client E M) A (rq_ctx r) jid ws s)))"
  using once_calls(5)[of E M r "js_db s" JobKind "\<lparr>crv_version = 0, crv_uid = jid\<rparr>"]
  by (auto simp: DeleteJob_def mongo_client_def Let_def once_same split: prod.splits sum.splits)

lemma once_jobs:
  "once E M js_db (JobDeleteHandler E R (mongo_client E M) A)" "once E M js_db (JobTerminateHandler E R A)"
  by (auto intro!: onceI once_rules simp: JobDeleteHandler_def JobTerminateHandler_def Let_def case_prod_unfold)

section \<open>Every route\<close>

lemma once_reads: "reads h \<Longrightarrow> once E M db h"
  by (simp add: reads_def once_def once_same)

lemma once_stack:
  "once E M db h \<Longrightarrow> once E M db (json_stack h)" "once E M db h \<Longrightarrow> once E M db (job_stack t h)"
  "once E M db h \<Longrightarrow> once E M db (PathAuthorization subj act v authz h)"
  "once E M db h \<Longrightarrow> once E M db (CreationPathAuthorization h)"
  by (auto simp: once_def json_stack_def job_stack_def middleware_defs Let_def PathAuthorization_def
      CreationPathAuthorization_def on_result_def once_same split: option.splits sum.splits)

definition server_db :: "('d, 'a, 'k) server_state \<Rightarrow> 'd" where
  "server_db s = js_db (ss_jobs s)"

lemma once_lift:
  "once E M js_db h1 \<Longrightarrow> once E M server_db (on_jobs h1)" "once E M (\<lambda>d. d) h2 \<Longrightarrow> once E M server_db (on_db h2)"
  "once E M server_db (on_kube h3)"
  by (simp_all add: once_def server_db_def once_same)

lemmas once_intros = once_stack once_lift once_writes once_volumes once_ComponentCreate once_WorkflowPost
  once_JobsSubmit once_jobs

lemmas once_readers = reads_listings [THEN once_reads] reads_documents [THEN once_reads] reads_jobs [THEN once_reads]

lemma routes_once:
  assumes "(m, p, h) \<in> set (RegisterRoutes fs)"
    and clients: "fs_nodeStorage fs = mongo_client (fs_ext fs) M" "fs_volumeStorage fs = mongo_volumes (fs_ext fs) M"
  shows "\<exists>h'. h = authenticated (fs_auth fs) (fs_workspace fs) h' \<and> once (fs_ext fs) M server_db h'"
proof -
  obtain h' where "h = authenticated (fs_auth fs) (fs_workspace fs) h'"
    and h': "(m, p, h') \<in> set (UserInfoRoutes fs @ ComponentRoutes fs @ WorkspaceRoutes fs @ WorkflowRoutes fs
      @ JobRoutes fs @ SecretRoutes fs @ VolumeRoutes fs)"
    using assms(1) unfolding RegisterRoutes_def by auto
  moreover have "once (fs_ext fs) M server_db h'"
    using h' by (auto simp: route_defs handler_names ComponentDeleteHandler_def WorkflowDeleteHandler_def clients
      intro!: once_intros once_readers)
  ultimately show ?thesis by blast
qed

text \<open>
  C35: A request makes at most one storage call that changes the database, and makes it for its sender:
  the database after serving a request is the one before, or what one call leaves that is made with
  the context of the user the request was authenticated as; a document the call creates has the UUID
  made for the request.
\<close>

theorem served_request_makes_one_call:
  assumes "dispatch_ok dispatch"
    and "fs_nodeStorage fs = mongo_client (fs_ext fs) M" "fs_volumeStorage fs = mongo_volumes (fs_ext fs) M"
  shows "server_db (snd (serve dispatch notFound fs r s)) = server_db s
    \<or> (\<exists>route vars u c. matched dispatch fs r = Some (route, vars)
         \<and> fs_auth fs (r\<lparr>rq_vars := vars\<rparr>) = Inr u \<and> issued r c
         \<and> server_db (snd (serve dispatch notFound fs r s)) = perform (fs_ext fs) M (user_ctx fs u) c (server_db s))"
proof (cases "matched dispatch fs r")
  case (Some x)
  obtain m p h vars where x: "x = ((m, p, h), vars)" by (metis prod_cases3 surj_pair)
  from Some x have matched: "matched dispatch fs r = Some ((m, p, h), vars)" by simp
  note served = serve_matched[of dispatch notFound fs r s, unfolded Some x, simplified, unfolded SetCustomHeaders_def]
  let ?r = "r\<lparr>rq_vars := vars\<rparr>"
  have "(m, p, h) \<in> set (registerApplicationRoutes fs)"
    using matched_route[OF assms(1)] Some x by blast
  from application_routes[OF this] show ?thesis
  proof (elim disjE exE conjE)
    fix q assume "(m, q, h) \<in> set (RegisterRoutes fs)"
    from routes_once[OF this assms(2,3)] obtain h' where h: "h = authenticated (fs_auth fs) (fs_workspace fs) h'"
      and once: "once (fs_ext fs) M server_db h'" by blast
    show ?thesis
    proof (cases "fs_auth fs ?r")
      case (Inr u)
      have "issued (?r\<lparr>rq_ctx := user_ctx fs u\<rparr>) c = issued r c" for c
        by (simp add: issued_def split: storage_call.split)
      then show ?thesis
        using once[unfolded once_def one_call_def, rule_format, of _ "?r\<lparr>rq_ctx := user_ctx fs u\<rparr>" s] Inr
        by (simp add: served matched h authenticated_unfold)
    qed (simp add: served h authenticated_unfold)
  next
    fix t assume "h = probe t"
    then show ?thesis by (simp add: served probe_def)
  qed
qed (simp add: serve_matched)

section \<open>Runs of the server\<close>

text \<open>
  Requests are served one after another, each with the workspaces the informer lists at that time;
  a request is given a UUID that no stored component or workflow has. An event saver that was started
  finishes at some point, with the events of a watch it began on some state of the cluster; the
  cluster changes on its own.
\<close>

datatype system_step = Served request workspaceImpl | EventsSaved | ClusterChanged

definition fresh_id :: "ext \<Rightarrow> store \<Rightarrow> request \<Rightarrow> bool" where
  "fresh_id E D r \<longleftrightarrow>
     (\<forall>coll \<in> {componentCollection, workflowCollection}. versions_of E (rq_newId r) (D coll) = {#})"

inductive server_run ::
  "dispatcher \<Rightarrow> (rw \<Rightarrow> rw) \<Rightarrow> ('d, 'a, 'k) flowifyServer \<Rightarrow> ('d \<Rightarrow> store) \<Rightarrow> ('d, 'a, 'k) server_state
     \<Rightarrow> system_step list \<Rightarrow> bool"
  for dispatch notFound fs docs where
  start: "docs (server_db s) = (\<lambda>coll. {#}) \<Longrightarrow> server_run dispatch notFound fs docs s []"
| request: "server_run dispatch notFound fs docs s tr \<Longrightarrow> fresh_id (fs_ext fs) (docs (server_db s)) r \<Longrightarrow>
    server_run dispatch notFound fs docs (snd (serve dispatch notFound (fs\<lparr>fs_workspace := wi\<rparr>) r s))
      (tr @ [Served r wi])"
| saver: "server_run dispatch notFound fs docs s tr \<Longrightarrow> job \<in> set (js_savers (ss_jobs s)) \<Longrightarrow>
    EventSaver (fs_ext fs) (fs_nodeStorage fs) (fs_wfClient fs) todo job a (server_db s) = LoopDone d \<Longrightarrow>
    server_run dispatch notFound fs docs (s\<lparr>ss_jobs := (ss_jobs s)\<lparr>js_db := d\<rparr>\<rparr>) (tr @ [EventsSaved])"
| cluster: "server_run dispatch notFound fs docs s tr \<Longrightarrow>
    server_run dispatch notFound fs docs (s\<lparr>ss_jobs := (ss_jobs s)\<lparr>js_argo := a\<rparr>, ss_kube := kb\<rparr>)
      (tr @ [ClusterChanged])"

lemma server_db_upd [simp]:
  "server_db (s\<lparr>ss_jobs := (ss_jobs s)\<lparr>js_db := d\<rparr>\<rparr>) = d"
  "server_db (s\<lparr>ss_jobs := (ss_jobs s)\<lparr>js_argo := a\<rparr>, ss_kube := kb\<rparr>) = server_db s"
  by (simp_all add: server_db_def)

lemma EventSaver_call:
  assumes "EventSaver E (mongo_client E M) A todo job a d = LoopDone d'"
  shows "d' = d \<or> (\<exists>u es. d' = perform E M cx (CallAddJobEvents u es) d)"
  using assms
  by (auto simp: EventSaver_def mongo_client_def split: prod.splits sum.splits loop_result.splits if_splits)
    (metis snd_conv)+

text \<open>
  Every step is a storage call or does not touch the database; the call is one that the request
  issued, for a user with the access the workspaces of that time give, or the saver's.
\<close>

definition step_call :: "('d, 'a, 'k) flowifyServer \<Rightarrow> store \<Rightarrow> system_step \<Rightarrow> ctx \<Rightarrow> storage_call \<Rightarrow> bool" where
  "step_call fs D st cx c \<longleftrightarrow>
     fresh_for (fs_ext fs) D c
     \<and> ((\<exists>j. c = CallCreateJob j) \<longrightarrow>
          (\<exists>r wi vars u. st = Served r wi \<and> fs_auth fs (r\<lparr>rq_vars := vars\<rparr>) = Inr u
             \<and> cx = user_ctx (fs\<lparr>fs_workspace := wi\<rparr>) u))"

lemma issued_fresh: "issued r c \<Longrightarrow> fresh_id E D r \<Longrightarrow> fresh_for E D c"
  by (cases c) (auto simp: issued_def fresh_id_def)

lemma run_steps:
  assumes "dispatch_ok dispatch"
    and clients: "fs_nodeStorage fs = mongo_client (fs_ext fs) M" "fs_volumeStorage fs = mongo_volumes (fs_ext fs) M"
    and run: "server_run dispatch notFound fs docs s tr"
    and init: "I (\<lambda>coll. {#}) []"
    and idle: "\<And>D tr st. I D tr \<Longrightarrow> I D (tr @ [st])"
    and step: "\<And>d tr st cx c. I (docs d) tr \<Longrightarrow> step_call fs (docs d) st cx c \<Longrightarrow>
        I (docs (perform (fs_ext fs) M cx c d)) (tr @ [st])"
  shows "I (docs (server_db s)) tr"
  using run
proof (induction rule: server_run.induct)
  case (request s tr r wi)
  let ?fs = "fs\<lparr>fs_workspace := wi\<rparr>"
  from served_request_makes_one_call[where fs = ?fs and M = M and r = r and s = s and notFound = notFound, OF assms(1)]
  consider "server_db (snd (serve dispatch notFound ?fs r s)) = server_db s"
    | vars u c where "fs_auth fs (r\<lparr>rq_vars := vars\<rparr>) = Inr u" "issued r c"
        "server_db (snd (serve dispatch notFound ?fs r s)) = perform (fs_ext fs) M (user_ctx ?fs u) c (server_db s)"
    using clients by auto
  then show ?case
  proof cases
    case 1
    then show ?thesis using idle[OF request.IH] by simp
  next
    case 2
    have "step_call fs (docs (server_db s)) (Served r wi) (user_ctx ?fs u) c"
      using 2(1) issued_fresh[OF 2(2) request.hyps(2)] by (auto simp: step_call_def)
    from step[OF request.IH this] show ?thesis by (simp add: 2(3))
  qed
next
  case (saver s tr job todo a d)
  have quiet: "step_call fs (docs (server_db s)) EventsSaved cx (CallAddJobEvents u es)" for cx u es
    by (simp add: step_call_def)
  from EventSaver_call[OF saver.hyps(3)[unfolded clients(1)]]
  show ?case using idle[OF saver.IH] step[OF saver.IH quiet] by auto
qed (simp_all add: init idle)

section \<open>Invariants of all runs\<close>

text \<open>
  C5: In every state the server can reach from an empty database, whatever requests are made and
  however they fail, the stored versions of each component and each workflow have different numbers,
  which are positive and at most the number of steps so far, and at most one of them is tagged
  latest: the newest (as long as that number of steps fits the range of version numbers).
\<close>

theorem reachable_versions:
  assumes laws: "storage_laws (fs_ext fs) M docs rx" and dispatch: "dispatch_ok dispatch"
    and clients: "fs_nodeStorage fs = mongo_client (fs_ext fs) M" "fs_volumeStorage fs = mongo_volumes (fs_ext fs) M"
    and run: "server_run dispatch notFound fs docs s tr" and len: "int (length tr) < 2 ^ 63 - 1"
    and coll: "coll \<in> {componentCollection, workflowCollection}"
  shows "let C = docs (server_db s) coll; vs = versions_of (fs_ext fs) u C in
      (\<forall>n. count vs n \<le> 1) \<and> set_mset vs \<subseteq> {1..int (length tr)}
      \<and> latest_of (fs_ext fs) u C \<in> {{#}, {#newest (fs_ext fs) u C#}}"
proof -
  let ?I = "\<lambda>(D :: store) (tr :: system_step list). int (length tr) < 2 ^ 63 - 1 \<longrightarrow> versions_kept (fs_ext fs) (length tr) D"
  have "?I (docs (server_db s)) tr"
    using dispatch clients run
  proof (rule run_steps)
    fix d tr st cx c
    assume "?I (docs d) tr" and "step_call fs (docs d) st cx c"
    then show "?I (docs (perform (fs_ext fs) M cx c d)) (tr @ [st])"
      using calls_keep_versions[OF laws, of "length tr" d c cx] by (simp add: step_call_def)
  qed (simp_all add: versions_kept_def consistent_empty consistent_mono)
  then have C: "consistent (fs_ext fs) (length tr) (docs (server_db s) coll)"
    using len coll by (auto simp: versions_kept_def)
  from consistent_bounds[OF C, of u] show ?thesis by (simp add: Let_def)
qed

text \<open>A request whose sender had access to a workspace of the given name, as listed at that time.\<close>

definition sent_by_member :: "('d, 'a, 'k) flowifyServer \<Rightarrow> string \<Rightarrow> system_step \<Rightarrow> bool" where
  "sent_by_member fs ws st \<longleftrightarrow>
     (\<exists>r wi vars u. st = Served r wi \<and> fs_auth fs (r\<lparr>rq_vars := vars\<rparr>) = Inr u
        \<and> (\<exists>w \<in> set (ListWorkspaces wi). ws_name w = ws \<and> UserHasAccess w u))"

text \<open>
  C6: In every state the server can reach from an empty database, a stored job belongs to a workspace
  some user with access to it has sent a request for: there was a request whose sender had, by the
  workspaces listed at that time, access to a workspace of that name.
\<close>

theorem reachable_jobs:
  assumes laws: "storage_laws (fs_ext fs) M docs rx" "job_law M" and dispatch: "dispatch_ok dispatch"
    and clients: "fs_nodeStorage fs = mongo_client (fs_ext fs) M" "fs_volumeStorage fs = mongo_volumes (fs_ext fs) M"
    and run: "server_run dispatch notFound fs docs s tr"
    and job: "b \<in># docs (server_db s) jobCollection" "job_in ws b"
  shows "\<exists>st \<in> set tr. sent_by_member fs ws st"
proof -
  let ?I = "\<lambda>(D :: store) (tr :: system_step list). job_spaces D \<subseteq> {ws. \<exists>st \<in> set tr. sent_by_member fs ws st}"
  have "?I (docs (server_db s)) tr"
    using dispatch clients run
  proof (rule run_steps)
    fix d tr st cx c
    assume I: "?I (docs d) tr" and call: "step_call fs (docs d) st cx c"
    have "sent_by_member fs ws st" if acc: "has_access cx ws" and new: "c = CallCreateJob j" for ws j
    proof -
      obtain r wi vars u where st: "st = Served r wi" "fs_auth fs (r\<lparr>rq_vars := vars\<rparr>) = Inr u"
        and "cx = user_ctx (fs\<lparr>fs_workspace := wi\<rparr>) u"
        using call new by (auto simp: step_call_def)
      with user_ctx_access[of "fs\<lparr>fs_workspace := wi\<rparr>" u ws] acc
      have "\<exists>w \<in> set (ListWorkspaces wi). ws_name w = ws \<and> UserHasAccess w u" by simp
      then show ?thesis using st by (auto simp: sent_by_member_def)
    qed
    then show "?I (docs (perform (fs_ext fs) M cx c d)) (tr @ [st])"
      using calls_job_spaces[OF laws, of cx c d] I by auto
  qed (auto simp: job_spaces_def)
  then show ?thesis using job unfolding job_spaces_def by blast
qed

section \<open>A run\<close>

text \<open>
  The server of the examples on an empty database, with bodies that hold a new workflow, the workflow
  \<open>9\<close> and a job.
\<close>

definition run_rest :: rest_ext where
  "run_rest = ex_rest
     \<lparr>UnmarshalWorkflowPost := \<lambda>s. Inr (if s = '''' then ex_wf 0 0 ''ns'' else ex_wf 9 1 ''ns''),
      UnmarshalJobPost := \<lambda>s. Inr (ex_submit_job (ImplBrick (ex_brick [] [])), [])\<rparr>"

definition run_server :: "(mem, argo_wf list, mem_secrets) flowifyServer" where
  "run_server = ex_server\<lparr>fs_rest := run_rest\<rparr>"

definition run_empty :: "(mem, argo_wf list, mem_secrets) server_state" where
  "run_empty = \<lparr>ss_jobs = \<lparr>js_db = (\<lambda>coll. []), js_argo = [], js_savers = []\<rparr>, ss_kube = []\<rparr>"

definition run_dispatch :: dispatcher where
  "run_dispatch routes r = ex_dispatch
     (if rq_uri r = ''/api/v1/jobs/'' then 21 else if rq_method r = ''POST'' then 13 else 17) routes r"

lemma run_dispatch_ok: "dispatch_ok run_dispatch"
  using ex_dispatch_ok by (auto simp: dispatch_ok_def run_dispatch_def)

definition run_post :: request where
  "run_post = ex_request ''POST'' ''/workflows/'' [] ''r'' ''''"

definition run_put :: request where
  "run_put = (ex_request ''PUT'' ''/workflows/{id}'' [(''id'', ''uuuuuuuuu'')] ''r'' ''9'')\<lparr>rq_newId := 8\<rparr>"

definition run_job :: request where
  "run_job = ex_request ''POST'' ''/jobs/'' [] ''r'' ''''"

definition run_handler :: "(mem, argo_wf list, mem_secrets) server_handler \<Rightarrow> (mem, argo_wf list, mem_secrets) server_handler" where
  "run_handler h = SetCustomHeaders (authenticated (fs_auth ex_server) (fs_workspace ex_server) h)"

lemma run_clients:
  "fs_ext run_server = ext_example" "fs_nodeStorage run_server = mongo_client ext_example (mem_mongo ext_example)"
  "fs_volumeStorage run_server = mongo_volumes ext_example (mem_mongo ext_example)"
  by (simp_all add: run_server_def ex_server_def)

lemma run_serve:
  "serve run_dispatch (WriteHeader 404) run_server run_post s =
     run_handler (json_stack (on_db (WorkflowPostHandler ext_example run_rest (mongo_client ext_example (mem_mongo ext_example)))))
       new_rw run_post s"
  "serve run_dispatch (WriteHeader 404) run_server run_put s =
     run_handler (json_stack (on_db (WorkflowPutHandler run_rest (mongo_client ext_example (mem_mongo ext_example)))))
       new_rw run_put s"
  "serve run_dispatch (WriteHeader 404) run_server run_job s =
     run_handler (job_stack ''application/json'' (on_jobs (JobsSubmitHandler ext_example run_rest 2
       (mongo_client ext_example (mem_mongo ext_example)) ex_argo))) new_rw run_job s"
proof -
  have "fs_rest run_server = run_rest" "fs_auth run_server = fs_auth ex_server" "fs_wfClient run_server = ex_argo"
    "fs_workspace run_server = fs_workspace ex_server" "fs_depth run_server = 2"
    by (simp_all add: run_server_def ex_server_def)
  note simps = this run_clients serve_def run_handler_def run_dispatch_def ex_dispatch_def registerApplicationRoutes_def
    RegisterRoutes_def route_defs run_post_def run_put_def run_job_def ex_request_def
  show "serve run_dispatch (WriteHeader 404) run_server run_post s =
     run_handler (json_stack (on_db (WorkflowPostHandler ext_example run_rest (mongo_client ext_example (mem_mongo ext_example)))))
       new_rw run_post s"
    by (simp add: simps)
  show "serve run_dispatch (WriteHeader 404) run_server run_put s =
     run_handler (json_stack (on_db (WorkflowPutHandler run_rest (mongo_client ext_example (mem_mongo ext_example)))))
       new_rw run_put s"
    by (simp add: simps)
  show "serve run_dispatch (WriteHeader 404) run_server run_job s =
     run_handler (job_stack ''application/json'' (on_jobs (JobsSubmitHandler ext_example run_rest 2
       (mongo_client ext_example (mem_mongo ext_example)) ex_argo))) new_rw run_job s"
    by (simp add: simps)
qed

definition run_state1 :: "(mem, argo_wf list, mem_secrets) server_state" where
  "run_state1 = snd (serve run_dispatch (WriteHeader 404) run_server run_post run_empty)"

definition run_state2 :: "(mem, argo_wf list, mem_secrets) server_state" where
  "run_state2 = snd (serve run_dispatch (WriteHeader 404) run_server run_put run_state1)"

definition run_versions :: "(mem, argo_wf list, mem_secrets) server_state \<Rightarrow> int list" where
  "run_versions s = map current_of (filter (of_uid ext_example 9) (server_db s workflowCollection))"

lemma run_results:
  "run_versions run_state1 = [1]" "run_versions run_state2 = [2, 1]"
  "server_db (snd (serve run_dispatch (WriteHeader 404) run_server run_job run_empty)) jobCollection \<noteq> []"
  unfolding run_state2_def run_state1_def run_serve by code_simp+

lemma run_starts: "server_run run_dispatch (WriteHeader 404) run_server mem_docs run_empty []"
  by (rule start) (simp add: run_empty_def server_db_def mem_docs_def fun_eq_iff)

lemma run_two:
  "server_run run_dispatch (WriteHeader 404) run_server mem_docs run_state2
     [Served run_post (fs_workspace run_server), Served run_put (fs_workspace run_server)]"
proof -
  have "fresh_id ext_example (mem_docs (server_db run_empty)) run_post"
    by (simp add: fresh_id_def run_empty_def server_db_def mem_docs_def versions_of_def)
  from request[OF run_starts, of run_post "fs_workspace run_server"] this
  have one: "server_run run_dispatch (WriteHeader 404) run_server mem_docs run_state1 [Served run_post (fs_workspace run_server)]"
    by (simp add: run_clients run_state1_def)
  have "filter (of_uid ext_example 8) (server_db run_state1 coll) = []"
    if "coll \<in> {componentCollection, workflowCollection}" for coll
  proof -
    have "filter (of_uid ext_example 8) (server_db run_state1 componentCollection) = []"
      "filter (of_uid ext_example 8) (server_db run_state1 workflowCollection) = []"
      unfolding run_state1_def run_serve by code_simp+
    then show ?thesis using that by auto
  qed
  then have "fresh_id ext_example (mem_docs (server_db run_state1)) run_put"
    by (simp add: fresh_id_def run_put_def mem_docs_def versions_of_def flip: mset_filter)
  from request[OF one, of run_put "fs_workspace run_server"] this
  show ?thesis by (simp add: run_clients run_state2_def)
qed

theorem served_request_makes_one_call_witness:
  "\<exists>u c. fs_auth run_server run_post = Inr u \<and> issued run_post c
     \<and> server_db run_state1 = perform ext_example (mem_mongo ext_example) (user_ctx run_server u) c (server_db run_empty)"
proof -
  have "server_db run_state1 workflowCollection \<noteq> []" using run_results(1) by (auto simp: run_versions_def)
  then have "server_db run_state1 \<noteq> server_db run_empty" by (auto simp: run_empty_def server_db_def)
  moreover have "run_post\<lparr>rq_vars := vars\<rparr> = run_post" if "matched run_dispatch run_server run_post = Some (route, vars)" for route vars
    using that by (auto simp: matched_def run_dispatch_def ex_dispatch_def run_post_def ex_request_def split: if_splits)
  ultimately show ?thesis
    using served_request_makes_one_call[OF run_dispatch_ok, where fs = run_server and M = "mem_mongo ext_example"
        and notFound = "WriteHeader 404" and r = run_post and s = run_empty]
    by (auto simp: run_clients run_state1_def[symmetric])
qed

theorem reachable_versions_witness:
  "versions_of ext_example 9 (mem_docs (server_db run_state2) workflowCollection) = {#1, 2#}
   \<and> latest_of ext_example 9 (mem_docs (server_db run_state2) workflowCollection) \<in> {{#}, {#2#}}"
proof -
  have vs: "versions_of ext_example 9 (mem_docs (server_db run_state2) workflowCollection) = {#1, 2#}"
    using run_results(2) by (simp add: versions_of_def mem_docs_def run_versions_def flip: mset_filter mset_map)
  then have "newest ext_example 9 (mem_docs (server_db run_state2) workflowCollection) = 2"
    by (simp add: newest_def)
  then show ?thesis
    using reachable_versions[where fs = run_server and M = "mem_mongo ext_example" and u = 9 and
        coll = workflowCollection, OF _ run_dispatch_ok _ _ run_two] mem_storage_laws vs
    by (simp add: run_clients Let_def)
qed

theorem reachable_jobs_witness:
  "\<exists>b. b \<in># mem_docs (server_db (snd (serve run_dispatch (WriteHeader 404) run_server run_job run_empty))) jobCollection
     \<and> job_in ''ns'' b \<and> sent_by_member run_server ''ns'' (Served run_job (fs_workspace run_server))"
proof -
  let ?s = "snd (serve run_dispatch (WriteHeader 404) run_server run_job run_empty)"
  have "fresh_id ext_example (mem_docs (server_db run_empty)) run_job"
    by (simp add: fresh_id_def run_empty_def server_db_def mem_docs_def versions_of_def)
  from request[OF run_starts, of run_job "fs_workspace run_server"] this
  have run: "server_run run_dispatch (WriteHeader 404) run_server mem_docs ?s [Served run_job (fs_workspace run_server)]"
    by (simp add: run_clients)
  have "list_ex (\<lambda>b. field b ''workflow.workspace'' = Some (BStr ''ns'')) (server_db ?s jobCollection)"
    unfolding run_serve by code_simp
  then obtain b where b: "b \<in># mem_docs (server_db ?s) jobCollection" "job_in ''ns'' b"
    by (auto simp: list_ex_iff mem_docs_def job_in_def)
  from reachable_jobs[where fs = run_server and M = "mem_mongo ext_example", OF _ _ run_dispatch_ok _ _ run b]
  have "sent_by_member run_server ''ns'' (Served run_job (fs_workspace run_server))"
    using mem_storage_laws mem_job_law by (simp add: run_clients)
  then show ?thesis using b by blast
qed

end
