(* ===== verification/Contexts.thy ===== *)
theory Contexts
  imports Http
begin

text \<open>
  The contexts of requests as the standard library builds them, chains of values under keys, with the
  functions of \<^verbatim>\<open>user/user.go\<close>, \<^verbatim>\<open>auth/auth.go\<close>, \<^verbatim>\<open>pkg/workspace/workspace.go\<close> and
  \<^verbatim>\<open>rest/rest.go\<close> that put values in and take them out. The other theories use a record of the
  user and the workspaces; here it is shown that the record is what a chain gives.
\<close>

section \<open>Chains of values\<close>

text \<open>
  A key is compared with its type: a user key and a workspace key are of types of their own, the
  authorization key is a plain integer. A value is an interface, and can be nil.
\<close>

datatype context_key = UserContextKey int | WorkspaceContextKey int | IntKey int | ForeignKey string

record authorization_value =
  az_action :: string
  az_authorized :: bool

datatype context_value =
    UserValue user
  | WorkspacesValue "workspace list"
  | AuthorizationValue authorization_value
  | ForeignValue string

type_synonym go_context = "(context_key \<times> context_value option) list"

definition WithValue :: "go_context \<Rightarrow> context_key \<Rightarrow> context_value option \<Rightarrow> go_context" where
  "WithValue c k v = (k, v) # c"

text \<open>The innermost value of a key; nil if there is none.\<close>

definition ctx_Value :: "go_context \<Rightarrow> context_key \<Rightarrow> context_value option" where
  "ctx_Value c k = (case map_of c k of None \<Rightarrow> None | Some v \<Rightarrow> v)"

definition UserKey :: context_key where "UserKey = UserContextKey 0"
definition WorkspaceKey :: context_key where "WorkspaceKey = WorkspaceContextKey 0"
definition AuthorizationKey :: context_key where "AuthorizationKey = IntKey 0"

lemmas context_keys = UserKey_def WorkspaceKey_def AuthorizationKey_def

section \<open>The accessors\<close>

definition bad_assertion :: "'a res" where
  "bad_assertion = Inl (GoPanic ''interface conversion'')"

definition GetUser :: "go_context \<Rightarrow> user option res" where
  "GetUser c =
     (case ctx_Value c UserKey of
        None \<Rightarrow> Inr None
      | Some (UserValue u) \<Rightarrow> Inr (Some u)
      | _ \<Rightarrow> bad_assertion)"

text \<open>A user is added as it is, a nil one as nil.\<close>

definition UserContext :: "user option \<Rightarrow> go_context \<Rightarrow> go_context" where
  "UserContext usr c = WithValue c UserKey (map_option UserValue usr)"

definition GetAuthorization :: "go_context \<Rightarrow> authorization_value option res" where
  "GetAuthorization c =
     (case ctx_Value c AuthorizationKey of
        None \<Rightarrow> Inr None
      | Some (AuthorizationValue a) \<Rightarrow> Inr (Some a)
      | _ \<Rightarrow> bad_assertion)"

definition GetWorkspaceAccess :: "go_context \<Rightarrow> workspace list res" where
  "GetWorkspaceAccess c =
     (case ctx_Value c WorkspaceKey of
        None \<Rightarrow> Inr []
      | Some (WorkspacesValue wss) \<Rightarrow> Inr wss
      | _ \<Rightarrow> bad_assertion)"

section \<open>The record of a chain\<close>

text \<open>The record the handlers work with, for a chain that has values of the right type under the keys.\<close>

definition ctx_of :: "go_context \<Rightarrow> ctx res" where
  "ctx_of c =
     rbind (GetUser c) (\<lambda>u.
     rbind (GetWorkspaceAccess c) (\<lambda>wss.
     Inr \<lparr>cx_user = u, cx_workspaces = (if ctx_Value c WorkspaceKey = None then None else Some wss)\<rparr>))"

lemma ctx_Value_With: "ctx_Value (WithValue c k v) k' = (if k' = k then v else ctx_Value c k')"
  by (simp add: ctx_Value_def WithValue_def)

lemma keys_differ:
  "UserKey \<noteq> WorkspaceKey" "UserKey \<noteq> AuthorizationKey" "WorkspaceKey \<noteq> AuthorizationKey"
  by (simp_all add: context_keys)

lemmas context_simps = ctx_Value_With keys_differ keys_differ [symmetric] UserContext_def

text \<open>The getters of a chain are those of its record.\<close>

lemma ctx_of_getters:
  assumes "ctx_of c = Inr cx"
  shows "GetUser c = Inr (cx_user cx) \<and> GetWorkspaceAccess c = Inr (getWorkspacesFromContext cx)"
  using assms by (auto simp: ctx_of_def GetWorkspaceAccess_def getWorkspacesFromContext_def go_simps
      split: option.splits if_splits)

text \<open>
  Each middleware extends the chain as the model updates the record, and neither hides what the other
  put there, nor an authorization: the three keys are all zero and are told apart by their types.
\<close>

theorem chains_are_records:
  assumes "ctx_of c = Inr cx"
  shows "ctx_of (UserContext (Some u) c) = Inr (cx\<lparr>cx_user := Some u\<rparr>)
    \<and> ctx_of (WithValue c WorkspaceKey (Some (WorkspacesValue wss))) = Inr (cx\<lparr>cx_workspaces := Some wss\<rparr>)
    \<and> ctx_of (WithValue (UserContext (Some u) c) WorkspaceKey (Some (WorkspacesValue wss)))
        = Inr \<lparr>cx_user = Some u, cx_workspaces = Some wss\<rparr>
    \<and> GetAuthorization (WithValue (UserContext (Some u) c) WorkspaceKey (Some (WorkspacesValue wss)))
        = GetAuthorization c"
  using assms
  by (auto simp: ctx_of_def GetUser_def GetWorkspaceAccess_def GetAuthorization_def context_simps go_simps
      split: option.splits context_value.splits)

theorem chains_are_records_witness:
  "ctx_of [] = Inr \<lparr>cx_user = None, cx_workspaces = None\<rparr>
   \<and> ctx_of (WithValue (UserContext (Some nobody) []) WorkspaceKey (Some (WorkspacesValue [])))
       = Inr \<lparr>cx_user = Some nobody, cx_workspaces = Some []\<rparr>"
proof -
  have "ctx_of [] = Inr \<lparr>cx_user = None, cx_workspaces = None\<rparr>" by code_simp
  from chains_are_records [OF this, of nobody "[]"] this show ?thesis by blast
qed

text \<open>An authorization stored under the integer 0 by anyone else would not be taken for a user.\<close>

lemma foreign_zero:
  "GetUser (WithValue c (IntKey 0) v) = GetUser c"
  "GetWorkspaceAccess (WithValue c (IntKey 0) v) = GetWorkspaceAccess c"
  by (simp_all add: GetUser_def GetWorkspaceAccess_def ctx_Value_With context_keys)

end
